(* ===== verification/Prelude.thy ===== *)
theory Prelude
  imports Main "HOL-Library.State_Monad"
begin

text \<open>
  Shared vocabulary of the development: the state monad in which the service's effects
  are written, the weakest-precondition calculus that all proofs about effects use, the
  loop over a Go slice, and Go's machine integers.

  A Go call that returns \<open>(value, error)\<close> is a monadic computation of type
  \<open>('w, error + value) state\<close>; every \<open>if err != nil\<close> of the source is a \<open>case\<close> of the model.
\<close>

section \<open>Collections of facts\<close>

named_theorems wp "weakest-precondition equations of monadic computations"
named_theorems gostr "facts on Go string operations"
named_theorems codec_defs "definitions of the JSON codecs"

abbreviation ret :: "'a \<Rightarrow> ('w, 'a) state" where
  "ret \<equiv> State_Monad.return"

section \<open>Weakest preconditions\<close>

definition wpre :: "('w, 'a) state \<Rightarrow> ('a \<Rightarrow> 'w \<Rightarrow> bool) \<Rightarrow> 'w \<Rightarrow> bool" where
  "wpre m Q w = (case run_state m w of (a, w') \<Rightarrow> Q a w')"

lemma wpre_iff: "wpre m Q w \<longleftrightarrow> (\<forall>a w'. run_state m w = (a, w') \<longrightarrow> Q a w')"
  by (auto simp: wpre_def split: prod.splits)

lemma wpreD: "wpre m Q w \<Longrightarrow> run_state m w = (a, w') \<Longrightarrow> Q a w'"
  by (simp add: wpre_def)

lemma wpreI: "(\<And>a w'. run_state m w = (a, w') \<Longrightarrow> Q a w') \<Longrightarrow> wpre m Q w"
  by (auto simp: wpre_iff)

lemma wpre_return [wp]: "wpre (ret a) Q w = Q a w"
  by (simp add: wpre_def)

lemma wpre_bind [wp]: "wpre (State_Monad.bind m f) Q w = wpre m (\<lambda>a. wpre (f a) Q) w"
  by (simp add: wpre_def split: prod.split)

lemma wpre_if [wp]: "wpre (if b then m else n) Q w = (if b then wpre m Q w else wpre n Q w)"
  by simp

lemma wpre_prod [wp]: "wpre (case p of (a, b) \<Rightarrow> f a b) Q w = wpre (f (fst p) (snd p)) Q w"
  by (cases p) simp

lemma wpre_sum [wp]:
  "wpre (case r of Inl e \<Rightarrow> f e | Inr a \<Rightarrow> g a) Q w =
     (case r of Inl e \<Rightarrow> wpre (f e) Q w | Inr a \<Rightarrow> wpre (g a) Q w)"
  by (cases r) simp_all

lemma wpre_option [wp]:
  "wpre (case r of None \<Rightarrow> m | Some a \<Rightarrow> g a) Q w =
     (case r of None \<Rightarrow> wpre m Q w | Some a \<Rightarrow> wpre (g a) Q w)"
  by (cases r) simp_all

lemma wpre_let [wp]: "wpre (let x = a in f x) Q w = (let x = a in wpre (f x) Q w)"
  by simp

lemma wpre_mono: "wpre m P w \<Longrightarrow> (\<And>a w'. P a w' \<Longrightarrow> Q a w') \<Longrightarrow> wpre m Q w"
  by (simp add: wpre_def split: prod.splits)

lemma wpre_conj: "wpre m (\<lambda>a w'. P a w' \<and> Q a w') w \<longleftrightarrow> wpre m P w \<and> wpre m Q w"
  by (simp add: wpre_def split: prod.split)

lemma wpre_True [simp]: "wpre m (\<lambda>_ _. True) w"
  by (simp add: wpre_def split: prod.split)

section \<open>Loops\<close>

text \<open>The statement \<open>for _, x := range xs { ... }\<close> with a body that only has effects.\<close>

fun for_each :: "'a list \<Rightarrow> ('a \<Rightarrow> ('w, unit) state) \<Rightarrow> ('w, unit) state" where
  "for_each [] body = ret ()"
| "for_each (x # xs) body = do { body x; for_each xs body }"

text \<open>Invariant rule of the loop, and the invariant rule for a state relation.\<close>

lemma wpre_for_each:
  assumes "I w" and "\<And>x w. x \<in> set xs \<Longrightarrow> I w \<Longrightarrow> wpre (body x) (\<lambda>_. I) w"
    and "\<And>w'. I w' \<Longrightarrow> Q () w'"
  shows "wpre (for_each xs body) Q w"
  using assms
proof (induction xs arbitrary: w)
  case Nil
  then show ?case by (simp add: wp)
next
  case (Cons x xs)
  have "wpre (body x) (\<lambda>_. I) w"
    using Cons.prems by simp
  then have "wpre (body x) (\<lambda>_. wpre (for_each xs body) Q) w"
    by (rule wpre_mono) (use Cons in auto)
  then show ?case by (simp add: wp)
qed

section \<open>Machine integers\<close>

text \<open>Go's \<open>int\<close> and \<open>int64\<close> on the deployed 64-bit platforms, with the wrap-around of \<open>+\<close>.\<close>

definition max_int64 :: int where "max_int64 = 9223372036854775807"
definition min_int64 :: int where "min_int64 = - 9223372036854775808"

definition wrap64 :: "int \<Rightarrow> int" where
  "wrap64 x = (x + 9223372036854775808) mod 18446744073709551616 - 9223372036854775808"

definition int64_ok :: "int \<Rightarrow> bool" where
  "int64_ok x \<longleftrightarrow> min_int64 \<le> x \<and> x \<le> max_int64"

lemmas int64_defs = max_int64_def min_int64_def int64_ok_def wrap64_def

lemma wrap64_id [simp]: "int64_ok x \<Longrightarrow> wrap64 x = x"
  by (simp add: int64_defs)

lemma int64_ok_wrap64 [simp]: "int64_ok (wrap64 x)"
  by (simp add: int64_defs)

lemma wrap64_le_max [simp]: "wrap64 x \<le> max_int64"
  using int64_ok_wrap64 [of x] by (simp add: int64_ok_def)

lemma wrap64_over:
  assumes "max_int64 < x" and "x \<le> max_int64 + 9223372036854775808"
  shows "wrap64 x = x - 18446744073709551616"
proof -
  have "(x + 9223372036854775808) mod 18446744073709551616 =
      (x - 9223372036854775808 + 18446744073709551616) mod 18446744073709551616"
    by (simp add: algebra_simps)
  also have "\<dots> = (x - 9223372036854775808) mod 18446744073709551616" by (rule mod_add_self2)
  also have "\<dots> = x - 9223372036854775808"
    using assms by (intro mod_pos_pos_trivial) (simp_all add: max_int64_def)
  finally show ?thesis by (simp add: wrap64_def)
qed

section \<open>Lists\<close>

text \<open>The first element of a slice that satisfies a test, as \<open>for ... { if p { ...; break } }\<close> finds it.\<close>

lemma find_Some_iff_mem: "find p xs = Some x \<Longrightarrow> x \<in> set xs \<and> p x"
  by (induction xs) (auto split: if_splits)

lemma find_None_all: "find p xs = None \<longleftrightarrow> (\<forall>x\<in>set xs. \<not> p x)"
  by (auto simp: find_None_iff)

text \<open>In a list without repeated keys the entries with a key are the one that has it.\<close>

lemma filter_key_singleton:
  "distinct (map k xs) \<Longrightarrow> x \<in> set xs \<Longrightarrow> k x = y \<Longrightarrow> filter (\<lambda>z. k z = y) xs = [x]"
proof (induction xs)
  case (Cons a xs)
  show ?case
  proof (cases "a = x")
    case True
    then have "\<forall>z\<in>set xs. k z \<noteq> y" using Cons.prems by (metis distinct.simps(2) list.simps(9) image_eqI list.set_map)
    then show ?thesis using True Cons.prems(3) by (simp add: filter_False)
  next
    case False
    then have "x \<in> set xs" using Cons.prems(2) by simp
    moreover from this have "k a \<noteq> y" using Cons.prems(1,3) by (metis distinct.simps(2) list.simps(9) image_eqI list.set_map)
    ultimately show ?thesis using Cons by simp
  qed
qed simp

end
