(* ===== verification/GoErrors.thy ===== *)
theory GoErrors
  imports Prelude
begin

text \<open>
  Error values. The sentinel errors of \<open>internal/service/stream_service_impl.go\<close>,
  \<open>internal/storage/errors.go\<close>, \<open>internal/repository/errors.go\<close> and
  \<open>internal/domain/models/stream_validation.go\<close> are constructors of \<open>sentinel\<close>; two sentinels
  with the same text are still different values, as two \<open>errors.New\<close> pointers are. A third-party
  error is \<open>Foreign\<close>: a kind, where the code tests for one, and the text the library gives it.
  \<open>Wrapf\<close> is \<open>fmt.Errorf\<close> with one \<open>%w\<close>, \<open>Errorf\<close> any other formatted error.
\<close>

datatype sentinel =
    ErrStreamNotFound | ErrCannotUpdatePublished | ErrCannotDeletePublished | ErrStreamNotReady
  | ErrInvalidFileName | ErrCannotWatch | ErrStreamNotInErrorState | ErrSourceFileMissing
  | ErrCannotPublish | ErrCannotUnpublish | ErrStreamForbidden | ErrExportNotFound
  | ErrExportPending
  | StorageErrNotFound | StorageErrAlreadyExists | StorageErrInvalidData | StorageErrStorage
  | StorageErrBucketNotExist | StorageErrPermissionDenied | StorageErrGenerateURLFailed
  | RepoErrNotFound | RepoErrAlreadyExists | RepoErrPermissionDenied
  | ErrStreamTitleRequired | ErrStreamTitleIsTooLong | ErrInvalidStatus | ErrInvalidVisibility
  | ErrOwnerIDRequired

fun service_error_text :: "sentinel \<Rightarrow> string" where
  "service_error_text ErrStreamNotFound = ''stream not found''"
| "service_error_text ErrCannotUpdatePublished = ''cannot update published stream''"
| "service_error_text ErrCannotDeletePublished = ''cannot delete published stream''"
| "service_error_text ErrStreamNotReady = ''stream not ready for download''"
| "service_error_text ErrInvalidFileName = ''invalid file name''"
| "service_error_text ErrCannotWatch = ''stream is not available for watching''"
| "service_error_text ErrStreamNotInErrorState = ''stream is not in an error state''"
| "service_error_text ErrSourceFileMissing = ''source file is missing''"
| "service_error_text ErrCannotPublish = ''stream must be ready before publishing''"
| "service_error_text ErrCannotUnpublish = ''only published streams can be unpublished''"
| "service_error_text ErrStreamForbidden = ''only the stream owner can do this''"
| "service_error_text ErrExportNotFound = ''no export has been prepared for this stream''"
| "service_error_text ErrExportPending = ''export is still being prepared''"
| "service_error_text StorageErrNotFound = ''file not found''"
| "service_error_text StorageErrAlreadyExists = ''file already exists''"
| "service_error_text StorageErrInvalidData = ''invalid data''"
| "service_error_text StorageErrStorage = ''storage error''"
| "service_error_text StorageErrBucketNotExist = ''bucket does not exist''"
| "service_error_text StorageErrPermissionDenied = ''permission denied''"
| "service_error_text StorageErrGenerateURLFailed = ''failed genarte URL''"
| "service_error_text RepoErrNotFound = ''stream not found''"
| "service_error_text RepoErrAlreadyExists = ''stream already exists''"
| "service_error_text RepoErrPermissionDenied = ''permission denied''"
| "service_error_text ErrStreamTitleRequired = ''title is required''"
| "service_error_text ErrStreamTitleIsTooLong = ''title is too long''"
| "service_error_text ErrInvalidStatus = ''invalid stream stastus''"
| "service_error_text ErrInvalidVisibility = ''invalid stream visibility''"
| "service_error_text ErrOwnerIDRequired = ''owner id required''"

datatype foreign_kind =
    GormRecordNotFound               \<comment> \<open>\<open>gorm.ErrRecordNotFound\<close>\<close>
  | AsynqDuplicateTask               \<comment> \<open>\<open>asynq.ErrDuplicateTask\<close>\<close>
  | MinioErrorResponse string string \<comment> \<open>\<open>minio.ErrorResponse{Code, Message}\<close>\<close>
  | OtherForeign

datatype goerr =
    Sentinel sentinel
  | Foreign foreign_kind string
  | Errorf string
  | Wrapf string goerr string        \<comment> \<open>text before \<open>%w\<close>, the wrapped error, text after\<close>

fun Error_text :: "goerr \<Rightarrow> string" where
  "Error_text (Sentinel s) = service_error_text s"
| "Error_text (Foreign k t) = t"
| "Error_text (Errorf t) = t"
| "Error_text (Wrapf pre e post) = pre @ Error_text e @ post"

text \<open>\<open>errors.Is\<close> against a sentinel, and against the two third-party sentinels the code tests for.\<close>

fun errors_Is :: "goerr \<Rightarrow> sentinel \<Rightarrow> bool" where
  "errors_Is (Sentinel s) t = (s = t)"
| "errors_Is (Foreign k x) t = False"
| "errors_Is (Errorf x) t = False"
| "errors_Is (Wrapf pre e post) t = errors_Is e t"

fun is_foreign :: "foreign_kind \<Rightarrow> goerr \<Rightarrow> bool" where
  "is_foreign k (Sentinel s) = False"
| "is_foreign k (Foreign k' x) = (k = k')"
| "is_foreign k (Errorf x) = False"
| "is_foreign k (Wrapf pre e post) = is_foreign k e"

abbreviation is_record_not_found :: "goerr \<Rightarrow> bool" where
  "is_record_not_found \<equiv> is_foreign GormRecordNotFound"

abbreviation is_duplicate_task :: "goerr \<Rightarrow> bool" where
  "is_duplicate_task \<equiv> is_foreign AsynqDuplicateTask"

text \<open>An error chain ends in one error: it cannot be two different sentinels at once.\<close>

lemma errors_Is_unique: "errors_Is e s \<Longrightarrow> errors_Is e t \<Longrightarrow> s = t"
  by (induction e s rule: errors_Is.induct) auto

lemma errors_Is_not_foreign: "errors_Is e s \<Longrightarrow> \<not> is_foreign k e"
  by (induction e s rule: errors_Is.induct) auto

end
