(* ===== verification/GoStrings.thy ===== *)
theory GoStrings
  imports Prelude
begin

text \<open>
  Go strings are byte strings, here \<open>string\<close> (a \<open>char\<close> is a byte). The operations of the
  standard library that the service uses: prefix and suffix tests, UTF-8 segmentation
  (\<open>utf8.DecodeRune\<close>), \<open>strings.TrimSpace\<close>, \<open>strings.Map\<close>, \<open>path.Ext\<close>, \<open>path.Join\<close>,
  \<open>strconv.Itoa\<close> and \<open>strconv.Atoi\<close>.
\<close>

section \<open>Prefixes, suffixes, containment\<close>

definition HasPrefix :: "string \<Rightarrow> string \<Rightarrow> bool" where
  "HasPrefix s p \<longleftrightarrow> take (length p) s = p"

definition HasSuffix :: "string \<Rightarrow> string \<Rightarrow> bool" where
  "HasSuffix s p \<longleftrightarrow> length p \<le> length s \<and> drop (length s - length p) s = p"

definition TrimPrefix :: "string \<Rightarrow> string \<Rightarrow> string" where
  "TrimPrefix s p = (if HasPrefix s p then drop (length p) s else s)"

definition TrimSuffix :: "string \<Rightarrow> string \<Rightarrow> string" where
  "TrimSuffix s p = (if HasSuffix s p then take (length s - length p) s else s)"

fun Contains :: "string \<Rightarrow> string \<Rightarrow> bool" where
  "Contains [] p = (p = [])"
| "Contains (c # s) p = (HasPrefix (c # s) p \<or> Contains s p)"

lemma HasPrefix_iff [gostr]: "HasPrefix s p \<longleftrightarrow> (\<exists>t. s = p @ t)"
  unfolding HasPrefix_def by (metis append_eq_conv_conj append_take_drop_id)

lemma HasSuffix_iff [gostr]: "HasSuffix s p \<longleftrightarrow> (\<exists>t. s = t @ p)"
proof
  assume "HasSuffix s p"
  then have "s = take (length s - length p) s @ p"
    unfolding HasSuffix_def by (metis append_take_drop_id)
  then show "\<exists>t. s = t @ p" ..
qed (auto simp: HasSuffix_def)

lemma Contains_iff [gostr]: "Contains s p \<longleftrightarrow> (\<exists>u v. s = u @ p @ v)"
proof (induction s)
  case (Cons c s)
  show ?case
    by (auto simp: Cons HasPrefix_iff Cons_eq_append_conv)
qed simp

lemma TrimPrefix_append [simp]: "TrimPrefix (p @ s) p = s"
  by (simp add: TrimPrefix_def HasPrefix_def)

lemma TrimSuffix_append [simp]: "TrimSuffix (s @ p) p = s"
  by (simp add: TrimSuffix_def HasSuffix_def)

section \<open>UTF-8\<close>

definition byte :: "char \<Rightarrow> nat" where
  "byte c = of_char c"

definition cont_byte :: "char \<Rightarrow> bool" where
  "cont_byte c \<longleftrightarrow> 128 \<le> byte c \<and> byte c \<le> 191"

text \<open>
  Width of the rune at the front as \<open>utf8.DecodeRuneInString\<close> finds it; 0 stands for
  \<open>(RuneError, 1)\<close>, an invalid byte. The ranges are those of the table in the UTF-8 standard
  (no overlong forms, no surrogates, nothing above U+10FFFF).
\<close>

fun rune_width :: "string \<Rightarrow> nat" where
  "rune_width [] = 0"
| "rune_width (c # s) =
    (let n = byte c in
     if n < 128 then 1
     else if 194 \<le> n \<and> n \<le> 223 then
       (case s of c1 # _ \<Rightarrow> if cont_byte c1 then 2 else 0 | _ \<Rightarrow> 0)
     else if 224 \<le> n \<and> n \<le> 239 then
       (case s of c1 # c2 # _ \<Rightarrow>
          if cont_byte c1 \<and> cont_byte c2 \<and> (n = 224 \<longrightarrow> 160 \<le> byte c1) \<and> (n = 237 \<longrightarrow> byte c1 \<le> 159)
          then 3 else 0 | _ \<Rightarrow> 0)
     else if 240 \<le> n \<and> n \<le> 244 then
       (case s of c1 # c2 # c3 # _ \<Rightarrow>
          if cont_byte c1 \<and> cont_byte c2 \<and> cont_byte c3 \<and>
             (n = 240 \<longrightarrow> 144 \<le> byte c1) \<and> (n = 244 \<longrightarrow> byte c1 \<le> 143)
          then 4 else 0 | _ \<Rightarrow> 0)
     else 0)"

datatype rune = Rune string | BadByte char

fun rune_bytes :: "rune \<Rightarrow> string" where
  "rune_bytes (Rune s) = s"
| "rune_bytes (BadByte c) = [c]"

text \<open>The runes \<open>for _, r := range s\<close> visits, each with the bytes it was decoded from.\<close>

function runes :: "string \<Rightarrow> rune list" where
  "runes [] = []"
| "runes (c # s) =
    (let w = rune_width (c # s) in
     if w = 0 then BadByte c # runes s
     else Rune (take w (c # s)) # runes (drop w (c # s)))"
  by pat_completeness auto
termination
  by (relation "measure length") auto

declare runes.simps(2) [simp del]

lemma runes_flat: "concat (map rune_bytes (runes s)) = s"
proof (induction s rule: runes.induct)
  case (2 c s)
  then show ?case by (simp add: runes.simps(2) Let_def)
qed simp

definition utf8_valid :: "string \<Rightarrow> bool" where
  "utf8_valid s \<longleftrightarrow> list_all (\<lambda>r. case r of Rune _ \<Rightarrow> True | BadByte _ \<Rightarrow> False) (runes s)"

definition RuneCountInString :: "string \<Rightarrow> nat" where
  "RuneCountInString s = length (runes s)"

text \<open>The bytes of U+FFFD, which Go writes for an invalid byte.\<close>

definition replacement :: string where
  "replacement = [CHR 0xEF, CHR 0xBF, CHR 0xBD]"

text \<open>\<open>strings.ToValidUTF8(s, "\\uFFFD")\<close> one bad byte at a time, as \<open>encoding/json\<close> does.\<close>

definition coerce_utf8 :: "string \<Rightarrow> string" where
  "coerce_utf8 s = concat (map (\<lambda>r. case r of Rune t \<Rightarrow> t | BadByte _ \<Rightarrow> replacement) (runes s))"

lemma coerce_utf8_valid [simp]: "utf8_valid s \<Longrightarrow> coerce_utf8 s = s"
proof -
  assume "utf8_valid s"
  then have "map (\<lambda>r. case r of Rune t \<Rightarrow> t | BadByte _ \<Rightarrow> replacement) (runes s) = map rune_bytes (runes s)"
    by (auto simp: utf8_valid_def list_all_iff split: rune.splits)
  then show ?thesis by (simp only: coerce_utf8_def runes_flat)
qed

text \<open>
  \<open>strings.Map(f, s)\<close>: \<open>f\<close> is given the bytes of each rune and returns the bytes to keep
  (empty for a negative result). An invalid byte reaches \<open>f\<close> as U+FFFD.
\<close>

definition strings_Map :: "(string \<Rightarrow> string) \<Rightarrow> string \<Rightarrow> string" where
  "strings_Map f s =
     concat (map (\<lambda>r. case r of Rune t \<Rightarrow> f t | BadByte _ \<Rightarrow> f replacement) (runes s))"

section \<open>Trimming\<close>

text \<open>The UTF-8 encodings of the runes with \<open>unicode.IsSpace\<close>.\<close>

definition space_runes :: "string list" where
  "space_runes =
    [[CHR 0x20], [CHR 0x09], [CHR 0x0A], [CHR 0x0B], [CHR 0x0C], [CHR 0x0D],
     [CHR 0xC2, CHR 0x85], [CHR 0xC2, CHR 0xA0], [CHR 0xE1, CHR 0x9A, CHR 0x80],
     [CHR 0xE2, CHR 0x80, CHR 0x80], [CHR 0xE2, CHR 0x80, CHR 0x81], [CHR 0xE2, CHR 0x80, CHR 0x82],
     [CHR 0xE2, CHR 0x80, CHR 0x83], [CHR 0xE2, CHR 0x80, CHR 0x84], [CHR 0xE2, CHR 0x80, CHR 0x85],
     [CHR 0xE2, CHR 0x80, CHR 0x86], [CHR 0xE2, CHR 0x80, CHR 0x87], [CHR 0xE2, CHR 0x80, CHR 0x88],
     [CHR 0xE2, CHR 0x80, CHR 0x89], [CHR 0xE2, CHR 0x80, CHR 0x8A], [CHR 0xE2, CHR 0x80, CHR 0xA8],
     [CHR 0xE2, CHR 0x80, CHR 0xA9], [CHR 0xE2, CHR 0x80, CHR 0xAF], [CHR 0xE2, CHR 0x81, CHR 0x9F],
     [CHR 0xE3, CHR 0x80, CHR 0x80]]"

lemma space_runes_nonempty: "p \<in> set space_runes \<Longrightarrow> p \<noteq> []"
  by (auto simp: space_runes_def)

function trim_left :: "string list \<Rightarrow> string \<Rightarrow> string" where
  "trim_left cuts s =
    (case find (\<lambda>p. p \<noteq> [] \<and> HasPrefix s p) cuts of
       None \<Rightarrow> s | Some p \<Rightarrow> trim_left cuts (drop (length p) s))"
  by pat_completeness auto
termination
  by (relation "measure (\<lambda>(cuts, s). length s)")
     (auto dest!: find_Some_iff_mem simp: HasPrefix_iff)

function trim_right :: "string list \<Rightarrow> string \<Rightarrow> string" where
  "trim_right cuts s =
    (case find (\<lambda>p. p \<noteq> [] \<and> HasSuffix s p) cuts of
       None \<Rightarrow> s | Some p \<Rightarrow> trim_right cuts (take (length s - length p) s))"
  by pat_completeness auto
termination
  by (relation "measure (\<lambda>(cuts, s). length s)")
     (auto dest!: find_Some_iff_mem simp: HasSuffix_iff)

declare trim_left.simps [simp del] trim_right.simps [simp del]

text \<open>
  \<open>strings.TrimSpace\<close> and \<open>strings.Trim(s, cutset)\<close> for an ASCII cutset. A trailing rune is a
  space exactly when the string ends with its encoding, since no encoding is a suffix of a longer
  valid rune.
\<close>

definition TrimSpace :: "string \<Rightarrow> string" where
  "TrimSpace s = trim_right space_runes (trim_left space_runes s)"

definition Trim :: "string \<Rightarrow> string \<Rightarrow> string" where
  "Trim s cutset = trim_right (map (\<lambda>c. [c]) cutset) (trim_left (map (\<lambda>c. [c]) cutset) s)"

lemma trim_left_suffix: "\<exists>u. s = u @ trim_left cuts s"
proof (induction cuts s rule: trim_left.induct)
  case (1 cuts s)
  show ?case
  proof (cases "find (\<lambda>p. p \<noteq> [] \<and> HasPrefix s p) cuts")
    case None
    then show ?thesis by (simp add: trim_left.simps [of cuts s])
  next
    case (Some p)
    then obtain u where u: "drop (length p) s = u @ trim_left cuts (drop (length p) s)"
      using "1.IH" by blast
    have "s = take (length p) s @ drop (length p) s" by simp
    also have "\<dots> = (take (length p) s @ u) @ trim_left cuts (drop (length p) s)"
      by (subst u) simp
    also have "trim_left cuts (drop (length p) s) = trim_left cuts s"
      using Some by (simp add: trim_left.simps [of cuts s])
    finally show ?thesis ..
  qed
qed

lemma trim_right_prefix: "\<exists>u. s = trim_right cuts s @ u"
proof (induction cuts s rule: trim_right.induct)
  case (1 cuts s)
  show ?case
  proof (cases "find (\<lambda>p. p \<noteq> [] \<and> HasSuffix s p) cuts")
    case None
    then show ?thesis by (simp add: trim_right.simps [of cuts s])
  next
    case (Some p)
    let ?t = "take (length s - length p) s"
    obtain u where u: "?t = trim_right cuts ?t @ u"
      using "1.IH" [OF Some] by blast
    have "s = ?t @ drop (length s - length p) s" by simp
    also have "\<dots> = trim_right cuts ?t @ (u @ drop (length s - length p) s)"
      by (subst u) simp
    also have "trim_right cuts ?t = trim_right cuts s"
      using Some by (simp add: trim_right.simps [of cuts s])
    finally show ?thesis ..
  qed
qed

text \<open>Trimming returns a factor of its argument: it adds no byte and never grows.\<close>

lemma Trim_factor: "\<exists>u v. s = u @ Trim s cs @ v"
  unfolding Trim_def by (metis append.assoc trim_left_suffix trim_right_prefix)

lemma TrimSpace_factor: "\<exists>u v. s = u @ TrimSpace s @ v"
  unfolding TrimSpace_def by (metis append.assoc trim_left_suffix trim_right_prefix)

lemma set_TrimSpace: "set (TrimSpace s) \<subseteq> set s"
  using TrimSpace_factor [of s] by (metis Un_upper1 Un_upper2 set_append subset_trans)

lemma set_Trim: "set (Trim s cs) \<subseteq> set s"
  using Trim_factor [of s cs] by (metis Un_upper1 Un_upper2 set_append subset_trans)

lemma length_TrimSpace: "length (TrimSpace s) \<le> length s"
  using TrimSpace_factor [of s] by (metis le_add1 le_add2 length_append le_trans)

section \<open>Paths\<close>

text \<open>\<open>path.Ext\<close>: the suffix from the last dot of the last path element.\<close>

definition path_Ext :: "string \<Rightarrow> string" where
  "path_Ext s =
    (let base = takeWhile (\<lambda>c. c \<noteq> CHR ''/'') (rev s) in
     if CHR ''.'' \<in> set base then CHR ''.'' # rev (takeWhile (\<lambda>c. c \<noteq> CHR ''.'') base) else [])"

fun split_slash :: "string \<Rightarrow> string list" where
  "split_slash [] = [[]]"
| "split_slash (c # s) =
    (if c = CHR ''/'' then [] # split_slash s
     else (case split_slash s of p # ps \<Rightarrow> (c # p) # ps | [] \<Rightarrow> [[c]]))"

fun join_slash :: "string list \<Rightarrow> string" where
  "join_slash [] = []"
| "join_slash [p] = p"
| "join_slash (p # q # ps) = p @ CHR ''/'' # join_slash (q # ps)"

text \<open>
  \<open>path.Clean\<close> on a relative path, on its elements: empty elements and \<open>.\<close> are dropped, \<open>..\<close>
  removes the element before it, or stays when there is none to remove. The accumulator is
  reversed.
\<close>

fun clean_elems :: "string list \<Rightarrow> string list \<Rightarrow> string list" where
  "clean_elems acc [] = rev acc"
| "clean_elems acc (p # ps) =
    (if p = [] \<or> p = ''.'' then clean_elems acc ps
     else if p = ''..'' then
       (case acc of q # acc' \<Rightarrow> if q = ''..'' then clean_elems (p # acc) ps else clean_elems acc' ps
                  | [] \<Rightarrow> clean_elems [p] ps)
     else clean_elems (p # acc) ps)"

definition path_Clean :: "string \<Rightarrow> string" where
  "path_Clean s =
    (if s = [] then ''.''
     else if hd s = CHR ''/'' then
       CHR ''/'' # join_slash (dropWhile (\<lambda>p. p = ''..'') (clean_elems [] (split_slash s)))
     else (case clean_elems [] (split_slash s) of [] \<Rightarrow> ''.'' | ps \<Rightarrow> join_slash ps))"

text \<open>\<open>path.Join\<close>: the non-empty elements joined by slashes, then cleaned; empty when all are.\<close>

definition path_Join :: "string list \<Rightarrow> string" where
  "path_Join elems =
    (case filter (\<lambda>e. e \<noteq> []) elems of [] \<Rightarrow> [] | es \<Rightarrow> path_Clean (join_slash es))"

section \<open>Numbers\<close>

definition digit_char :: "nat \<Rightarrow> char" where
  "digit_char d = char_of (48 + d)"

fun Itoa_nat :: "nat \<Rightarrow> string" where
  "Itoa_nat n = (if n < 10 then [digit_char n] else Itoa_nat (n div 10) @ [digit_char (n mod 10)])"

declare Itoa_nat.simps [simp del]

definition Itoa :: "int \<Rightarrow> string" where
  "Itoa i = (if i < 0 then CHR ''-'' # Itoa_nat (nat (- i)) else Itoa_nat (nat i))"

definition is_digit :: "char \<Rightarrow> bool" where
  "is_digit c \<longleftrightarrow> 48 \<le> byte c \<and> byte c \<le> 57"

definition digits_value :: "string \<Rightarrow> nat" where
  "digits_value s = foldl (\<lambda>v c. 10 * v + (byte c - 48)) 0 s"

text \<open>\<open>strconv.Atoi\<close> for a 64-bit \<open>int\<close>: an optional sign, then digits, in range.\<close>

definition Atoi :: "string \<Rightarrow> int option" where
  "Atoi s =
    (let (neg, ds) = (case s of [] \<Rightarrow> (False, []) | c # t \<Rightarrow>
                        if c = CHR ''-'' then (True, t) else if c = CHR ''+'' then (False, t) else (False, s));
         v = (if neg then - int (digits_value ds) else int (digits_value ds)) in
     if ds \<noteq> [] \<and> list_all is_digit ds \<and> int64_ok v then Some v else None)"

lemma byte_digit_char: "d < 10 \<Longrightarrow> byte (digit_char d) = 48 + d"
  by (simp add: byte_def digit_char_def)

lemma digits_value_snoc: "digits_value (s @ [c]) = 10 * digits_value s + (byte c - 48)"
  by (simp add: digits_value_def)

lemma digits_value_Itoa_nat [simp]: "digits_value (Itoa_nat n) = n"
proof (induction n rule: Itoa_nat.induct)
  case (1 n)
  show ?case
  proof (cases "n < 10")
    case True
    then show ?thesis by (simp add: Itoa_nat.simps [of n] digits_value_def byte_digit_char)
  next
    case False
    then have "digits_value (Itoa_nat n) = 10 * (n div 10) + n mod 10"
      using 1 by (subst Itoa_nat.simps) (simp add: digits_value_snoc byte_digit_char)
    then show ?thesis by simp
  qed
qed

lemma Itoa_nat_digits [simp]: "list_all is_digit (Itoa_nat n)"
proof (induction n rule: Itoa_nat.induct)
  case (1 n)
  have "is_digit (digit_char d)" if "d < 10" for d
    using that by (simp add: is_digit_def byte_digit_char)
  with 1 show ?case by (simp add: Itoa_nat.simps [of n])
qed

lemma Itoa_nat_nonempty [simp]: "Itoa_nat n \<noteq> []"
  by (simp add: Itoa_nat.simps [of n])

lemma not_digit_minus: "\<not> is_digit CHR ''-''" "\<not> is_digit CHR ''+''" "\<not> is_digit CHR ''.''" "\<not> is_digit CHR ''/''"
  by (simp_all add: is_digit_def byte_def)

text \<open>Printing a non-negative \<open>int\<close> in range and reading it back gives the same number.\<close>

lemma Atoi_Itoa: "0 \<le> i \<Longrightarrow> i \<le> max_int64 \<Longrightarrow> Atoi (Itoa i) = Some i"
proof -
  assume i: "0 \<le> i" "i \<le> max_int64"
  obtain c t where ct: "Itoa_nat (nat i) = c # t"
    by (meson Itoa_nat_nonempty neq_Nil_conv)
  then have "is_digit c" using Itoa_nat_digits [of "nat i"] by simp
  then have "c \<noteq> CHR ''-''" "c \<noteq> CHR ''+''" using not_digit_minus by blast+
  moreover have "digits_value (c # t) = nat i" "list_all is_digit (c # t)"
    using digits_value_Itoa_nat [of "nat i"] Itoa_nat_digits [of "nat i"] ct by simp_all
  ultimately show ?thesis
    using i ct by (simp add: Atoi_def Itoa_def int64_defs)
qed

end
