(* ===== verification/GoJson.thy ===== *)
theory GoJson
  imports GoErrors GoStrings
begin

text \<open>
  What the service uses of \<open>encoding/json\<close> and of \<open>gorm.io/datatypes.JSON\<close> columns, at the level of
  JSON values. \<open>raw\<close> is a byte slice that should hold a document: nil, bytes that are not a JSON
  text, or the text of a value. A decoder takes the JSON value and the Go variable it is decoded
  into and returns the variable afterwards together with a flag: as in Go a value of the wrong type
  is skipped, the rest is still decoded, and the first such mismatch is reported at the end.
\<close>

datatype json =
  JNull | JBool bool | JNum int | JStr string | JArr "json list" | JObj "(string \<times> json) list"

datatype raw = RNil | RBytes string | RDoc json

definition raw_empty :: "raw \<Rightarrow> bool" where
  "raw_empty r \<longleftrightarrow> r = RNil \<or> r = RBytes []"

type_synonym 'a decoder = "json \<Rightarrow> 'a \<Rightarrow> 'a \<times> bool"

section \<open>Decoding\<close>

definition dec_string :: "string decoder" where
  "dec_string j v = (case j of JStr s \<Rightarrow> (s, False) | JNull \<Rightarrow> (v, False) | _ \<Rightarrow> (v, True))"

definition dec_int :: "int decoder" where
  "dec_int j v =
    (case j of JNum n \<Rightarrow> if int64_ok n then (n, False) else (v, True)
     | JNull \<Rightarrow> (v, False) | _ \<Rightarrow> (v, True))"

text \<open>A pointer: null makes it nil, anything else decodes into the target, allocated if it was nil.\<close>

definition dec_pointer :: "'a \<Rightarrow> 'a decoder \<Rightarrow> 'a option decoder" where
  "dec_pointer zero d j p =
    (case j of JNull \<Rightarrow> (None, False)
     | _ \<Rightarrow> (case d j (case p of None \<Rightarrow> zero | Some v \<Rightarrow> v) of (v, e) \<Rightarrow> (Some v, e)))"

text \<open>A slice: null makes it nil (\<open>None\<close>), an array makes it a slice of that length.\<close>

definition dec_slice :: "'a \<Rightarrow> 'a decoder \<Rightarrow> 'a list option decoder" where
  "dec_slice zero d j p =
    (case j of JNull \<Rightarrow> (None, False)
     | JArr js \<Rightarrow> (Some (map (\<lambda>x. fst (d x zero)) js), list_ex (\<lambda>x. snd (d x zero)) js)
     | _ \<Rightarrow> (p, True))"

text \<open>
  Field names match exactly or, failing that, after folding. \<open>fold_name\<close> folds ASCII letters and
  the two other runes that fold to one (U+017F to S, U+212A to K).
\<close>

fun fold_name :: "string \<Rightarrow> string" where
  "fold_name [] = []"
| "fold_name (c # s) =
    (if HasPrefix (c # s) [CHR 0xC5, CHR 0xBF] then CHR ''S'' # fold_name (drop 1 s)
     else if HasPrefix (c # s) [CHR 0xE2, CHR 0x84, CHR 0xAA] then CHR ''K'' # fold_name (drop 2 s)
     else (if 97 \<le> byte c \<and> byte c \<le> 122 then char_of (byte c - 32) else c) # fold_name s)"

definition field_for :: "(string \<times> 'a decoder) list \<Rightarrow> string \<Rightarrow> 'a decoder option" where
  "field_for fs k =
    (case map_of fs k of Some d \<Rightarrow> Some d
     | None \<Rightarrow> map_option snd (find (\<lambda>(n, _). fold_name n = fold_name k) fs))"

fun dec_fields :: "(string \<times> 'a decoder) list \<Rightarrow> (string \<times> json) list \<Rightarrow> 'a \<Rightarrow> 'a \<times> bool" where
  "dec_fields fs [] v = (v, False)"
| "dec_fields fs ((k, j) # kvs) v =
    (case field_for fs k of
       None \<Rightarrow> dec_fields fs kvs v
     | Some d \<Rightarrow> (case d j v of (v', e) \<Rightarrow> (case dec_fields fs kvs v' of (v'', e') \<Rightarrow> (v'', e \<or> e'))))"

definition dec_struct :: "(string \<times> 'a decoder) list \<Rightarrow> 'a decoder" where
  "dec_struct fs j v =
    (case j of JNull \<Rightarrow> (v, False) | JObj kvs \<Rightarrow> dec_fields fs kvs v | _ \<Rightarrow> (v, True))"

text \<open>A decoder of one field of a record: its reader, its writer and the decoder of its type.\<close>

definition dec_field :: "('r \<Rightarrow> 'a) \<Rightarrow> ('a \<Rightarrow> 'r \<Rightarrow> 'r) \<Rightarrow> 'a decoder \<Rightarrow> 'r decoder" where
  "dec_field get put d j r = (case d j (get r) of (v, e) \<Rightarrow> (put v r, e))"

text \<open>\<open>json.Unmarshal(r, &v)\<close> from the variable's value before: its value after, and the error.\<close>

definition Unmarshal :: "'a decoder \<Rightarrow> raw \<Rightarrow> 'a \<Rightarrow> 'a \<times> goerr option" where
  "Unmarshal d r v =
    (case r of
       RNil \<Rightarrow> (v, Some (Errorf ''unexpected end of JSON input''))
     | RBytes b \<Rightarrow> (v, Some (Errorf (if b = [] then ''unexpected end of JSON input'' else ''invalid character'')))
     | RDoc j \<Rightarrow> (case d j v of (v', e) \<Rightarrow> (v', if e then Some (Errorf ''json: cannot unmarshal'') else None)))"

section \<open>Encoding\<close>

text \<open>A string is encoded with every invalid byte replaced by U+FFFD.\<close>

definition enc_string :: "string \<Rightarrow> json" where
  "enc_string s = JStr (coerce_utf8 s)"

definition enc_pointer :: "('a \<Rightarrow> json) \<Rightarrow> 'a option \<Rightarrow> json" where
  "enc_pointer enc p = (case p of None \<Rightarrow> JNull | Some v \<Rightarrow> enc v)"

definition enc_slice :: "('a \<Rightarrow> json) \<Rightarrow> 'a list option \<Rightarrow> json" where
  "enc_slice enc p = (case p of None \<Rightarrow> JNull | Some vs \<Rightarrow> JArr (map enc vs))"

text \<open>A field with \<open>omitempty\<close> appears only when it is not the empty value.\<close>

definition omit_if :: "bool \<Rightarrow> string \<times> json \<Rightarrow> (string \<times> json) list" where
  "omit_if b kv = (if b then [] else [kv])"

definition Marshal :: "('a \<Rightarrow> json) \<Rightarrow> 'a \<Rightarrow> raw" where
  "Marshal enc v = RDoc (enc v)"

lemmas decoder_defs = dec_string_def dec_int_def dec_pointer_def dec_field_def dec_struct_def field_for_def

section \<open>The contract of a codec\<close>

text \<open>
  A Go type with its JSON form: encoder, decoder, zero value, and the values the form can hold
  (integers in range, strings of valid UTF-8, timestamps in RFC 3339). Every clause the clients use
  follows from one law.
\<close>

locale json_codec =
  fixes enc :: "'a \<Rightarrow> json" and dec :: "'a decoder" and zero :: 'a and wf :: "'a \<Rightarrow> bool"
  assumes dec_enc: "wf x \<Longrightarrow> dec (enc x) zero = (x, False)"
begin

lemma unmarshal_marshal: "wf x \<Longrightarrow> Unmarshal dec (Marshal enc x) zero = (x, None)"
  by (simp add: Unmarshal_def Marshal_def dec_enc)

lemma enc_inject: "wf x \<Longrightarrow> wf y \<Longrightarrow> enc x = enc y \<Longrightarrow> x = y"
  by (metis dec_enc fst_conv)

lemma slice_dec_enc:
  "\<forall>x\<in>set xs. wf x \<Longrightarrow> dec_slice zero dec (enc_slice enc (Some xs)) p = (Some xs, False)"
  by (auto simp: dec_slice_def enc_slice_def dec_enc list_ex_iff intro: map_idI)

end

text \<open>
  A JSON column of a row: a codec together with the column's reader and writer. This is the
  contract between the row type and the \<open>GetX\<close>/\<open>SetX\<close> methods.
\<close>

locale json_column = json_codec enc dec zero wf
  for enc :: "'a \<Rightarrow> json" and dec :: "'a decoder" and zero :: 'a and wf :: "'a \<Rightarrow> bool" +
  fixes col :: "'row \<Rightarrow> raw" and put :: "raw \<Rightarrow> 'row \<Rightarrow> 'row"
  assumes col_put: "col (put r s) = r"
    and put_put: "put r (put r' s) = put r s"
begin

lemma read_written: "wf x \<Longrightarrow> Unmarshal dec (col (put (Marshal enc x) s)) zero = (x, None)"
  by (simp add: col_put unmarshal_marshal)

lemma last_write_wins:
  "wf y \<Longrightarrow> Unmarshal dec (col (put (Marshal enc y) (put (Marshal enc x) s))) zero = (y, None)"
  by (simp add: put_put read_written)

end

lemma dec_slice_string: "\<forall>x\<in>set xs. utf8_valid x \<Longrightarrow>
    dec_slice [] dec_string (enc_slice enc_string (Some xs)) p = (Some xs, False)"
  by (auto simp: dec_slice_def enc_slice_def enc_string_def dec_string_def list_ex_iff intro: map_idI)

interpretation string_codec: json_codec enc_string dec_string "[]" utf8_valid
  by unfold_locales (simp add: enc_string_def dec_string_def)

interpretation int_codec: json_codec JNum dec_int 0 int64_ok
  by unfold_locales (simp add: dec_int_def)

end
