(* ===== verification/Models.thy ===== *)
theory Models
  imports GoJson "HOL-Library.Word"
begin

text \<open>
  The domain model, \<open>internal/domain/models\<close>: the rows of the two tables, the JSON structures kept
  in their columns, and the methods of \<open>Stream\<close> and \<open>StreamExport\<close>. A \<open>uuid.UUID\<close> is its sixteen
  bytes; a time is its number of nanoseconds since the epoch, except inside the metadata document,
  where it is the RFC 3339 text that \<open>time.Time\<close> marshals to.
\<close>

type_synonym uuid = "128 word"
type_synonym time = int

definition uuid_Nil :: uuid where "uuid_Nil = 0"

section \<open>Enumerations\<close>

text \<open>The Go types are strings; a string that names no constant is kept in the last constructor.\<close>

datatype StreamStatus =
    StatusDraft | StatusProcessing | StatusReady | StatusPublished | StatusError | StatusUploading
  | StatusOther string

datatype StreamVisibility =
    VisibilityPublic | VisibilityPrivate | VisibilityUnlisted | VisibilityOther string

datatype StreamExportStatus =
    ExportStatusPending | ExportStatusReady | ExportStatusFailed | ExportStatusOther string

fun status_text :: "StreamStatus \<Rightarrow> string" where
  "status_text StatusDraft = ''draft''"
| "status_text StatusProcessing = ''processing''"
| "status_text StatusReady = ''ready''"
| "status_text StatusPublished = ''published''"
| "status_text StatusError = ''error''"
| "status_text StatusUploading = ''uploading''"
| "status_text (StatusOther s) = s"

definition status_of :: "string \<Rightarrow> StreamStatus" where
  "status_of s =
    (if s = ''draft'' then StatusDraft else if s = ''processing'' then StatusProcessing
     else if s = ''ready'' then StatusReady else if s = ''published'' then StatusPublished
     else if s = ''error'' then StatusError else if s = ''uploading'' then StatusUploading
     else StatusOther s)"

fun visibility_text :: "StreamVisibility \<Rightarrow> string" where
  "visibility_text VisibilityPublic = ''public''"
| "visibility_text VisibilityPrivate = ''private''"
| "visibility_text VisibilityUnlisted = ''unlisted''"
| "visibility_text (VisibilityOther s) = s"

definition visibility_of :: "string \<Rightarrow> StreamVisibility" where
  "visibility_of s =
    (if s = ''public'' then VisibilityPublic else if s = ''private'' then VisibilityPrivate
     else if s = ''unlisted'' then VisibilityUnlisted else VisibilityOther s)"

lemma status_text_of [simp]: "status_text (status_of s) = s"
  by (simp add: status_of_def)

lemma visibility_text_of [simp]: "visibility_text (visibility_of s) = s"
  by (simp add: visibility_of_def)

abbreviation TaskTypeTranscode :: string where "TaskTypeTranscode \<equiv> ''transcode''"
abbreviation TaskTypeThumbnail :: string where "TaskTypeThumbnail \<equiv> ''thumbnail''"
abbreviation TaskTypeFaces :: string where "TaskTypeFaces \<equiv> ''faces''"

section \<open>Rows\<close>

record BaseModel =
  ID :: uuid
  CreatedAt :: time
  UpdatedAt :: time
  DeletedAt :: "time option"

record Stream = BaseModel +
  Title :: string
  Description :: string
  Status :: StreamStatus
  OwnerID :: uuid
  Visibility :: StreamVisibility
  Tags :: raw
  Metadata :: raw
  Storage :: raw
  Processing :: raw
  PublishedAt :: "time option"
  FacesDetected :: bool

record StreamExport = BaseModel +
  StreamID :: uuid
  UserID :: string
  ExportStatus :: StreamExportStatus
  ExportSize :: int
  ExportError :: string

text \<open>The hooks \<open>BeforeCreate\<close> and \<open>BeforeUpdate\<close> of \<open>BaseModel\<close>; the UUID and the clock are inputs.\<close>

definition BeforeCreate :: "uuid \<Rightarrow> time \<Rightarrow> time \<Rightarrow> 'm BaseModel_scheme \<Rightarrow> 'm BaseModel_scheme" where
  "BeforeCreate fresh now1 now2 base =
    (let base = (if ID base = uuid_Nil then base\<lparr>ID := fresh\<rparr> else base)
     in base\<lparr>CreatedAt := now1, UpdatedAt := now2\<rparr>)"

definition BeforeUpdate :: "time \<Rightarrow> 'm BaseModel_scheme \<Rightarrow> 'm BaseModel_scheme" where
  "BeforeUpdate now base = base\<lparr>UpdatedAt := now\<rparr>"

section \<open>The structures in the JSON columns\<close>

record StreamMetadata =
  Duration :: int
  MetaSize :: int
  Format :: string
  Resolution :: string
  RecordedAt :: "string option"
  Location :: "string option"
  Camera :: "string option"
  Rotation :: int

record StreamStorage =
  Provider :: string
  Bucket :: string
  Key :: string
  Filename :: string
  UploadID :: string

record StreamProcessingTask =
  TaskType :: string
  Progress :: int
  Steps :: "string list option"
  TaskError :: "string option"
  TaskID :: "string option"

record MultipartPart =
  PartNumber :: int
  ETag :: string

definition zero_metadata :: StreamMetadata where
  "zero_metadata = \<lparr>Duration = 0, MetaSize = 0, Format = [], Resolution = [], RecordedAt = None,
     Location = None, Camera = None, Rotation = 0\<rparr>"

definition zero_storage :: StreamStorage where
  "zero_storage = \<lparr>Provider = [], Bucket = [], Key = [], Filename = [], UploadID = []\<rparr>"

definition zero_task :: StreamProcessingTask where
  "zero_task = \<lparr>TaskType = [], Progress = 0, Steps = None, TaskError = None, TaskID = None\<rparr>"

subsection \<open>Timestamps\<close>

text \<open>The texts \<open>Time.UnmarshalJSON\<close> accepts: RFC 3339 with every field in range.\<close>

definition two_digits :: "string \<Rightarrow> nat \<Rightarrow> nat \<Rightarrow> nat \<Rightarrow> bool" where
  "two_digits s i lo hi \<longleftrightarrow>
    is_digit (s ! i) \<and> is_digit (s ! Suc i) \<and>
    (let v = digits_value [s ! i, s ! Suc i] in lo \<le> v \<and> v \<le> hi)"

definition days_in_month :: "nat \<Rightarrow> nat \<Rightarrow> nat" where
  "days_in_month y m =
    (if m = 2 then (if y mod 4 = 0 \<and> (y mod 100 \<noteq> 0 \<or> y mod 400 = 0) then 29 else 28)
     else if m \<in> {4, 6, 9, 11} then 30 else 31)"

definition zone_ok :: "string \<Rightarrow> bool" where
  "zone_ok z \<longleftrightarrow> z = ''Z'' \<or>
    (length z = 6 \<and> (z ! 0 = CHR ''+'' \<or> z ! 0 = CHR ''-'') \<and> two_digits z 1 0 23 \<and>
     z ! 3 = CHR '':'' \<and> two_digits z 4 0 59)"

definition rfc3339_ok :: "string \<Rightarrow> bool" where
  "rfc3339_ok s \<longleftrightarrow>
    20 \<le> length s \<and> list_all is_digit (take 4 s) \<and>
    s ! 4 = CHR ''-'' \<and> two_digits s 5 1 12 \<and> s ! 7 = CHR ''-'' \<and>
    two_digits s 8 1 (days_in_month (digits_value (take 4 s)) (digits_value [s ! 5, s ! 6])) \<and>
    s ! 10 = CHR ''T'' \<and> two_digits s 11 0 23 \<and> s ! 13 = CHR '':'' \<and> two_digits s 14 0 59 \<and>
    s ! 16 = CHR '':'' \<and> two_digits s 17 0 59 \<and>
    (let rest = drop 19 s;
         frac = takeWhile is_digit (drop 1 rest) in
     if rest ! 0 = CHR ''.'' then frac \<noteq> [] \<and> zone_ok (drop (1 + length frac) rest) else zone_ok rest)"

definition zero_time_text :: string where "zero_time_text = ''0001-01-01T00:00:00Z''"

definition dec_time :: "string decoder" where
  "dec_time j v =
    (case j of JStr s \<Rightarrow> if rfc3339_ok s then (s, False) else (zero_time_text, True)
     | JNull \<Rightarrow> (v, False) | _ \<Rightarrow> (v, True))"

subsection \<open>JSON forms\<close>

definition enc_metadata :: "StreamMetadata \<Rightarrow> json" where
  "enc_metadata m = JObj (
     [(''duration'', JNum (Duration m)), (''size'', JNum (MetaSize m)),
      (''format'', enc_string (Format m)), (''resolution'', enc_string (Resolution m))] @
     omit_if (RecordedAt m = None) (''recorded_at'', enc_pointer JStr (RecordedAt m)) @
     omit_if (Location m = None) (''location'', enc_pointer enc_string (Location m)) @
     omit_if (Camera m = None) (''camera'', enc_pointer enc_string (Camera m)) @
     omit_if (Rotation m = 0) (''rotation'', JNum (Rotation m)))"

definition dec_metadata :: "StreamMetadata decoder" where
  "dec_metadata = dec_struct
     [(''duration'', dec_field Duration (\<lambda>v m. m\<lparr>Duration := v\<rparr>) dec_int),
      (''size'', dec_field MetaSize (\<lambda>v m. m\<lparr>MetaSize := v\<rparr>) dec_int),
      (''format'', dec_field Format (\<lambda>v m. m\<lparr>Format := v\<rparr>) dec_string),
      (''resolution'', dec_field Resolution (\<lambda>v m. m\<lparr>Resolution := v\<rparr>) dec_string),
      (''recorded_at'', dec_field RecordedAt (\<lambda>v m. m\<lparr>RecordedAt := v\<rparr>) (dec_pointer zero_time_text dec_time)),
      (''location'', dec_field Location (\<lambda>v m. m\<lparr>Location := v\<rparr>) (dec_pointer [] dec_string)),
      (''camera'', dec_field Camera (\<lambda>v m. m\<lparr>Camera := v\<rparr>) (dec_pointer [] dec_string)),
      (''rotation'', dec_field Rotation (\<lambda>v m. m\<lparr>Rotation := v\<rparr>) dec_int)]"

definition metadata_wf :: "StreamMetadata \<Rightarrow> bool" where
  "metadata_wf m \<longleftrightarrow> int64_ok (Duration m) \<and> int64_ok (MetaSize m) \<and> int64_ok (Rotation m) \<and>
     utf8_valid (Format m) \<and> utf8_valid (Resolution m) \<and>
     pred_option rfc3339_ok (RecordedAt m) \<and> pred_option utf8_valid (Location m) \<and>
     pred_option utf8_valid (Camera m)"

definition enc_storage :: "StreamStorage \<Rightarrow> json" where
  "enc_storage s = JObj (
     [(''provider'', enc_string (Provider s)), (''bucket'', enc_string (Bucket s)),
      (''key'', enc_string (Key s)), (''filename'', enc_string (Filename s))] @
     omit_if (UploadID s = []) (''upload_id'', enc_string (UploadID s)))"

definition dec_storage :: "StreamStorage decoder" where
  "dec_storage = dec_struct
     [(''provider'', dec_field Provider (\<lambda>v s. s\<lparr>Provider := v\<rparr>) dec_string),
      (''bucket'', dec_field Bucket (\<lambda>v s. s\<lparr>Bucket := v\<rparr>) dec_string),
      (''key'', dec_field Key (\<lambda>v s. s\<lparr>Key := v\<rparr>) dec_string),
      (''filename'', dec_field Filename (\<lambda>v s. s\<lparr>Filename := v\<rparr>) dec_string),
      (''upload_id'', dec_field UploadID (\<lambda>v s. s\<lparr>UploadID := v\<rparr>) dec_string)]"

definition storage_wf :: "StreamStorage \<Rightarrow> bool" where
  "storage_wf s \<longleftrightarrow> utf8_valid (Provider s) \<and> utf8_valid (Bucket s) \<and> utf8_valid (Key s) \<and>
     utf8_valid (Filename s) \<and> utf8_valid (UploadID s)"

definition enc_task :: "StreamProcessingTask \<Rightarrow> json" where
  "enc_task t = JObj
     [(''task_type'', enc_string (TaskType t)), (''progress'', JNum (Progress t)),
      (''steps'', enc_slice enc_string (Steps t)), (''error'', enc_pointer enc_string (TaskError t)),
      (''task_id'', enc_pointer enc_string (TaskID t))]"

definition dec_task :: "StreamProcessingTask decoder" where
  "dec_task = dec_struct
     [(''task_type'', dec_field TaskType (\<lambda>v t. t\<lparr>TaskType := v\<rparr>) dec_string),
      (''progress'', dec_field Progress (\<lambda>v t. t\<lparr>Progress := v\<rparr>) dec_int),
      (''steps'', dec_field Steps (\<lambda>v t. t\<lparr>Steps := v\<rparr>) (dec_slice [] dec_string)),
      (''error'', dec_field TaskError (\<lambda>v t. t\<lparr>TaskError := v\<rparr>) (dec_pointer [] dec_string)),
      (''task_id'', dec_field TaskID (\<lambda>v t. t\<lparr>TaskID := v\<rparr>) (dec_pointer [] dec_string))]"

definition task_wf :: "StreamProcessingTask \<Rightarrow> bool" where
  "task_wf t \<longleftrightarrow> utf8_valid (TaskType t) \<and> int64_ok (Progress t) \<and>
     pred_option (list_all utf8_valid) (Steps t) \<and>
     pred_option utf8_valid (TaskError t) \<and> pred_option utf8_valid (TaskID t)"

definition enc_tasks :: "StreamProcessingTask list \<Rightarrow> json" where
  "enc_tasks ts = JArr (map enc_task ts)"

text \<open>\<open>[]StreamProcessingTask\<close>: a nil slice and an empty one are not told apart by the callers.\<close>

definition dec_tasks :: "StreamProcessingTask list decoder" where
  "dec_tasks j v =
    (case dec_slice zero_task dec_task j (Some v) of (p, e) \<Rightarrow> ((case p of None \<Rightarrow> [] | Some ts \<Rightarrow> ts), e))"

subsection \<open>The codecs keep every well-formed value\<close>

lemmas [codec_defs] = enc_metadata_def dec_metadata_def enc_storage_def dec_storage_def
  enc_task_def dec_task_def dec_struct_def dec_field_def field_for_def omit_if_def
  enc_string_def enc_pointer_def enc_slice_def dec_string_def dec_int_def dec_pointer_def

interpretation storage_codec: json_codec enc_storage dec_storage zero_storage storage_wf
proof unfold_locales
  fix x :: StreamStorage
  assume "storage_wf x"
  then show "dec_storage (enc_storage x) zero_storage = (x, False)"
    by (cases x) (simp add: storage_wf_def codec_defs zero_storage_def)
qed

interpretation metadata_codec: json_codec enc_metadata dec_metadata zero_metadata metadata_wf
proof unfold_locales
  fix x :: StreamMetadata
  assume "metadata_wf x"
  then show "dec_metadata (enc_metadata x) zero_metadata = (x, False)"
    by (cases x) (auto simp: metadata_wf_def codec_defs dec_time_def zero_metadata_def split: option.splits)
qed

interpretation task_codec: json_codec enc_task dec_task zero_task task_wf
proof unfold_locales
  fix x :: StreamProcessingTask
  assume "task_wf x"
  then show "dec_task (enc_task x) zero_task = (x, False)"
    by (cases x)
       (auto simp: task_wf_def codec_defs dec_slice_def zero_task_def list_all_iff list_ex_iff
             intro!: map_idI split: option.splits)
qed

lemma dec_tasks_enc: "list_all task_wf ts \<Longrightarrow> dec_tasks (enc_tasks ts) v = (ts, False)"
  using task_codec.slice_dec_enc [of ts "Some v"]
  by (simp add: dec_tasks_def enc_tasks_def enc_slice_def list_all_iff)

interpretation storage_column: json_column enc_storage dec_storage zero_storage storage_wf
    Storage "\<lambda>r (s :: Stream). s\<lparr>Storage := r\<rparr>"
  by unfold_locales simp_all

interpretation metadata_column: json_column enc_metadata dec_metadata zero_metadata metadata_wf
    Metadata "\<lambda>r (s :: Stream). s\<lparr>Metadata := r\<rparr>"
  by unfold_locales simp_all

interpretation tasks_column: json_column enc_tasks dec_tasks "[]" "list_all task_wf"
    Processing "\<lambda>r (s :: Stream). s\<lparr>Processing := r\<rparr>"
  by unfold_locales (simp_all add: dec_tasks_enc)

section \<open>Methods of Stream\<close>

definition IsDraft :: "Stream \<Rightarrow> bool" where "IsDraft s \<longleftrightarrow> Status s = StatusDraft"
definition IsProcessing :: "Stream \<Rightarrow> bool" where "IsProcessing s \<longleftrightarrow> Status s = StatusProcessing"
definition IsPublished :: "Stream \<Rightarrow> bool" where "IsPublished s \<longleftrightarrow> Status s = StatusPublished"
definition CanEdit :: "Stream \<Rightarrow> bool" where
  "CanEdit s \<longleftrightarrow> Status s = StatusDraft \<or> Status s = StatusReady"
definition CanPublish :: "Stream \<Rightarrow> bool" where "CanPublish s \<longleftrightarrow> Status s = StatusReady"
definition IsPublic :: "Stream \<Rightarrow> bool" where "IsPublic s \<longleftrightarrow> Visibility s = VisibilityPublic"
definition IsOwnedBy :: "Stream \<Rightarrow> uuid \<Rightarrow> bool" where "IsOwnedBy s u \<longleftrightarrow> OwnerID s = u"

text \<open>A method that can fail returns the receiver after the call with the error.\<close>

definition Publish :: "time \<Rightarrow> Stream \<Rightarrow> Stream \<times> goerr option" where
  "Publish now s =
    (if \<not> CanPublish s then
       (s, Some (Errorf (''cannot publish stream in status: '' @ status_text (Status s))))
     else (s\<lparr>Status := StatusPublished, PublishedAt := Some now\<rparr>, None))"

definition Unpublish :: "Stream \<Rightarrow> Stream" where
  "Unpublish s = s\<lparr>Status := StatusReady, PublishedAt := None\<rparr>"

text \<open>Marshalling these structures never fails, so the setters are total.\<close>

definition SetStorageInfo :: "StreamStorage \<Rightarrow> Stream \<Rightarrow> Stream" where
  "SetStorageInfo info s = s\<lparr>Storage := Marshal enc_storage info\<rparr>"

definition GetStorageInfo :: "Stream \<Rightarrow> goerr + StreamStorage" where
  "GetStorageInfo s =
    (case Unmarshal dec_storage (Storage s) zero_storage of
       (info, Some err) \<Rightarrow> Inl err | (info, None) \<Rightarrow> Inr info)"

definition GetMetadata :: "Stream \<Rightarrow> goerr + StreamMetadata" where
  "GetMetadata s =
    (case Unmarshal dec_metadata (Metadata s) zero_metadata of
       (m, Some err) \<Rightarrow> Inl err | (m, None) \<Rightarrow> Inr m)"

definition SetMetadata :: "StreamMetadata \<Rightarrow> Stream \<Rightarrow> Stream" where
  "SetMetadata m s = s\<lparr>Metadata := Marshal enc_metadata m\<rparr>"

definition ProcessingTasks :: "Stream \<Rightarrow> goerr + StreamProcessingTask list" where
  "ProcessingTasks s =
    (if raw_empty (Processing s) \<or> Processing s = RDoc JNull then Inr []
     else (case Unmarshal dec_tasks (Processing s) [] of
             (ts, Some err) \<Rightarrow> Inl err | (ts, None) \<Rightarrow> Inr ts))"

text \<open>The loop of \<open>SetTaskProgress\<close>: the first entry of the type is overwritten, else one is appended.\<close>

fun upsert_task :: "StreamProcessingTask \<Rightarrow> StreamProcessingTask list \<Rightarrow> StreamProcessingTask list" where
  "upsert_task t [] = [t]"
| "upsert_task t (x # xs) =
    (if TaskType x = TaskType t
     then x\<lparr>Progress := Progress t, Steps := Steps t, TaskError := TaskError t, TaskID := TaskID t\<rparr> # xs
     else x # upsert_task t xs)"

definition SetInitialTasks :: "StreamProcessingTask list \<Rightarrow> Stream \<Rightarrow> Stream" where
  "SetInitialTasks ts s = s\<lparr>Processing := Marshal enc_tasks ts\<rparr>"

definition SetTaskProgress ::
  "string \<Rightarrow> int \<Rightarrow> string list option \<Rightarrow> string option \<Rightarrow> string option \<Rightarrow> Stream \<Rightarrow> goerr + Stream" where
  "SetTaskProgress taskType progress steps errMsg taskID s =
    (case ProcessingTasks s of
       Inl err \<Rightarrow> Inl err
     | Inr tasks \<Rightarrow>
         Inr (s\<lparr>Processing := Marshal enc_tasks (upsert_task
           \<lparr>TaskType = taskType, Progress = progress, Steps = steps, TaskError = errMsg, TaskID = taskID\<rparr>
           tasks)\<rparr>))"

definition UpdateProcessing ::
  "int \<Rightarrow> string list option \<Rightarrow> string option \<Rightarrow> string option \<Rightarrow> Stream \<Rightarrow> goerr + Stream" where
  "UpdateProcessing process steps errMsg taskID s =
     SetTaskProgress TaskTypeTranscode process steps errMsg taskID s"

section \<open>Validation\<close>

definition validateStatus :: "Stream \<Rightarrow> goerr option" where
  "validateStatus s =
    (case Status s of
       StatusDraft \<Rightarrow> None | StatusProcessing \<Rightarrow> None | StatusPublished \<Rightarrow> None
     | StatusReady \<Rightarrow> None | StatusError \<Rightarrow> None | _ \<Rightarrow> Some (Sentinel ErrInvalidStatus))"

definition validateTitle :: "Stream \<Rightarrow> goerr option" where
  "validateTitle s =
    (if Title s = [] then Some (Sentinel ErrStreamTitleRequired)
     else if length (Title s) > 255 then Some (Sentinel ErrStreamTitleIsTooLong) else None)"

definition validateVisibility :: "Stream \<Rightarrow> goerr option" where
  "validateVisibility s =
    (case Visibility s of
       VisibilityPrivate \<Rightarrow> None | VisibilityPublic \<Rightarrow> None | VisibilityUnlisted \<Rightarrow> None
     | _ \<Rightarrow> Some (Sentinel ErrInvalidVisibility))"

definition validateOwnerID :: "Stream \<Rightarrow> goerr option" where
  "validateOwnerID s = (if OwnerID s = uuid_Nil then Some (Sentinel ErrOwnerIDRequired) else None)"

definition Validate :: "Stream \<Rightarrow> goerr option" where
  "Validate s =
    (case validateTitle s of Some e \<Rightarrow> Some e | None \<Rightarrow>
     (case validateVisibility s of Some e \<Rightarrow> Some e | None \<Rightarrow>
      (case validateStatus s of Some e \<Rightarrow> Some e | None \<Rightarrow> validateOwnerID s)))"

section \<open>Exports\<close>

text \<open>
  The key of the muxed file. \<open>uuid.UUID.String\<close> is the library's; its text is an argument.
\<close>

definition ExportObjectKey :: "(uuid \<Rightarrow> string) \<Rightarrow> uuid \<Rightarrow> string" where
  "ExportObjectKey uuid_String streamID = ''processed/'' @ uuid_String streamID @ ''/video.mp4''"

definition ObjectKey :: "(uuid \<Rightarrow> string) \<Rightarrow> StreamExport \<Rightarrow> string" where
  "ObjectKey uuid_String e = ExportObjectKey uuid_String (StreamID e)"

section \<open>The task array as a board of reports\<close>

text \<open>
  What the operations that report progress rely on: writing a report makes it the current one of
  its key, leaves every other key alone, and never duplicates a key.
\<close>

locale report_board =
  fixes put :: "'v \<Rightarrow> 'b \<Rightarrow> 'b" and key :: "'v \<Rightarrow> 'k"
    and look :: "'b \<Rightarrow> 'k \<Rightarrow> 'v option" and keys :: "'b \<Rightarrow> 'k list"
  assumes look_put: "look (put v b) = (look b)(key v \<mapsto> v)"
    and keys_put: "keys (put v b) = (if key v \<in> set (keys b) then keys b else keys b @ [key v])"
    and look_key: "look b k = Some v \<Longrightarrow> key v = k"
    and keys_look: "k \<in> set (keys b) \<longleftrightarrow> look b k \<noteq> None"
begin

lemma distinct_put: "distinct (keys b) \<Longrightarrow> distinct (keys (put v b))"
  by (simp add: keys_put)

lemma put_twice: "key v = key v' \<Longrightarrow> look (put v (put v' b)) = look (put v b)"
  by (simp add: look_put)

lemma put_other: "key v \<noteq> k \<Longrightarrow> look (put v b) k = look b k"
  by (simp add: look_put)

text \<open>After any sequence of reports the current one of a key is the last that was made for it.\<close>

lemma look_fold_put:
  "look (fold put vs b) k =
     (case find (\<lambda>v. key v = k) (rev vs) of Some v \<Rightarrow> Some v | None \<Rightarrow> look b k)"
proof (induction vs rule: rev_induct)
  case (snoc v vs)
  then show ?case by (simp add: look_put)
qed simp

lemma distinct_fold_put: "distinct (keys b) \<Longrightarrow> distinct (keys (fold put vs b))"
  by (induction vs arbitrary: b) (simp_all add: distinct_put)

end

definition look_task :: "StreamProcessingTask list \<Rightarrow> string \<Rightarrow> StreamProcessingTask option" where
  "look_task ts k = find (\<lambda>t. TaskType t = k) ts"

lemma look_task_simps [simp]:
  "look_task [] k = None"
  "look_task (t # ts) k = (if TaskType t = k then Some t else look_task ts k)"
  by (simp_all add: look_task_def)

lemma look_upsert_task: "look_task (upsert_task t ts) = (look_task ts)(TaskType t \<mapsto> t)"
  by (induction ts) (auto simp: fun_eq_iff)

lemma keys_upsert_task:
  "map TaskType (upsert_task t ts) =
     (if TaskType t \<in> set (map TaskType ts) then map TaskType ts else map TaskType ts @ [TaskType t])"
  by (induction ts) auto

interpretation board: report_board upsert_task TaskType look_task "map TaskType"
proof unfold_locales
  fix ts :: "StreamProcessingTask list" and k
  show "k \<in> set (map TaskType ts) \<longleftrightarrow> look_task ts k \<noteq> None"
    by (induction ts) auto
next
  fix ts k v
  show "look_task ts k = Some v \<Longrightarrow> TaskType v = k"
    by (auto simp: look_task_def dest: find_Some_iff_mem)
qed (simp_all only: look_upsert_task keys_upsert_task)

lemma length_upsert_task:
  "length (upsert_task t ts) = (if look_task ts (TaskType t) = None then Suc (length ts) else length ts)"
  by (induction ts) auto

lemma upsert_task_wf: "list_all task_wf ts \<Longrightarrow> task_wf t \<Longrightarrow> list_all task_wf (upsert_task t ts)"
  by (induction ts) (auto simp: task_wf_def)

lemma ProcessingTasks_SetInitialTasks:
  "list_all task_wf ts \<Longrightarrow> ProcessingTasks (SetInitialTasks ts s) = Inr ts"
  using tasks_column.read_written [of ts s]
  by (simp add: ProcessingTasks_def SetInitialTasks_def Marshal_def raw_empty_def enc_tasks_def)

lemma GetMetadata_SetMetadata: "metadata_wf m \<Longrightarrow> GetMetadata (SetMetadata m s) = Inr m"
  using metadata_column.read_written [of m s] by (simp add: GetMetadata_def SetMetadata_def)

lemma GetStorageInfo_SetStorageInfo: "storage_wf i \<Longrightarrow> GetStorageInfo (SetStorageInfo i s) = Inr i"
  using storage_column.read_written [of i s] by (simp add: GetStorageInfo_def SetStorageInfo_def)

lemma SetTaskProgress_eq:
  "ProcessingTasks s = Inr ts \<Longrightarrow>
   SetTaskProgress k p st e i s = Inr (SetInitialTasks (upsert_task
      \<lparr>TaskType = k, Progress = p, Steps = st, TaskError = e, TaskID = i\<rparr> ts) s)"
  by (simp add: SetTaskProgress_def SetInitialTasks_def)

end
