(* ===== verification/GoTime.thy ===== *)
theory GoTime
  imports GoStrings
begin

text \<open>
  The text \<open>time.Time.MarshalJSON\<close> gives an instant in UTC (\<open>time.RFC3339Nano\<close>), for the activity
  events: a civil date computed from the day number, and a fraction without trailing zeros.
\<close>

definition civil_from_days :: "int \<Rightarrow> int \<times> int \<times> int" where
  "civil_from_days d =
    (let z = d + 719468;
         era = z div 146097;
         doe = z mod 146097;
         yoe = (doe - doe div 1460 + doe div 36524 - doe div 146096) div 365;
         doy = doe - (365 * yoe + yoe div 4 - yoe div 100);
         mp = (5 * doy + 2) div 153;
         day = doy - (153 * mp + 2) div 5 + 1;
         month = (if mp < 10 then mp + 3 else mp - 9);
         year = yoe + era * 400 + (if month \<le> 2 then 1 else 0)
     in (year, month, day))"

definition pad_left :: "nat \<Rightarrow> string \<Rightarrow> string" where
  "pad_left n s = replicate (n - length s) CHR ''0'' @ s"

definition fraction_text :: "int \<Rightarrow> string" where
  "fraction_text ns =
    (if ns = 0 then []
     else CHR ''.'' # rev (dropWhile (\<lambda>c. c = CHR ''0'') (rev (pad_left 9 (Itoa ns)))))"

definition Format_RFC3339Nano :: "int \<Rightarrow> string" where
  "Format_RFC3339Nano t =
    (let secs = t div 1000000000;
         (y, m, d) = civil_from_days (secs div 86400);
         sod = secs mod 86400
     in pad_left 4 (Itoa y) @ ''-'' @ pad_left 2 (Itoa m) @ ''-'' @ pad_left 2 (Itoa d) @ ''T'' @
        pad_left 2 (Itoa (sod div 3600)) @ '':'' @ pad_left 2 (Itoa (sod div 60 mod 60)) @ '':'' @
        pad_left 2 (Itoa (sod mod 60)) @ fraction_text (t mod 1000000000) @ ''Z'')"

end
