(* ===== verification/Effects.thy ===== *)
theory Effects
  imports Models GoTime
begin

text \<open>
  The outside world. Everything the service reaches through a third-party package (gorm,
  minio-go, asynq, gorilla/websocket, google/uuid, the identity client) is a function of the
  environment record \<open>env\<close>, a parameter of every operation. Such a function gets the whole history
  of calls made so far, so an environment may keep any state, fail at any call and let other
  processes interfere between two calls. Each call is appended to the history with its answer: the
  history is the trace the theorems speak about.

  The state of a computation is the history and the connection table of the websocket hub.
\<close>

type_synonym conn = nat

section \<open>Requests to the third-party packages\<close>

text \<open>The conditions and modifiers a gorm query of \<open>List\<close> is built from.\<close>

datatype cond =
    WhereOwner uuid | WhereStatus StreamStatus | WhereVisibility StreamVisibility
  | WhereFaces bool | WhereSearch string

record list_query =
  Wheres :: "cond list"
  QLimit :: "int option"
  QOffset :: "int option"
  QOrder :: "string option"

text \<open>The four asynq clients, by the Redis database each is connected to.\<close>

datatype queue_client = TaskClient | EventsClient | ExportClient | CascadeClient

record asynq_task =
  TaskName :: string
  Payload :: json
  OptTaskID :: "string option"
  OptQueue :: "string option"
  OptMaxRetry :: int
  OptTimeout :: "int option"

record task_info =
  InfoID :: string
  InfoQueue :: string

text \<open>An object handle of minio-go: what \<open>Stat\<close> says, what reading returns and how the reading ends.\<close>

record s3_object =
  ObjStat :: "goerr + int"
  ObjData :: string
  ObjReadErr :: "goerr option"

section \<open>History\<close>

datatype event =
    EvNow time
  | EvUuid uuid
  | EvDbCreate Stream "goerr option"
  | EvDbFirst uuid "goerr + Stream"
  | EvDbFind "uuid list" "goerr + Stream list"
  | EvDbSave Stream "goerr option"
  | EvDbDelete uuid "goerr option"
  | EvDbCount "cond list" "goerr + int"
  | EvDbQuery list_query "goerr + Stream list"
  | EvExCreate StreamExport "goerr option"
  | EvExFirst uuid "goerr + StreamExport"
  | EvExSave StreamExport "goerr option"
  | EvExReset uuid "goerr + int"
  | EvBucketExists string "goerr + bool"
  | EvMakeBucket string "goerr option"
  | EvPutObject string string string int "goerr option"
  | EvGetObject string string "goerr + s3_object"
  | EvStatObject string string "goerr option"
  | EvRemoveObject string string "goerr option"
  | EvRemoveObjects string string "(string \<times> goerr option) list"
  | EvPresign string string "goerr + string"
  | EvNewMultipart string string "goerr + string"
  | EvPutPart string string string int string int "goerr + string"
  | EvCompleteMultipart string string string "MultipartPart list" "goerr option"
  | EvAbortMultipart string string string "goerr option"
  | EvEnqueue queue_client asynq_task "goerr + task_info"
  | EvCancelProcessing string "goerr option"
  | EvDeleteTask string string "goerr option"
  | EvAddPolicy string string string "bool \<times> goerr option"
  | EvRemovePolicy string string string "bool \<times> goerr option"
  | EvWriteJSON conn json "goerr option"
  | EvMetric string string int

type_synonym history = "event list"

record world =
  hist :: history
  clients :: "uuid \<rightharpoonup> conn list"

type_synonym 'a io = "(world, 'a) state"

section \<open>The environment\<close>

record env =
  time_Now :: "history \<Rightarrow> time"
  uuid_New :: "history \<Rightarrow> uuid"
  uuid_String :: "uuid \<Rightarrow> string"
  uuid_Parse :: "string \<Rightarrow> goerr + uuid"
  db_Create :: "history \<Rightarrow> Stream \<Rightarrow> goerr option"
  db_First :: "history \<Rightarrow> uuid \<Rightarrow> goerr + Stream"
  db_Find :: "history \<Rightarrow> uuid list \<Rightarrow> goerr + Stream list"
  db_Save :: "history \<Rightarrow> Stream \<Rightarrow> goerr option"
  db_Delete :: "history \<Rightarrow> uuid \<Rightarrow> goerr option"
  db_Count :: "history \<Rightarrow> cond list \<Rightarrow> goerr + int"
  db_Query :: "history \<Rightarrow> list_query \<Rightarrow> goerr + Stream list"
  ex_Create :: "history \<Rightarrow> StreamExport \<Rightarrow> goerr option"
  ex_First :: "history \<Rightarrow> uuid \<Rightarrow> goerr + StreamExport"
  ex_Save :: "history \<Rightarrow> StreamExport \<Rightarrow> goerr option"
  ex_Reset :: "history \<Rightarrow> uuid \<Rightarrow> goerr + int"
  s3_BucketExists :: "history \<Rightarrow> string \<Rightarrow> goerr + bool"
  s3_MakeBucket :: "history \<Rightarrow> string \<Rightarrow> goerr option"
  s3_PutObject :: "history \<Rightarrow> string \<Rightarrow> string \<Rightarrow> string \<Rightarrow> int \<Rightarrow> goerr option"
  s3_GetObject :: "history \<Rightarrow> string \<Rightarrow> string \<Rightarrow> goerr + s3_object"
  s3_StatObject :: "history \<Rightarrow> string \<Rightarrow> string \<Rightarrow> goerr option"
  s3_RemoveObject :: "history \<Rightarrow> string \<Rightarrow> string \<Rightarrow> goerr option"
  s3_RemoveObjects :: "history \<Rightarrow> string \<Rightarrow> string \<Rightarrow> (string \<times> goerr option) list"
  s3_Presign :: "history \<Rightarrow> string \<Rightarrow> string \<Rightarrow> goerr + string"
  s3_NewMultipart :: "history \<Rightarrow> string \<Rightarrow> string \<Rightarrow> goerr + string"
  s3_PutPart :: "history \<Rightarrow> string \<Rightarrow> string \<Rightarrow> string \<Rightarrow> int \<Rightarrow> string \<Rightarrow> int \<Rightarrow> goerr + string"
  s3_CompleteMultipart :: "history \<Rightarrow> string \<Rightarrow> string \<Rightarrow> string \<Rightarrow> MultipartPart list \<Rightarrow> goerr option"
  s3_AbortMultipart :: "history \<Rightarrow> string \<Rightarrow> string \<Rightarrow> string \<Rightarrow> goerr option"
  aq_Enqueue :: "history \<Rightarrow> queue_client \<Rightarrow> asynq_task \<Rightarrow> goerr + task_info"
  aq_CancelProcessing :: "history \<Rightarrow> string \<Rightarrow> goerr option"
  aq_DeleteTask :: "history \<Rightarrow> string \<Rightarrow> string \<Rightarrow> goerr option"
  perm_AddPolicy :: "history \<Rightarrow> string \<Rightarrow> string \<Rightarrow> string \<Rightarrow> bool \<times> goerr option"
  perm_RemovePolicy :: "history \<Rightarrow> string \<Rightarrow> string \<Rightarrow> string \<Rightarrow> bool \<times> goerr option"
  ws_WriteJSON :: "history \<Rightarrow> conn \<Rightarrow> json \<Rightarrow> goerr option"

section \<open>Calls\<close>

text \<open>One call: the answer is computed from the history and appended to it.\<close>

definition ask :: "(history \<Rightarrow> 'a) \<Rightarrow> ('a \<Rightarrow> event) \<Rightarrow> 'a io" where
  "ask f ev = State (\<lambda>w. let a = f (hist w) in (a, w\<lparr>hist := hist w @ [ev a]\<rparr>))"

definition get_clients :: "(uuid \<rightharpoonup> conn list) io" where
  "get_clients = State (\<lambda>w. (clients w, w))"

definition set_clients :: "(uuid \<rightharpoonup> conn list) \<Rightarrow> unit io" where
  "set_clients m = State (\<lambda>w. ((), w\<lparr>clients := m\<rparr>))"

definition metric :: "string \<Rightarrow> string \<Rightarrow> int \<Rightarrow> unit io" where
  "metric counter label n = ask (\<lambda>_. ()) (\<lambda>_. EvMetric counter label n)"

lemma wpre_ask [wp]:
  "wpre (ask f ev) Q w = Q (f (hist w)) (w\<lparr>hist := hist w @ [ev (f (hist w))]\<rparr>)"
  by (simp add: wpre_def ask_def Let_def)

lemma wpre_get_clients [wp]: "wpre get_clients Q w = Q (clients w) w"
  by (simp add: wpre_def get_clients_def)

lemma wpre_set_clients [wp]: "wpre (set_clients m) Q w = Q () (w\<lparr>clients := m\<rparr>)"
  by (simp add: wpre_def set_clients_def)

lemma run_ask [simp]:
  "run_state (ask f ev) w = (f (hist w), w\<lparr>hist := hist w @ [ev (f (hist w))]\<rparr>)"
  by (simp add: ask_def Let_def)

lemma run_get_clients [simp]: "run_state get_clients w = (clients w, w)"
  by (simp add: get_clients_def)

lemma run_set_clients [simp]: "run_state (set_clients m) w = ((), w\<lparr>clients := m\<rparr>)"
  by (simp add: set_clients_def)

section \<open>Traces\<close>

text \<open>The result and the world after a computation.\<close>

definition result_of :: "'a io \<Rightarrow> world \<Rightarrow> 'a" where
  "result_of m w = fst (run_state m w)"

definition after :: "'a io \<Rightarrow> world \<Rightarrow> world" where
  "after m w = snd (run_state m w)"

lemma run_result: "run_state m w = (result_of m w, after m w)"
  by (simp add: result_of_def after_def)

lemma wpre_result: "wpre m Q w \<Longrightarrow> Q (result_of m w) (after m w)"
  by (rule wpreD [OF _ run_result])

lemma run_after: "run_state m w = (fst (run_state m w), after m w)"
  by (simp add: after_def)

text \<open>The events a computation added, between the world before and the world after.\<close>

definition trace :: "world \<Rightarrow> world \<Rightarrow> event list" where
  "trace w w' = drop (length (hist w)) (hist w')"

lemma trace_append [simp]: "hist w' = hist w @ evs \<Longrightarrow> trace w w' = evs"
  by (simp add: trace_def)

text \<open>
  \<open>emits A w m\<close>: from \<open>w\<close>, the computation only appends to the history, and only events that
  satisfy \<open>A\<close>. The rules below are compositional, so a set of calls is bounded operation by operation.
\<close>

definition emits :: "(event \<Rightarrow> bool) \<Rightarrow> 'a io \<Rightarrow> bool" where
  "emits A m \<longleftrightarrow> (\<forall>w. wpre m (\<lambda>_ w'. \<exists>evs. hist w' = hist w @ evs \<and> list_all A evs) w)"

named_theorems emits "which events a computation can add"

lemma emits_return [emits, intro!]: "emits A (ret a)"
  by (simp add: emits_def wp)

lemma emits_bind [emits]:
  assumes "emits A m" and "\<And>a. emits A (f a)"
  shows "emits A (State_Monad.bind m f)"
  unfolding emits_def
proof (rule allI)
  fix w
  have "wpre m (\<lambda>_ w'. \<exists>evs. hist w' = hist w @ evs \<and> list_all A evs) w"
    using assms(1) by (simp add: emits_def)
  then have "wpre m (\<lambda>a. wpre (f a) (\<lambda>_ w'. \<exists>evs. hist w' = hist w @ evs \<and> list_all A evs)) w"
  proof (rule wpre_mono)
    fix a and w1 :: world
    assume "\<exists>evs. hist w1 = hist w @ evs \<and> list_all A evs"
    then obtain evs where "hist w1 = hist w @ evs" "list_all A evs" by blast
    moreover have "wpre (f a) (\<lambda>_ w'. \<exists>evs. hist w' = hist w1 @ evs \<and> list_all A evs) w1"
      using assms(2) [of a] by (simp add: emits_def)
    ultimately show "wpre (f a) (\<lambda>_ w'. \<exists>evs. hist w' = hist w @ evs \<and> list_all A evs) w1"
      by (elim wpre_mono) auto
  qed
  then show "wpre (State_Monad.bind m f) (\<lambda>_ w'. \<exists>evs. hist w' = hist w @ evs \<and> list_all A evs) w"
    by (simp add: wp)
qed

lemma emits_ask [emits]: "(\<And>a. A (ev a)) \<Longrightarrow> emits A (ask f ev)"
  by (simp add: emits_def wp)

lemma emits_metric [emits]: "A (EvMetric c l n) \<Longrightarrow> emits A (metric c l n)"
  by (simp add: metric_def emits)

lemma emits_get_clients [emits]: "emits A get_clients"
  by (simp add: emits_def wp)

lemma emits_set_clients [emits]: "emits A (set_clients m)"
  by (simp add: emits_def wp)

lemma emits_if [emits]: "(b \<Longrightarrow> emits A m) \<Longrightarrow> (\<not> b \<Longrightarrow> emits A n) \<Longrightarrow> emits A (if b then m else n)"
  by simp

lemma emits_sum [emits]:
  "(\<And>e. r = Inl e \<Longrightarrow> emits A (f e)) \<Longrightarrow> (\<And>a. r = Inr a \<Longrightarrow> emits A (g a)) \<Longrightarrow>
   emits A (case r of Inl e \<Rightarrow> f e | Inr a \<Rightarrow> g a)"
  by (cases r) simp_all

lemma emits_option [emits]:
  "(r = None \<Longrightarrow> emits A m) \<Longrightarrow> (\<And>a. r = Some a \<Longrightarrow> emits A (g a)) \<Longrightarrow>
   emits A (case r of None \<Rightarrow> m | Some a \<Rightarrow> g a)"
  by (cases r) simp_all

lemma emits_prod [emits]: "(\<And>a b. emits A (f a b)) \<Longrightarrow> emits A (case p of (a, b) \<Rightarrow> f a b)"
  by (cases p) simp

lemma emits_let [emits]: "(\<And>x. emits A (f x)) \<Longrightarrow> emits A (let x = a in f x)"
  by simp

lemma emits_for_each [emits]: "(\<And>x. x \<in> set xs \<Longrightarrow> emits A (body x)) \<Longrightarrow> emits A (for_each xs body)"
  by (induction xs) (auto intro!: emits_bind)

lemma emits_mono: "emits A m \<Longrightarrow> (\<And>e. A e \<Longrightarrow> B e) \<Longrightarrow> emits B m"
  unfolding emits_def by (blast intro: wpre_mono list.pred_mono_strong)

lemma emitsD:
  assumes "emits A m" and "run_state m w = (a, w')"
  obtains evs where "hist w' = hist w @ evs" and "list_all A evs"
proof -
  have "wpre m (\<lambda>_ w'. \<exists>evs. hist w' = hist w @ evs \<and> list_all A evs) w"
    using assms(1) by (simp add: emits_def)
  from wpreD [OF this assms(2)] show thesis using that by blast
qed

lemma wpre_tail:
  assumes "emits A m" and "\<And>a w' evs. hist w' = hist w @ evs \<Longrightarrow> list_all A evs \<Longrightarrow> Q a w'"
  shows "wpre m Q w"
proof (rule wpreI)
  fix a w'
  assume "run_state m w = (a, w')"
  then obtain evs where "hist w' = hist w @ evs" "list_all A evs" using emitsD [OF assms(1)] by blast
  then show "Q a w'" by (rule assms(2))
qed

lemma emits_trace: "emits A m \<Longrightarrow> run_state m w = (a, w') \<Longrightarrow> list_all A (trace w w')"
  by (metis emitsD trace_append)

text \<open>The part of a trace that matters for a property.\<close>

fun is_db_write :: "event \<Rightarrow> bool" where
  "is_db_write (EvDbCreate s r) = True"
| "is_db_write (EvDbSave s r) = True"
| "is_db_write (EvDbDelete i r) = True"
| "is_db_write (EvExCreate x r) = True"
| "is_db_write (EvExSave x r) = True"
| "is_db_write (EvExReset i r) = True"
| "is_db_write _ = False"

fun is_storage_write :: "event \<Rightarrow> bool" where
  "is_storage_write (EvMakeBucket b r) = True"
| "is_storage_write (EvPutObject b k d n r) = True"
| "is_storage_write (EvRemoveObject b k r) = True"
| "is_storage_write (EvRemoveObjects b p r) = True"
| "is_storage_write (EvNewMultipart b k r) = True"
| "is_storage_write (EvPutPart b k u n d m r) = True"
| "is_storage_write (EvCompleteMultipart b k u ps r) = True"
| "is_storage_write (EvAbortMultipart b k u r) = True"
| "is_storage_write _ = False"

fun is_queue_write :: "event \<Rightarrow> bool" where
  "is_queue_write (EvEnqueue c t r) = True"
| "is_queue_write (EvCancelProcessing i r) = True"
| "is_queue_write (EvDeleteTask q i r) = True"
| "is_queue_write _ = False"

fun is_notification :: "event \<Rightarrow> bool" where
  "is_notification (EvWriteJSON c m r) = True"
| "is_notification _ = False"

fun is_policy_write :: "event \<Rightarrow> bool" where
  "is_policy_write (EvAddPolicy s p a r) = True"
| "is_policy_write (EvRemovePolicy s p a r) = True"
| "is_policy_write _ = False"

text \<open>An event that changes the state of some other system.\<close>

definition is_effect :: "event \<Rightarrow> bool" where
  "is_effect e \<longleftrightarrow> is_db_write e \<or> is_storage_write e \<or> is_queue_write e \<or> is_notification e \<or>
     is_policy_write e"

end
