(* ===== verification/StorageMinio.thy ===== *)
theory StorageMinio
  imports Effects
begin

text \<open>
  \<open>internal/storage/minio_storage.go\<close>: the \<open>FileStorage\<close> interface over a MinIO client. The receiver
  is its bucket. A function that returns only an error gives \<open>goerr option\<close> (\<open>None\<close> is nil), one
  that returns a value and an error gives \<open>goerr + value\<close>.
\<close>

definition mapMinIOError :: "goerr \<Rightarrow> goerr" where
  "mapMinIOError err =
    (case err of
       Foreign (MinioErrorResponse code msg) _ \<Rightarrow>
         (if code = ''NoSuchKey'' then Sentinel StorageErrNotFound
          else if code = ''NoSuchBucket'' then Sentinel StorageErrBucketNotExist
          else if code = ''AccessDenied'' then Sentinel StorageErrPermissionDenied
          else Wrapf [] (Sentinel StorageErrStorage) ('': '' @ msg))
     | _ \<Rightarrow> Wrapf [] (Sentinel StorageErrStorage) ('': '' @ Error_text err))"

definition storage_BucketExists :: "env \<Rightarrow> string \<Rightarrow> (goerr + bool) io" where
  "storage_BucketExists E bucket = do {
     r \<leftarrow> ask (\<lambda>h. s3_BucketExists E h bucket) (EvBucketExists bucket);
     case r of Inl err \<Rightarrow> ret (Inl (mapMinIOError err)) | Inr exists \<Rightarrow> ret (Inr exists)
   }"

definition storage_CreateBucket :: "env \<Rightarrow> string \<Rightarrow> goerr option io" where
  "storage_CreateBucket E bucket = do {
     r \<leftarrow> storage_BucketExists E bucket;
     case r of
       Inl err \<Rightarrow> ret (Some err)
     | Inr exists \<Rightarrow>
         if exists then ret (Some (Sentinel StorageErrAlreadyExists))
         else do {
           r \<leftarrow> ask (\<lambda>h. s3_MakeBucket E h bucket) (EvMakeBucket bucket);
           case r of Some err \<Rightarrow> ret (Some (mapMinIOError err)) | None \<Rightarrow> ret None
         }
   }"

definition storage_Upload :: "env \<Rightarrow> string \<Rightarrow> string \<Rightarrow> string \<Rightarrow> int \<Rightarrow> goerr option io" where
  "storage_Upload E bucket path data sz = do {
     r \<leftarrow> storage_BucketExists E bucket;
     case r of
       Inl err \<Rightarrow> ret (Some (Wrapf ''failed to check bucket: '' err []))
     | Inr exists \<Rightarrow> do {
         c \<leftarrow> (if \<not> exists then storage_CreateBucket E bucket else ret None);
         case c of
           Some err \<Rightarrow> ret (Some (Wrapf ''failed to create bucket: '' err []))
         | None \<Rightarrow> do {
             r \<leftarrow> ask (\<lambda>h. s3_PutObject E h bucket path data sz) (EvPutObject bucket path data sz);
             case r of Some err \<Rightarrow> ret (Some (mapMinIOError err)) | None \<Rightarrow> ret None
           }
       }
   }"

definition storage_Download :: "env \<Rightarrow> string \<Rightarrow> string \<Rightarrow> (goerr + s3_object \<times> int) io" where
  "storage_Download E bucket path = do {
     r \<leftarrow> ask (\<lambda>h. s3_GetObject E h bucket path) (EvGetObject bucket path);
     case r of
       Inl err \<Rightarrow> ret (Inl (mapMinIOError err))
     | Inr obj \<Rightarrow>
         (case ObjStat obj of
            Inl err \<Rightarrow> ret (Inl (mapMinIOError err))
          | Inr sz \<Rightarrow> ret (Inr (obj, sz)))
   }"

definition storage_Delete :: "env \<Rightarrow> string \<Rightarrow> string \<Rightarrow> goerr option io" where
  "storage_Delete E bucket path = do {
     r \<leftarrow> ask (\<lambda>h. s3_RemoveObject E h bucket path) (EvRemoveObject bucket path);
     case r of Some err \<Rightarrow> ret (Some (mapMinIOError err)) | None \<Rightarrow> ret None
   }"

definition storage_Exists :: "env \<Rightarrow> string \<Rightarrow> string \<Rightarrow> (goerr + bool) io" where
  "storage_Exists E bucket path = do {
     r \<leftarrow> ask (\<lambda>h. s3_StatObject E h bucket path) (EvStatObject bucket path);
     case r of
       None \<Rightarrow> ret (Inr True)
     | Some err \<Rightarrow>
         (case err of
            Foreign (MinioErrorResponse code msg) _ \<Rightarrow>
              if code = ''NoSuchKey'' then ret (Inr False)
              else if code = ''NoSuchBucket'' then ret (Inl (Sentinel StorageErrBucketNotExist))
              else ret (Inl (mapMinIOError err))
          | _ \<Rightarrow> ret (Inl (mapMinIOError err)))
   }"

definition storage_GeneratePresignedURL :: "env \<Rightarrow> string \<Rightarrow> string \<Rightarrow> (goerr + string) io" where
  "storage_GeneratePresignedURL E bucket path = do {
     r \<leftarrow> ask (\<lambda>h. s3_Presign E h bucket path) (EvPresign bucket path);
     case r of Inl err \<Rightarrow> ret (Inl (Sentinel StorageErrGenerateURLFailed)) | Inr u \<Rightarrow> ret (Inr u)
   }"

definition storage_AbortMultipart :: "env \<Rightarrow> string \<Rightarrow> string \<Rightarrow> string \<Rightarrow> goerr option io" where
  "storage_AbortMultipart E bucket path uploadID =
     ask (\<lambda>h. s3_AbortMultipart E h bucket path uploadID) (EvAbortMultipart bucket path uploadID)"

definition storage_InitMultipart :: "env \<Rightarrow> string \<Rightarrow> string \<Rightarrow> (goerr + string) io" where
  "storage_InitMultipart E bucket path = do {
     r \<leftarrow> ask (\<lambda>h. s3_NewMultipart E h bucket path) (EvNewMultipart bucket path);
     case r of Inl err \<Rightarrow> ret (Inl (mapMinIOError err)) | Inr uploadID \<Rightarrow> ret (Inr uploadID)
   }"

definition storage_UploadPart ::
  "env \<Rightarrow> string \<Rightarrow> string \<Rightarrow> string \<Rightarrow> int \<Rightarrow> string \<Rightarrow> int \<Rightarrow> (goerr + string) io" where
  "storage_UploadPart E bucket path uploadID partNumber data sz =
     ask (\<lambda>h. s3_PutPart E h bucket path uploadID partNumber data sz)
         (EvPutPart bucket path uploadID partNumber data sz)"

definition storage_CompleteMultipart ::
  "env \<Rightarrow> string \<Rightarrow> string \<Rightarrow> string \<Rightarrow> MultipartPart list \<Rightarrow> goerr option io" where
  "storage_CompleteMultipart E bucket path uploadID parts = do {
     r \<leftarrow> ask (\<lambda>h. s3_CompleteMultipart E h bucket path uploadID parts)
             (EvCompleteMultipart bucket path uploadID parts);
     case r of Some err \<Rightarrow> ret (Some (mapMinIOError err)) | None \<Rightarrow> ret None
   }"

text \<open>\<open>for err := range errorCh\<close>: the first entry with an error ends the loop.\<close>

fun first_remove_error :: "(string \<times> goerr option) list \<Rightarrow> goerr option" where
  "first_remove_error [] = None"
| "first_remove_error ((name, None) # es) = first_remove_error es"
| "first_remove_error ((name, Some err) # es) =
     Some (Wrapf (''failed to delete object '' @ name @ '': '') err [])"

definition storage_DeleteFolder :: "env \<Rightarrow> string \<Rightarrow> string \<Rightarrow> goerr option io" where
  "storage_DeleteFolder E bucket dirPath =
    (if \<not> HasSuffix dirPath ''/'' then do {
       es \<leftarrow> ask (\<lambda>h. s3_RemoveObjects E h bucket (dirPath @ ''/''))
                (EvRemoveObjects bucket (dirPath @ ''/''));
       ret (first_remove_error es)
     }
     else ret None)"

lemmas storage_defs = storage_BucketExists_def storage_CreateBucket_def storage_Upload_def
  storage_Download_def storage_Delete_def storage_Exists_def storage_GeneratePresignedURL_def
  storage_AbortMultipart_def storage_InitMultipart_def storage_UploadPart_def
  storage_CompleteMultipart_def storage_DeleteFolder_def

section \<open>Properties\<close>

text \<open>
  \<open>mapMinIOError\<close> keeps the three cases the callers can act on apart, and wraps everything else in
  \<open>ErrStorage\<close>: a caller that tests \<open>errors.Is(err, storage.ErrNotFound)\<close> sees exactly the missing keys.
\<close>

lemma mapMinIOError_not_found:
  "errors_Is (mapMinIOError err) StorageErrNotFound \<longleftrightarrow>
     (\<exists>msg t. err = Foreign (MinioErrorResponse ''NoSuchKey'' msg) t)"
  by (auto simp: mapMinIOError_def split: goerr.splits foreign_kind.splits)

lemma mapMinIOError_storage:
  "errors_Is (mapMinIOError err) StorageErrStorage \<longleftrightarrow>
     (\<nexists>code msg t. err = Foreign (MinioErrorResponse code msg) t \<and>
        code \<in> {''NoSuchKey'', ''NoSuchBucket'', ''AccessDenied''})"
  by (auto simp: mapMinIOError_def split: goerr.splits foreign_kind.splits)

lemma mapMinIOError_never_record_not_found: "\<not> is_record_not_found (mapMinIOError err)"
  by (auto simp: mapMinIOError_def split: goerr.splits foreign_kind.splits)

text \<open>The calls each operation can make.\<close>

lemma emits_storage [emits]:
  "(\<And>r. A (EvBucketExists b r)) \<Longrightarrow> emits A (storage_BucketExists E b)"
  "(\<And>r. A (EvBucketExists b r)) \<Longrightarrow> (\<And>r. A (EvMakeBucket b r)) \<Longrightarrow> emits A (storage_CreateBucket E b)"
  "(\<And>r. A (EvGetObject b p r)) \<Longrightarrow> emits A (storage_Download E b p)"
  "(\<And>r. A (EvRemoveObject b p r)) \<Longrightarrow> emits A (storage_Delete E b p)"
  "(\<And>r. A (EvStatObject b p r)) \<Longrightarrow> emits A (storage_Exists E b p)"
  "(\<And>r. A (EvAbortMultipart b p u r)) \<Longrightarrow> emits A (storage_AbortMultipart E b p u)"
  "(\<And>r. A (EvNewMultipart b p r)) \<Longrightarrow> emits A (storage_InitMultipart E b p)"
  "(\<And>r. A (EvPutPart b p u n d sz r)) \<Longrightarrow> emits A (storage_UploadPart E b p u n d sz)"
  "(\<And>r. A (EvCompleteMultipart b p u ps r)) \<Longrightarrow> emits A (storage_CompleteMultipart E b p u ps)"
  "(\<And>r. A (EvRemoveObjects b (p @ ''/'') r)) \<Longrightarrow> emits A (storage_DeleteFolder E b p)"
  by (auto simp: storage_defs intro!: emits split: goerr.split foreign_kind.split)

lemma emits_storage_Upload [emits]:
  "(\<And>r. A (EvBucketExists b r)) \<Longrightarrow> (\<And>r. A (EvMakeBucket b r)) \<Longrightarrow>
   (\<And>r. A (EvPutObject b p d n r)) \<Longrightarrow> emits A (storage_Upload E b p d n)"
  unfolding storage_Upload_def by (intro emits) auto

end
