(* ===== verification/Repository.thy ===== *)
theory Repository
  imports Effects
begin

text \<open>
  \<open>internal/repository\<close>: the two gorm repositories. \<open>Create\<close> and \<open>Save\<close> run the model's hooks before
  they write, on the row they were given, so the operations return that row too.
\<close>

section \<open>Streams\<close>

record StreamFilter =
  FOwnerID :: "uuid option"
  FStatus :: "StreamStatus option"
  FVisibility :: "StreamVisibility option"
  FFacesDetected :: "bool option"
  FSortBy :: string
  FSortOrder :: string
  FLimit :: int
  FOffset :: int
  FSearch :: string

definition sortColumnFor :: "string \<Rightarrow> string" where
  "sortColumnFor sortBy =
    (case map_of [(''created_at'', ''created_at''), (''title'', ''title''), (''status'', ''status'')] sortBy of
       Some col \<Rightarrow> col | None \<Rightarrow> ''created_at'')"

definition run_BeforeCreate :: "env \<Rightarrow> 'm BaseModel_scheme \<Rightarrow> 'm BaseModel_scheme io" where
  "run_BeforeCreate E base = do {
     fresh \<leftarrow> (if ID base = uuid_Nil then ask (uuid_New E) EvUuid else ret (ID base));
     now1 \<leftarrow> ask (time_Now E) EvNow;
     now2 \<leftarrow> ask (time_Now E) EvNow;
     ret (BeforeCreate fresh now1 now2 base)
   }"

definition run_BeforeUpdate :: "env \<Rightarrow> 'm BaseModel_scheme \<Rightarrow> 'm BaseModel_scheme io" where
  "run_BeforeUpdate E base = do {
     now \<leftarrow> ask (time_Now E) EvNow;
     ret (BeforeUpdate now base)
   }"

definition repo_Create :: "env \<Rightarrow> Stream \<Rightarrow> (goerr option \<times> Stream) io" where
  "repo_Create E stream = do {
     stream \<leftarrow> run_BeforeCreate E stream;
     r \<leftarrow> ask (\<lambda>h. db_Create E h stream) (EvDbCreate stream);
     case r of Some err \<Rightarrow> ret (Some err, stream) | None \<Rightarrow> ret (None, stream)
   }"

definition repo_Read :: "env \<Rightarrow> uuid \<Rightarrow> (goerr + Stream) io" where
  "repo_Read E i = ask (\<lambda>h. db_First E h i) (EvDbFirst i)"

definition repo_ReadMany :: "env \<Rightarrow> uuid list \<Rightarrow> (goerr + Stream list) io" where
  "repo_ReadMany E ids =
    (if ids = [] then ret (Inr [])
     else ask (\<lambda>h. db_Find E h ids) (EvDbFind ids))"

definition gorm_Save :: "env \<Rightarrow> Stream \<Rightarrow> (goerr option \<times> Stream) io" where
  "gorm_Save E stream = do {
     stream \<leftarrow> run_BeforeUpdate E stream;
     r \<leftarrow> ask (\<lambda>h. db_Save E h stream) (EvDbSave stream);
     ret (r, stream)
   }"

definition repo_Update :: "env \<Rightarrow> Stream \<Rightarrow> (goerr option \<times> Stream) io" where
  "repo_Update E stream =
    (if ID stream = uuid_Nil then ret (Some (Errorf ''stream ID can't be nil''), stream)
     else do {
       r \<leftarrow> ask (\<lambda>h. db_First E h (ID stream)) (EvDbFirst (ID stream));
       case r of
         Inl err \<Rightarrow> ret (Some (Wrapf ''stream not found: '' err []), stream)
       | Inr existing \<Rightarrow> do {
           (r, stream) \<leftarrow> gorm_Save E stream;
           case r of
             Some err \<Rightarrow> ret (Some (Wrapf ''failed to update stream: '' err []), stream)
           | None \<Rightarrow> ret (None, stream)
         }
     })"

definition repo_Delete :: "env \<Rightarrow> uuid \<Rightarrow> goerr option io" where
  "repo_Delete E i = do {
     r \<leftarrow> ask (\<lambda>h. db_First E h i) (EvDbFirst i);
     case r of
       Inl err \<Rightarrow> ret (Some (Wrapf ''stream not found: '' err []))
     | Inr existing \<Rightarrow> do {
         r \<leftarrow> ask (\<lambda>h. db_Delete E h i) (EvDbDelete i);
         case r of
           Some err \<Rightarrow> ret (Some (Wrapf ''failed to delete stream: '' err []))
         | None \<Rightarrow> ret None
       }
   }"

definition filter_conds :: "StreamFilter \<Rightarrow> cond list" where
  "filter_conds f =
     (case FOwnerID f of None \<Rightarrow> [] | Some o' \<Rightarrow> [WhereOwner o']) @
     (case FStatus f of None \<Rightarrow> [] | Some s \<Rightarrow> [WhereStatus s]) @
     (case FVisibility f of None \<Rightarrow> [] | Some v \<Rightarrow> [WhereVisibility v]) @
     (case FFacesDetected f of None \<Rightarrow> [] | Some b \<Rightarrow> [WhereFaces b]) @
     (if FSearch f \<noteq> [] then [WhereSearch (''%'' @ FSearch f @ ''%'')] else [])"

definition filter_query :: "StreamFilter \<Rightarrow> list_query" where
  "filter_query f =
    (let limit = (if FLimit f \<le> 0 then 50 else FLimit f);
         sortOrder = (if FSortOrder f = ''asc'' then ''ASC'' else ''DESC'')
     in \<lparr>Wheres = filter_conds f, QLimit = Some limit,
         QOffset = (if FOffset f > 0 then Some (FOffset f) else None),
         QOrder = Some (sortColumnFor (FSortBy f) @ '' '' @ sortOrder)\<rparr>)"

definition repo_List :: "env \<Rightarrow> StreamFilter \<Rightarrow> ((goerr + Stream list) \<times> int) io" where
  "repo_List E f = do {
     r \<leftarrow> ask (\<lambda>h. db_Count E h (filter_conds f)) (EvDbCount (filter_conds f));
     case r of
       Inl err \<Rightarrow> ret (Inl err, 0)
     | Inr count \<Rightarrow> do {
         r \<leftarrow> ask (\<lambda>h. db_Query E h (filter_query f)) (EvDbQuery (filter_query f));
         case r of
           Inl err \<Rightarrow> ret (Inl (Wrapf ''failed to list stream: '' err []), count)
         | Inr streams \<Rightarrow> ret (Inr streams, count)
       }
   }"

definition repo_GetByOwner :: "env \<Rightarrow> uuid \<Rightarrow> (goerr + Stream list) io" where
  "repo_GetByOwner E ownerID =
    (let q = \<lparr>Wheres = [WhereOwner ownerID], QLimit = None, QOffset = None, QOrder = None\<rparr> in do {
       r \<leftarrow> ask (\<lambda>h. db_Query E h q) (EvDbQuery q);
       case r of
         Inl err \<Rightarrow> ret (Inl (Wrapf ''failed to list stream: '' err []))
       | Inr streams \<Rightarrow> ret (Inr streams)
     })"

definition repo_Exists :: "env \<Rightarrow> uuid \<Rightarrow> bool io" where
  "repo_Exists E i = do {
     r \<leftarrow> ask (\<lambda>h. db_First E h i) (EvDbFirst i);
     case r of Inl err \<Rightarrow> ret False | Inr stream \<Rightarrow> ret True
   }"

definition repo_UpdateStatus :: "env \<Rightarrow> uuid \<Rightarrow> StreamStatus \<Rightarrow> goerr option io" where
  "repo_UpdateStatus E i status = do {
     r \<leftarrow> ask (\<lambda>h. db_First E h i) (EvDbFirst i);
     case r of
       Inl err \<Rightarrow> ret (Some (Errorf ''stream id not found''))
     | Inr stream \<Rightarrow> do {
         (r, stream) \<leftarrow> gorm_Save E (stream\<lparr>Status := status\<rparr>);
         case r of
           Some err \<Rightarrow> ret (Some (Wrapf ''update stream error: '' err []))
         | None \<Rightarrow> ret None
       }
   }"

definition repo_UpdateProcessing :: "env \<Rightarrow> uuid \<Rightarrow> StreamProcessingTask \<Rightarrow> goerr option io" where
  "repo_UpdateProcessing E i p = do {
     r \<leftarrow> ask (\<lambda>h. db_First E h i) (EvDbFirst i);
     case r of
       Inl err \<Rightarrow> ret (Some (Errorf ''stream id not found''))
     | Inr stream \<Rightarrow>
         (case SetTaskProgress (TaskType p) (Progress p) (Steps p) (TaskError p) (TaskID p) stream of
            Inl err \<Rightarrow> ret (Some (Wrapf ''update stream processing error: '' err []))
          | Inr stream \<Rightarrow> do {
              (r, stream) \<leftarrow> gorm_Save E stream;
              case r of
                Some err \<Rightarrow> ret (Some (Wrapf ''update stream precessing error: '' err []))
              | None \<Rightarrow> ret None
            })
   }"

section \<open>Exports\<close>

definition exports_Create :: "env \<Rightarrow> StreamExport \<Rightarrow> (goerr option \<times> StreamExport) io" where
  "exports_Create E export = do {
     export \<leftarrow> run_BeforeCreate E export;
     r \<leftarrow> ask (\<lambda>h. ex_Create E h export) (EvExCreate export);
     case r of
       Some err \<Rightarrow> ret (Some (Wrapf ''failed to create stream export: '' err []), export)
     | None \<Rightarrow> ret (None, export)
   }"

definition exports_ReadByStream :: "env \<Rightarrow> uuid \<Rightarrow> (goerr + StreamExport) io" where
  "exports_ReadByStream E streamID = ask (\<lambda>h. ex_First E h streamID) (EvExFirst streamID)"

definition exports_Update :: "env \<Rightarrow> StreamExport \<Rightarrow> (goerr option \<times> StreamExport) io" where
  "exports_Update E export =
    (if ID export = uuid_Nil then ret (Some (Errorf ''stream export ID can't be nil''), export)
     else do {
       export \<leftarrow> run_BeforeUpdate E export;
       r \<leftarrow> ask (\<lambda>h. ex_Save E h export) (EvExSave export);
       case r of
         Some err \<Rightarrow> ret (Some (Wrapf ''failed to update stream export: '' err []), export)
       | None \<Rightarrow> ret (None, export)
     })"

text \<open>The conditional update; the answer of the call is the number of rows it changed.\<close>

definition exports_ResetFailed :: "env \<Rightarrow> uuid \<Rightarrow> (goerr + bool) io" where
  "exports_ResetFailed E exportID = do {
     r \<leftarrow> ask (\<lambda>h. ex_Reset E h exportID) (EvExReset exportID);
     case r of
       Inl err \<Rightarrow> ret (Inl (Wrapf ''failed to reset stream export: '' err []))
     | Inr affected \<Rightarrow> ret (Inr (affected > 0))
   }"

definition IsExportNotFound :: "goerr \<Rightarrow> bool" where
  "IsExportNotFound err \<longleftrightarrow> is_record_not_found err"

lemmas repo_defs = repo_Create_def repo_Read_def repo_ReadMany_def gorm_Save_def repo_Update_def
  repo_Delete_def repo_List_def repo_GetByOwner_def repo_Exists_def repo_UpdateStatus_def
  repo_UpdateProcessing_def run_BeforeCreate_def run_BeforeUpdate_def
lemmas exports_defs = exports_Create_def exports_ReadByStream_def exports_Update_def
  exports_ResetFailed_def run_BeforeCreate_def run_BeforeUpdate_def

section \<open>Properties\<close>

text \<open>The hooks change nothing but the key, when it was nil, and the two timestamps.\<close>

lemma BeforeUpdate_fields [simp]:
  fixes s :: Stream
  shows "ID (BeforeUpdate t s) = ID s" and "OwnerID (BeforeUpdate t s) = OwnerID s"
    and "Status (BeforeUpdate t s) = Status s" and "CreatedAt (BeforeUpdate t s) = CreatedAt s"
    and "Processing (BeforeUpdate t s) = Processing s" and "Metadata (BeforeUpdate t s) = Metadata s"
    and "Storage (BeforeUpdate t s) = Storage s" and "Visibility (BeforeUpdate t s) = Visibility s"
    and "Title (BeforeUpdate t s) = Title s" and "FacesDetected (BeforeUpdate t s) = FacesDetected s"
    and "PublishedAt (BeforeUpdate t s) = PublishedAt s" and "Tags (BeforeUpdate t s) = Tags s"
    and "Description (BeforeUpdate t s) = Description s" and "DeletedAt (BeforeUpdate t s) = DeletedAt s"
  by (simp_all add: BeforeUpdate_def)

lemma BeforeUpdate_export_fields [simp]:
  fixes x :: StreamExport
  shows "ID (BeforeUpdate t x) = ID x" and "StreamID (BeforeUpdate t x) = StreamID x"
    and "UserID (BeforeUpdate t x) = UserID x" and "ExportStatus (BeforeUpdate t x) = ExportStatus x"
    and "ExportSize (BeforeUpdate t x) = ExportSize x" and "ExportError (BeforeUpdate t x) = ExportError x"
  by (simp_all add: BeforeUpdate_def)

lemma BeforeCreate_fields [simp]:
  fixes s :: Stream
  shows "OwnerID (BeforeCreate u t1 t2 s) = OwnerID s" and "Status (BeforeCreate u t1 t2 s) = Status s"
    and "ID (BeforeCreate u t1 t2 s) = (if ID s = uuid_Nil then u else ID s)"
    and "Title (BeforeCreate u t1 t2 s) = Title s" and "Visibility (BeforeCreate u t1 t2 s) = Visibility s"
    and "Tags (BeforeCreate u t1 t2 s) = Tags s" and "Description (BeforeCreate u t1 t2 s) = Description s"
    and "Processing (BeforeCreate u t1 t2 s) = Processing s" and "Storage (BeforeCreate u t1 t2 s) = Storage s"
    and "Metadata (BeforeCreate u t1 t2 s) = Metadata s" and "FacesDetected (BeforeCreate u t1 t2 s) = FacesDetected s"
  by (simp_all add: BeforeCreate_def Let_def)

lemma BeforeCreate_export_fields [simp]:
  fixes x :: StreamExport
  shows "StreamID (BeforeCreate u t1 t2 x) = StreamID x" and "UserID (BeforeCreate u t1 t2 x) = UserID x"
    and "ExportStatus (BeforeCreate u t1 t2 x) = ExportStatus x"
    and "ExportSize (BeforeCreate u t1 t2 x) = ExportSize x"
    and "ExportError (BeforeCreate u t1 t2 x) = ExportError x"
    and "ID (BeforeCreate u t1 t2 x) = (if ID x = uuid_Nil then u else ID x)"
  by (simp_all add: BeforeCreate_def Let_def)

text \<open>The calls each operation can make.\<close>

lemma emits_repo [emits]:
  "(\<And>r. A (EvDbFirst i r)) \<Longrightarrow> emits A (repo_Read E i)"
  "(\<And>r. A (EvDbFind is r)) \<Longrightarrow> emits A (repo_ReadMany E is)"
  "(\<And>r. A (EvDbFirst i r)) \<Longrightarrow> (\<And>r. A (EvDbDelete i r)) \<Longrightarrow> emits A (repo_Delete E i)"
  "(\<And>r. A (EvDbFirst (ID s) r)) \<Longrightarrow> (\<And>t. A (EvNow t)) \<Longrightarrow>
     (\<And>t r. A (EvDbSave (BeforeUpdate t s) r)) \<Longrightarrow> emits A (repo_Update E s)"
  "(\<And>c r. A (EvDbCount c r)) \<Longrightarrow> (\<And>q r. A (EvDbQuery q r)) \<Longrightarrow> emits A (repo_List E f)"
  by (auto simp: repo_defs intro!: emits)

lemma emits_repo_Create [emits]:
  "(\<And>u. A (EvUuid u)) \<Longrightarrow> (\<And>t. A (EvNow t)) \<Longrightarrow>
   (\<And>u t1 t2 r. A (EvDbCreate (BeforeCreate u t1 t2 s) r)) \<Longrightarrow> emits A (repo_Create E s)"
  by (auto simp: repo_defs intro!: emits)

lemma emits_exports [emits]:
  "(\<And>r. A (EvExFirst i r)) \<Longrightarrow> emits A (exports_ReadByStream E i)"
  "(\<And>r. A (EvExReset i r)) \<Longrightarrow> emits A (exports_ResetFailed E i)"
  "(\<And>t. A (EvNow t)) \<Longrightarrow> (\<And>t r. A (EvExSave (BeforeUpdate t x) r)) \<Longrightarrow> emits A (exports_Update E x)"
  "(\<And>u. A (EvUuid u)) \<Longrightarrow> (\<And>t. A (EvNow t)) \<Longrightarrow>
     (\<And>u t1 t2 r. A (EvExCreate (BeforeCreate u t1 t2 x) r)) \<Longrightarrow> emits A (exports_Create E x)"
  by (auto simp: exports_defs intro!: emits)

end
