(* ===== verification/GoMap.thy ===== *)
theory GoMap
  imports GoJson
begin

text \<open>
  A Go \<open>map[string]any\<close> as it is seen after \<open>json.Marshal\<close>: an association list with one entry per
  key, sorted by the bytes of the keys. \<open>map_set\<close> is the assignment \<open>m[k] = v\<close>.
\<close>

fun str_less :: "string \<Rightarrow> string \<Rightarrow> bool" where
  "str_less [] t = (t \<noteq> [])"
| "str_less (c # s) [] = False"
| "str_less (c # s) (d # t) = (byte c < byte d \<or> (c = d \<and> str_less s t))"

fun map_set :: "string \<Rightarrow> 'v \<Rightarrow> (string \<times> 'v) list \<Rightarrow> (string \<times> 'v) list" where
  "map_set k v [] = [(k, v)]"
| "map_set k v ((k', v') # m) =
    (if k = k' then (k, v) # m
     else if str_less k k' then (k, v) # (k', v') # m
     else (k', v') # map_set k v m)"

definition map_merge :: "(string \<times> 'v) list \<Rightarrow> (string \<times> 'v) list \<Rightarrow> (string \<times> 'v) list" where
  "map_merge m kvs = foldl (\<lambda>m (k, v). map_set k v m) m kvs"

fun sorted_keys :: "(string \<times> 'v) list \<Rightarrow> bool" where
  "sorted_keys [] = True"
| "sorted_keys [x] = True"
| "sorted_keys (x # y # m) = (str_less (fst x) (fst y) \<and> sorted_keys (y # m))"

lemma byte_eq_iff [simp]: "byte c = byte d \<longleftrightarrow> c = d"
  by (simp add: byte_def)

lemma str_less_irrefl [simp]: "\<not> str_less s s"
  by (induction s) auto

lemma str_less_trans: "str_less s t \<Longrightarrow> str_less t u \<Longrightarrow> str_less s u"
proof (induction s t arbitrary: u rule: str_less.induct)
  case (1 t u)
  then show ?case by (cases u; cases t) auto
next
  case (3 c s d t u)
  then show ?case by (cases u) auto
qed simp

lemma str_less_linear: "s \<noteq> t \<Longrightarrow> \<not> str_less s t \<Longrightarrow> str_less t s"
proof (induction s t rule: str_less.induct)
  case (2 c s)
  then show ?case by simp
next
  case (3 c s d t)
  then show ?case
    by (metis byte_eq_iff linorder_neqE_nat list.inject str_less.simps(3))
qed simp

lemma str_less_asym: "str_less s t \<Longrightarrow> \<not> str_less t s"
  using str_less_irrefl str_less_trans by blast

section \<open>The contract of a map\<close>

text \<open>What the clients rely on: the assignment is an update of the lookup, and keeps the order.\<close>

locale go_map =
  fixes put :: "'k \<Rightarrow> 'v \<Rightarrow> 'm \<Rightarrow> 'm" and look :: "'m \<Rightarrow> 'k \<Rightarrow> 'v option" and invar :: "'m \<Rightarrow> bool"
  assumes look_put: "look (put k v m) = (look m)(k \<mapsto> v)"
    and invar_put: "invar m \<Longrightarrow> invar (put k v m)"
begin

lemma look_merge: "look (foldl (\<lambda>m (k, v). put k v m) m kvs) = (look m) ++ map_of (rev kvs)"
  by (induction kvs arbitrary: m) (auto simp: look_put fun_eq_iff map_add_def split: option.splits)

lemma invar_merge: "invar m \<Longrightarrow> invar (foldl (\<lambda>m (k, v). put k v m) m kvs)"
  by (induction kvs arbitrary: m) (auto simp: invar_put)

lemma put_same: "look (put k v (put k v' m)) = look (put k v m)"
  by (simp add: look_put)

lemma frame: "k \<noteq> k' \<Longrightarrow> look (put k v m) k' = look m k'"
  by (simp add: look_put)

end

lemma map_of_map_set: "map_of (map_set k v m) = (map_of m)(k \<mapsto> v)"
  by (induction m) (auto simp: fun_eq_iff)

lemma map_set_not_Nil [simp]: "map_set k v m \<noteq> []"
  by (cases m) (auto split: if_splits)

lemma fst_hd_map_set:
  "fst (hd (map_set k v m)) = (if m = [] \<or> k = fst (hd m) \<or> str_less k (fst (hd m)) then k else fst (hd m))"
  by (cases m) auto

lemma sorted_keys_Cons:
  "sorted_keys (x # m) \<longleftrightarrow> (m = [] \<or> str_less (fst x) (fst (hd m))) \<and> sorted_keys m"
  by (cases m) auto

lemma sorted_map_set: "sorted_keys m \<Longrightarrow> sorted_keys (map_set k v m)"
proof (induction m)
  case (Cons x m)
  obtain k' v' where x: "x = (k', v')" by (cases x)
  show ?case
    using Cons str_less_linear [of k k'] x
    by (auto simp: sorted_keys_Cons fst_hd_map_set)
qed simp

interpretation jmap: go_map map_set map_of sorted_keys
  by unfold_locales (simp_all add: map_of_map_set sorted_map_set)

lemma map_of_map_merge: "map_of (map_merge m kvs) = map_of m ++ map_of (rev kvs)"
  unfolding map_merge_def by (rule jmap.look_merge)

lemma sorted_map_merge: "sorted_keys m \<Longrightarrow> sorted_keys (map_merge m kvs)"
  unfolding map_merge_def by (rule jmap.invar_merge)

section \<open>Values decoded into \<open>any\<close>\<close>

text \<open>
  Decoding into \<open>any\<close> turns a number into a \<open>float64\<close>, and encoding that prints the shortest decimal
  that reads back as the same \<open>float64\<close>. On integers: round to 53 significant bits, half to even, then
  take the coarsest power of ten at which rounding the result does not leave its \<open>float64\<close>.
\<close>

definition round_half_even :: "int \<Rightarrow> int \<Rightarrow> int" where
  "round_half_even n q =
    (let d = n div q; r = n mod q in
     if 2 * r < q \<or> (2 * r = q \<and> even d) then d * q else (d + 1) * q)"

fun float_step :: "nat \<Rightarrow> int \<Rightarrow> int" where
  "float_step 0 n = 1"
| "float_step (Suc fuel) n = (if n < 9007199254740992 then 1 else 2 * float_step fuel (n div 2))"

definition float64_of :: "int \<Rightarrow> int" where
  "float64_of n = sgn n * round_half_even \<bar>n\<bar> (float_step 1100 \<bar>n\<bar>)"

text \<open>A number whose magnitude rounds to \<open>2^1024\<close> or more is not a \<open>float64\<close>: decoding reports an error.\<close>

definition float64_finite :: "int \<Rightarrow> bool" where
  "float64_finite n \<longleftrightarrow> \<bar>n\<bar> < 2 ^ 1024 - 2 ^ 970"

fun shortest_decimal :: "nat \<Rightarrow> int \<Rightarrow> int" where
  "shortest_decimal 0 x = x"
| "shortest_decimal (Suc j) x =
    (let q = 10 ^ Suc j; lo = x div q * q; hi = lo + q;
         near = (if x - lo \<le> hi - x then lo else hi); far = (if x - lo \<le> hi - x then hi else lo)
     in if float64_of near = x then near else if float64_of far = x then far else shortest_decimal j x)"

definition reprint_number :: "int \<Rightarrow> int" where
  "reprint_number n =
    (if \<bar>n\<bar> < 9007199254740992 then n
     else sgn n * shortest_decimal 310 \<bar>float64_of n\<bar>)"

text \<open>A document decoded into \<open>any\<close> and encoded again.\<close>

function reprint :: "json \<Rightarrow> json" where
  "reprint JNull = JNull"
| "reprint (JBool b) = JBool b"
| "reprint (JNum n) = JNum (reprint_number n)"
| "reprint (JStr s) = JStr (coerce_utf8 s)"
| "reprint (JArr js) = JArr (map reprint js)"
| "reprint (JObj kvs) = JObj (map_merge [] (map (\<lambda>(k, j). (coerce_utf8 k, reprint j)) kvs))"
  by pat_completeness auto
termination
proof (relation "measure size", goal_cases)
  case (2 js j)
  then show ?case by (induction js) auto
next
  case (3 kvs p k j)
  then show ?case by (induction kvs) auto
qed simp

function numbers_finite :: "json \<Rightarrow> bool" where
  "numbers_finite JNull = True"
| "numbers_finite (JBool b) = True"
| "numbers_finite (JNum n) = float64_finite n"
| "numbers_finite (JStr s) = True"
| "numbers_finite (JArr js) = list_all numbers_finite js"
| "numbers_finite (JObj kvs) = list_all (\<lambda>(k, j). numbers_finite j) kvs"
  by pat_completeness auto
termination
proof (relation "measure size", goal_cases)
  case (2 js j)
  then show ?case by (induction js) auto
next
  case (3 kvs p k j)
  then show ?case by (induction kvs) auto
qed simp

lemma reprint_number_exact [simp]: "\<bar>n\<bar> < 9007199254740992 \<Longrightarrow> reprint_number n = n"
  by (simp add: reprint_number_def)

end
