(* ===== verification/Queue.thy ===== *)
theory Queue
  imports Effects GoMap
begin

text \<open>
  \<open>internal/queue\<close>: the distributors that put work into the asynq queues. Each function builds a task
  and enqueues it; the answer is the task id, or nil when asynq says the task is a duplicate.
\<close>

definition TaskVideoTranscoding :: string where "TaskVideoTranscoding = ''video:transcode''"
definition TaskThumbsnailProcessor :: string where "TaskThumbsnailProcessor = ''video:thumbsnail''"
definition TaskFacesProcessor :: string where "TaskFacesProcessor = ''video:faces''"
definition TaskVideoExport :: string where "TaskVideoExport = ''video:export''"
definition TaskActivityEvent :: string where "TaskActivityEvent = ''event:activity''"
definition TaskActivityQueue :: string where "TaskActivityQueue = ''events''"
definition TaskFacesStreamDeleted :: string where "TaskFacesStreamDeleted = ''faces:stream.deleted''"
definition FacesCascadeQueue :: string where "FacesCascadeQueue = ''faces-cascade''"

text \<open>\<open>30 * time.Minute\<close>, in nanoseconds.\<close>

definition exportTaskTimeout :: int where "exportTaskTimeout = 1800000000000"

section \<open>Payloads\<close>

definition enc_uuid :: "env \<Rightarrow> uuid \<Rightarrow> json" where
  "enc_uuid E u = JStr (uuid_String E u)"

text \<open>The payload of the transcoding, thumbnail and faces tasks: three types with the same fields.\<close>

definition stream_payload :: "env \<Rightarrow> uuid \<Rightarrow> string \<Rightarrow> json" where
  "stream_payload E streamUUID inputPath =
     JObj [(''stream_uuid'', enc_uuid E streamUUID), (''input_path'', enc_string inputPath)]"

definition export_payload :: "env \<Rightarrow> uuid \<Rightarrow> uuid \<Rightarrow> string \<Rightarrow> json" where
  "export_payload E streamUUID ownerUUID ownerEmail =
     JObj [(''stream_uuid'', enc_uuid E streamUUID), (''owner_uuid'', enc_uuid E ownerUUID),
           (''owner_email'', enc_string ownerEmail)]"

section \<open>Tasks\<close>

definition newVideoTranscodingTask :: "env \<Rightarrow> uuid \<Rightarrow> string \<Rightarrow> string \<Rightarrow> asynq_task" where
  "newVideoTranscodingTask E streamUUID inputPath taskID =
     \<lparr>TaskName = TaskVideoTranscoding, Payload = stream_payload E streamUUID inputPath,
      OptTaskID = Some taskID, OptQueue = None, OptMaxRetry = 1, OptTimeout = None\<rparr>"

definition newThumbnailTask :: "env \<Rightarrow> uuid \<Rightarrow> string \<Rightarrow> string \<Rightarrow> asynq_task" where
  "newThumbnailTask E streamUUID inputPath taskID =
     \<lparr>TaskName = TaskThumbsnailProcessor, Payload = stream_payload E streamUUID inputPath,
      OptTaskID = Some taskID, OptQueue = Some ''thumbsnails'', OptMaxRetry = 1, OptTimeout = None\<rparr>"

definition newFacesTask :: "env \<Rightarrow> uuid \<Rightarrow> string \<Rightarrow> string \<Rightarrow> asynq_task" where
  "newFacesTask E streamUUID inputPath taskID =
     \<lparr>TaskName = TaskFacesProcessor, Payload = stream_payload E streamUUID inputPath,
      OptTaskID = Some taskID, OptQueue = Some ''faces'', OptMaxRetry = 1, OptTimeout = None\<rparr>"

text \<open>
  The first attempt uses an id derived from the stream, and a duplicate is not an error; a
  reprocessing attempt uses a fresh id, and every failure is an error.
\<close>

definition distribute :: "env \<Rightarrow> asynq_task \<Rightarrow> (goerr + string option) io" where
  "distribute E task = do {
     r \<leftarrow> ask (\<lambda>h. aq_Enqueue E h TaskClient task) (EvEnqueue TaskClient task);
     case r of
       Inl err \<Rightarrow>
         if is_duplicate_task err then ret (Inr None)
         else ret (Inl (Wrapf ''failed to enqueue task: '' err []))
     | Inr info \<Rightarrow> ret (Inr (Some (InfoID info)))
   }"

definition redistribute :: "env \<Rightarrow> string \<Rightarrow> asynq_task \<Rightarrow> (goerr + string option) io" where
  "redistribute E what task = do {
     r \<leftarrow> ask (\<lambda>h. aq_Enqueue E h TaskClient task) (EvEnqueue TaskClient task);
     case r of
       Inl err \<Rightarrow> ret (Inl (Wrapf (''failed to enqueue re-process '' @ what @ ''task: '') err []))
     | Inr info \<Rightarrow> ret (Inr (Some (InfoID info)))
   }"

definition DistributeVideoTranscoding :: "env \<Rightarrow> uuid \<Rightarrow> string \<Rightarrow> (goerr + string option) io" where
  "DistributeVideoTranscoding E streamUUID inputPath =
     distribute E (newVideoTranscodingTask E streamUUID inputPath (uuid_String E streamUUID))"

definition DistributeThumbsnailProcessor :: "env \<Rightarrow> uuid \<Rightarrow> string \<Rightarrow> (goerr + string option) io" where
  "DistributeThumbsnailProcessor E streamUUID inputPath =
     distribute E (newThumbnailTask E streamUUID inputPath (''thumbs-'' @ uuid_String E streamUUID))"

definition DistributeFacesProcessor :: "env \<Rightarrow> uuid \<Rightarrow> string \<Rightarrow> (goerr + string option) io" where
  "DistributeFacesProcessor E streamUUID inputPath =
     distribute E (newFacesTask E streamUUID inputPath (''faces-'' @ uuid_String E streamUUID))"

definition ReprocessVideoTranscoding :: "env \<Rightarrow> uuid \<Rightarrow> string \<Rightarrow> (goerr + string option) io" where
  "ReprocessVideoTranscoding E streamUUID inputPath = do {
     u \<leftarrow> ask (uuid_New E) EvUuid;
     redistribute E [] (newVideoTranscodingTask E streamUUID inputPath (''reprocess-'' @ uuid_String E u))
   }"

definition ReprocessThumbsnailProcessor :: "env \<Rightarrow> uuid \<Rightarrow> string \<Rightarrow> (goerr + string option) io" where
  "ReprocessThumbsnailProcessor E streamUUID inputPath = do {
     u \<leftarrow> ask (uuid_New E) EvUuid;
     redistribute E ''thumbsnail ''
       (newThumbnailTask E streamUUID inputPath (''reprocess-thumbs-'' @ uuid_String E u))
   }"

definition ReprocessFacesProcessor :: "env \<Rightarrow> uuid \<Rightarrow> string \<Rightarrow> (goerr + string option) io" where
  "ReprocessFacesProcessor E streamUUID inputPath = do {
     u \<leftarrow> ask (uuid_New E) EvUuid;
     redistribute E ''faces '' (newFacesTask E streamUUID inputPath (''reprocess-faces-'' @ uuid_String E u))
   }"

definition TerminateTask :: "env \<Rightarrow> string \<Rightarrow> goerr option io" where
  "TerminateTask E taskID = do {
     err \<leftarrow> ask (\<lambda>h. aq_CancelProcessing E h taskID) (EvCancelProcessing taskID);
     err \<leftarrow> (case err of
              Some _ \<Rightarrow> ask (\<lambda>h. aq_DeleteTask E h ''default'' taskID) (EvDeleteTask ''default'' taskID)
            | None \<Rightarrow> ret None);
     case err of
       Some err \<Rightarrow> ret (Some (Wrapf ''terminate task error: '' err []))
     | None \<Rightarrow> ret None
   }"

section \<open>Exports\<close>

definition newVideoExportTask :: "env \<Rightarrow> uuid \<Rightarrow> uuid \<Rightarrow> string \<Rightarrow> string \<Rightarrow> asynq_task" where
  "newVideoExportTask E streamUUID ownerUUID ownerEmail taskID =
     \<lparr>TaskName = TaskVideoExport, Payload = export_payload E streamUUID ownerUUID ownerEmail,
      OptTaskID = Some taskID, OptQueue = None, OptMaxRetry = 1, OptTimeout = Some exportTaskTimeout\<rparr>"

definition exportTaskID :: "env \<Rightarrow> uuid \<Rightarrow> string io" where
  "exportTaskID E streamUUID = do {
     now \<leftarrow> ask (time_Now E) EvNow;
     ret (''export-'' @ uuid_String E streamUUID @ ''-'' @ Itoa now)
   }"

definition DistributeVideoExport :: "env \<Rightarrow> uuid \<Rightarrow> uuid \<Rightarrow> string \<Rightarrow> (goerr + string option) io" where
  "DistributeVideoExport E streamUUID ownerUUID ownerEmail = do {
     taskID \<leftarrow> exportTaskID E streamUUID;
     let task = newVideoExportTask E streamUUID ownerUUID ownerEmail taskID;
     r \<leftarrow> ask (\<lambda>h. aq_Enqueue E h ExportClient task) (EvEnqueue ExportClient task);
     case r of
       Inl err \<Rightarrow>
         if is_duplicate_task err then ret (Inr None)
         else ret (Inl (Wrapf ''failed to enqueue export task: '' err []))
     | Inr info \<Rightarrow> ret (Inr (Some (InfoID info)))
   }"

section \<open>Activity events and the faces cascade\<close>

record ActivityEventPayload =
  AE_EventID :: uuid
  AE_UserID :: uuid
  AE_EventType :: string
  AE_StreamID :: "uuid option"
  AE_Payload :: json
  AE_OccurredAt :: time

definition enc_activity :: "env \<Rightarrow> ActivityEventPayload \<Rightarrow> json" where
  "enc_activity E p = JObj (
     [(''event_id'', enc_uuid E (AE_EventID p)), (''user_id'', enc_uuid E (AE_UserID p)),
      (''event_type'', enc_string (AE_EventType p))] @
     omit_if (AE_StreamID p = None) (''stream_id'', enc_pointer (enc_uuid E) (AE_StreamID p)) @
     [(''payload'', AE_Payload p), (''occurred_at'', JStr (Format_RFC3339Nano (AE_OccurredAt p)))])"

text \<open>A task without options: its name and its payload.\<close>

definition NewActivityEventTask :: "env \<Rightarrow> ActivityEventPayload \<Rightarrow> string \<times> json" where
  "NewActivityEventTask E p = (TaskActivityEvent, enc_activity E p)"

definition RecordActivityEvent ::
  "env \<Rightarrow> uuid \<Rightarrow> string \<Rightarrow> uuid option \<Rightarrow> json \<Rightarrow> goerr option io" where
  "RecordActivityEvent E userID eventType streamID raw = do {
     eventID \<leftarrow> ask (uuid_New E) EvUuid;
     now \<leftarrow> ask (time_Now E) EvNow;
     let (name, payload) = NewActivityEventTask E
       \<lparr>AE_EventID = eventID, AE_UserID = userID, AE_EventType = eventType, AE_StreamID = streamID,
        AE_Payload = raw, AE_OccurredAt = now\<rparr>;
     let task = \<lparr>TaskName = name, Payload = payload, OptTaskID = None,
        OptQueue = Some TaskActivityQueue, OptMaxRetry = 3, OptTimeout = Some 30000000000\<rparr>;
     r \<leftarrow> ask (\<lambda>h. aq_Enqueue E h EventsClient task) (EvEnqueue EventsClient task);
     case r of Inl err \<Rightarrow> ret (Some err) | Inr _ \<Rightarrow> ret None
   }"

definition enc_stream_deleted :: "env \<Rightarrow> uuid \<Rightarrow> json" where
  "enc_stream_deleted E streamID = JObj [(''stream_uuid'', enc_uuid E streamID)]"

definition RecordStreamDeleted :: "env \<Rightarrow> uuid \<Rightarrow> goerr option io" where
  "RecordStreamDeleted E streamID = do {
     let task = \<lparr>TaskName = TaskFacesStreamDeleted, Payload = enc_stream_deleted E streamID,
        OptTaskID = None, OptQueue = Some FacesCascadeQueue, OptMaxRetry = 3,
        OptTimeout = Some 60000000000\<rparr>;
     r \<leftarrow> ask (\<lambda>h. aq_Enqueue E h CascadeClient task) (EvEnqueue CascadeClient task);
     case r of Inl err \<Rightarrow> ret (Some err) | Inr _ \<Rightarrow> ret None
   }"

lemmas queue_defs = distribute_def redistribute_def DistributeVideoTranscoding_def
  DistributeThumbsnailProcessor_def DistributeFacesProcessor_def ReprocessVideoTranscoding_def
  ReprocessThumbsnailProcessor_def ReprocessFacesProcessor_def
lemmas task_defs = newVideoTranscodingTask_def newThumbnailTask_def newFacesTask_def
  newVideoExportTask_def
lemmas task_name_defs = TaskVideoTranscoding_def TaskThumbsnailProcessor_def TaskFacesProcessor_def
  TaskVideoExport_def TaskActivityEvent_def TaskFacesStreamDeleted_def

section \<open>Properties\<close>

text \<open>The calls each operation can make.\<close>

lemma emits_distribute [emits]:
  "(\<And>r. A (EvEnqueue TaskClient t r)) \<Longrightarrow> emits A (distribute E t)"
  "(\<And>r. A (EvEnqueue TaskClient t r)) \<Longrightarrow> emits A (redistribute E what t)"
  by (auto simp: queue_defs intro!: emits)

lemma emits_task_queue [emits]:
  "(\<And>t r. A (EvEnqueue TaskClient t r)) \<Longrightarrow> emits A (DistributeVideoTranscoding E u p)"
  "(\<And>t r. A (EvEnqueue TaskClient t r)) \<Longrightarrow> emits A (DistributeThumbsnailProcessor E u p)"
  "(\<And>t r. A (EvEnqueue TaskClient t r)) \<Longrightarrow> emits A (DistributeFacesProcessor E u p)"
  "(\<And>t r. A (EvEnqueue TaskClient t r)) \<Longrightarrow> (\<And>v. A (EvUuid v)) \<Longrightarrow> emits A (ReprocessVideoTranscoding E u p)"
  "(\<And>t r. A (EvEnqueue TaskClient t r)) \<Longrightarrow> (\<And>v. A (EvUuid v)) \<Longrightarrow> emits A (ReprocessThumbsnailProcessor E u p)"
  "(\<And>t r. A (EvEnqueue TaskClient t r)) \<Longrightarrow> (\<And>v. A (EvUuid v)) \<Longrightarrow> emits A (ReprocessFacesProcessor E u p)"
  by (auto simp: queue_defs intro!: emits)

lemma emits_terminate [emits]:
  "(\<And>r. A (EvCancelProcessing i r)) \<Longrightarrow> (\<And>r. A (EvDeleteTask ''default'' i r)) \<Longrightarrow> emits A (TerminateTask E i)"
  by (auto simp: TerminateTask_def intro!: emits)

lemma emits_export_queue [emits]:
  "(\<And>t. A (EvNow t)) \<Longrightarrow> (\<And>t r. A (EvEnqueue ExportClient t r)) \<Longrightarrow> emits A (DistributeVideoExport E s u m)"
  by (auto simp: DistributeVideoExport_def exportTaskID_def intro!: emits)

lemma emits_activity [emits]:
  "(\<And>u. A (EvUuid u)) \<Longrightarrow> (\<And>t. A (EvNow t)) \<Longrightarrow> (\<And>t r. A (EvEnqueue EventsClient t r)) \<Longrightarrow>
   emits A (RecordActivityEvent E u k i p)"
  by (auto simp: RecordActivityEvent_def NewActivityEventTask_def intro!: emits)

lemma emits_cascade [emits]:
  "(\<And>t r. A (EvEnqueue CascadeClient t r)) \<Longrightarrow> emits A (RecordStreamDeleted E i)"
  by (auto simp: RecordStreamDeleted_def intro!: emits)

end
