(* ===== verification/Hub.thy ===== *)
theory Hub
  imports Effects
begin

text \<open>
  \<open>internal/wss/hub_impl.go\<close>: the registry of open websocket connections, a Go map from the user to a
  slice of connections. A missing key reads as the nil slice.
\<close>

type_synonym clients = "uuid \<rightharpoonup> conn list"

definition conns_of :: "clients \<Rightarrow> uuid \<Rightarrow> conn list" where
  "conns_of m u = (case m u of None \<Rightarrow> [] | Some cs \<Rightarrow> cs)"

definition hub_register :: "uuid \<Rightarrow> conn \<Rightarrow> clients \<Rightarrow> clients" where
  "hub_register u c m = m(u \<mapsto> conns_of m u @ [c])"

text \<open>
  The loop of \<open>Unregister\<close>. \<open>append(conns[:i], conns[i+1:]...)\<close> shifts the backing array of \<open>conns\<close>
  in place while the loop goes on over it, without a \<open>break\<close>: \<open>arr\<close> is that array, of the length the
  loop started with, whose last cell keeps its old value; \<open>cur\<close> is the slice now in the map.
\<close>

function unregister_loop :: "nat \<Rightarrow> conn \<Rightarrow> conn list \<Rightarrow> conn list \<Rightarrow> conn list" where
  "unregister_loop i c arr cur =
    (if i \<ge> length arr then cur
     else if arr ! i = c then
       (let shifted = take i arr @ drop (Suc i) arr
        in unregister_loop (Suc i) c (shifted @ [last arr]) shifted)
     else unregister_loop (Suc i) c arr cur)"
  by pat_completeness auto
termination
  by (relation "measure (\<lambda>(i, c, arr, cur). length arr - i)") auto

declare unregister_loop.simps [simp del]

definition hub_unregister :: "uuid \<Rightarrow> conn \<Rightarrow> clients \<Rightarrow> clients" where
  "hub_unregister u c m =
    (let cs = conns_of m u;
         rest = unregister_loop 0 c cs cs
     in if rest = [] then m(u := None)
        else if c \<in> set cs then m(u \<mapsto> rest) else m)"

section \<open>The hub as used by the service\<close>

definition hub_Register :: "uuid \<Rightarrow> conn \<Rightarrow> unit io" where
  "hub_Register u c = do { m \<leftarrow> get_clients; set_clients (hub_register u c m) }"

definition hub_Unregister :: "uuid \<Rightarrow> conn \<Rightarrow> unit io" where
  "hub_Unregister u c = do { m \<leftarrow> get_clients; set_clients (hub_unregister u c m) }"

text \<open>The slice header is read under the lock; the write errors are dropped.\<close>

definition SendMessgeToOwner :: "env \<Rightarrow> uuid \<Rightarrow> json \<Rightarrow> unit io" where
  "SendMessgeToOwner E u msg = do {
     m \<leftarrow> get_clients;
     for_each (conns_of m u) (\<lambda>c. do {
       _ \<leftarrow> ask (\<lambda>h. ws_WriteJSON E h c msg) (EvWriteJSON c msg);
       ret () })
   }"

section \<open>The contract of a connection registry\<close>

locale connection_registry =
  fixes register :: "'u \<Rightarrow> 'c \<Rightarrow> 's \<Rightarrow> 's" and unregister :: "'u \<Rightarrow> 'c \<Rightarrow> 's \<Rightarrow> 's"
    and conns :: "'s \<Rightarrow> 'u \<Rightarrow> 'c list" and invar :: "'s \<Rightarrow> bool"
  assumes conns_register: "conns (register u c s) = (conns s)(u := conns s u @ [c])"
    and conns_unregister: "invar s \<Longrightarrow> conns (unregister u c s) = (conns s)(u := remove1 c (conns s u))"
    and invar_register: "invar s \<Longrightarrow> (\<forall>v. c \<notin> set (conns s v)) \<Longrightarrow> invar (register u c s)"
    and invar_unregister: "invar s \<Longrightarrow> invar (unregister u c s)"
    and invar_distinct: "invar s \<Longrightarrow> distinct (conns s u)"
begin

text \<open>A connection that comes and goes leaves the registry as it was.\<close>

lemma unregister_register:
  assumes "invar s" and "\<forall>v. c \<notin> set (conns s v)"
  shows "conns (unregister u c (register u c s)) = conns s"
  using assms by (simp add: conns_unregister invar_register conns_register remove1_append fun_eq_iff)

lemma unregister_removes: "invar s \<Longrightarrow> c \<notin> set (conns (unregister u c s) u)"
  using invar_distinct [of s u] by (simp add: conns_unregister)

lemma unregister_keeps: "invar s \<Longrightarrow> d \<noteq> c \<Longrightarrow> d \<in> set (conns (unregister u c s) v) \<longleftrightarrow> d \<in> set (conns s v)"
  by (simp add: conns_unregister)

lemma users_apart: "invar s \<Longrightarrow> u \<noteq> v \<Longrightarrow> conns (unregister u c s) v = conns s v"
  by (simp add: conns_unregister)

end

text \<open>
  The invariant: no empty slice is kept, no connection is listed twice, and a connection belongs to
  one user (a connection object is registered once, by the handler that opened it).
\<close>

definition hub_invar :: "clients \<Rightarrow> bool" where
  "hub_invar m \<longleftrightarrow> (\<forall>u. m u \<noteq> Some []) \<and> (\<forall>u. distinct (conns_of m u))"

lemma unregister_loop_absent:
  "(\<forall>j < length arr. i \<le> j \<longrightarrow> arr ! j \<noteq> c) \<Longrightarrow> unregister_loop i c arr cur = cur"
proof (induction i c arr cur rule: unregister_loop.induct)
  case (1 i c arr cur)
  then show ?case by (auto simp: unregister_loop.simps [of i c arr cur])
qed

text \<open>After the shift the cells the loop has still to visit do not hold the connection.\<close>

lemma shifted_tail_absent:
  assumes "i < length arr" and notin: "c \<notin> set (drop (Suc i) arr)"
  shows "\<forall>j < length ((take i arr @ drop (Suc i) arr) @ [last arr]). Suc i \<le> j \<longrightarrow>
    ((take i arr @ drop (Suc i) arr) @ [last arr]) ! j \<noteq> c"
proof (intro allI impI)
  let ?shifted = "take i arr @ drop (Suc i) arr"
  fix j assume j: "j < length (?shifted @ [last arr])" "Suc i \<le> j"
  show "(?shifted @ [last arr]) ! j \<noteq> c"
  proof (cases "j < length ?shifted")
    case True
    then have "(?shifted @ [last arr]) ! j = drop (Suc i) arr ! (j - i)" and "j - i < length (drop (Suc i) arr)"
      using j assms(1) by (auto simp: nth_append min_def)
    then have "(?shifted @ [last arr]) ! j \<in> set (drop (Suc i) arr)" by (metis nth_mem)
    then show ?thesis using notin by blast
  next
    case False
    then have "j = length ?shifted" using j(1) by (simp only: length_append list.size)
    then have "(?shifted @ [last arr]) ! j = last arr" by (simp only: nth_append_length)
    moreover have "drop (Suc i) arr \<noteq> []" using j assms(1) False by auto
    then have "last arr \<in> set (drop (Suc i) arr)"
      by (metis last_drop last_in_set drop_eq_Nil not_le_imp_less)
    ultimately show ?thesis using notin by metis
  qed
qed

lemma unregister_loop_distinct:
  assumes "distinct arr" and "\<forall>j < i. arr ! j \<noteq> c" and "i \<le> length arr"
  shows "unregister_loop i c arr arr = remove1 c arr"
  using assms
proof (induction "length arr - i" arbitrary: i)
  case 0
  then have "c \<notin> set arr" by (auto simp: in_set_conv_nth)
  then show ?case using 0 by (simp add: unregister_loop.simps [of i] remove1_idem)
next
  case (Suc n)
  then have i: "i < length arr" by simp
  show ?case
  proof (cases "arr ! i = c")
    case False
    then have "\<forall>j < Suc i. arr ! j \<noteq> c" using Suc.prems(2) less_Suc_eq by auto
    then have "unregister_loop (Suc i) c arr arr = remove1 c arr"
      using Suc i by simp
    then show ?thesis using i False by (simp add: unregister_loop.simps [of i])
  next
    case True
    let ?shifted = "take i arr @ drop (Suc i) arr"
    have arr: "arr = take i arr @ c # drop (Suc i) arr"
      using id_take_nth_drop [OF i] True by simp
    have notin: "c \<notin> set (take i arr)" "c \<notin> set (drop (Suc i) arr)"
      using arr Suc.prems(1) by (metis distinct.simps(2) distinct_append disjoint_insert(1) list.set(2), 
        metis arr distinct.simps(2) distinct_append)
    have "\<forall>j < length (?shifted @ [last arr]). Suc i \<le> j \<longrightarrow> (?shifted @ [last arr]) ! j \<noteq> c"
      using shifted_tail_absent [OF i notin(2)] .
    then have "unregister_loop (Suc i) c (?shifted @ [last arr]) ?shifted = ?shifted"
      by (rule unregister_loop_absent)
    moreover have "remove1 c arr = ?shifted"
      using arr notin by (metis remove1.simps(2) remove1_append)
    ultimately show ?thesis
      using i True by (simp add: unregister_loop.simps [of i] Let_def)
  qed
qed

lemma conns_of_register: "conns_of (hub_register u c m) = (conns_of m)(u := conns_of m u @ [c])"
  by (auto simp: conns_of_def hub_register_def fun_eq_iff)

lemma conns_of_unregister:
  assumes "hub_invar m"
  shows "conns_of (hub_unregister u c m) = (conns_of m)(u := remove1 c (conns_of m u))"
proof -
  have "unregister_loop 0 c (conns_of m u) (conns_of m u) = remove1 c (conns_of m u)"
    using assms by (intro unregister_loop_distinct) (auto simp: hub_invar_def)
  then show ?thesis
    by (auto simp: hub_unregister_def Let_def fun_eq_iff conns_of_def remove1_idem split: option.splits)
qed

lemma hub_invar_unregister:
  assumes "hub_invar m"
  shows "hub_invar (hub_unregister u c m)"
proof -
  have "\<forall>v. distinct (conns_of (hub_unregister u c m) v)"
    using assms by (auto simp: conns_of_unregister hub_invar_def)
  moreover have "\<forall>v. hub_unregister u c m v \<noteq> Some []"
    using assms by (auto simp: hub_unregister_def Let_def hub_invar_def)
  ultimately show ?thesis by (simp add: hub_invar_def)
qed

interpretation hub: connection_registry hub_register hub_unregister conns_of hub_invar
proof unfold_locales
  fix m c u
  assume "hub_invar m" and "\<forall>v. c \<notin> set (conns_of m v)"
  then show "hub_invar (hub_register u c m)"
    by (auto simp: hub_invar_def conns_of_register) (auto simp: hub_register_def split: if_splits)
next
  fix m u
  show "hub_invar m \<Longrightarrow> distinct (conns_of m u)" by (simp add: hub_invar_def)
qed (simp_all add: conns_of_register conns_of_unregister hub_invar_unregister)

text \<open>A message is written once to each connection of the owner, in order, and nowhere else.\<close>

lemma run_send_loop:
  "\<exists>evs. run_state (for_each cs (\<lambda>c. do {
       _ \<leftarrow> ask (\<lambda>h. ws_WriteJSON E h c msg) (EvWriteJSON c msg); ret () })) w =
     ((), w\<lparr>hist := hist w @ evs\<rparr>) \<and>
   list_all2 (\<lambda>c e. \<exists>r. e = EvWriteJSON c msg r) cs evs"
proof (induction cs arbitrary: w)
  case (Cons c cs)
  let ?w = "w\<lparr>hist := hist w @ [EvWriteJSON c msg (ws_WriteJSON E (hist w) c msg)]\<rparr>"
  obtain evs where "run_state (for_each cs (\<lambda>c. do {
       _ \<leftarrow> ask (\<lambda>h. ws_WriteJSON E h c msg) (EvWriteJSON c msg); ret () })) ?w =
     ((), ?w\<lparr>hist := hist ?w @ evs\<rparr>)" "list_all2 (\<lambda>c e. \<exists>r. e = EvWriteJSON c msg r) cs evs"
    using Cons.IH by blast
  then show ?case
    by (intro exI [of _ "EvWriteJSON c msg (ws_WriteJSON E (hist w) c msg) # evs"]) simp
qed simp

lemma emits_send [emits]: "(\<And>c r. A (EvWriteJSON c msg r)) \<Longrightarrow> emits A (SendMessgeToOwner E u msg)"
  by (auto simp: SendMessgeToOwner_def intro!: emits)

lemma wpre_send:
  assumes "\<And>evs. list_all2 (\<lambda>c e. \<exists>r. e = EvWriteJSON c msg r) (conns_of (clients w) u) evs \<Longrightarrow>
             Q () (w\<lparr>hist := hist w @ evs\<rparr>)"
  shows "wpre (SendMessgeToOwner E u msg) Q w"
  using run_send_loop [of "conns_of (clients w) u" E msg w] assms
  by (auto simp: SendMessgeToOwner_def wpre_def)

end
