(* ===== verification/ServiceCore.thy ===== *)
theory ServiceCore
  imports StorageMinio Repository Queue Hub
begin

text \<open>
  \<open>internal/service/stream_service_impl.go\<close>, first part: creation, reading, editing, deletion,
  publication and the status reports of the transcoder. A method of \<open>StreamServiceImpl\<close> is a
  computation that takes the environment \<open>E\<close> and the configured service \<open>S\<close>.
\<close>

section \<open>The service\<close>

text \<open>
  What of \<open>StreamServiceImpl\<close> varies between deployments: the collaborators that may be nil, one
  option of \<open>config.Server\<close>, and the bucket of the storage. The others are always attached.
\<close>

record service =
  HasHub :: bool
  HasEvents :: bool
  HasCascade :: bool
  KeepOriginalFile :: bool
  StorageBucket :: string

text \<open>A call that may dereference a nil pointer.\<close>

datatype 'a outcome = Returns 'a | Panics

record CreateStreamRequest =
  Create_Title :: string
  Create_Description :: string
  Create_Visibility :: StreamVisibility
  Create_Tags :: "string list"
  Create_OwnerID :: uuid

text \<open>Pointers to optional values; \<open>Tags\<close> points to a slice that may itself be nil.\<close>

record UpdateStreamRequest =
  Update_Title :: "string option"
  Update_Description :: "string option"
  Update_Visibility :: "StreamVisibility option"
  Update_Tags :: "string list option option"
  Update_Rotation :: "int option"

section \<open>Events and notifications\<close>

text \<open>The extra values are a map or nil; nil contributes no key.\<close>

definition eventPayload :: "Stream \<Rightarrow> (string \<times> json) list \<Rightarrow> (string \<times> json) list" where
  "eventPayload stream extra =
    (let p = map_merge [] extra;
         p = map_set ''title'' (enc_string (Title stream)) p
     in map_set ''visibility'' (enc_string (visibility_text (Visibility stream))) p)"

definition recordEvent :: "env \<Rightarrow> service \<Rightarrow> Stream \<Rightarrow> string \<Rightarrow> (string \<times> json) list \<Rightarrow> unit io" where
  "recordEvent E S stream eventType payload =
    (if \<not> HasEvents S then ret ()
     else do {
       _ \<leftarrow> RecordActivityEvent E (OwnerID stream) eventType (Some (ID stream)) (JObj (eventPayload stream payload));
       ret ()
     })"

definition recordFaceCascade :: "env \<Rightarrow> service \<Rightarrow> uuid \<Rightarrow> unit io" where
  "recordFaceCascade E S streamID =
    (if \<not> HasCascade S then ret ()
     else do { _ \<leftarrow> RecordStreamDeleted E streamID; ret () })"

definition stream_message :: "env \<Rightarrow> string \<Rightarrow> Stream \<Rightarrow> json" where
  "stream_message E kind stream =
     JObj [(''payload'', JObj [(''stream_id'', enc_uuid E (ID stream))]), (''type'', JStr kind)]"

definition notifyUpdate :: "env \<Rightarrow> service \<Rightarrow> Stream \<Rightarrow> unit io" where
  "notifyUpdate E S stream =
    (if HasHub S then SendMessgeToOwner E (OwnerID stream) (stream_message E ''STREAM_UPDATED'' stream)
     else ret ())"

definition notifyComplete :: "env \<Rightarrow> service \<Rightarrow> Stream \<Rightarrow> unit io" where
  "notifyComplete E S stream =
    (if HasHub S then SendMessgeToOwner E (OwnerID stream) (stream_message E ''STREAM_READY'' stream)
     else ret ())"

section \<open>Creation and reading\<close>

definition new_stream :: "CreateStreamRequest \<Rightarrow> Stream" where
  "new_stream req =
     \<lparr>ID = uuid_Nil, CreatedAt = 0, UpdatedAt = 0, DeletedAt = None,
      Title = Create_Title req, Description = Create_Description req, Status = StatusDraft,
      OwnerID = Create_OwnerID req, Visibility = Create_Visibility req,
      Tags = (if Create_Tags req \<noteq> [] then Marshal (enc_slice enc_string) (Some (Create_Tags req)) else RNil),
      Metadata = RNil, Storage = RNil, Processing = RNil, PublishedAt = None, FacesDetected = False\<rparr>"

definition CreateStream :: "env \<Rightarrow> service \<Rightarrow> CreateStreamRequest \<Rightarrow> (goerr + Stream) io" where
  "CreateStream E S req =
    (if Create_Title req = [] then ret (Inl (Errorf ''stream title is required''))
     else if Create_OwnerID req = uuid_Nil then ret (Inl (Errorf ''owner ID is required''))
     else do {
       (r, stream) \<leftarrow> repo_Create E (new_stream req);
       case r of
         Some err \<Rightarrow> ret (Inl err)
       | None \<Rightarrow> do {
           let sub = uuid_String E (OwnerID stream);
           let obj = ''stream/'' @ uuid_String E (ID stream);
           for_each [''write'', ''read'', ''delete''] (\<lambda>act. do {
             _ \<leftarrow> ask (\<lambda>h. perm_AddPolicy E h sub obj act) (EvAddPolicy sub obj act);
             ret () });
           recordEvent E S stream ''stream.created''
             [(''title'', enc_string (Title stream)),
              (''visibility'', enc_string (visibility_text (Visibility stream)))];
           ret (Inr stream)
         }
     })"

definition GetStream :: "env \<Rightarrow> uuid \<Rightarrow> (goerr + Stream) io" where
  "GetStream E i = do {
     r \<leftarrow> repo_Read E i;
     case r of
       Inl err \<Rightarrow>
         if is_record_not_found err then ret (Inl (Sentinel ErrStreamNotFound))
         else ret (Inl (Wrapf ''failed to get stream: '' err []))
     | Inr stream \<Rightarrow> ret (Inr stream)
   }"

definition GetStreamStatus :: "env \<Rightarrow> uuid \<Rightarrow> (goerr + Stream) io" where
  "GetStreamStatus E i = do {
     r \<leftarrow> repo_Read E i;
     case r of
       Inl err \<Rightarrow> ret (Inl (Sentinel ErrStreamNotFound))
     | Inr stream \<Rightarrow> ret (Inr stream)
   }"

definition ListStreams :: "env \<Rightarrow> StreamFilter \<Rightarrow> ((goerr + Stream list) \<times> int) io" where
  "ListStreams E f = do {
     (r, count) \<leftarrow> repo_List E f;
     case r of
       Inl err \<Rightarrow> ret (Inl (Wrapf ''failed to list streams: '' err []), count)
     | Inr streams \<Rightarrow> ret (Inr streams, count)
   }"

definition ListUserStreams :: "env \<Rightarrow> uuid \<Rightarrow> StreamFilter \<Rightarrow> ((goerr + Stream list) \<times> int) io" where
  "ListUserStreams E userID f = ListStreams E (f\<lparr>FOwnerID := Some userID\<rparr>)"

section \<open>Editing\<close>

text \<open>
  The metadata column as a map: nothing or null is the empty map, an object is read member by member
  (a repeated key keeps its last value), anything else is an error.
\<close>

definition metadata_map :: "raw \<Rightarrow> goerr + (string \<times> json) list" where
  "metadata_map r =
    (if raw_empty r \<or> r = RDoc JNull then Inr []
     else (case r of
             RDoc (JObj kvs) \<Rightarrow>
               if numbers_finite (JObj kvs) then
                 Inr (map_merge [] (map (\<lambda>(k, j). (coerce_utf8 k, reprint j)) kvs))
               else Inl (Errorf ''json: cannot unmarshal'')
           | RDoc _ \<Rightarrow> Inl (Errorf ''json: cannot unmarshal'')
           | _ \<Rightarrow> Inl (Errorf ''invalid character'')))"

definition setStreamRotation :: "Stream \<Rightarrow> int \<Rightarrow> goerr + Stream" where
  "setStreamRotation stream rotation =
    (case metadata_map (Metadata stream) of
       Inl err \<Rightarrow> Inl (Wrapf ''failed to read stream metadata: '' err [])
     | Inr meta \<Rightarrow> Inr (stream\<lparr>Metadata := RDoc (JObj (map_set ''rotation'' (JNum rotation) meta))\<rparr>))"

text \<open>The edits of \<open>UpdateStream\<close>, up to the call of the repository.\<close>

definition edit_title :: "UpdateStreamRequest \<Rightarrow> Stream \<Rightarrow> goerr + Stream" where
  "edit_title req stream =
    (case Update_Title req of
       None \<Rightarrow> Inr stream
     | Some title \<Rightarrow>
         if title = [] then Inl (Errorf ''stream title connot be empty'')
         else if length title > 255 then Inl (Errorf ''stream title is too long'')
         else Inr (stream\<lparr>Title := title\<rparr>))"

definition apply_edits :: "UpdateStreamRequest \<Rightarrow> Stream \<Rightarrow> goerr + Stream" where
  "apply_edits req stream =
    (case edit_title req stream of
       Inl err \<Rightarrow> Inl err
     | Inr stream \<Rightarrow>
         (let stream = (case Update_Description req of None \<Rightarrow> stream | Some d \<Rightarrow> stream\<lparr>Description := d\<rparr>);
              stream = (case Update_Visibility req of None \<Rightarrow> stream | Some v \<Rightarrow> stream\<lparr>Visibility := v\<rparr>);
              stream = (case Update_Tags req of None \<Rightarrow> stream
                        | Some tags \<Rightarrow> stream\<lparr>Tags := Marshal (enc_slice enc_string) tags\<rparr>)
          in (case Update_Rotation req of
                None \<Rightarrow> Inr stream
              | Some rotation \<Rightarrow> setStreamRotation stream rotation)))"

definition UpdateStream :: "env \<Rightarrow> service \<Rightarrow> uuid \<Rightarrow> UpdateStreamRequest \<Rightarrow> (goerr + Stream) io" where
  "UpdateStream E S i req = do {
     r \<leftarrow> repo_Read E i;
     case r of
       Inl err \<Rightarrow>
         if is_record_not_found err then ret (Inl (Sentinel ErrStreamNotFound))
         else ret (Inl (Wrapf ''failed to get stream: '' err []))
     | Inr stream \<Rightarrow>
         if Status stream = StatusPublished then ret (Inl (Sentinel ErrCannotUpdatePublished))
         else
           (case apply_edits req stream of
              Inl err \<Rightarrow> ret (Inl err)
            | Inr stream \<Rightarrow> do {
                (r, stream) \<leftarrow> repo_Update E stream;
                case r of
                  Some err \<Rightarrow> ret (Inl (Wrapf ''failed to update stream: '' err []))
                | None \<Rightarrow> do { notifyUpdate E S stream; ret (Inr stream) }
              })
   }"

section \<open>Deletion\<close>

text \<open>The objects of the stream: the source (an error ends the deletion), the renditions, the thumbnail.\<close>

definition delete_objects :: "env \<Rightarrow> service \<Rightarrow> uuid \<Rightarrow> Stream \<Rightarrow> goerr option io" where
  "delete_objects E S i stream =
    (if Storage stream = RNil then ret None
     else (case Unmarshal dec_storage (Storage stream) zero_storage of
       (stor, Some err) \<Rightarrow> ret (Some (Wrapf ''unmarshaling storage error: '' err []))
     | (stor, None) \<Rightarrow> do {
         r \<leftarrow> (if Key stor \<noteq> [] then storage_Delete E (StorageBucket S) (Key stor) else ret None);
         case r of
           Some err \<Rightarrow> ret (Some (Wrapf ''error delete stream file from storage: '' err []))
         | None \<Rightarrow> do {
             _ \<leftarrow> (if Status stream = StatusReady
                  then storage_DeleteFolder E (StorageBucket S) (''processed/'' @ uuid_String E i)
                  else ret None);
             _ \<leftarrow> storage_Delete E (StorageBucket S) (''thumbnails/'' @ uuid_String E i @ ''.jpg'');
             ret None
           }
       }))"

definition terminate_tasks :: "env \<Rightarrow> Stream \<Rightarrow> unit io" where
  "terminate_tasks E stream =
    (case ProcessingTasks stream of
       Inl err \<Rightarrow> ret ()
     | Inr tasks \<Rightarrow>
         if Status stream = StatusProcessing then
           for_each tasks (\<lambda>t. case TaskID t of
               None \<Rightarrow> ret ()
             | Some i \<Rightarrow> do { _ \<leftarrow> TerminateTask E i; ret () })
         else ret ())"

definition DeleteStream :: "env \<Rightarrow> service \<Rightarrow> uuid \<Rightarrow> goerr option io" where
  "DeleteStream E S i = do {
     r \<leftarrow> repo_Read E i;
     case r of
       Inl err \<Rightarrow>
         if is_record_not_found err then ret (Some (Sentinel ErrStreamNotFound))
         else ret (Some (Wrapf ''delete stream error: '' err []))
     | Inr stream \<Rightarrow>
         if Status stream = StatusPublished then ret (Some (Sentinel ErrCannotDeletePublished))
         else do {
           r \<leftarrow> delete_objects E S i stream;
           case r of
             Some err \<Rightarrow> ret (Some err)
           | None \<Rightarrow> do {
               terminate_tasks E stream;
               r \<leftarrow> repo_Delete E i;
               case r of
                 Some err \<Rightarrow> ret (Some (Wrapf ''failed to delete stream: '' err []))
               | None \<Rightarrow> do {
                   recordEvent E S stream ''stream.deleted'' [];
                   recordFaceCascade E S i;
                   let sub = uuid_String E (OwnerID stream);
                   let obj = ''stream/'' @ uuid_String E (ID stream);
                   for_each [''read'', ''write'', ''delete''] (\<lambda>act. do {
                     _ \<leftarrow> ask (\<lambda>h. perm_RemovePolicy E h sub obj act) (EvRemovePolicy sub obj act);
                     ret () });
                   ret None
                 }
             }
         }
   }"

section \<open>Publication and status\<close>

definition PublishStream :: "env \<Rightarrow> service \<Rightarrow> uuid \<Rightarrow> goerr option io" where
  "PublishStream E S streamID = do {
     r \<leftarrow> repo_Read E streamID;
     case r of
       Inl err \<Rightarrow> ret (Some (Wrapf ''error read stream from repo: '' err []))
     | Inr stream \<Rightarrow>
         if Status stream \<noteq> StatusReady then ret (Some (Sentinel ErrCannotPublish))
         else do {
           (r, stream) \<leftarrow> repo_Update E (stream\<lparr>Status := StatusPublished\<rparr>);
           case r of
             Some err \<Rightarrow> ret (Some (Wrapf ''error update stream in repo: '' err []))
           | None \<Rightarrow> do {
               notifyComplete E S stream;
               recordEvent E S stream ''stream.published'' [];
               ret None
             }
         }
   }"

definition UnpublishStream :: "env \<Rightarrow> service \<Rightarrow> uuid \<Rightarrow> goerr option io" where
  "UnpublishStream E S streamID = do {
     r \<leftarrow> repo_Read E streamID;
     case r of
       Inl err \<Rightarrow> ret (Some (Wrapf ''error read stream from repo: '' err []))
     | Inr stream \<Rightarrow>
         if Status stream \<noteq> StatusPublished then ret (Some (Sentinel ErrCannotUnpublish))
         else do {
           (r, stream) \<leftarrow> repo_Update E (stream\<lparr>Status := StatusReady\<rparr>);
           case r of
             Some err \<Rightarrow> ret (Some (Wrapf ''error update stream in repo: '' err []))
           | None \<Rightarrow> do {
               notifyUpdate E S stream;
               recordEvent E S stream ''stream.unpublished'' [];
               ret None
             }
         }
   }"

text \<open>\<open>GetStorageInfo\<close> gives a nil pointer with its error; the error is dropped and \<open>Key\<close> is read.\<close>

definition UpdateStreamStatus ::
  "env \<Rightarrow> service \<Rightarrow> uuid \<Rightarrow> StreamStatus \<Rightarrow> goerr option outcome io" where
  "UpdateStreamStatus E S streamID status = do {
     r \<leftarrow> repo_Read E streamID;
     case r of
       Inl err \<Rightarrow> ret (Returns (Some (Wrapf ''error read stream from repo: '' err [])))
     | Inr stream \<Rightarrow> do {
         (r, stream) \<leftarrow> repo_Update E (stream\<lparr>Status := status\<rparr>);
         case r of
           Some err \<Rightarrow> ret (Returns (Some (Wrapf ''error update stream in repo: '' err [])))
         | None \<Rightarrow> do {
             (if Status stream = StatusReady then recordEvent E S stream ''stream.ready'' [] else ret ());
             if Status stream = StatusReady \<and> \<not> KeepOriginalFile S then
               (case GetStorageInfo stream of
                  Inl err \<Rightarrow> ret Panics
                | Inr info \<Rightarrow> do {
                    _ \<leftarrow> storage_Delete E (StorageBucket S) (Key info);
                    notifyUpdate E S stream;
                    ret (Returns None)
                  })
             else do { notifyUpdate E S stream; ret (Returns None) }
           }
       }
   }"

lemmas notify_defs = notifyUpdate_def notifyComplete_def recordEvent_def recordFaceCascade_def

section \<open>The calls of the helpers\<close>

lemma emits_notify [emits]:
  "(\<And>c m r. A (EvWriteJSON c m r)) \<Longrightarrow> emits A (notifyUpdate E S s)"
  "(\<And>c m r. A (EvWriteJSON c m r)) \<Longrightarrow> emits A (notifyComplete E S s)"
  by (auto simp: notify_defs intro!: emits)

lemma emits_recordEvent [emits]:
  "(\<And>u. A (EvUuid u)) \<Longrightarrow> (\<And>t. A (EvNow t)) \<Longrightarrow> (\<And>t r. A (EvEnqueue EventsClient t r)) \<Longrightarrow>
   emits A (recordEvent E S s k p)"
  by (auto simp: notify_defs intro!: emits)

lemma emits_recordFaceCascade [emits]:
  "(\<And>t r. A (EvEnqueue CascadeClient t r)) \<Longrightarrow> emits A (recordFaceCascade E S i)"
  by (auto simp: notify_defs intro!: emits)

lemma emits_delete_objects [emits]:
  "(\<And>b k r. A (EvRemoveObject b k r)) \<Longrightarrow> (\<And>b k r. A (EvRemoveObjects b k r)) \<Longrightarrow>
   emits A (delete_objects E S i s)"
  by (auto simp: delete_objects_def intro!: emits split: option.split)

lemma emits_terminate_tasks [emits]:
  "(\<And>i r. A (EvCancelProcessing i r)) \<Longrightarrow> (\<And>q i r. A (EvDeleteTask q i r)) \<Longrightarrow>
   emits A (terminate_tasks E s)"
  by (auto simp: terminate_tasks_def intro!: emits split: option.split sum.split)

end
