(* ===== verification/ServiceUpload.thy ===== *)
theory ServiceUpload
  imports ServiceCore "HOL-Library.Multiset"
begin

text \<open>
  \<open>stream_service_impl.go\<close>: the two ways a video arrives, in one request (\<open>UploadVideo\<close>) or as a
  multipart upload (\<open>StartStreamUpload\<close>, \<open>UploadPart\<close>, \<open>CompleteStreamUpload\<close>). A reader that is
  passed on to the storage is the text it yields.
\<close>

record UploadVideoRequest =
  Video_StreamID :: uuid
  Video_UserID :: uuid
  Video_File :: string
  Video_FileName :: string
  Video_Size :: int

record StartUploadRequest =
  Start_StreamID :: uuid
  Start_UserID :: uuid
  Start_Filename :: string
  Start_TotalSize :: int

record UploadInfo =
  Info_UploadID :: string
  Info_StreamID :: uuid

record UploadPartRequest =
  Part_StreamID :: uuid
  Part_UserID :: uuid
  Part_UploadID :: string
  Part_Number :: int
  Part_Data :: string
  Part_Size :: int

record CompleteStreamUploadRequest =
  Complete_StreamID :: uuid
  Complete_UserID :: uuid
  Complete_Parts :: "MultipartPart list"

definition storage_key :: "env \<Rightarrow> uuid \<Rightarrow> uuid \<Rightarrow> uuid \<Rightarrow> string" where
  "storage_key E userID streamID fresh =
     ''streams/'' @ uuid_String E userID @ ''/videos/'' @ uuid_String E streamID @ ''_'' @ uuid_String E fresh"

section \<open>Queueing the work on a new video\<close>

text \<open>
  The end of both operations, from the first task to the last event: a task that cannot be queued is
  logged and left without an id.
\<close>

definition task_id_of :: "goerr + string option \<Rightarrow> string option" where
  "task_id_of r = (case r of Inl err \<Rightarrow> None | Inr i \<Rightarrow> i)"

definition initial_tasks :: "string option \<Rightarrow> string option \<Rightarrow> string option \<Rightarrow> StreamProcessingTask list" where
  "initial_tasks taskID thumbID facesID =
    [\<lparr>TaskType = TaskTypeTranscode, Progress = 0, Steps = Some [''convertation''], TaskError = None, TaskID = taskID\<rparr>,
     \<lparr>TaskType = TaskTypeThumbnail, Progress = 0, Steps = Some [''Generating thumbnail preview''], TaskError = None, TaskID = thumbID\<rparr>,
     \<lparr>TaskType = TaskTypeFaces, Progress = 0, Steps = Some [''Detecting faces''], TaskError = None, TaskID = facesID\<rparr>]"

definition queue_new_video :: "env \<Rightarrow> service \<Rightarrow> Stream \<Rightarrow> string \<Rightarrow> goerr option io" where
  "queue_new_video E S stream key = do {
     r1 \<leftarrow> DistributeVideoTranscoding E (ID stream) key;
     r2 \<leftarrow> DistributeThumbsnailProcessor E (ID stream) key;
     r3 \<leftarrow> DistributeFacesProcessor E (ID stream) key;
     (r, stream) \<leftarrow> repo_Update E
        (SetInitialTasks (initial_tasks (task_id_of r1) (task_id_of r2) (task_id_of r3)) stream);
     case r of
       Some err \<Rightarrow> ret (Some (Wrapf ''failed to update processing: '' err []))
     | None \<Rightarrow> do {
         notifyUpdate E S stream;
         recordEvent E S stream ''stream.upload.completed'' [];
         ret None
       }
   }"

section \<open>Upload in one request\<close>

definition UploadVideo :: "env \<Rightarrow> service \<Rightarrow> UploadVideoRequest \<Rightarrow> goerr option io" where
  "UploadVideo E S req = do {
     r \<leftarrow> repo_Read E (Video_StreamID req);
     case r of
       Inl err \<Rightarrow>
         if is_record_not_found err then ret (Some (Errorf ''stream not found''))
         else ret (Some (Wrapf ''failed to get stream: '' err []))
     | Inr stream \<Rightarrow>
         if OwnerID stream \<noteq> Video_UserID req then
           ret (Some (Errorf ''forbidden: user does not own this stream''))
         else if Status stream \<noteq> StatusDraft then
           ret (Some (Errorf (''cannot upload video stream with status: '' @ status_text (Status stream))))
         else do {
           fresh \<leftarrow> ask (uuid_New E) EvUuid;
           let key = storage_key E (Video_UserID req) (Video_StreamID req) fresh;
           r \<leftarrow> storage_Upload E (StorageBucket S) key (Video_File req) (Video_Size req);
           case r of
             Some err \<Rightarrow> ret (Some (Wrapf ''failed to upload to storage: '' err []))
           | None \<Rightarrow> do {
               now \<leftarrow> ask (time_Now E) EvNow;
               (r, stream) \<leftarrow> repo_Update E (stream\<lparr>
                  Storage := Marshal enc_storage
                    \<lparr>Provider = ''minio'', Bucket = StorageBucket S, Key = key,
                     Filename = Video_FileName req, UploadID = []\<rparr>,
                  Metadata := Marshal enc_metadata (zero_metadata\<lparr>MetaSize := Video_Size req\<rparr>),
                  Status := StatusProcessing, UpdatedAt := now\<rparr>);
               case r of
                 Some err \<Rightarrow> do {
                   _ \<leftarrow> storage_Delete E (StorageBucket S) key;
                   ret (Some (Wrapf ''failed to update stream: '' err []))
                 }
               | None \<Rightarrow> queue_new_video E S stream key
             }
         }
   }"

section \<open>Multipart upload\<close>

definition StartStreamUpload :: "env \<Rightarrow> service \<Rightarrow> StartUploadRequest \<Rightarrow> (goerr + UploadInfo) io" where
  "StartStreamUpload E S req = do {
     r \<leftarrow> repo_Read E (Start_StreamID req);
     case r of
       Inl err \<Rightarrow>
         if is_record_not_found err then ret (Inl (Errorf ''stream not found''))
         else ret (Inl (Wrapf ''error getting stream: '' err []))
     | Inr stream \<Rightarrow>
         if OwnerID stream \<noteq> Start_UserID req then ret (Inl (Errorf ''forbidden: not a owner''))
         else if Status stream \<noteq> StatusDraft then
           ret (Inl (Errorf (''cannot start upload for stream in status: '' @ status_text (Status stream))))
         else do {
           fresh \<leftarrow> ask (uuid_New E) EvUuid;
           let key = storage_key E (Start_UserID req) (Start_StreamID req) fresh;
           r \<leftarrow> storage_InitMultipart E (StorageBucket S) key;
           case r of
             Inl err \<Rightarrow> ret (Inl (Wrapf ''failed to init storage: '' err []))
           | Inr uID \<Rightarrow> do {
               now \<leftarrow> ask (time_Now E) EvNow;
               (r, stream) \<leftarrow> repo_Update E
                 ((SetStorageInfo
                    \<lparr>Provider = ''minio'', Bucket = StorageBucket S, Key = key,
                     Filename = Start_Filename req, UploadID = uID\<rparr>
                    (SetMetadata (zero_metadata\<lparr>MetaSize := Start_TotalSize req\<rparr>) stream))
                  \<lparr>Status := StatusUploading, UpdatedAt := now\<rparr>);
               case r of
                 Some err \<Rightarrow> do {
                   _ \<leftarrow> storage_AbortMultipart E (StorageBucket S) key uID;
                   ret (Inl (Wrapf ''failed to update stream: '' err []))
                 }
               | None \<Rightarrow> do {
                   recordEvent E S stream ''stream.upload.started''
                     [(''filename'', enc_string (Start_Filename req))];
                   ret (Inr \<lparr>Info_UploadID = uID, Info_StreamID = ID stream\<rparr>)
                 }
             }
         }
   }"

definition UploadPart :: "env \<Rightarrow> service \<Rightarrow> UploadPartRequest \<Rightarrow> (goerr + MultipartPart) io" where
  "UploadPart E S req = do {
     r \<leftarrow> repo_Read E (Part_StreamID req);
     case r of
       Inl err \<Rightarrow> ret (Inl (Wrapf ''error read stream from repository: '' err []))
     | Inr stream \<Rightarrow>
         if Status stream \<noteq> StatusUploading then
           ret (Inl (Errorf (''cannot start upload for stream in status: '' @ status_text (Status stream))))
         else (case Unmarshal dec_storage (Storage stream) zero_storage of
           (info, Some err) \<Rightarrow> ret (Inl (Wrapf ''error unmarshaling storage info: '' err []))
         | (info, None) \<Rightarrow>
             if Part_UploadID req \<noteq> UploadID info then
               ret (Inl (Errorf ''upload id from request not equal upload id from storage info''))
             else if OwnerID stream \<noteq> Part_UserID req then ret (Inl (Errorf ''forbidden: not a owner''))
             else do {
               r \<leftarrow> storage_UploadPart E (StorageBucket S) (Key info) (Part_UploadID req)
                      (Part_Number req) (Part_Data req) (Part_Size req);
               case r of
                 Inl err \<Rightarrow> ret (Inl (Wrapf ''error upload part to strage: '' err []))
               | Inr etag \<Rightarrow> ret (Inr \<lparr>PartNumber = Part_Number req, ETag = etag\<rparr>)
             })
   }"

text \<open>
  \<open>sort.Slice\<close> orders the parts by number. It is not stable, so with equal part numbers the order
  among them is the library's; \<open>sort_key\<close> is one of its results.
\<close>

definition sort_parts :: "MultipartPart list \<Rightarrow> MultipartPart list" where
  "sort_parts ps = sort_key PartNumber ps"

definition CompleteStreamUpload ::
  "env \<Rightarrow> service \<Rightarrow> CompleteStreamUploadRequest \<Rightarrow> goerr option io" where
  "CompleteStreamUpload E S req = do {
     r \<leftarrow> repo_Read E (Complete_StreamID req);
     case r of
       Inl err \<Rightarrow> ret (Some (Wrapf ''error read stream from repository: '' err []))
     | Inr stream \<Rightarrow>
         if OwnerID stream \<noteq> Complete_UserID req then ret (Some (Errorf ''forbidden: not a owner''))
         else if Status stream \<noteq> StatusUploading then
           ret (Some (Errorf (''cannot start upload for stream in status: '' @ status_text (Status stream))))
         else (case Unmarshal dec_storage (Storage stream) zero_storage of
           (info, Some err) \<Rightarrow> ret (Some (Wrapf ''error unmarshaling storage info: '' err []))
         | (info, None) \<Rightarrow> do {
             r \<leftarrow> storage_CompleteMultipart E (StorageBucket S) (Key info) (UploadID info)
                    (sort_parts (Complete_Parts req));
             case r of
               Some err \<Rightarrow> ret (Some (Wrapf ''storage error with Multipart: '' err []))
             | None \<Rightarrow> do {
                 (r, stream) \<leftarrow> repo_Update E
                   (SetStorageInfo (info\<lparr>UploadID := []\<rparr>) (stream\<lparr>Status := StatusProcessing\<rparr>));
                 case r of
                   Some err \<Rightarrow> ret (Some (Wrapf ''error with update stream in repo: '' err []))
                 | None \<Rightarrow> queue_new_video E S stream (Key info)
               }
           })
   }"

section \<open>The rows the operations save\<close>

lemma Set_fields [simp]:
  "ID (SetStorageInfo i s) = ID s" "OwnerID (SetStorageInfo i s) = OwnerID s"
  "Status (SetStorageInfo i s) = Status s" "ID (SetMetadata m s) = ID s"
  "OwnerID (SetMetadata m s) = OwnerID s" "Status (SetMetadata m s) = Status s"
  "ID (SetInitialTasks ts s) = ID s" "OwnerID (SetInitialTasks ts s) = OwnerID s"
  "Status (SetInitialTasks ts s) = Status s" "Storage (SetInitialTasks ts s) = Storage s"
  "Storage (SetStorageInfo i s) = Marshal enc_storage i" "Metadata (SetStorageInfo i s) = Metadata s"
  "Metadata (SetInitialTasks ts s) = Metadata s" "Storage (SetMetadata m s) = Storage s"
  "Metadata (SetMetadata m s) = Marshal enc_metadata m" "Processing (SetStorageInfo i s) = Processing s"
  "Processing (SetMetadata m s) = Processing s"
  by (simp_all add: SetStorageInfo_def SetMetadata_def SetInitialTasks_def)

lemma initial_tasks_types [simp]:
  "map TaskType (initial_tasks a b c) = [TaskTypeTranscode, TaskTypeThumbnail, TaskTypeFaces]"
  by (simp add: initial_tasks_def)

lemma sort_parts_sorted: "sorted (map PartNumber (sort_parts ps))"
  by (simp add: sort_parts_def)

lemma sort_parts_mset: "mset (sort_parts ps) = mset ps"
  by (simp add: sort_parts_def)

end
