(* ===== verification/ServiceProcessing.thy ===== *)
theory ServiceProcessing
  imports ServiceCore
begin

text \<open>
  \<open>stream_service_impl.go\<close>: the reports of the workers (\<open>UpdateStreamMetadata\<close>,
  \<open>UpdateStreamProcessing\<close>) and the requests to run a task again (\<open>ReprocessStream\<close>,
  \<open>ProcessFacesStream\<close>, \<open>ProcessFacesBatch\<close>).
\<close>

record UpdateStreamMetadataRequest =
  Meta_StreamUUID :: uuid
  Meta_Metadata :: StreamMetadata

record UpdateStreamProcessingRequest =
  Proc_StreamUUID :: uuid
  Proc_Processing :: StreamProcessingTask

section \<open>Metadata\<close>

text \<open>A zero rotation in the report stands for "not provided".\<close>

definition carry_rotation :: "Stream \<Rightarrow> StreamMetadata \<Rightarrow> StreamMetadata" where
  "carry_rotation stream meta =
    (if Rotation meta = 0 then
       (case GetMetadata stream of
          Inl err \<Rightarrow> meta
        | Inr existing \<Rightarrow> meta\<lparr>Rotation := Rotation existing\<rparr>)
     else meta)"

definition UpdateStreamMetadata ::
  "env \<Rightarrow> service \<Rightarrow> UpdateStreamMetadataRequest \<Rightarrow> goerr option io" where
  "UpdateStreamMetadata E S req = do {
     r \<leftarrow> repo_Read E (Meta_StreamUUID req);
     case r of
       Inl err \<Rightarrow> ret (Some (Wrapf ''error read stream from repository: '' err []))
     | Inr stream \<Rightarrow> do {
         (r, stream) \<leftarrow> repo_Update E (SetMetadata (carry_rotation stream (Meta_Metadata req)) stream);
         case r of
           Some err \<Rightarrow> ret (Some (Wrapf ''error update stream in repo: '' err []))
         | None \<Rightarrow> do { notifyUpdate E S stream; ret None }
       }
   }"

section \<open>Progress\<close>

text \<open>A report without a task id takes the first id already kept for its type.\<close>

definition report_task_id :: "StreamProcessingTask \<Rightarrow> StreamProcessingTask list \<Rightarrow> string option" where
  "report_task_id p tasks =
    (case TaskID p of
       Some i \<Rightarrow> Some i
     | None \<Rightarrow>
         (case find (\<lambda>t. TaskType t = TaskType p \<and> TaskID t \<noteq> None) tasks of
            None \<Rightarrow> None | Some t \<Rightarrow> TaskID t))"

definition report_error :: "StreamProcessingTask \<Rightarrow> string" where
  "report_error p = (case TaskError p of None \<Rightarrow> [] | Some e \<Rightarrow> e)"

definition apply_report :: "StreamProcessingTask \<Rightarrow> Stream \<Rightarrow> Stream" where
  "apply_report p stream =
    (let stream = (if report_error p \<noteq> [] \<and> TaskType p = TaskTypeTranscode \<and> Status stream = StatusProcessing
                   then stream\<lparr>Status := StatusError\<rparr> else stream)
     in if TaskType p = TaskTypeFaces \<and> Progress p \<ge> 100 \<and> report_error p = []
        then stream\<lparr>FacesDetected := True\<rparr> else stream)"

definition report_event :: "env \<Rightarrow> service \<Rightarrow> StreamProcessingTask \<Rightarrow> Stream \<Rightarrow> unit io" where
  "report_event E S p stream =
    (if TaskType p = TaskTypeTranscode then
       if report_error p \<noteq> [] then
         recordEvent E S stream ''stream.transcode.failed'' [(''error'', enc_string (report_error p))]
       else if Progress p \<ge> 100 then
         recordEvent E S stream ''stream.transcode.finish'' [(''progress'', JNum (Progress p))]
       else if Progress p = 0 then recordEvent E S stream ''stream.transcode.started'' []
       else ret ()
     else ret ())"

definition UpdateStreamProcessing ::
  "env \<Rightarrow> service \<Rightarrow> UpdateStreamProcessingRequest \<Rightarrow> goerr option io" where
  "UpdateStreamProcessing E S req = do {
     r \<leftarrow> repo_Read E (Proc_StreamUUID req);
     case r of
       Inl err \<Rightarrow> ret (Some (Wrapf ''error read stream from repository: '' err []))
     | Inr stream \<Rightarrow>
         (case ProcessingTasks stream of
            Inl err \<Rightarrow> ret (Some (Wrapf ''error read processing tasks: '' err []))
          | Inr tasks \<Rightarrow>
              (let p = Proc_Processing req;
                   processingErr = (if report_error p \<noteq> [] then TaskError p else None)
               in case SetTaskProgress (TaskType p) (Progress p) (Steps p) processingErr
                         (report_task_id p tasks) stream of
                    Inl err \<Rightarrow> ret (Some (Wrapf ''error update processing: '' err []))
                  | Inr stream \<Rightarrow> do {
                      (r, stream) \<leftarrow> repo_Update E (apply_report p stream);
                      case r of
                        Some err \<Rightarrow> ret (Some (Wrapf ''error update stream in repo: '' err []))
                      | None \<Rightarrow> do {
                          report_event E S p stream;
                          notifyUpdate E S stream;
                          ret None
                        }
                    }))
   }"

section \<open>Reprocessing\<close>

definition task_failed :: "StreamProcessingTask \<Rightarrow> bool" where
  "task_failed t \<longleftrightarrow> TaskError t \<noteq> None \<and> TaskError t \<noteq> Some []"

definition reset_task :: "string option \<Rightarrow> StreamProcessingTask \<Rightarrow> StreamProcessingTask" where
  "reset_task i t = t\<lparr>TaskID := i, TaskError := None, Progress := 0, Steps := None\<rparr>"

text \<open>
  The loop over the tasks: each failed task of a known type is queued again and reset; the first
  failure to queue ends the operation, and the tasks queued before it stay queued.
\<close>

definition requeue :: "env \<Rightarrow> uuid \<Rightarrow> string \<Rightarrow> string \<Rightarrow> (goerr + string option) io option" where
  "requeue E streamID key taskType =
    (if taskType = TaskTypeTranscode then Some (ReprocessVideoTranscoding E streamID key)
     else if taskType = TaskTypeThumbnail then Some (ReprocessThumbsnailProcessor E streamID key)
     else if taskType = TaskTypeFaces then Some (ReprocessFacesProcessor E streamID key)
     else None)"

fun reprocess_loop ::
  "env \<Rightarrow> uuid \<Rightarrow> string \<Rightarrow> StreamProcessingTask list \<Rightarrow> (goerr + StreamProcessingTask list) io" where
  "reprocess_loop E streamID key [] = ret (Inr [])"
| "reprocess_loop E streamID key (t # ts) =
    (if \<not> task_failed t then do {
       r \<leftarrow> reprocess_loop E streamID key ts;
       ret (case r of Inl err \<Rightarrow> Inl err | Inr ts' \<Rightarrow> Inr (t # ts'))
     }
     else (case requeue E streamID key (TaskType t) of
       None \<Rightarrow> do {
         r \<leftarrow> reprocess_loop E streamID key ts;
         ret (case r of Inl err \<Rightarrow> Inl err | Inr ts' \<Rightarrow> Inr (t # ts'))
       }
     | Some call \<Rightarrow> do {
         q \<leftarrow> call;
         case q of
           Inl err \<Rightarrow> ret (Inl (Wrapf (''failed to enqueue '' @ TaskType t @ '' reprocess: '') err []))
         | Inr i \<Rightarrow> do {
             r \<leftarrow> reprocess_loop E streamID key ts;
             ret (case r of Inl err \<Rightarrow> Inl err | Inr ts' \<Rightarrow> Inr (reset_task i t # ts'))
           }
       }))"

definition ReprocessStream :: "env \<Rightarrow> service \<Rightarrow> uuid \<Rightarrow> goerr option io" where
  "ReprocessStream E S streamID = do {
     r \<leftarrow> repo_Read E streamID;
     case r of
       Inl err \<Rightarrow>
         if is_record_not_found err then ret (Some (Sentinel ErrStreamNotFound))
         else ret (Some (Wrapf ''error read stream from repository: '' err []))
     | Inr stream \<Rightarrow>
         (case ProcessingTasks stream of
            Inl err \<Rightarrow> ret (Some (Wrapf ''error read processing tasks: '' err []))
          | Inr tasks \<Rightarrow>
              if \<not> list_ex task_failed tasks then ret (Some (Sentinel ErrStreamNotInErrorState))
              else (case GetStorageInfo stream of
                Inl err \<Rightarrow> ret (Some (Wrapf ''error read storage info: '' err []))
              | Inr info \<Rightarrow> do {
                  r \<leftarrow> storage_Exists E (StorageBucket S) (Key info);
                  case r of
                    Inl err \<Rightarrow> ret (Some (Wrapf ''error check source file: '' err []))
                  | Inr exists \<Rightarrow>
                      if \<not> exists then ret (Some (Sentinel ErrSourceFileMissing))
                      else do {
                        r \<leftarrow> reprocess_loop E (ID stream) (Key info) tasks;
                        case r of
                          Inl err \<Rightarrow> ret (Some err)
                        | Inr tasks \<Rightarrow> do {
                            let stream = (if Status stream = StatusError
                                          then stream\<lparr>Status := StatusProcessing\<rparr> else stream);
                            (r, stream) \<leftarrow> repo_Update E (SetInitialTasks tasks stream);
                            case r of
                              Some err \<Rightarrow> ret (Some (Wrapf ''error update stream in repo: '' err []))
                            | None \<Rightarrow> do {
                                notifyUpdate E S stream;
                                recordEvent E S stream ''stream.reprocessed'' [];
                                ret None
                              }
                          }
                      }
                }))
   }"

section \<open>Faces\<close>

text \<open>
  \<open>enqueueFaces\<close> changes the stream it was given through the pointer, also when it then fails; the
  stream after the call is returned with the error.
\<close>

definition enqueueFaces :: "env \<Rightarrow> service \<Rightarrow> Stream \<Rightarrow> (goerr option \<times> Stream) io" where
  "enqueueFaces E S stream =
    (case GetStorageInfo stream of
       Inl err \<Rightarrow> ret (Some (Wrapf ''error read storage info: '' err []), stream)
     | Inr info \<Rightarrow> do {
         r \<leftarrow> storage_Exists E (StorageBucket S) (Key info);
         r \<leftarrow> (case r of
                Inl err \<Rightarrow> ret (Inl (Wrapf ''error check source file: '' err []))
              | Inr True \<Rightarrow> ret (Inr (Key info))
              | Inr False \<Rightarrow> do {
                  let hlsKey = ''processed/'' @ uuid_String E (ID stream) @ ''/index.m3u8'';
                  h \<leftarrow> storage_Exists E (StorageBucket S) hlsKey;
                  ret (case h of
                         Inl err \<Rightarrow> Inl (Wrapf ''error check hls playlist: '' err [])
                       | Inr True \<Rightarrow> Inr hlsKey
                       | Inr False \<Rightarrow> Inl (Sentinel ErrSourceFileMissing))
                });
         case r of
           Inl err \<Rightarrow> ret (Some err, stream)
         | Inr inputPath \<Rightarrow> do {
             q \<leftarrow> ReprocessFacesProcessor E (ID stream) inputPath;
             case q of
               Inl err \<Rightarrow> ret (Some (Wrapf ''failed to enqueue faces task: '' err []), stream)
             | Inr facesID \<Rightarrow>
                 (case SetTaskProgress TaskTypeFaces 0 (Some [''Detecting faces'']) None facesID stream of
                    Inl err \<Rightarrow> ret (Some (Wrapf ''error reset processing: '' err []), stream)
                  | Inr stream \<Rightarrow> do {
                      (r, stream) \<leftarrow> repo_Update E stream;
                      case r of
                        Some err \<Rightarrow> ret (Some (Wrapf ''error update stream in repo: '' err []), stream)
                      | None \<Rightarrow> do { notifyUpdate E S stream; ret (None, stream) }
                    })
           }
       })"

definition ProcessFacesStream :: "env \<Rightarrow> service \<Rightarrow> uuid \<Rightarrow> goerr option io" where
  "ProcessFacesStream E S streamID = do {
     r \<leftarrow> repo_Read E streamID;
     case r of
       Inl err \<Rightarrow>
         if is_record_not_found err then ret (Some (Sentinel ErrStreamNotFound))
         else ret (Some (Wrapf ''error read stream from repository: '' err []))
     | Inr stream \<Rightarrow> do { (r, stream) \<leftarrow> enqueueFaces E S stream; ret r }
   }"

datatype faces_reason =
  FacesBatchReasonForbidden | FacesBatchReasonNotFound | FacesBatchReasonSource | FacesBatchReasonError

fun faces_reason_text :: "faces_reason \<Rightarrow> string" where
  "faces_reason_text FacesBatchReasonForbidden = ''forbidden''"
| "faces_reason_text FacesBatchReasonNotFound = ''not found''"
| "faces_reason_text FacesBatchReasonSource = ''source missing''"
| "faces_reason_text FacesBatchReasonError = ''error''"

record FacesBatchResult =
  Processed :: "uuid list"
  Failed :: "(uuid \<times> faces_reason) list"

definition index_streams :: "Stream list \<Rightarrow> uuid \<rightharpoonup> Stream" where
  "index_streams streams = foldl (\<lambda>m st. m(ID st \<mapsto> st)) Map.empty streams"

definition faces_outcome :: "goerr option \<Rightarrow> faces_reason option" where
  "faces_outcome r =
    (case r of
       None \<Rightarrow> None
     | Some err \<Rightarrow>
         Some (if errors_Is err ErrSourceFileMissing then FacesBatchReasonSource else FacesBatchReasonError))"

text \<open>One turn of the batch: the streams as the pointers of the map show them, and the verdict on the id.\<close>

definition faces_one ::
  "env \<Rightarrow> service \<Rightarrow> uuid \<Rightarrow> bool \<Rightarrow> uuid \<Rightarrow> (uuid \<rightharpoonup> Stream) \<Rightarrow>
   (faces_reason option \<times> (uuid \<rightharpoonup> Stream)) io" where
  "faces_one E S userID isAdmin i byID =
    (case byID i of
       None \<Rightarrow> ret (Some FacesBatchReasonNotFound, byID)
     | Some stream \<Rightarrow>
         if OwnerID stream \<noteq> userID \<and> \<not> isAdmin then ret (Some FacesBatchReasonForbidden, byID)
         else do {
           (r, stream) \<leftarrow> enqueueFaces E S stream;
           ret (faces_outcome r, byID(i \<mapsto> stream))
         })"

definition add_outcome :: "uuid \<Rightarrow> faces_reason option \<Rightarrow> FacesBatchResult \<Rightarrow> FacesBatchResult" where
  "add_outcome i v result =
    (case v of
       None \<Rightarrow> result\<lparr>Processed := Processed result @ [i]\<rparr>
     | Some reason \<Rightarrow> result\<lparr>Failed := Failed result @ [(i, reason)]\<rparr>)"

fun faces_loop ::
  "env \<Rightarrow> service \<Rightarrow> uuid \<Rightarrow> bool \<Rightarrow> uuid list \<Rightarrow> (uuid \<rightharpoonup> Stream) \<Rightarrow> FacesBatchResult \<Rightarrow>
   FacesBatchResult io" where
  "faces_loop E S userID isAdmin [] byID result = ret result"
| "faces_loop E S userID isAdmin (i # ids) byID result = do {
     (v, byID) \<leftarrow> faces_one E S userID isAdmin i byID;
     faces_loop E S userID isAdmin ids byID (add_outcome i v result)
   }"

definition ProcessFacesBatch ::
  "env \<Rightarrow> service \<Rightarrow> uuid \<Rightarrow> bool \<Rightarrow> uuid list \<Rightarrow> (goerr + FacesBatchResult) io" where
  "ProcessFacesBatch E S userID isAdmin ids = do {
     r \<leftarrow> repo_ReadMany E ids;
     case r of
       Inl err \<Rightarrow> ret (Inl (Wrapf ''error read streams from repository: '' err []))
     | Inr streams \<Rightarrow> do {
         result \<leftarrow> faces_loop E S userID isAdmin ids (index_streams streams)
                     \<lparr>Processed = [], Failed = []\<rparr>;
         (if Processed result \<noteq> [] then metric ''lifecycle'' ''faces'' (int (length (Processed result)))
          else ret ());
         ret (Inr result)
       }
   }"

end
