(* ===== verification/Table.thy ===== *)
theory Table
  imports ServiceUpload ServiceProcessing
begin

text \<open>
  The streams table as the history shows it, and a calculus for what an operation does to it. \<open>table h\<close>
  replays the successful writes of \<open>h\<close>; \<open>db_law\<close> says that the database answers reads from it;
  \<open>tspec E db m P\<close> says that \<open>m\<close>, started with the table \<open>db\<close>, ends with a result and a table that
  satisfy \<open>P\<close>. The rules follow the program text, so an operation is verified call by call.
\<close>

section \<open>The table\<close>

fun replay :: "event \<Rightarrow> (uuid \<rightharpoonup> Stream) \<Rightarrow> (uuid \<rightharpoonup> Stream)" where
  "replay (EvDbCreate s None) db = db(ID s \<mapsto> s)"
| "replay (EvDbSave s None) db = db(ID s \<mapsto> s)"
| "replay (EvDbDelete i None) db = db(i := None)"
| "replay _ db = db"

definition table :: "history \<Rightarrow> uuid \<rightharpoonup> Stream" where
  "table h = fold replay h Map.empty"

text \<open>The rows that were ever inserted, in order.\<close>

fun creation :: "event \<Rightarrow> Stream list" where
  "creation (EvDbCreate s None) = [s]"
| "creation _ = []"

definition creates :: "history \<Rightarrow> Stream list" where
  "creates h = concat (map creation h)"

text \<open>The events that can change it.\<close>

fun writes_stream :: "event \<Rightarrow> bool" where
  "writes_stream (EvDbCreate s r) = True"
| "writes_stream (EvDbSave s r) = True"
| "writes_stream (EvDbDelete i r) = True"
| "writes_stream _ = False"

lemma table_Nil [simp]: "table [] = Map.empty"
  by (simp add: table_def)

lemma table_append [simp]: "table (h @ evs) = fold replay evs (table h)"
  by (simp add: table_def)

lemma replay_other [simp]: "\<not> writes_stream e \<Longrightarrow> replay e db = db"
  by (cases e) auto

lemma creates_Nil [simp]: "creates [] = []"
  by (simp add: creates_def)

lemma creates_append [simp]: "creates (h @ evs) = creates h @ creates evs"
  by (simp add: creates_def)

lemma creates_Cons [simp]: "creates (e # evs) = creation e @ creates evs"
  by (simp add: creates_def)

lemma creation_other [simp]: "\<not> writes_stream e \<Longrightarrow> creation e = []"
  by (cases e) auto

lemma creates_frame: "list_all (\<lambda>e. \<not> writes_stream e) evs \<Longrightarrow> creates evs = []"
  by (induction evs) simp_all

lemma replay_frame: "list_all (\<lambda>e. \<not> writes_stream e) evs \<Longrightarrow> fold replay evs db = db"
  by (induction evs) simp_all

lemma ID_table: "table h i = Some s \<Longrightarrow> ID s = i"
proof (induction h arbitrary: i s rule: rev_induct)
  case (snoc e h)
  then show ?case
    by (cases "(e, table h)" rule: replay.cases) (auto split: if_splits)
qed simp

text \<open>
  What is assumed of gorm and Postgres: a read gives the row last written or an error, and an insert
  of a primary key that was ever inserted fails (a deleted row keeps its key, \<open>DeletedAt\<close> only hides it).
\<close>

definition db_law :: "env \<Rightarrow> bool" where
  "db_law E \<longleftrightarrow>
    (\<forall>h i s. db_First E h i = Inr s \<longrightarrow> table h i = Some s) \<and>
    (\<forall>h ids ss. db_Find E h ids = Inr ss \<longrightarrow> (\<forall>s\<in>set ss. table h (ID s) = Some s)) \<and>
    (\<forall>h s. db_Create E h s = None \<longrightarrow> (\<forall>s'. EvDbCreate s' None \<in> set h \<longrightarrow> ID s' \<noteq> ID s))"

section \<open>The calculus\<close>

text \<open>For computations that insert no row.\<close>

definition tspec :: "(uuid \<rightharpoonup> Stream) \<Rightarrow> 'a io \<Rightarrow> ('a \<Rightarrow> (uuid \<rightharpoonup> Stream) \<Rightarrow> bool) \<Rightarrow> bool" where
  "tspec db m P \<longleftrightarrow> (\<forall>w. table (hist w) = db \<longrightarrow>
     wpre m (\<lambda>a w'. creates (hist w') = creates (hist w) \<and> P a (table (hist w'))) w)"

named_theorems tspec "what a computation does to the streams table"

lemma tspecD:
  "tspec (table (hist w)) m P \<Longrightarrow> run_state m w = (a, w') \<Longrightarrow>
     P a (table (hist w')) \<and> creates (hist w') = creates (hist w)"
  by (auto simp: tspec_def dest: wpreD)

lemma tspec_mono: "tspec db m P \<Longrightarrow> (\<And>a db'. P a db' \<Longrightarrow> Q a db') \<Longrightarrow> tspec db m Q"
  unfolding tspec_def by (blast intro: wpre_mono)

lemma tspec_return [tspec]: "P a db \<Longrightarrow> tspec db (ret a) P"
  by (simp add: tspec_def wp)

lemma tspec_bind [tspec]: "tspec db m (\<lambda>a db'. tspec db' (f a) P) \<Longrightarrow> tspec db (State_Monad.bind m f) P"
proof -
  assume m: "tspec db m (\<lambda>a db'. tspec db' (f a) P)"
  show ?thesis
    unfolding tspec_def wpre_bind
  proof (intro allI impI)
    fix w :: world
    assume "table (hist w) = db"
    then have "wpre m (\<lambda>a w'. creates (hist w') = creates (hist w) \<and> tspec (table (hist w')) (f a) P) w"
      using m by (simp add: tspec_def [of db m])
    then show "wpre m (\<lambda>a. wpre (f a) (\<lambda>a w'. creates (hist w') = creates (hist w) \<and> P a (table (hist w')))) w"
    proof (rule wpre_mono)
      fix a and w1 :: world
      assume "creates (hist w1) = creates (hist w) \<and> tspec (table (hist w1)) (f a) P"
      then show "wpre (f a) (\<lambda>a w'. creates (hist w') = creates (hist w) \<and> P a (table (hist w'))) w1"
        by (auto simp: tspec_def)
    qed
  qed
qed

lemma tspec_if [tspec]:
  "(b \<Longrightarrow> tspec db m P) \<Longrightarrow> (\<not> b \<Longrightarrow> tspec db n P) \<Longrightarrow> tspec db (if b then m else n) P"
  by simp

lemma tspec_sum [tspec]:
  "(\<And>e. r = Inl e \<Longrightarrow> tspec db (f e) P) \<Longrightarrow> (\<And>a. r = Inr a \<Longrightarrow> tspec db (g a) P) \<Longrightarrow>
   tspec db (case r of Inl e \<Rightarrow> f e | Inr a \<Rightarrow> g a) P"
  by (cases r) simp_all

lemma tspec_option [tspec]:
  "(r = None \<Longrightarrow> tspec db m P) \<Longrightarrow> (\<And>a. r = Some a \<Longrightarrow> tspec db (g a) P) \<Longrightarrow>
   tspec db (case r of None \<Rightarrow> m | Some a \<Rightarrow> g a) P"
  by (cases r) simp_all

lemma tspec_prod [tspec]:
  "(\<And>a b. p = (a, b) \<Longrightarrow> tspec db (f a b) P) \<Longrightarrow> tspec db (case p of (a, b) \<Rightarrow> f a b) P"
  by (cases p) simp

lemma tspec_bool [tspec]:
  "(b \<Longrightarrow> tspec db m P) \<Longrightarrow> (\<not> b \<Longrightarrow> tspec db n P) \<Longrightarrow> tspec db (case b of True \<Rightarrow> m | False \<Rightarrow> n) P"
  by (cases b) simp_all

lemma tspec_let [tspec]: "tspec db (f a) P \<Longrightarrow> tspec db (let x = a in f x) P"
  by simp

lemma tspec_frame:
  assumes "emits (\<lambda>e. \<not> writes_stream e) m" and "\<And>a. P a db"
  shows "tspec db m P"
  unfolding tspec_def
proof (intro allI impI wpreI)
  fix w a w'
  assume "table (hist w) = db" and "run_state m w = (a, w')"
  moreover obtain evs where "hist w' = hist w @ evs" "list_all (\<lambda>e. \<not> writes_stream e) evs"
    using emitsD [OF assms(1) \<open>run_state m w = (a, w')\<close>] by blast
  ultimately show "creates (hist w') = creates (hist w) \<and> P a (table (hist w'))"
    using assms(2) by (simp add: replay_frame creates_frame)
qed

text \<open>The calls that leave the table alone.\<close>

lemma tspec_ask:
  assumes "\<And>a. \<not> writes_stream (ev a)" and "\<And>a. P a db"
  shows "tspec db (ask f ev) P"
  using assms by (intro tspec_frame emits_ask) auto

lemma tspec_storage [tspec]:
  "(\<And>a. P1 a db) \<Longrightarrow> tspec db (storage_Upload E b k d n) P1"
  "(\<And>a. P2 a db) \<Longrightarrow> tspec db (storage_Delete E b k) P2"
  "(\<And>a. P3 a db) \<Longrightarrow> tspec db (storage_Exists E b k) P3"
  "(\<And>a. P4 a db) \<Longrightarrow> tspec db (storage_AbortMultipart E b k u) P4"
  "(\<And>a. P5 a db) \<Longrightarrow> tspec db (storage_InitMultipart E b k) P5"
  "(\<And>a. P6 a db) \<Longrightarrow> tspec db (storage_UploadPart E b k u pn d n) P6"
  "(\<And>a. P7 a db) \<Longrightarrow> tspec db (storage_CompleteMultipart E b k u ps) P7"
  by (rule tspec_frame; auto intro!: emits)+

lemma tspec_queue [tspec]:
  "(\<And>a. P1 a db) \<Longrightarrow> tspec db (DistributeVideoTranscoding E u p) P1"
  "(\<And>a. P2 a db) \<Longrightarrow> tspec db (DistributeThumbsnailProcessor E u p) P2"
  "(\<And>a. P3 a db) \<Longrightarrow> tspec db (DistributeFacesProcessor E u p) P3"
  "(\<And>a. P4 a db) \<Longrightarrow> tspec db (ReprocessFacesProcessor E u p) P4"
  by (rule tspec_frame; auto intro!: emits)+

lemma emits_reprocess_loop [emits]:
  "(\<And>u. A (EvUuid u)) \<Longrightarrow> (\<And>t r. A (EvEnqueue TaskClient t r)) \<Longrightarrow> emits A (reprocess_loop E i k ts)"
  by (induction ts) (auto simp: requeue_def intro!: emits split: option.split)

lemma emits_report_event [emits]:
  "(\<And>u. A (EvUuid u)) \<Longrightarrow> (\<And>t. A (EvNow t)) \<Longrightarrow> (\<And>t r. A (EvEnqueue EventsClient t r)) \<Longrightarrow>
   emits A (report_event E S p s)"
  by (auto simp: report_event_def intro!: emits)

lemma tspec_events [tspec]:
  "(\<And>a. P1 a db) \<Longrightarrow> tspec db (notifyUpdate E S s) P1"
  "(\<And>a. P2 a db) \<Longrightarrow> tspec db (notifyComplete E S s) P2"
  "(\<And>a. P3 a db) \<Longrightarrow> tspec db (recordEvent E S s k p) P3"
  "(\<And>a. P4 a db) \<Longrightarrow> tspec db (recordFaceCascade E S i) P4"
  "(\<And>a. P5 a db) \<Longrightarrow> tspec db (delete_objects E S i s) P5"
  "(\<And>a. P6 a db) \<Longrightarrow> tspec db (terminate_tasks E s) P6"
  "(\<And>a. P7 a db) \<Longrightarrow> tspec db (report_event E S pr s) P7"
  "(\<And>a. P8 a db) \<Longrightarrow> tspec db (reprocess_loop E i key ts) P8"
  by (rule tspec_frame; auto intro!: emits)+

lemma tspec_fresh [tspec]:
  "(\<And>a. P1 a db) \<Longrightarrow> tspec db (ask (uuid_New E) EvUuid) P1"
  "(\<And>a. P2 a db) \<Longrightarrow> tspec db (ask (time_Now E) EvNow) P2"
  "(\<And>a. P3 a db) \<Longrightarrow> tspec db (metric c l n) P3"
  by (auto simp: metric_def intro!: tspec_ask)

lemma tspec_policies [tspec]:
  "(\<And>a. P1 a db) \<Longrightarrow> tspec db (for_each acts (\<lambda>act. do {
      _ \<leftarrow> ask (\<lambda>h. perm_AddPolicy E h sub obj act) (EvAddPolicy sub obj act); ret () })) P1"
  "(\<And>a. P2 a db) \<Longrightarrow> tspec db (for_each acts (\<lambda>act. do {
      _ \<leftarrow> ask (\<lambda>h. perm_RemovePolicy E h sub obj act) (EvRemovePolicy sub obj act); ret () })) P2"
  by (rule tspec_frame; auto intro!: emits)+

text \<open>The calls of the repository.\<close>

lemma tspec_Read [tspec]:
  assumes "db_law E" and "\<And>err. P (Inl err) db"
    and "\<And>s. db i = Some s \<Longrightarrow> ID s = i \<Longrightarrow> P (Inr s) db"
  shows "tspec db (repo_Read E i) P"
proof -
  have "P (db_First E (hist w) i) (table (hist w))" if w: "table (hist w) = db" for w
  proof (cases "db_First E (hist w) i")
    case (Inr s)
    then have "table (hist w) i = Some s" using assms(1) by (simp add: db_law_def)
    then show ?thesis using Inr w assms(3) ID_table by metis
  qed (use assms(2) w in simp)
  then show ?thesis by (auto simp: tspec_def repo_Read_def wp)
qed

lemma tspec_ReadMany [tspec]:
  assumes "db_law E" and "\<And>err. P (Inl err) db"
    and "\<And>ss. \<forall>s\<in>set ss. db (ID s) = Some s \<Longrightarrow> P (Inr ss) db"
  shows "tspec db (repo_ReadMany E ids) P"
proof -
  have "P (db_Find E (hist w) ids) (table (hist w))" if "table (hist w) = db" for w
    using assms that by (cases "db_Find E (hist w) ids") (auto simp: db_law_def)
  then show ?thesis using assms(3) [of "[]"] by (auto simp: tspec_def repo_ReadMany_def wp)
qed

lemma tspec_Update [tspec]:
  assumes "\<And>err s'. P (Some err, s') db"
    and "\<And>t. P (None, BeforeUpdate t s) (db(ID s \<mapsto> BeforeUpdate t s))"
  shows "tspec db (repo_Update E s) P"
  using assms
  by (auto simp: tspec_def repo_Update_def gorm_Save_def run_BeforeUpdate_def wp split: sum.split option.split)

lemma tspec_Delete [tspec]:
  assumes "\<And>err. P (Some err) db" and "P None (db(i := None))"
  shows "tspec db (repo_Delete E i) P"
  using assms by (auto simp: tspec_def repo_Delete_def wp split: sum.split option.split)

end
