(* ===== verification/Reference.thy ===== *)
theory Reference
  imports Table
begin

text \<open>
  A reference environment: an in-memory database and object store computed from the history, queues
  that accept every task, a policy service that accepts every policy and connections that accept every
  message. It keeps \<open>db_law\<close>, so the theorems about runs apply to it; the witnesses run the service in it.
\<close>

section \<open>Exports and objects\<close>

fun replay_export :: "event \<Rightarrow> (uuid \<rightharpoonup> StreamExport) \<Rightarrow> (uuid \<rightharpoonup> StreamExport)" where
  "replay_export (EvExCreate x None) db = db(StreamID x \<mapsto> x)"
| "replay_export (EvExSave x None) db = db(StreamID x \<mapsto> x)"
| "replay_export _ db = db"

definition exports_table :: "history \<Rightarrow> uuid \<rightharpoonup> StreamExport" where
  "exports_table h = fold replay_export h Map.empty"

fun replay_object :: "event \<Rightarrow> (string \<rightharpoonup> string) \<Rightarrow> (string \<rightharpoonup> string)" where
  "replay_object (EvPutObject b k d n None) m = m(k \<mapsto> d)"
| "replay_object (EvRemoveObject b k None) m = m(k := None)"
| "replay_object _ m = m"

definition objects :: "history \<Rightarrow> string \<rightharpoonup> string" where
  "objects h = fold replay_object h Map.empty"

section \<open>The environment\<close>

definition record_not_found :: goerr where
  "record_not_found = Foreign GormRecordNotFound ''record not found''"

definition no_such_key :: goerr where
  "no_such_key = Foreign (MinioErrorResponse ''NoSuchKey'' ''The specified key does not exist.'')
     ''The specified key does not exist.''"

definition ref_First :: "history \<Rightarrow> uuid \<Rightarrow> goerr + Stream" where
  "ref_First h i = (case table h i of None \<Rightarrow> Inl record_not_found | Some s \<Rightarrow> Inr s)"

text \<open>The text of a UUID here is a letter and its number in decimal.\<close>

definition ref_String :: "uuid \<Rightarrow> string" where
  "ref_String u = CHR ''u'' # Itoa (uint u)"

definition ref_Parse :: "string \<Rightarrow> goerr + uuid" where
  "ref_Parse s = (case s of [] \<Rightarrow> Inl (Errorf ''invalid UUID'')
     | c # t \<Rightarrow> if c = CHR ''u'' \<and> t \<noteq> [] \<and> list_all is_digit t then Inr (of_nat (digits_value t))
               else Inl (Errorf ''invalid UUID''))"

definition ref_env :: env where
  "ref_env =
    \<lparr>time_Now = \<lambda>h. int (length h),
     uuid_New = \<lambda>h. of_nat (Suc (length h)),
     uuid_String = ref_String,
     uuid_Parse = ref_Parse,
     db_Create = \<lambda>h s. if ID s \<in> ID ` set (creates h) then Some (Errorf ''duplicate key'') else None,
     db_First = ref_First,
     db_Find = \<lambda>h ids. Inr (List.map_filter (\<lambda>i. table h i) ids),
     db_Save = \<lambda>h s. None,
     db_Delete = \<lambda>h i. None,
     db_Count = \<lambda>h c. Inr 0,
     db_Query = \<lambda>h q. Inr [],
     ex_Create = \<lambda>h x. None,
     ex_First = \<lambda>h i. (case exports_table h i of None \<Rightarrow> Inl record_not_found | Some x \<Rightarrow> Inr x),
     ex_Save = \<lambda>h x. None,
     ex_Reset = \<lambda>h i. Inr 0,
     s3_BucketExists = \<lambda>h b. Inr True,
     s3_MakeBucket = \<lambda>h b. None,
     s3_PutObject = \<lambda>h b k d n. None,
     s3_GetObject = \<lambda>h b k. (case objects h k of
        None \<Rightarrow> Inl no_such_key
      | Some d \<Rightarrow> Inr \<lparr>ObjStat = Inr (int (length d)), ObjData = d, ObjReadErr = None\<rparr>),
     s3_StatObject = \<lambda>h b k. (case objects h k of None \<Rightarrow> Some no_such_key | Some d \<Rightarrow> None),
     s3_RemoveObject = \<lambda>h b k. None,
     s3_RemoveObjects = \<lambda>h b p. [],
     s3_Presign = \<lambda>h b k. Inr (''http://storage/'' @ k),
     s3_NewMultipart = \<lambda>h b k. Inr ''upload-1'',
     s3_PutPart = \<lambda>h b k u n d sz. Inr ''etag'',
     s3_CompleteMultipart = \<lambda>h b k u ps. None,
     s3_AbortMultipart = \<lambda>h b k u. None,
     aq_Enqueue = \<lambda>h c t. Inr \<lparr>InfoID = (case OptTaskID t of None \<Rightarrow> ''task'' | Some i \<Rightarrow> i), InfoQueue = ''default''\<rparr>,
     aq_CancelProcessing = \<lambda>h i. None,
     aq_DeleteTask = \<lambda>h q i. None,
     perm_AddPolicy = \<lambda>h s p a. (True, None),
     perm_RemovePolicy = \<lambda>h s p a. (True, None),
     ws_WriteJSON = \<lambda>h c m. None\<rparr>"

lemma map_filter_table: "s \<in> set (List.map_filter f ids) \<Longrightarrow> \<exists>i\<in>set ids. f i = Some s"
  by (auto simp: List.map_filter_def)

lemma ref_env_law: "db_law ref_env"
  unfolding db_law_def
proof (intro conjI allI impI ballI)
  fix h i s
  assume "db_First ref_env h i = Inr s"
  then show "table h i = Some s" by (simp add: ref_env_def ref_First_def split: option.splits)
next
  fix h ids ss s
  assume "db_Find ref_env h ids = Inr ss" and "s \<in> set ss"
  then have "s \<in> set (List.map_filter (table h) ids)" by (simp add: ref_env_def)
  then show "table h (ID s) = Some s" using map_filter_table ID_table by metis
next
  fix h s s'
  assume "db_Create ref_env h s = None" and e: "EvDbCreate s' None \<in> set h"
  then have "ID s \<notin> ID ` set (creates h)" by (simp add: ref_env_def split: if_splits)
  moreover have "s' \<in> set (creates h)" using e by (force simp: creates_def)
  ultimately show "ID s' \<noteq> ID s" by (metis image_eqI)
qed

section \<open>A small run\<close>

text \<open>A service with nothing optional attached, an empty world, and a user.\<close>

definition ref_service :: service where
  "ref_service = \<lparr>HasHub = False, HasEvents = False, HasCascade = False, KeepOriginalFile = True,
     StorageBucket = ''videos''\<rparr>"

definition ref_world :: world where
  "ref_world = \<lparr>hist = [], clients = (\<lambda>_. None)\<rparr>"

definition ref_create :: CreateStreamRequest where
  "ref_create = \<lparr>Create_Title = ''Holiday'', Create_Description = [], Create_Visibility = VisibilityPrivate,
     Create_Tags = [], Create_OwnerID = 7\<rparr>"

definition created_world :: world where
  "created_world = after (CreateStream ref_env ref_service ref_create) ref_world"

definition ref_row :: Stream where
  "ref_row = BeforeCreate 1 1 2 (new_stream ref_create)"

lemma created_world_table: "table (hist created_world) = [1 \<mapsto> ref_row] \<and> creates (hist created_world) = [ref_row]"
  by (simp add: created_world_def after_def CreateStream_def ref_create_def repo_Create_def
      run_BeforeCreate_def new_stream_def ref_env_def ref_world_def recordEvent_def ref_service_def
      BeforeCreate_def ref_row_def Let_def uuid_Nil_def table_def creates_def)

definition ready_world :: world where
  "ready_world = after (UpdateStreamStatus ref_env ref_service 1 StatusReady) created_world"

definition published_world :: world where
  "published_world = after (PublishStream ref_env ref_service 1) ready_world"

lemma ready_world_table:
  "\<exists>t. table (hist ready_world) = [1 \<mapsto> BeforeUpdate t (ref_row\<lparr>Status := StatusReady\<rparr>)]"
  using created_world_table
  by (simp add: ready_world_def after_def UpdateStreamStatus_def repo_Read_def repo_Update_def gorm_Save_def
      run_BeforeUpdate_def ref_env_def ref_First_def ref_service_def recordEvent_def notifyUpdate_def
      ref_row_def BeforeCreate_def Let_def new_stream_def uuid_Nil_def BeforeUpdate_def split: option.split)
    blast

end
