(* ===== verification/UploadProperties.thy ===== *)
theory UploadProperties
  imports ServiceUpload Reference
begin

text \<open>
  What the two uploads promise about the object store, the queue and the database: an object that was
  stored is named by a saved row or its removal was asked for, work is queued only for a saved row, and
  the parts reach the store in order.
\<close>

section \<open>Reasoning about the trace\<close>

text \<open>What the end of both uploads does: queueing, one save, a message and an event.\<close>

fun new_video_event :: "Stream \<Rightarrow> event \<Rightarrow> bool" where
  "new_video_event s (EvEnqueue c t r) = (c \<in> {TaskClient, EventsClient})"
| "new_video_event s (EvDbFirst i r) = (i = ID s)"
| "new_video_event s (EvDbSave s' r) = (ID s' = ID s \<and> Storage s' = Storage s \<and> Status s' = Status s)"
| "new_video_event s (EvNow t) = True"
| "new_video_event s (EvUuid u) = True"
| "new_video_event s (EvWriteJSON c m r) = True"
| "new_video_event s _ = False"

lemma emits_queue_new_video: "emits (new_video_event s) (queue_new_video E S s key)"
  unfolding queue_new_video_def by (intro emits) auto

section \<open>Objects without a row\<close>

text \<open>An object that was stored is the one a saved row names, or its removal was asked for afterwards.\<close>

definition video_row :: "service \<Rightarrow> UploadVideoRequest \<Rightarrow> string \<Rightarrow> Stream \<Rightarrow> bool" where
  "video_row S req key s \<longleftrightarrow> Status s = StatusProcessing \<and>
     Storage s = Marshal enc_storage \<lparr>Provider = ''minio'', Bucket = StorageBucket S, Key = key,
       Filename = Video_FileName req, UploadID = []\<rparr>"

fun accounted :: "service \<Rightarrow> UploadVideoRequest \<Rightarrow> event list \<Rightarrow> bool" where
  "accounted S req [] = True"
| "accounted S req (EvPutObject b key d n None # evs) =
     ((list_ex (\<lambda>e. case e of EvDbSave s None \<Rightarrow> video_row S req key s | _ \<Rightarrow> False) evs \<or>
       list_ex (\<lambda>e. case e of EvRemoveObject b' k r \<Rightarrow> b' = b \<and> k = key | _ \<Rightarrow> False) evs) \<and>
      accounted S req evs)"
| "accounted S req (_ # evs) = accounted S req evs"

lemma accounted_no_put: "list_all (\<lambda>e. \<not> is_storage_write e) evs \<Longrightarrow> accounted S req evs"
  by (induction S req evs rule: accounted.induct) auto

lemma accounted_new_video: "list_all (new_video_event s) evs \<Longrightarrow> accounted S req evs"
  by (rule accounted_no_put) (auto elim!: list.pred_mono_strong elim: new_video_event.elims)

fun stores :: "event \<Rightarrow> bool" where
  "stores (EvPutObject b k d n None) = True"
| "stores _ = False"

lemma accounted_append: "list_all (\<lambda>e. \<not> stores e) pre \<Longrightarrow> accounted S req (pre @ evs) = accounted S req evs"
  by (induction S req pre rule: accounted.induct) auto

lemma accounted_quiet: "list_all (\<lambda>e. \<not> stores e) evs \<Longrightarrow> accounted S req evs"
  using accounted_append [of evs S req "[]"] by simp

text \<open>The two calls of the uploads that matter, by what they leave in the history.\<close>

abbreviation quiet :: "event \<Rightarrow> bool" where "quiet e \<equiv> \<not> stores e"

lemma quiet_storage: "list_all (\<lambda>e. \<not> is_storage_write e) evs \<Longrightarrow> list_all quiet evs"
  by (auto elim!: list.pred_mono_strong elim: stores.elims)

lemma repo_Update_spec:
  "wpre (repo_Update E s) (\<lambda>(r, s') w'. \<exists>evs. hist w' = hist w @ evs \<and>
     (case r of
        None \<Rightarrow> \<exists>t x. s' = BeforeUpdate t s \<and> evs = [EvDbFirst (ID s) x, EvNow t, EvDbSave s' None]
      | Some err \<Rightarrow> list_all quiet evs)) w"
  unfolding repo_Update_def gorm_Save_def run_BeforeUpdate_def
  by (auto simp: wp split: sum.split option.split)

section \<open>The order of an upload\<close>

text \<open>The events of an upload that other systems see, in the order they happen; answers are dropped.\<close>

datatype mark =
    Stored string string                             \<comment> \<open>object key, bytes\<close>
  | Assembled string string "MultipartPart list"     \<comment> \<open>object key, upload id, parts\<close>
  | Saved StreamStatus raw raw                       \<comment> \<open>status, storage column, tasks column\<close>
  | Queued string "string option" json               \<comment> \<open>task, queue, payload\<close>

fun milestone :: "event \<Rightarrow> mark list" where
  "milestone (EvPutObject b k d n r) = [Stored k d]"
| "milestone (EvCompleteMultipart b k u ps r) = [Assembled k u ps]"
| "milestone (EvDbSave s r) = [Saved (Status s) (Storage s) (Processing s)]"
| "milestone (EvEnqueue TaskClient t r) = [Queued (TaskName t) (OptQueue t) (Payload t)]"
| "milestone _ = []"

definition milestones :: "event list \<Rightarrow> mark list" where
  "milestones evs = concat (map milestone evs)"

lemma milestones_simps [simp]:
  "milestones [] = []" "milestones (e # evs) = milestone e @ milestones evs"
  "milestones (xs @ ys) = milestones xs @ milestones ys"
  by (simp_all add: milestones_def)

lemma milestones_none: "list_all (\<lambda>e. milestone e = []) evs \<Longrightarrow> milestones evs = []"
  by (induction evs) simp_all

definition work_on_video :: "env \<Rightarrow> uuid \<Rightarrow> string \<Rightarrow> mark list" where
  "work_on_video E i key =
    [Queued ''video:transcode'' None (stream_payload E i key),
     Queued ''video:thumbsnail'' (Some ''thumbsnails'') (stream_payload E i key),
     Queued ''video:faces'' (Some ''faces'') (stream_payload E i key)]"

text \<open>The tasks column of a new video; the arguments are the ids the queue gave, if any.\<close>

definition new_tasks :: "string option \<Rightarrow> string option \<Rightarrow> string option \<Rightarrow> raw" where
  "new_tasks a b c = Marshal enc_tasks (initial_tasks a b c)"

lemma Processing_initial [simp]: "Processing (SetInitialTasks ts s) = Marshal enc_tasks ts"
  by (simp add: SetInitialTasks_def)

lemma distribute_spec:
  "wpre (distribute E t) (\<lambda>r w'. \<exists>evs. hist w' = hist w @ evs \<and>
     milestones evs = [Queued (TaskName t) (OptQueue t) (Payload t)]) w"
  by (auto simp: distribute_def wp split: sum.split)

lemma queue_new_video_spec:
  "wpre (queue_new_video E S s key) (\<lambda>r w'. r = None \<longrightarrow> (\<exists>evs a b c. hist w' = hist w @ evs \<and>
     milestones evs = work_on_video E (ID s) key @ [Saved (Status s) (Storage s) (new_tasks a b c)])) w"
proof -
  have silent: "emits (\<lambda>e. milestone e = []) (notifyUpdate E S v)"
    "emits (\<lambda>e. milestone e = []) (recordEvent E S v k p)" for v k p
    by (auto intro!: emits)
  show ?thesis
    unfolding queue_new_video_def DistributeVideoTranscoding_def DistributeThumbsnailProcessor_def
      DistributeFacesProcessor_def
    by (auto simp: wp work_on_video_def task_defs task_name_defs milestones_none new_tasks_def
        intro!: wpre_mono [OF distribute_spec] wpre_mono [OF repo_Update_spec] wpre_tail [OF silent(1)]
          wpre_tail [OF silent(2)] split: option.split) blast
qed

lemma storage_Upload_spec:
  "wpre (storage_Upload E b k d n) (\<lambda>r w'. \<exists>pre. list_all quiet pre \<and> (r = None \<longrightarrow> milestones pre = []) \<and>
     hist w' = hist w @ pre @ (if r = None then [EvPutObject b k d n None] else [])) w"
proof -
  let ?silent = "\<lambda>e. quiet e \<and> milestone e = []"
  have silent: "list_all ?silent pre \<Longrightarrow> list_all quiet pre \<and> milestones pre = []" for pre
    by (induction pre) simp_all
  have ask: "wpre (ask (\<lambda>h. s3_PutObject E h b k d n) (EvPutObject b k d n)) Q v"
    if "\<And>r. Q r (v\<lparr>hist := hist v @ [EvPutObject b k d n r]\<rparr>)" for Q v
    using that by (simp add: wp)
  have silent_calls: "emits ?silent (storage_BucketExists E b)" "emits ?silent (storage_CreateBucket E b)"
    by (auto intro!: emits)
  show ?thesis
    unfolding storage_Upload_def
    by (auto simp: wp dest!: silent intro!: wpre_tail [OF silent_calls(1)] wpre_tail [OF silent_calls(2)] ask
        split: sum.split option.split)
qed

lemma UploadVideo_accounted:
  "wpre (UploadVideo E S req) (\<lambda>r w'. accounted S req (trace w w')) w"
  unfolding UploadVideo_def repo_Read_def storage_Delete_def Let_def
  by (auto simp: wp accounted_append accounted_new_video accounted_quiet video_row_def
      intro!: wpre_mono [OF storage_Upload_spec] wpre_mono [OF repo_Update_spec]
        wpre_tail [OF emits_queue_new_video] split: sum.split option.split)

definition video_storage :: "service \<Rightarrow> string \<Rightarrow> string \<Rightarrow> raw" where
  "video_storage S key filename = Marshal enc_storage
     \<lparr>Provider = ''minio'', Bucket = StorageBucket S, Key = key, Filename = filename, UploadID = []\<rparr>"

lemma UploadVideo_milestones:
  "wpre (UploadVideo E S req) (\<lambda>r w'. r = None \<longrightarrow> (\<exists>s a b c.
     let fresh = uuid_New E (hist w @ [EvDbFirst (Video_StreamID req) (Inr s)]);
         key = storage_key E (Video_UserID req) (Video_StreamID req) fresh;
         col = video_storage S key (Video_FileName req) in
     db_First E (hist w) (Video_StreamID req) = Inr s \<and> OwnerID s = Video_UserID req \<and> Status s = StatusDraft \<and>
     milestones (trace w w') =
       [Stored key (Video_File req), Saved StatusProcessing col (Processing s)] @ work_on_video E (ID s) key @
       [Saved StatusProcessing col (new_tasks a b c)])) w"
  unfolding UploadVideo_def repo_Read_def storage_Delete_def Let_def
  by (auto simp: wp video_storage_def
      intro!: wpre_mono [OF storage_Upload_spec] wpre_mono [OF repo_Update_spec]
        wpre_mono [OF queue_new_video_spec] split: sum.split option.split) blast

lemma CompleteStreamUpload_milestones:
  "wpre (CompleteStreamUpload E S req) (\<lambda>r w'. r = None \<longrightarrow> (\<exists>s info parts a b c.
     let col = Marshal enc_storage (info\<lparr>UploadID := []\<rparr>) in
     db_First E (hist w) (Complete_StreamID req) = Inr s \<and> OwnerID s = Complete_UserID req \<and>
     Status s = StatusUploading \<and> Unmarshal dec_storage (Storage s) zero_storage = (info, None) \<and>
     sorted (map PartNumber parts) \<and> mset parts = mset (Complete_Parts req) \<and>
     milestones (trace w w') =
       [Assembled (Key info) (UploadID info) parts, Saved StatusProcessing col (Processing s)] @
       work_on_video E (ID s) (Key info) @
       [Saved StatusProcessing col (new_tasks a b c)])) w"
proof -
  let ?ps = "sort_parts (Complete_Parts req)"
  have "sorted (map PartNumber ?ps)" "mset ?ps = mset (Complete_Parts req)"
    by (simp_all add: sort_parts_sorted sort_parts_mset)
  then show ?thesis
    unfolding CompleteStreamUpload_def repo_Read_def storage_CompleteMultipart_def Let_def
    by (auto simp: wp prod_eq_iff
        intro!: wpre_mono [OF repo_Update_spec]
          wpre_mono [OF queue_new_video_spec] exI [of _ ?ps] split: sum.split option.split) blast
qed

text \<open>A multipart upload that was opened is recorded in a saved row, or aborted.\<close>

fun multipart_accounted :: "event list \<Rightarrow> bool" where
  "multipart_accounted [] = True"
| "multipart_accounted (EvNewMultipart b key (Inr u) # evs) =
     ((list_ex (\<lambda>e. case e of
          EvDbSave s None \<Rightarrow> Status s = StatusUploading \<and>
            (\<exists>info. Storage s = Marshal enc_storage info \<and> Key info = key \<and> UploadID info = u)
        | _ \<Rightarrow> False) evs \<or>
       list_ex (\<lambda>e. case e of EvAbortMultipart b' k u' r \<Rightarrow> b' = b \<and> k = key \<and> u' = u | _ \<Rightarrow> False) evs) \<and>
      multipart_accounted evs)"
| "multipart_accounted (_ # evs) = multipart_accounted evs"

fun opens :: "event \<Rightarrow> bool" where
  "opens (EvNewMultipart b k r) = True"
| "opens _ = False"

lemma multipart_accounted_append:
  "list_all (\<lambda>e. \<not> opens e) pre \<Longrightarrow> multipart_accounted (pre @ evs) = multipart_accounted evs"
  by (induction pre rule: multipart_accounted.induct) auto

lemma multipart_accounted_closed: "list_all (\<lambda>e. \<not> opens e) evs \<Longrightarrow> multipart_accounted evs"
  using multipart_accounted_append [of evs "[]"] by simp

lemma StartStreamUpload_accounted:
  "wpre (StartStreamUpload E S req) (\<lambda>r w'. multipart_accounted (trace w w')) w"
proof -
  have closed: "emits (\<lambda>e. \<not> opens e) (recordEvent E S s k p)"
    "emits (\<lambda>e. \<not> opens e) (storage_AbortMultipart E b k u)" for s k p b u
    by (auto intro!: emits)
  have save: "wpre (repo_Update E s) (\<lambda>(r, s') w'. \<exists>evs. hist w' = hist w0 @ evs \<and> list_all (\<lambda>e. \<not> opens e) evs \<and>
     (r = None \<longrightarrow> (\<exists>t. EvDbSave (BeforeUpdate t s) None \<in> set evs))) w0" for s and w0 :: world
    unfolding repo_Update_def gorm_Save_def run_BeforeUpdate_def
    by (auto simp: wp split: sum.split option.split)
  have saved: "list_ex (\<lambda>e. case e of
       EvDbSave s None \<Rightarrow> Status s = StatusUploading \<and>
         (\<exists>info. Storage s = Marshal enc_storage info \<and> Key info = k \<and> UploadID info = u)
     | _ \<Rightarrow> False) evs"
    if "EvDbSave (BeforeUpdate t s) None \<in> set evs" "Status s = StatusUploading" "Storage s = Marshal enc_storage info"
      "Key info = k" "UploadID info = u" for t s evs k u info
    using that unfolding list_ex_iff by (intro bexI [of _ "EvDbSave (BeforeUpdate t s) None"]) auto
  show ?thesis
    unfolding StartStreamUpload_def repo_Read_def storage_InitMultipart_def storage_AbortMultipart_def Let_def
    by (auto simp: wp multipart_accounted_append multipart_accounted_closed saved
        intro!: wpre_mono [OF save] wpre_tail [OF closed(1)] split: sum.split option.split)
qed

section \<open>Runs of the reference environment\<close>

definition ref_video :: UploadVideoRequest where
  "ref_video = \<lparr>Video_StreamID = 1, Video_UserID = 7, Video_File = ''frames'', Video_FileName = ''a.mp4'',
     Video_Size = 6\<rparr>"

definition ref_start :: StartUploadRequest where
  "ref_start = \<lparr>Start_StreamID = 1, Start_UserID = 7, Start_Filename = ''a.mp4'', Start_TotalSize = 12\<rparr>"

definition ref_complete :: CompleteStreamUploadRequest where
  "ref_complete = \<lparr>Complete_StreamID = 1, Complete_UserID = 7,
     Complete_Parts = [\<lparr>PartNumber = 2, ETag = ''b''\<rparr>, \<lparr>PartNumber = 1, ETag = ''a''\<rparr>]\<rparr>"

definition started_world :: world where
  "started_world = after (StartStreamUpload ref_env ref_service ref_start) created_world"

lemmas ref_run = repo_Read_def repo_Update_def gorm_Save_def run_BeforeUpdate_def ref_env_def ref_First_def
  ref_service_def recordEvent_def notifyUpdate_def ref_row_def BeforeCreate_def Let_def new_stream_def
  uuid_Nil_def ref_create_def

lemma ref_video_done: "result_of (UploadVideo ref_env ref_service ref_video) created_world = None"
  using created_world_table
  by (simp add: result_of_def UploadVideo_def ref_run ref_video_def storage_defs queue_new_video_def
      queue_defs)

lemma storage_always_readable: "\<exists>info'. Unmarshal dec_storage (Marshal enc_storage info) v = (info', None)"
  by (auto simp: Unmarshal_def Marshal_def codec_defs)

lemma started_world_table:
  "\<exists>s info. table (hist started_world) 1 = Some s \<and> Status s = StatusUploading \<and> OwnerID s = 7 \<and> ID s = 1 \<and>
     Unmarshal dec_storage (Storage s) zero_storage = (info, None)"
  using created_world_table
  by (simp add: started_world_def after_def StartStreamUpload_def ref_run ref_start_def storage_defs
      storage_always_readable)

lemma ref_complete_done: "result_of (CompleteStreamUpload ref_env ref_service ref_complete) started_world = None"
proof -
  obtain s info where "table (hist started_world) 1 = Some s" "Status s = StatusUploading" "OwnerID s = 7" "ID s = 1"
    "Unmarshal dec_storage (Storage s) zero_storage = (info, None)"
    using started_world_table by blast
  then show ?thesis
    by (simp add: result_of_def CompleteStreamUpload_def ref_run ref_complete_def storage_defs queue_new_video_def
        queue_defs)
qed

section \<open>Properties\<close>

text \<open>
  C8: An upload in one request leaves no orphan in the object store: whatever the storage, the database
  and the queue answer, an object that was stored is followed by a saved row that names it and is
  processing, or by a request to remove it.
\<close>

theorem upload_leaves_no_orphan:
  "accounted S req (trace w (after (UploadVideo E S req) w))"
  using wpre_result [OF UploadVideo_accounted] .

text \<open>
  C9: A successful upload in one request happened in this order: the file was stored under a key made of
  the owner, the stream and a fresh UUID, the draft of the user was saved as processing with that key,
  the transcoding, thumbnail and faces tasks for that key were offered to their queues, and the row was
  saved again with the three tasks on its task list. Nothing else was stored, saved or queued for workers.
\<close>

theorem upload_pipeline:
  assumes "result_of (UploadVideo E S req) w = None"
  shows "\<exists>s a b c. let fresh = uuid_New E (hist w @ [EvDbFirst (Video_StreamID req) (Inr s)]);
         key = storage_key E (Video_UserID req) (Video_StreamID req) fresh;
         col = video_storage S key (Video_FileName req) in
     db_First E (hist w) (Video_StreamID req) = Inr s \<and> OwnerID s = Video_UserID req \<and> Status s = StatusDraft \<and>
     milestones (trace w (after (UploadVideo E S req) w)) =
       [Stored key (Video_File req), Saved StatusProcessing col (Processing s)] @ work_on_video E (ID s) key @
       [Saved StatusProcessing col (new_tasks a b c)]"
  using wpre_result [OF UploadVideo_milestones] assms by blast

theorem upload_pipeline_witness:
  "\<exists>key col a b c. milestones (trace created_world (after (UploadVideo ref_env ref_service ref_video) created_world)) =
     [Stored key ''frames'', Saved StatusProcessing col (Processing ref_row)] @ work_on_video ref_env 1 key @
     [Saved StatusProcessing col (new_tasks a b c)]"
proof -
  have row: "db_First ref_env (hist created_world) 1 = Inr ref_row"
    using created_world_table by (simp add: ref_env_def ref_First_def)
  have "ID ref_row = 1" using created_world_table ID_table [of _ 1 ref_row] by (metis fun_upd_same)
  then show ?thesis
    using upload_pipeline [OF ref_video_done] row unfolding Let_def ref_video_def by fastforce
qed

text \<open>
  Completing a multipart upload hands the store the parts of the request in the order of their
  numbers, none lost and none repeated, then moves the owner's uploading row to processing with the
  upload id cleared, queues the same three tasks for the assembled object and saves the task list.
\<close>

theorem complete_upload_pipeline:
  assumes "result_of (CompleteStreamUpload E S req) w = None"
  shows "\<exists>s info parts a b c. let col = Marshal enc_storage (info\<lparr>UploadID := []\<rparr>) in
     db_First E (hist w) (Complete_StreamID req) = Inr s \<and> OwnerID s = Complete_UserID req \<and>
     Status s = StatusUploading \<and> Unmarshal dec_storage (Storage s) zero_storage = (info, None) \<and>
     sorted (map PartNumber parts) \<and> mset parts = mset (Complete_Parts req) \<and>
     milestones (trace w (after (CompleteStreamUpload E S req) w)) =
       [Assembled (Key info) (UploadID info) parts, Saved StatusProcessing col (Processing s)] @
       work_on_video E (ID s) (Key info) @
       [Saved StatusProcessing col (new_tasks a b c)]"
  using wpre_result [OF CompleteStreamUpload_milestones] assms by blast

theorem complete_upload_pipeline_witness:
  "\<exists>k u parts rest. milestones (trace started_world (after (CompleteStreamUpload ref_env ref_service ref_complete) started_world)) =
     Assembled k u parts # rest \<and> sorted (map PartNumber parts) \<and>
     mset parts = {#\<lparr>PartNumber = 2, ETag = ''b''\<rparr>, \<lparr>PartNumber = 1, ETag = ''a''\<rparr>#}"
  using complete_upload_pipeline [OF ref_complete_done] unfolding Let_def ref_complete_def by fastforce

text \<open>
  C19: Starting a multipart upload leaves no open upload behind: one that the store opened is followed by
  a saved row that is uploading and records its key and id, or by the request to abort it.
\<close>

theorem started_upload_recorded_or_aborted:
  "multipart_accounted (trace w (after (StartStreamUpload E S req) w))"
  using wpre_result [OF StartStreamUpload_accounted] .

end
