(* ===== verification/FileNames.thy ===== *)
theory FileNames
  imports GoStrings
begin

text \<open>
  The functions on file names: the download name of \<open>stream_service_impl.go\<close>, the
  \<open>Content-Disposition\<close> header of \<open>http/handlers/stream_handler.go\<close>, the content type and the number
  of an HLS segment.
\<close>

section \<open>The download name\<close>

definition defaultDownloadName :: string where "defaultDownloadName = ''stream.mp4''"
definition maxDownloadNameLen :: nat where "maxDownloadNameLen = 120"

text \<open>The function given to \<open>strings.Map\<close>: control characters and the reserved ones are dropped.\<close>

definition reserved_chars :: string where
  "reserved_chars = [CHR 0x5C, CHR ''/'', CHR '':'', CHR ''*'', CHR ''?'', CHR 0x22, CHR ''<'', CHR ''>'', CHR ''|'']"

definition is_reserved :: "char \<Rightarrow> bool" where
  "is_reserved c \<longleftrightarrow> byte c < 32 \<or> byte c = 127 \<or> c \<in> set reserved_chars"

definition drop_reserved :: "string \<Rightarrow> string" where
  "drop_reserved r = (case r of [c] \<Rightarrow> if is_reserved c then [] else r | _ \<Rightarrow> r)"

definition downloadFileName :: "string \<Rightarrow> string" where
  "downloadFileName title =
    (let name = TrimSpace title;
         ext = path_Ext name;
         name = (if ext \<noteq> [] then TrimSuffix name ext else name);
         name = strings_Map drop_reserved name;
         name = TrimSpace (Trim name ''.'')
     in if name = [] then defaultDownloadName
        else (if length name > maxDownloadNameLen then TrimSpace (take maxDownloadNameLen name) else name)
             @ ''.mp4'')"

section \<open>The header of a download\<close>

definition ascii_rune :: "string \<Rightarrow> string" where
  "ascii_rune r = (case r of [c] \<Rightarrow> if byte c < 32 \<or> byte c \<ge> 127 then ''_'' else r | _ \<Rightarrow> ''_'')"

definition asciiFallbackName :: "string \<Rightarrow> string" where
  "asciiFallbackName name =
     map (\<lambda>c. if c = CHR 0x22 then CHR ''_'' else c) (strings_Map ascii_rune name)"

text \<open>\<open>url.PathEscape\<close>.\<close>

definition hex_digit :: "nat \<Rightarrow> char" where
  "hex_digit d = (if d < 10 then char_of (48 + d) else char_of (55 + d))"

definition is_alnum :: "char \<Rightarrow> bool" where
  "is_alnum c \<longleftrightarrow> is_digit c \<or> (65 \<le> byte c \<and> byte c \<le> 90) \<or> (97 \<le> byte c \<and> byte c \<le> 122)"

definition segment_unescaped :: "char \<Rightarrow> bool" where
  "segment_unescaped c \<longleftrightarrow> is_alnum c \<or> c \<in> set ''-_.~$&+:=@''"

definition PathEscape :: "string \<Rightarrow> string" where
  "PathEscape s = concat (map (\<lambda>c. if segment_unescaped c then [c]
     else [CHR ''%'', hex_digit (byte c div 16), hex_digit (byte c mod 16)]) s)"

definition content_disposition :: "string \<Rightarrow> string" where
  "content_disposition fileName =
    (let disposition = ''attachment; filename='' @ [CHR 0x22] @ asciiFallbackName fileName @ [CHR 0x22]
     in if fileName \<noteq> asciiFallbackName fileName
        then disposition @ ''; filename*=UTF-8'' @ [CHR 0x27, CHR 0x27] @ PathEscape fileName
        else disposition)"

section \<open>HLS files\<close>

definition getContentType :: "string \<Rightarrow> string" where
  "getContentType fileName =
    (if HasSuffix fileName ''.m3u8'' then ''application/x-mpegURL''
     else if HasSuffix fileName ''.ts'' then ''video/MP2T''
     else ''application/octet-stream'')"

text \<open>The pattern \<open>^seg_(\d+)\.ts$\<close>: its submatch, then \<open>strconv.Atoi\<close> of it.\<close>

definition segment_digits :: "string \<Rightarrow> string option" where
  "segment_digits fileName =
    (let m = take (length fileName - 7) (drop 4 fileName) in
     if fileName = ''seg_'' @ m @ ''.ts'' \<and> m \<noteq> [] \<and> list_all is_digit m then Some m else None)"

definition segmentIndex :: "string \<Rightarrow> int option" where
  "segmentIndex fileName = (case segment_digits fileName of None \<Rightarrow> None | Some m \<Rightarrow> Atoi m)"

definition segment_name :: "int \<Rightarrow> string" where
  "segment_name i = ''seg_'' @ Itoa i @ ''.ts''"

section \<open>Properties\<close>

text \<open>A rune of more than one byte has only bytes above 127, so dropping ASCII runes drops ASCII bytes.\<close>

lemma rune_width_multibyte:
  assumes "rune_width s = w" and "1 < w" and "c \<in> set (take w s)"
  shows "128 \<le> byte c"
  using assms
  by (cases s rule: rune_width.cases)
     (auto simp: Let_def cont_byte_def split: if_splits list.splits)

lemma rune_width_le: "rune_width s \<le> length s"
  by (cases s rule: rune_width.cases) (auto simp: Let_def split: list.splits)

lemma runes_cases:
  assumes "Rune t \<in> set (runes s)"
  shows "(\<exists>c. t = [c]) \<or> (1 < length t \<and> (\<forall>c\<in>set t. 128 \<le> byte c))"
  using assms
proof (induction s rule: runes.induct)
  case (2 c s)
  let ?w = "rune_width (c # s)"
  show ?case
  proof (cases "?w = 0 \<or> t \<noteq> take ?w (c # s)")
    case True
    then show ?thesis
      using 2 by (auto simp: runes.simps(2) Let_def split: if_splits)
  next
    case False
    then have t: "t = take ?w (c # s)" and w: "?w \<noteq> 0" by auto
    have len: "length t = ?w" using t rune_width_le [of "c # s"] by simp
    show ?thesis
    proof (cases "?w = 1")
      case True
      then show ?thesis using t by simp
    next
      case False
      then have "1 < ?w" using w by simp
      then show ?thesis using len t rune_width_multibyte [of "c # s" ?w] by auto
    qed
  qed
qed simp

lemma byte_less [simp]: "byte c < 256"
  by (simp add: byte_def)

lemma replacement_bytes: "c \<in> set replacement \<Longrightarrow> 128 \<le> byte c"
  by (auto simp: replacement_def byte_def)

lemma set_strings_Map:
  assumes "\<And>c. P c \<Longrightarrow> \<forall>x\<in>set (f [c]). Q x"
    and "\<And>t. 1 < length t \<Longrightarrow> \<forall>c\<in>set t. 128 \<le> byte c \<Longrightarrow> \<forall>x\<in>set (f t). Q x"
    and "\<And>c. P c"
  shows "\<forall>x\<in>set (strings_Map f s). Q x"
proof -
  have "\<forall>x\<in>set (f t). Q x" if "Rune t \<in> set (runes s)" for t
    using runes_cases [OF that] assms by blast
  moreover have "\<forall>x\<in>set (f replacement). Q x"
    using assms(2) [of replacement] replacement_bytes by (simp add: replacement_def)
  ultimately show ?thesis
    unfolding strings_Map_def by (auto split: rune.split)
qed

lemma reserved_ascii: "is_reserved c \<Longrightarrow> byte c < 128"
  by (auto simp: is_reserved_def reserved_chars_def byte_def)

lemma drop_reserved_chars: "\<forall>c\<in>set (strings_Map drop_reserved s). \<not> is_reserved c"
proof (rule set_strings_Map [where P = "\<lambda>_. True"])
  fix t :: string
  assume t: "1 < length t" "\<forall>c\<in>set t. 128 \<le> byte c"
  then have "drop_reserved t = t" by (auto simp: drop_reserved_def split: list.splits)
  moreover have "\<forall>c\<in>set t. \<not> is_reserved c" using t reserved_ascii by fastforce
  ultimately show "\<forall>c\<in>set (drop_reserved t). \<not> is_reserved c" by simp
qed (simp_all add: drop_reserved_def)

text \<open>What trimming leaves starts with no blank, so cutting it short leaves something.\<close>

lemma trim_left_no_prefix: "p \<in> set cuts \<Longrightarrow> p \<noteq> [] \<Longrightarrow> \<not> HasPrefix (trim_left cuts s) p"
proof (induction cuts s rule: trim_left.induct)
  case (1 cuts s)
  show ?case
  proof (cases "find (\<lambda>p. p \<noteq> [] \<and> HasPrefix s p) cuts")
    case None
    then have "trim_left cuts s = s" by (subst trim_left.simps) simp
    then show ?thesis using None 1(2,3) by (auto simp: find_None_all)
  next
    case (Some q)
    then show ?thesis using 1 by (subst trim_left.simps) simp
  qed
qed

lemma trim_right_empty:
  "trim_right cuts s = [] \<Longrightarrow> s = [] \<or> (\<exists>p\<in>set cuts. p \<noteq> [] \<and> HasPrefix s p)"
proof (induction cuts s rule: trim_right.induct)
  case (1 cuts s)
  show ?case
  proof (cases "find (\<lambda>p. p \<noteq> [] \<and> HasSuffix s p) cuts")
    case None
    then show ?thesis using 1(2) by (subst (asm) trim_right.simps) simp
  next
    case (Some p)
    then have p: "p \<in> set cuts" "p \<noteq> []" "HasSuffix s p" by (auto dest: find_Some_iff_mem)
    then obtain u where u: "s = u @ p" by (auto simp: HasSuffix_iff)
    have "trim_right cuts u = []"
      using 1(2) Some u by (subst (asm) trim_right.simps) simp
    then have "u = [] \<or> (\<exists>q\<in>set cuts. q \<noteq> [] \<and> HasPrefix u q)"
      using 1(1) [OF Some] u by simp
    then show ?thesis using p u by (auto simp: HasPrefix_iff)
  qed
qed

lemma TrimSpace_take_nonempty:
  assumes "TrimSpace s \<noteq> []" and "0 < n"
  shows "TrimSpace (take n (TrimSpace s)) \<noteq> []"
proof
  let ?t = "TrimSpace s"
  have no: "\<not> HasPrefix ?t p" if "p \<in> set space_runes" for p
  proof
    assume "HasPrefix ?t p"
    then have "HasPrefix (trim_left space_runes s) p"
      using trim_right_prefix [of "trim_left space_runes s" space_runes]
      by (auto simp: TrimSpace_def HasPrefix_iff)
    then show False using trim_left_no_prefix that space_runes_nonempty by blast
  qed
  have no': "\<not> HasPrefix (take n ?t) p" if "p \<in> set space_runes" for p
    using no [OF that] append_take_drop_id [of n ?t] by (metis HasPrefix_iff append.assoc)
  then have "find (\<lambda>p. p \<noteq> [] \<and> HasPrefix (take n ?t) p) space_runes = None"
    by (auto simp: find_None_iff)
  then have left: "trim_left space_runes (take n ?t) = take n ?t"
    by (subst trim_left.simps) simp
  assume "TrimSpace (take n ?t) = []"
  then have "take n ?t = []"
    using trim_right_empty [of space_runes "take n ?t"] no' left by (auto simp: TrimSpace_def)
  then show False using assms by simp
qed

lemma downloadFileName_stem:
  obtains stem where "downloadFileName title = stem @ ''.mp4''" and "stem \<noteq> []"
    and "length stem \<le> maxDownloadNameLen" and "list_all (\<lambda>c. \<not> is_reserved c) stem"
proof -
  define name where "name = TrimSpace (Trim (strings_Map drop_reserved
    (let name = TrimSpace title; ext = path_Ext name in if ext \<noteq> [] then TrimSuffix name ext else name)) ''.'')"
  have ok: "list_all (\<lambda>c. \<not> is_reserved c) name"
    unfolding list_all_iff name_def
    using drop_reserved_chars set_Trim set_TrimSpace by (meson subsetD)
  have eq: "downloadFileName title = (if name = [] then defaultDownloadName
        else (if length name > maxDownloadNameLen then TrimSpace (take maxDownloadNameLen name) else name)
             @ ''.mp4'')"
    by (simp add: downloadFileName_def name_def Let_def)
  consider "name = []" | "name \<noteq> []" "length name \<le> maxDownloadNameLen"
    | "name \<noteq> []" "length name > maxDownloadNameLen" by linarith
  then show thesis
  proof cases
    case 1
    then show thesis
      using eq by (intro that [of "''stream''"])
        (simp_all add: defaultDownloadName_def maxDownloadNameLen_def is_reserved_def reserved_chars_def byte_def)
  next
    case 2
    then show thesis using eq ok by (intro that [of name]) simp_all
  next
    case 3
    let ?cut = "TrimSpace (take maxDownloadNameLen name)"
    have "?cut \<noteq> []"
      using 3 unfolding name_def by (intro TrimSpace_take_nonempty) (simp_all add: maxDownloadNameLen_def)
    moreover have "length ?cut \<le> maxDownloadNameLen"
      using length_TrimSpace [of "take maxDownloadNameLen name"] by simp
    moreover have "list_all (\<lambda>c. \<not> is_reserved c) ?cut"
      using ok set_TrimSpace [of "take maxDownloadNameLen name"] set_take_subset [of maxDownloadNameLen name]
      unfolding list_all_iff by blast
    ultimately show thesis using eq 3 by (intro that [of ?cut]) simp_all
  qed
qed

lemma downloadFileName_chars: "\<forall>c\<in>set (downloadFileName title). \<not> is_reserved c"
proof -
  obtain stem where "downloadFileName title = stem @ ''.mp4''" "list_all (\<lambda>c. \<not> is_reserved c) stem"
    using downloadFileName_stem [of title] by metis
  then show ?thesis by (auto simp: list_all_iff is_reserved_def reserved_chars_def byte_def)
qed

text \<open>The characters of the header that names the file.\<close>

definition header_safe :: "char \<Rightarrow> bool" where
  "header_safe c \<longleftrightarrow> 32 \<le> byte c \<and> byte c < 127"

definition quoted_safe :: "char \<Rightarrow> bool" where
  "quoted_safe c \<longleftrightarrow> header_safe c \<and> c \<noteq> CHR 0x22 \<and> c \<noteq> CHR 0x5C"

lemma strings_Map_ascii_mem:
  assumes "c \<in> set (strings_Map ascii_rune s)"
  shows "header_safe c \<and> (c \<in> set s \<or> c = CHR ''_'')"
proof -
  obtain r where r: "r \<in> set (runes s)"
    and c: "c \<in> set (case r of Rune t \<Rightarrow> ascii_rune t | BadByte _ \<Rightarrow> ascii_rune replacement)"
    using assms by (auto simp: strings_Map_def)
  have "set (rune_bytes r) \<subseteq> set s"
    using r runes_flat [of s] by (metis UN_upper list.set_map set_concat image_eqI SUP_upper)
  then show ?thesis
    using c by (cases r) (auto simp: ascii_rune_def replacement_def header_safe_def byte_def split: list.splits if_splits)
qed

lemma asciiFallbackName_chars:
  "c \<in> set (asciiFallbackName s) \<Longrightarrow> header_safe c \<and> c \<noteq> CHR 0x22 \<and> (c \<in> set s \<or> c = CHR ''_'')"
  by (auto simp: asciiFallbackName_def header_safe_def byte_def dest!: strings_Map_ascii_mem split: if_splits)

lemma asciiFallbackName_download: "list_all quoted_safe (asciiFallbackName (downloadFileName title))"
  using asciiFallbackName_chars [of _ "downloadFileName title"] downloadFileName_chars [of title]
  by (auto simp: list_all_iff quoted_safe_def is_reserved_def reserved_chars_def)

lemma hex_digit_safe: "d < 16 \<Longrightarrow> header_safe (hex_digit d)"
  by (auto simp: hex_digit_def header_safe_def byte_def)

lemma segment_unescaped_safe: "segment_unescaped c \<Longrightarrow> header_safe c"
  by (auto simp: segment_unescaped_def is_alnum_def is_digit_def header_safe_def byte_def)

lemma PathEscape_safe: "list_all header_safe (PathEscape s)"
proof -
  have "header_safe (hex_digit (byte c div 16))" "header_safe (hex_digit (byte c mod 16))" for c
    using byte_less [of c] by (auto intro!: hex_digit_safe simp: less_mult_imp_div_less)
  then show ?thesis
    by (induction s) (simp_all add: PathEscape_def segment_unescaped_safe header_safe_def [of "CHR ''%''"] byte_def [of "CHR ''%''"])
qed

text \<open>The segment number of a name the packager writes, and its range for any name.\<close>

lemma segmentIndex_name:
  assumes "0 \<le> i" and "i \<le> max_int64"
  shows "segmentIndex (segment_name i) = Some i"
proof -
  have "Itoa i \<noteq> [] \<and> list_all is_digit (Itoa i)" using assms by (simp add: Itoa_def)
  moreover have "take (length (segment_name i) - 7) (drop 4 (segment_name i)) = Itoa i"
    by (simp add: segment_name_def)
  ultimately have "segment_digits (segment_name i) = Some (Itoa i)"
    unfolding segment_digits_def Let_def by (simp add: segment_name_def)
  then show ?thesis using Atoi_Itoa [OF assms] by (simp add: segmentIndex_def)
qed

lemma segmentIndex_range:
  assumes "segmentIndex f = Some i"
  shows "0 \<le> i \<and> i \<le> max_int64"
proof -
  obtain m where m: "list_all is_digit m" "m \<noteq> []" "Atoi m = Some i"
    using assms by (auto simp: segmentIndex_def segment_digits_def Let_def split: option.splits if_splits)
  then obtain c t where "m = c # t" "is_digit c" by (cases m) auto
  then have "c \<noteq> CHR ''-'' \<and> c \<noteq> CHR ''+''" using not_digit_minus by metis
  then show ?thesis
    using m \<open>m = c # t\<close> by (auto simp: Atoi_def Let_def int64_ok_def split: if_splits)
qed

end
