(* ===== verification/ServiceHls.thy ===== *)
theory ServiceHls
  imports ServiceCore FileNames
begin

text \<open>
  \<open>stream_service_impl.go\<close>: serving the HLS files of a stream, and the fallback that answers a missing
  segment with its neighbours.
\<close>

record GetFileByKeyRequest =
  File_StreamUUID :: uuid
  File_FileName :: string

text \<open>
  What a response carries: an object of the storage, or the bytes merged by the fallback.
\<close>

datatype content = Stored s3_object | Merged string

record GetFileByKeyResponse =
  Resp_Content :: content
  Resp_ContentType :: string
  Resp_Size :: int

section \<open>The fallback\<close>

definition maxRadius :: int where "maxRadius = 3"

definition segment_key :: "env \<Rightarrow> uuid \<Rightarrow> int \<Rightarrow> string" where
  "segment_key E streamUUID i = path_Join [''processed'', uuid_String E streamUUID, segment_name i]"

text \<open>\<open>io.Copy\<close> of \<open>io.LimitReader(rc, size)\<close>: at most that many bytes; a read error within them is returned.\<close>

definition copy_limited :: "s3_object \<Rightarrow> int \<Rightarrow> string \<times> goerr option" where
  "copy_limited rc sz =
    (let data = take (nat sz) (ObjData rc) in
     (data, if int (length (ObjData rc)) < sz then ObjReadErr rc else None))"

text \<open>
  The loop \<open>for i := idx - maxRadius; i <= idx+maxRadius; i++\<close> over machine integers. It is given
  fuel: \<open>None\<close> is a loop still running when the fuel is used up.
\<close>

fun neighbour_loop ::
  "env \<Rightarrow> service \<Rightarrow> uuid \<Rightarrow> int \<Rightarrow> nat \<Rightarrow> int \<Rightarrow> string \<Rightarrow> bool \<Rightarrow>
   (goerr + string \<times> bool) option io" where
  "neighbour_loop E S u idx 0 i merged found = ret None"
| "neighbour_loop E S u idx (Suc fuel) i merged found =
    (if \<not> i \<le> wrap64 (idx + maxRadius) then ret (Some (Inr (merged, found)))
     else if i = idx \<or> i < 0 then neighbour_loop E S u idx fuel (wrap64 (i + 1)) merged found
     else do {
       r \<leftarrow> storage_Download E (StorageBucket S) (segment_key E u i);
       case r of
         Inl err \<Rightarrow>
           if errors_Is err StorageErrNotFound
           then neighbour_loop E S u idx fuel (wrap64 (i + 1)) merged found
           else ret (Some (Inl err))
       | Inr (rc, sz) \<Rightarrow>
           (case copy_limited rc sz of
              (data, Some copyErr) \<Rightarrow> ret (Some (Inl copyErr))
            | (data, None) \<Rightarrow>
                neighbour_loop E S u idx fuel (wrap64 (i + 1)) (merged @ data) True)
     })"

text \<open>The result: no reader (\<open>Inr None\<close>), the merged bytes, or an error.\<close>

definition concatNeighbourSegments ::
  "env \<Rightarrow> service \<Rightarrow> nat \<Rightarrow> uuid \<Rightarrow> string \<Rightarrow> (goerr + string option) option io" where
  "concatNeighbourSegments E S fuel u fileName =
    (case segmentIndex fileName of
       None \<Rightarrow> ret (Some (Inr None))
     | Some idx \<Rightarrow> do {
         r \<leftarrow> neighbour_loop E S u idx fuel (wrap64 (idx - maxRadius)) [] False;
         ret (case r of
                None \<Rightarrow> None
              | Some (Inl err) \<Rightarrow> Some (Inl err)
              | Some (Inr (merged, found)) \<Rightarrow> Some (Inr (if found then Some merged else None)))
       })"

section \<open>Serving a file\<close>

definition hls_key :: "env \<Rightarrow> uuid \<Rightarrow> string \<Rightarrow> string" where
  "hls_key E u fileName = path_Join [''processed'', uuid_String E u, fileName]"

definition GetFileByKey ::
  "env \<Rightarrow> service \<Rightarrow> nat \<Rightarrow> GetFileByKeyRequest \<Rightarrow> (goerr + GetFileByKeyResponse) option io" where
  "GetFileByKey E S fuel req = do {
     r \<leftarrow> GetStream E (File_StreamUUID req);
     case r of
       Inl err \<Rightarrow> ret (Some (Inl (Wrapf ''error get stream from repository: '' err [])))
     | Inr stream \<Rightarrow>
         if Status stream \<noteq> StatusReady \<and> Status stream \<noteq> StatusPublished then
           ret (Some (Inl (Sentinel ErrCannotWatch)))
         else (let fileName = TrimPrefix (File_FileName req) ''/'' in
           if fileName = [] \<or> Contains fileName ''..'' \<or> Contains fileName [CHR 0x5C] then
             ret (Some (Inl (Sentinel ErrInvalidFileName)))
           else do {
             r \<leftarrow> storage_Download E (StorageBucket S) (hls_key E (File_StreamUUID req) fileName);
             case r of
               Inr (content, sz) \<Rightarrow>
                 ret (Some (Inr \<lparr>Resp_Content = Stored content,
                                 Resp_ContentType = getContentType (File_FileName req), Resp_Size = sz\<rparr>))
             | Inl err \<Rightarrow>
                 if errors_Is err StorageErrNotFound \<and> HasSuffix fileName ''.ts'' then do {
                   m \<leftarrow> concatNeighbourSegments E S fuel (File_StreamUUID req) fileName;
                   case m of
                     None \<Rightarrow> ret None
                   | Some (Inl ferr) \<Rightarrow>
                       ret (Some (Inl (Wrapf ''error download file from storage: '' ferr [])))
                   | Some (Inr (Some merged)) \<Rightarrow> do {
                       metric ''hls_requests'' ''200-fallback'' 1;
                       ret (Some (Inr \<lparr>Resp_Content = Merged merged,
                                       Resp_ContentType = getContentType fileName,
                                       Resp_Size = int (length merged)\<rparr>))
                     }
                   | Some (Inr None) \<Rightarrow>
                       ret (Some (Inl (Wrapf ''error download file from storage: '' err [])))
                 }
                 else ret (Some (Inl (Wrapf ''error download file from storage: '' err [])))
           })
   }"

end
