(* ===== verification/Lifecycle.thy ===== *)
theory Lifecycle
  imports Table
begin

text \<open>
  What every operation of the service does to the streams table, as a functional specification on
  tables, and what follows for a whole run: owners and keys are for ever, the status moves only along
  the edges of the life cycle.
\<close>

section \<open>Rows\<close>

text \<open>The columns no operation changes after the row was created.\<close>

definition same_row :: "Stream \<Rightarrow> Stream \<Rightarrow> bool" where
  "same_row s s' \<longleftrightarrow> ID s' = ID s \<and> OwnerID s' = OwnerID s \<and> CreatedAt s' = CreatedAt s \<and>
     DeletedAt s' = DeletedAt s \<and> PublishedAt s' = PublishedAt s"

lemma same_row_refl [simp]: "same_row s s"
  by (simp add: same_row_def)

lemma same_row_trans: "same_row s t \<Longrightarrow> same_row t u \<Longrightarrow> same_row s u"
  by (simp add: same_row_def)

lemma same_row_setters [simp]:
  "same_row s (BeforeUpdate t s') = same_row s s'" "same_row s (SetStorageInfo i s') = same_row s s'"
  "same_row s (SetMetadata m s') = same_row s s'" "same_row s (SetInitialTasks ts s') = same_row s s'"
  "same_row s (s'\<lparr>Status := st\<rparr>) = same_row s s'" "same_row s (s'\<lparr>UpdatedAt := t\<rparr>) = same_row s s'"
  "same_row s (s'\<lparr>Storage := c\<rparr>) = same_row s s'" "same_row s (s'\<lparr>Metadata := c\<rparr>) = same_row s s'"
  "same_row s (s'\<lparr>Processing := c\<rparr>) = same_row s s'" "same_row s (s'\<lparr>FacesDetected := b\<rparr>) = same_row s s'"
  "same_row s (s'\<lparr>Title := n\<rparr>) = same_row s s'" "same_row s (s'\<lparr>Description := n\<rparr>) = same_row s s'"
  "same_row s (s'\<lparr>Visibility := v\<rparr>) = same_row s s'" "same_row s (s'\<lparr>Tags := c\<rparr>) = same_row s s'"
  by (auto simp: same_row_def SetStorageInfo_def SetMetadata_def SetInitialTasks_def)

lemma same_row_setters_left [simp]:
  "same_row (BeforeUpdate t s) s' = same_row s s'" "same_row (SetStorageInfo i s) s' = same_row s s'"
  "same_row (SetMetadata m s) s' = same_row s s'" "same_row (s\<lparr>Status := st\<rparr>) s' = same_row s s'"
  "same_row (s\<lparr>UpdatedAt := t\<rparr>) s' = same_row s s'" "same_row (s\<lparr>Storage := c\<rparr>) s' = same_row s s'"
  "same_row (s\<lparr>Metadata := c\<rparr>) s' = same_row s s'"
  by (auto simp: same_row_def SetStorageInfo_def SetMetadata_def)

lemma same_row_ID: "same_row s s' \<Longrightarrow> ID s' = ID s"
  by (simp add: same_row_def)

lemma apply_edits_row:
  "apply_edits req s = Inr e \<Longrightarrow> same_row s e \<and> Status e = Status s"
  by (auto simp: apply_edits_def edit_title_def setStreamRotation_def Let_def
      split: option.splits sum.splits if_splits)

lemma SetTaskProgress_row:
  "SetTaskProgress k p st e i s = Inr s' \<Longrightarrow> same_row s s' \<and> Status s' = Status s"
  by (auto simp: SetTaskProgress_def split: sum.splits)

text \<open>Only the uploads touch the storage column.\<close>

lemma Storage_kept [simp]:
  "Storage (BeforeUpdate t s) = Storage s" "Storage (apply_report p s) = Storage s"
  "SetTaskProgress k n st err i s = Inr s' \<Longrightarrow> Storage s' = Storage s"
  "apply_edits req s = Inr e \<Longrightarrow> Storage e = Storage s"
  by (auto simp: BeforeUpdate_def apply_report_def SetTaskProgress_def apply_edits_def edit_title_def
      setStreamRotation_def Let_def split: option.splits sum.splits if_splits)

lemma apply_report_row: "same_row s (apply_report p s') = same_row s s'"
  by (simp add: apply_report_def Let_def)

lemma Status_apply_report:
  "Status (apply_report p s) =
     (if report_error p \<noteq> [] \<and> TaskType p = TaskTypeTranscode \<and> Status s = StatusProcessing
      then StatusError else Status s)"
  by (simp add: apply_report_def Let_def)

section \<open>The operations as functions on the table\<close>

text \<open>One row is replaced by a row it is related to.\<close>

definition updates :: "(Stream \<Rightarrow> Stream \<Rightarrow> bool) \<Rightarrow> uuid \<Rightarrow> (uuid \<rightharpoonup> Stream) \<Rightarrow> (uuid \<rightharpoonup> Stream) \<Rightarrow> bool" where
  "updates R i db db' \<longleftrightarrow> (\<exists>s s'. db i = Some s \<and> R s s' \<and> db' = db(i \<mapsto> s'))"

lemma updates_upd [simp]: "updates R i db (db(i \<mapsto> s')) \<longleftrightarrow> (\<exists>s. db i = Some s \<and> R s s')"
  unfolding updates_def by (auto dest: map_upd_eqD1)

lemma updates_mono: "updates R i db db' \<Longrightarrow> (\<And>s s'. R s s' \<Longrightarrow> Q s s') \<Longrightarrow> updates Q i db db'"
  by (auto simp: updates_def)

text \<open>\<open>CreateStream\<close> inserts the row of the request under a new key, or leaves the table alone.\<close>

lemma wpre_frame_table:
  assumes "emits (\<lambda>e. \<not> writes_stream e) m"
    and "\<And>a w'. table (hist w') = table (hist w) \<Longrightarrow> creates (hist w') = creates (hist w) \<Longrightarrow> Q a w'"
  shows "wpre m Q w"
proof (rule wpreI)
  fix a w'
  assume "run_state m w = (a, w')"
  then obtain evs where "hist w' = hist w @ evs" "list_all (\<lambda>e. \<not> writes_stream e) evs"
    using emitsD [OF assms(1)] by blast
  then show "Q a w'" using assms(2) by (simp add: replay_frame creates_frame)
qed

lemma fresh_key:
  assumes "db_law E" and "db_Create E (h @ evs) s = None"
  shows "ID s \<notin> ID ` set (creates h)"
proof -
  have "EvDbCreate s' None \<in> set h" if "s' \<in> set (creates h)" for s'
  proof -
    have "\<exists>e\<in>set h. s' \<in> set (creation e)" using that by (auto simp: creates_def)
    then obtain e where "e \<in> set h" "s' \<in> set (creation e)" by blast
    then show ?thesis by (cases e rule: creation.cases) auto
  qed
  moreover have "\<forall>s'. EvDbCreate s' None \<in> set (h @ evs) \<longrightarrow> ID s' \<noteq> ID s"
    using assms unfolding db_law_def by blast
  ultimately show ?thesis by (metis imageE Un_iff set_append)
qed

lemma wpre_repo_Create:
  fixes w :: world
  assumes "db_law E" and "ID s = uuid_Nil"
    and "\<And>err s' w'. table (hist w') = table (hist w) \<Longrightarrow> creates (hist w') = creates (hist w) \<Longrightarrow> Q (Some err, s') w'"
    and "\<And>u t1 t2 w' s'. s' = BeforeCreate u t1 t2 s \<Longrightarrow> u \<notin> ID ` set (creates (hist w)) \<Longrightarrow>
      table (hist w') = (table (hist w))(u \<mapsto> s') \<Longrightarrow> creates (hist w') = creates (hist w) @ [s'] \<Longrightarrow> Q (None, s') w'"
  shows "wpre (repo_Create E s) Q w"
proof -
  define u where "u = uuid_New E (hist w)"
  define h1 where "h1 = hist w @ [EvUuid u]"
  define h2 where "h2 = h1 @ [EvNow (time_Now E h1)]"
  define h3 where "h3 = h2 @ [EvNow (time_Now E h2)]"
  define s' where "s' = BeforeCreate u (time_Now E h1) (time_Now E h2) s"
  have h3: "h3 = hist w @ [EvUuid u, EvNow (time_Now E h1), EvNow (time_Now E h2)]"
    by (simp add: h3_def h2_def h1_def)
  have "wpre (repo_Create E s) Q w =
      (case db_Create E h3 s' of
         Some err \<Rightarrow> Q (Some err, s') (w\<lparr>hist := h3 @ [EvDbCreate s' (Some err)]\<rparr>)
       | None \<Rightarrow> Q (None, s') (w\<lparr>hist := h3 @ [EvDbCreate s' None]\<rparr>))"
    using assms(2)
    by (simp add: repo_Create_def run_BeforeCreate_def wp u_def h1_def h2_def h3_def s'_def split: option.split)
  moreover have "Q (Some err, s') (w\<lparr>hist := h3 @ [EvDbCreate s' (Some err)]\<rparr>)" for err
    by (rule assms(3)) (simp_all add: h3)
  moreover have "Q (None, s') (w\<lparr>hist := h3 @ [EvDbCreate s' None]\<rparr>)" if "db_Create E h3 s' = None"
  proof (rule assms(4))
    have ID: "ID s' = u" using assms(2) by (simp add: s'_def BeforeCreate_def Let_def)
    show "s' = BeforeCreate u (time_Now E h1) (time_Now E h2) s" by (simp add: s'_def)
    show "u \<notin> ID ` set (creates (hist w))" using fresh_key [OF assms(1)] that ID unfolding h3 by blast
  qed (use assms(2) in \<open>simp_all add: h3 s'_def BeforeCreate_def Let_def\<close>)
  ultimately show ?thesis by (simp split: option.split)
qed

definition inserts :: "CreateStreamRequest \<Rightarrow> Stream \<Rightarrow> history \<Rightarrow> history \<Rightarrow> bool" where
  "inserts req s h h' \<longleftrightarrow> (\<exists>t1 t2. s = BeforeCreate (ID s) t1 t2 (new_stream req)) \<and>
     Create_OwnerID req \<noteq> uuid_Nil \<and> Create_Title req \<noteq> [] \<and>
     ID s \<notin> ID ` set (creates h) \<and> table h' = (table h)(ID s \<mapsto> s) \<and> creates h' = creates h @ [s]"

lemma CreateStream_table:
  assumes "db_law E"
  shows "wpre (CreateStream E S req) (\<lambda>r w'. case r of
     Inl err \<Rightarrow> table (hist w') = table (hist w) \<and> creates (hist w') = creates (hist w)
   | Inr s \<Rightarrow> inserts req s (hist w) (hist w')) w"
proof -
  have policies: "wpre (for_each acts (\<lambda>act. do {
        _ \<leftarrow> ask (\<lambda>h. perm_AddPolicy E h sub obj act) (EvAddPolicy sub obj act); ret () })) Q w0"
    if "\<And>w'. table (hist w') = table (hist w0) \<Longrightarrow> creates (hist w') = creates (hist w0) \<Longrightarrow> Q () w'"
    for acts sub obj Q and w0 :: world
    by (rule wpre_frame_table) (auto intro!: emits that)
  have event: "wpre (recordEvent E S s k p) Q w0"
    if "\<And>w'. table (hist w') = table (hist w0) \<Longrightarrow> creates (hist w') = creates (hist w0) \<Longrightarrow> Q () w'"
    for s k p Q and w0 :: world
    by (rule wpre_frame_table) (auto intro!: emits that)
  have nil: "ID (new_stream req) = uuid_Nil" by (simp add: new_stream_def)
  have ex: "\<exists>t1' t2'. BeforeCreate u t1 t2 s = BeforeCreate u t1' t2' s" for u t1 t2 and s :: Stream
    by blast
  show ?thesis
    unfolding CreateStream_def
    by (auto simp: wp inserts_def Let_def nil ex simp del: for_each.simps
        intro!: wpre_repo_Create [OF assms nil] policies event)
qed

definition edited :: "UpdateStreamRequest \<Rightarrow> Stream \<Rightarrow> Stream \<Rightarrow> bool" where
  "edited req s s' \<longleftrightarrow> Status s \<noteq> StatusPublished \<and>
     (\<exists>e t. apply_edits req s = Inr e \<and> s' = BeforeUpdate t e)"

lemma UpdateStream_table:
  assumes "db_law E"
  shows "tspec db (UpdateStream E S i req) (\<lambda>r db'. case r of
     Inl err \<Rightarrow> db' = db
   | Inr s' \<Rightarrow> updates (edited req) i db db' \<and> db' i = Some s')"
proof -
  have ID: "ID e = ID s" if "apply_edits req s = Inr e" for s e
    using apply_edits_row [OF that] same_row_ID by metis
  show ?thesis
    unfolding UpdateStream_def using assms by (intro tspec) (auto simp: edited_def ID)
qed

lemma DeleteStream_table:
  assumes "db_law E"
  shows "tspec db (DeleteStream E S i) (\<lambda>r db'. case r of
     Some err \<Rightarrow> db' = db
   | None \<Rightarrow> (\<exists>s. db i = Some s \<and> Status s \<noteq> StatusPublished) \<and> db' = db(i := None))"
  unfolding DeleteStream_def using assms by (intro tspec) auto

text \<open>A row that differs from another in its status and its time stamp only.\<close>

definition restatus :: "StreamStatus \<Rightarrow> StreamStatus \<Rightarrow> Stream \<Rightarrow> Stream \<Rightarrow> bool" where
  "restatus st st' s s' \<longleftrightarrow> Status s = st \<and> (\<exists>t. s' = BeforeUpdate t (s\<lparr>Status := st'\<rparr>))"

lemma PublishStream_table:
  assumes "db_law E"
  shows "tspec db (PublishStream E S i) (\<lambda>r db'. case r of
     Some err \<Rightarrow> db' = db
   | None \<Rightarrow> updates (restatus StatusReady StatusPublished) i db db')"
  unfolding PublishStream_def using assms by (intro tspec) (auto simp: restatus_def)

lemma UnpublishStream_table:
  assumes "db_law E"
  shows "tspec db (UnpublishStream E S i) (\<lambda>r db'. case r of
     Some err \<Rightarrow> db' = db
   | None \<Rightarrow> updates (restatus StatusPublished StatusReady) i db db')"
  unfolding UnpublishStream_def using assms by (intro tspec) (auto simp: restatus_def)

definition reported :: "StreamStatus \<Rightarrow> Stream \<Rightarrow> Stream \<Rightarrow> bool" where
  "reported status s s' \<longleftrightarrow> (\<exists>t. s' = BeforeUpdate t (s\<lparr>Status := status\<rparr>))"

lemma UpdateStreamStatus_table:
  assumes "db_law E"
  shows "tspec db (UpdateStreamStatus E S i status) (\<lambda>r db'. case r of
     Returns (Some err) \<Rightarrow> db' = db
   | _ \<Rightarrow> updates (reported status) i db db')"
  unfolding UpdateStreamStatus_def using assms by (intro tspec) (auto simp: reported_def)

text \<open>
  The uploads. Once the row is saved as processing, a failure to save the task list is reported
  although the row has moved on.
\<close>

lemma queue_new_video_table:
  "tspec db (queue_new_video E S s key) (\<lambda>r db'. case r of
     Some err \<Rightarrow> db' = db
   | None \<Rightarrow> \<exists>t a b c. db' = db(ID s \<mapsto> BeforeUpdate t (SetInitialTasks (initial_tasks a b c) s)))"
  unfolding queue_new_video_def by (intro tspec) auto

lemma tspec_new_video:
  fixes P :: "goerr option \<Rightarrow> (uuid \<rightharpoonup> Stream) \<Rightarrow> bool"
  assumes "db (ID s1) = Some s1"
    and "\<And>r s'. same_row s1 s' \<Longrightarrow> Status s' = Status s1 \<Longrightarrow> Storage s' = Storage s1 \<Longrightarrow> P r (db(ID s1 \<mapsto> s'))"
  shows "tspec db (queue_new_video E S s1 key) P"
proof (rule tspec_mono [OF queue_new_video_table])
  fix r :: "goerr option" and db'
  assume q: "case r of Some err \<Rightarrow> db' = db
    | None \<Rightarrow> \<exists>t a b c. db' = db(ID s1 \<mapsto> BeforeUpdate t (SetInitialTasks (initial_tasks a b c) s1))"
  show "P r db'"
  proof (cases r)
    case None
    then show ?thesis using q assms(2) by auto
  next
    case (Some err)
    then have "db' = db(ID s1 \<mapsto> s1)" using q assms(1) by (simp add: fun_upd_idem)
    then show ?thesis using assms(2) [of s1 r] by simp
  qed
qed

text \<open>The owner moves a row from one status to another.\<close>

definition moved :: "uuid \<Rightarrow> StreamStatus \<Rightarrow> StreamStatus \<Rightarrow> Stream \<Rightarrow> Stream \<Rightarrow> bool" where
  "moved u st st' s s' \<longleftrightarrow> OwnerID s = u \<and> Status s = st \<and> same_row s s' \<and> Status s' = st'"

text \<open>An upload notes where the video is, under a fresh key; its completion only clears the upload id.\<close>

definition stores :: "env \<Rightarrow> service \<Rightarrow> uuid \<Rightarrow> Stream \<Rightarrow> bool" where
  "stores E S u s \<longleftrightarrow> (\<exists>fresh name uploadID. Storage s = Marshal enc_storage
     \<lparr>Provider = ''minio'', Bucket = StorageBucket S, Key = storage_key E u (ID s) fresh,
      Filename = name, UploadID = uploadID\<rparr>)"

lemma stores_some [simp]:
  "\<exists>fresh name uploadID. Marshal enc_storage
     \<lparr>Provider = p, Bucket = b, Key = storage_key E u i a, Filename = n, UploadID = l\<rparr> =
     Marshal enc_storage \<lparr>Provider = p, Bucket = b, Key = storage_key E u i fresh, Filename = name, UploadID = uploadID\<rparr>"
  by blast

definition uploaded :: "env \<Rightarrow> service \<Rightarrow> uuid \<Rightarrow> StreamStatus \<Rightarrow> Stream \<Rightarrow> Stream \<Rightarrow> bool" where
  "uploaded E S u st' s s' \<longleftrightarrow> moved u StatusDraft st' s s' \<and> stores E S u s'"

definition completed :: "uuid \<Rightarrow> Stream \<Rightarrow> Stream \<Rightarrow> bool" where
  "completed u s s' \<longleftrightarrow> moved u StatusUploading StatusProcessing s s' \<and>
     (\<exists>info. Unmarshal dec_storage (Storage s) zero_storage = (info, None) \<and>
        Storage s' = Marshal enc_storage (info\<lparr>UploadID := []\<rparr>))"

lemma UploadVideo_table:
  assumes "db_law E"
  shows "tspec db (UploadVideo E S req) (\<lambda>r db'. (r \<noteq> None \<and> db' = db) \<or>
     updates (uploaded E S (Video_UserID req) StatusProcessing) (Video_StreamID req) db db')"
  unfolding UploadVideo_def
  by (intro tspec assms tspec_new_video) (auto simp: uploaded_def moved_def stores_def same_row_ID)

lemma StartStreamUpload_table:
  assumes "db_law E"
  shows "tspec db (StartStreamUpload E S req) (\<lambda>r db'. case r of
     Inl err \<Rightarrow> db' = db
   | Inr info \<Rightarrow> updates (uploaded E S (Start_UserID req) StatusUploading) (Start_StreamID req) db db')"
  unfolding StartStreamUpload_def using assms by (intro tspec) (auto simp: uploaded_def moved_def stores_def)

lemma UploadPart_table:
  assumes "db_law E"
  shows "tspec db (UploadPart E S req) (\<lambda>r db'. db' = db)"
  unfolding UploadPart_def using assms by (intro tspec) auto

lemma CompleteStreamUpload_table:
  assumes "db_law E"
  shows "tspec db (CompleteStreamUpload E S req) (\<lambda>r db'. (r \<noteq> None \<and> db' = db) \<or>
     updates (completed (Complete_UserID req)) (Complete_StreamID req) db db')"
  unfolding CompleteStreamUpload_def
  by (intro tspec assms tspec_new_video) (auto simp: completed_def moved_def)

text \<open>The reports of the workers.\<close>

definition described :: "StreamMetadata \<Rightarrow> Stream \<Rightarrow> Stream \<Rightarrow> bool" where
  "described meta s s' \<longleftrightarrow> (\<exists>t. s' = BeforeUpdate t (SetMetadata (carry_rotation s meta) s))"

lemma UpdateStreamMetadata_table:
  assumes "db_law E"
  shows "tspec db (UpdateStreamMetadata E S req) (\<lambda>r db'. case r of
     Some err \<Rightarrow> db' = db
   | None \<Rightarrow> updates (described (Meta_Metadata req)) (Meta_StreamUUID req) db db')"
  unfolding UpdateStreamMetadata_def using assms by (intro tspec) (auto simp: described_def)

definition progressed :: "StreamProcessingTask \<Rightarrow> Stream \<Rightarrow> Stream \<Rightarrow> bool" where
  "progressed p s s' \<longleftrightarrow> (\<exists>ts s1 t. ProcessingTasks s = Inr ts \<and>
     SetTaskProgress (TaskType p) (Progress p) (Steps p)
       (if report_error p \<noteq> [] then TaskError p else None) (report_task_id p ts) s = Inr s1 \<and>
     s' = BeforeUpdate t (apply_report p s1))"

lemma progressed_row:
  "progressed p s s' \<Longrightarrow> same_row s s' \<and> (Status s' = Status s \<or> Status s = StatusProcessing \<and> Status s' = StatusError)"
  by (auto simp: progressed_def apply_report_row Status_apply_report dest!: SetTaskProgress_row split: if_splits)

lemma UpdateStreamProcessing_table:
  assumes "db_law E"
  shows "tspec db (UpdateStreamProcessing E S req) (\<lambda>r db'. case r of
     Some err \<Rightarrow> db' = db
   | None \<Rightarrow> updates (progressed (Proc_Processing req)) (Proc_StreamUUID req) db db')"
proof -
  have ID: "ID (apply_report p s1) = ID s" if "SetTaskProgress k n st e i s = Inr s1" for p k n st e i s s1
    using SetTaskProgress_row [OF that] apply_report_row same_row_ID by metis
  show ?thesis
    unfolding UpdateStreamProcessing_def Let_def using assms
    by (intro tspec) (auto simp: progressed_def ID)
qed

text \<open>The requests to run tasks again.\<close>

definition reprocessed :: "Stream \<Rightarrow> Stream \<Rightarrow> bool" where
  "reprocessed s s' \<longleftrightarrow> same_row s s' \<and> Storage s' = Storage s \<and>
     Status s' = (if Status s = StatusError then StatusProcessing else Status s) \<and>
     (\<exists>ts. ProcessingTasks s = Inr ts \<and> list_ex task_failed ts)"

lemma ReprocessStream_table:
  assumes "db_law E"
  shows "tspec db (ReprocessStream E S i) (\<lambda>r db'. case r of
     Some err \<Rightarrow> db' = db
   | None \<Rightarrow> updates reprocessed i db db')"
  unfolding ReprocessStream_def Let_def using assms by (intro tspec) (auto simp: reprocessed_def)

definition refaced :: "Stream \<Rightarrow> Stream \<Rightarrow> bool" where
  "refaced s s' \<longleftrightarrow> same_row s s' \<and> Status s' = Status s \<and> Storage s' = Storage s"

lemma refaced_refl [simp]: "refaced s s"
  by (simp add: refaced_def)

lemma refaced_trans: "refaced s t \<Longrightarrow> refaced t u \<Longrightarrow> refaced s u"
  by (auto simp: refaced_def dest: same_row_trans)

lemma refaced_BeforeUpdate [simp]: "refaced s (BeforeUpdate t s') = refaced s s'"
  by (simp add: refaced_def)

lemma tspec_enqueueFaces [tspec]:
  assumes "\<And>err s'. refaced s s' \<Longrightarrow> P (Some err, s') db"
    and "\<And>s'. refaced s s' \<Longrightarrow> P (None, s') (db(ID s \<mapsto> s'))"
  shows "tspec db (enqueueFaces E S s) P"
proof -
  have row: "refaced s s'" "ID s' = ID s" if "SetTaskProgress k n st e i s = Inr s'" for k n st e i s'
    using SetTaskProgress_row [OF that] Storage_kept(3) [OF that] same_row_ID by (auto simp: refaced_def)
  have upd: "tspec db (repo_Update E s1) Q"
    if "\<And>err t. Q (Some err, s1) db" "\<And>err t. Q (Some err, BeforeUpdate t s1) db"
      "\<And>t. Q (None, BeforeUpdate t s1) (db(ID s1 \<mapsto> BeforeUpdate t s1))" for s1 and Q
    using that by (auto simp: tspec_def repo_Update_def gorm_Save_def run_BeforeUpdate_def wp
        split: sum.split option.split)
  show ?thesis
    unfolding enqueueFaces_def Let_def using assms
    by (intro tspec upd) (auto simp: row)
qed

lemma ProcessFacesStream_table:
  assumes "db_law E"
  shows "tspec db (ProcessFacesStream E S i) (\<lambda>r db'. (r \<noteq> None \<and> db' = db) \<or> updates refaced i db db')"
  unfolding ProcessFacesStream_def using assms by (intro tspec) auto

section \<open>Evolution of the table\<close>

text \<open>No row appears or disappears, and every row is related to the one before.\<close>

definition evolves :: "(Stream \<Rightarrow> Stream \<Rightarrow> bool) \<Rightarrow> (uuid \<rightharpoonup> Stream) \<Rightarrow> (uuid \<rightharpoonup> Stream) \<Rightarrow> bool" where
  "evolves R db db' \<longleftrightarrow> (\<forall>i. rel_option R (db i) (db' i))"

lemma evolves_refl: "reflp R \<Longrightarrow> evolves R db db"
  by (auto simp: evolves_def option.rel_refl reflp_def)

lemma evolves_trans: "transp R \<Longrightarrow> evolves R a b \<Longrightarrow> evolves R b c \<Longrightarrow> evolves R a c"
  unfolding evolves_def
  by (metis (mono_tags, lifting) option.rel_transp transpE)

lemma evolves_updates: "reflp R \<Longrightarrow> updates Q i db db' \<Longrightarrow> (\<And>s s'. Q s s' \<Longrightarrow> R s s') \<Longrightarrow> evolves R db db'"
  by (auto simp: updates_def evolves_def option.rel_refl reflp_def)

lemma reflp_refaced: "reflp refaced"
  by (simp add: reflp_def)

lemma transp_refaced: "transp refaced"
  by (auto simp: transp_def intro: refaced_trans)

text \<open>The streams of a batch stay versions of the rows they were read from.\<close>

lemma faces_loop_table:
  assumes "evolves refaced db0 db" and "\<forall>i s. byID i = Some s \<longrightarrow> (\<exists>s0. db0 i = Some s0 \<and> refaced s0 s)"
    and "\<forall>i s. db0 i = Some s \<longrightarrow> ID s = i"
  shows "tspec db (faces_loop E S u a ids byID res) (\<lambda>r db'. evolves refaced db0 db')"
  using assms(1,2)
proof (induction ids arbitrary: db byID res)
  case Nil
  then show ?case by (simp add: tspec_return)
next
  case (Cons i ids)
  have next_ok: "evolves refaced db0 (db(ID s \<mapsto> s'))" "\<forall>j t. (byID(i \<mapsto> s')) j = Some t \<longrightarrow> (\<exists>s0. db0 j = Some s0 \<and> refaced s0 t)"
    if "byID i = Some s" and "refaced s s'" for s s'
  proof -
    have "\<exists>s0. db0 i = Some s0 \<and> refaced s0 s" using Cons.prems(2) that(1) by blast
    then obtain s0 where s0: "db0 i = Some s0" "refaced s0 s" by blast
    then have "ID s = i" using assms(3) by (auto simp: refaced_def same_row_def)
    then show "evolves refaced db0 (db(ID s \<mapsto> s'))"
      using Cons.prems(1) s0 that(2) by (auto simp: evolves_def intro: refaced_trans)
    show "\<forall>j t. (byID(i \<mapsto> s')) j = Some t \<longrightarrow> (\<exists>s0. db0 j = Some s0 \<and> refaced s0 t)"
      using Cons.prems(2) s0 that(2) by (auto intro: refaced_trans)
  qed
  show ?case
    unfolding faces_loop.simps faces_one_def
    by (intro tspec; elim Pair_inject; hypsubst; rule Cons.IH; (use next_ok Cons.prems in blast)?)
qed

lemma ProcessFacesBatch_table:
  assumes "db_law E" and "\<forall>i s. db i = Some s \<longrightarrow> ID s = i"
  shows "tspec db (ProcessFacesBatch E S u a ids) (\<lambda>r db'. evolves refaced db db')"
proof -
  have ix: "index_streams ss i = Some s \<Longrightarrow> s \<in> set ss \<and> ID s = i" for ss i s
    unfolding index_streams_def by (induction ss rule: rev_induct) (auto split: if_splits)
  have loop: "tspec db (faces_loop E S u a ids (index_streams ss) res) P"
    if "\<forall>s\<in>set ss. db (ID s) = Some s" and "\<And>r db'. evolves refaced db db' \<Longrightarrow> P r db'" for ss res P
  proof (rule tspec_mono [OF faces_loop_table [of db db]])
    show "\<forall>i s. index_streams ss i = Some s \<longrightarrow> (\<exists>s0. db i = Some s0 \<and> refaced s0 s)"
      using that(1) ix refaced_refl by metis
  qed (use that(2) assms(2) in \<open>auto simp: evolves_refl reflp_refaced\<close>)
  show ?thesis
    unfolding ProcessFacesBatch_def
    by (intro tspec loop assms) (auto simp: evolves_refl reflp_refaced)
qed

end
