(* ===== verification/ServiceExport.thy ===== *)
theory ServiceExport
  imports ServiceCore FileNames
begin

text \<open>
  \<open>stream_service_impl.go\<close>: the single-file export of a stream, from the request of the owner over the
  report of the export worker to the download.
\<close>

record StreamExportInfo =
  EI_StreamID :: uuid
  EI_Status :: StreamExportStatus
  EI_Size :: int
  EI_Error :: string
  EI_Requested :: bool
  EI_FileName :: string

record DownloadStreamInfo =
  DL_Content :: s3_object
  DL_ContentType :: string
  DL_FileName :: string
  DL_Size :: int

definition exportInfo :: "StreamExport \<Rightarrow> string \<Rightarrow> StreamExportInfo" where
  "exportInfo export title =
     \<lparr>EI_StreamID = StreamID export, EI_Status = ExportStatus export, EI_Size = ExportSize export,
      EI_Error = ExportError export, EI_Requested = True, EI_FileName = downloadFileName title\<rparr>"

definition new_export :: "env \<Rightarrow> uuid \<Rightarrow> uuid \<Rightarrow> StreamExport" where
  "new_export E streamID userUUID =
     \<lparr>ID = uuid_Nil, CreatedAt = 0, UpdatedAt = 0, DeletedAt = None, StreamID = streamID,
      UserID = uuid_String E userUUID, ExportStatus = ExportStatusPending, ExportSize = 0, ExportError = []\<rparr>"

section \<open>Requesting\<close>

text \<open>
  The switch on the row that exists: \<open>Inl\<close> ends the request with that answer, \<open>Inr\<close> goes on to queue
  the export of that row.
\<close>

definition claim_export ::
  "env \<Rightarrow> uuid \<Rightarrow> uuid \<Rightarrow> string \<Rightarrow> ((goerr + StreamExportInfo) + StreamExport) io" where
  "claim_export E streamID userUUID title = do {
     r \<leftarrow> exports_ReadByStream E streamID;
     case r of
       Inr existing \<Rightarrow>
         if ExportStatus existing = ExportStatusReady then ret (Inl (Inr (exportInfo existing title)))
         else if ExportStatus existing = ExportStatusPending then ret (Inl (Inr (exportInfo existing title)))
         else do {
           r \<leftarrow> exports_ResetFailed E (ID existing);
           case r of
             Inl rerr \<Rightarrow> ret (Inl (Inl rerr))
           | Inr reset \<Rightarrow>
               if \<not> reset then do {
                 c \<leftarrow> exports_ReadByStream E streamID;
                 case c of
                   Inl cerr \<Rightarrow> ret (Inl (Inl cerr))
                 | Inr current \<Rightarrow> ret (Inl (Inr (exportInfo current title)))
               }
               else ret (Inr (existing\<lparr>ExportStatus := ExportStatusPending, ExportError := [], ExportSize := 0\<rparr>))
         }
     | Inl err \<Rightarrow>
         if IsExportNotFound err then do {
           (r, export) \<leftarrow> exports_Create E (new_export E streamID userUUID);
           case r of
             Some err \<Rightarrow> ret (Inl (Inl err))
           | None \<Rightarrow> ret (Inr export)
         }
         else ret (Inl (Inl (Wrapf ''failed to read stream export: '' err [])))
   }"

definition queue_export ::
  "env \<Rightarrow> uuid \<Rightarrow> uuid \<Rightarrow> string \<Rightarrow> string \<Rightarrow> StreamExport \<Rightarrow> (goerr + StreamExportInfo) io" where
  "queue_export E streamID userUUID email title existing = do {
     r \<leftarrow> DistributeVideoExport E streamID userUUID email;
     case r of
       Inl err \<Rightarrow> do {
         _ \<leftarrow> exports_Update E
           (existing\<lparr>ExportStatus := ExportStatusFailed, ExportError := ''failed to queue export''\<rparr>);
         ret (Inl (Wrapf ''failed to queue export: '' err []))
       }
     | Inr _ \<Rightarrow> ret (Inr (exportInfo existing title))
   }"

definition RequestStreamExport ::
  "env \<Rightarrow> uuid \<Rightarrow> uuid \<Rightarrow> string \<Rightarrow> (goerr + StreamExportInfo) io" where
  "RequestStreamExport E streamID userUUID email = do {
     r \<leftarrow> repo_Read E streamID;
     case r of
       Inl err \<Rightarrow>
         if is_record_not_found err then ret (Inl (Sentinel ErrStreamNotFound))
         else ret (Inl (Wrapf ''failed to read stream: '' err []))
     | Inr stream \<Rightarrow>
         if OwnerID stream \<noteq> userUUID then ret (Inl (Sentinel ErrStreamForbidden))
         else if Status stream \<noteq> StatusReady \<and> Status stream \<noteq> StatusPublished then
           ret (Inl (Sentinel ErrStreamNotReady))
         else do {
           c \<leftarrow> claim_export E streamID userUUID (Title stream);
           case c of
             Inl answer \<Rightarrow> ret answer
           | Inr existing \<Rightarrow> queue_export E streamID userUUID email (Title stream) existing
         }
   }"

section \<open>Reading the state and the file\<close>

definition GetStreamExport :: "env \<Rightarrow> uuid \<Rightarrow> uuid \<Rightarrow> (goerr + StreamExportInfo) io" where
  "GetStreamExport E streamID userUUID = do {
     r \<leftarrow> repo_Read E streamID;
     case r of
       Inl err \<Rightarrow>
         if is_record_not_found err then ret (Inl (Sentinel ErrStreamNotFound))
         else ret (Inl (Wrapf ''failed to read stream: '' err []))
     | Inr stream \<Rightarrow>
         if OwnerID stream \<noteq> userUUID then ret (Inl (Sentinel ErrStreamForbidden))
         else do {
           r \<leftarrow> exports_ReadByStream E streamID;
           case r of
             Inl err \<Rightarrow>
               if IsExportNotFound err then
                 ret (Inr \<lparr>EI_StreamID = streamID, EI_Status = ExportStatusPending, EI_Size = 0,
                           EI_Error = [], EI_Requested = False, EI_FileName = downloadFileName (Title stream)\<rparr>)
               else ret (Inl (Wrapf ''failed to read stream export: '' err []))
           | Inr export \<Rightarrow> ret (Inr (exportInfo export (Title stream)))
         }
   }"

definition OpenStreamDownload ::
  "env \<Rightarrow> service \<Rightarrow> uuid \<Rightarrow> uuid \<Rightarrow> (goerr + DownloadStreamInfo) io" where
  "OpenStreamDownload E S streamID userUUID = do {
     r \<leftarrow> repo_Read E streamID;
     case r of
       Inl err \<Rightarrow>
         if is_record_not_found err then ret (Inl (Sentinel ErrStreamNotFound))
         else ret (Inl (Wrapf ''failed to read stream: '' err []))
     | Inr stream \<Rightarrow>
         if OwnerID stream \<noteq> userUUID then ret (Inl (Sentinel ErrStreamForbidden))
         else do {
           r \<leftarrow> exports_ReadByStream E streamID;
           case r of
             Inl err \<Rightarrow>
               if IsExportNotFound err then ret (Inl (Sentinel ErrExportNotFound))
               else ret (Inl (Wrapf ''failed to read stream export: '' err []))
           | Inr export \<Rightarrow>
               if ExportStatus export = ExportStatusPending then ret (Inl (Sentinel ErrExportPending))
               else if ExportStatus export = ExportStatusFailed then
                 ret (Inl (Errorf (''export failed: '' @ ExportError export)))
               else do {
                 r \<leftarrow> storage_Download E (StorageBucket S) (ObjectKey (uuid_String E) export);
                 case r of
                   Inl err \<Rightarrow> ret (Inl (Wrapf ''failed to open export: '' err []))
                 | Inr (content, sz) \<Rightarrow>
                     if sz \<le> 0 then ret (Inl (Errorf ''export object is empty''))
                     else ret (Inr \<lparr>DL_Content = content, DL_ContentType = ''video/mp4'',
                                    DL_FileName = downloadFileName (Title stream), DL_Size = sz\<rparr>)
               }
         }
   }"

section \<open>The report of the worker\<close>

definition record_outcome :: "int \<Rightarrow> string \<Rightarrow> StreamExport \<Rightarrow> StreamExport" where
  "record_outcome sz exportErr export =
    (if exportErr \<noteq> [] then
       export\<lparr>ExportStatus := ExportStatusFailed, ExportError := exportErr, ExportSize := 0\<rparr>
     else export\<lparr>ExportStatus := ExportStatusReady, ExportError := [], ExportSize := sz\<rparr>)"

definition export_message :: "env \<Rightarrow> uuid \<Rightarrow> StreamExport \<Rightarrow> json" where
  "export_message E streamID export =
    (if ExportStatus export = ExportStatusReady then
       JObj [(''payload'', JObj [(''size'', JNum (ExportSize export)), (''stream_id'', enc_uuid E streamID)]),
             (''type'', JStr ''STREAM_EXPORT_READY'')]
     else
       JObj [(''payload'', JObj [(''error'', enc_string (ExportError export)), (''stream_id'', enc_uuid E streamID)]),
             (''type'', JStr ''STREAM_EXPORT_FAILED'')])"

definition CompleteStreamExport ::
  "env \<Rightarrow> service \<Rightarrow> uuid \<Rightarrow> int \<Rightarrow> string \<Rightarrow> goerr option io" where
  "CompleteStreamExport E S streamID sz exportErr = do {
     r \<leftarrow> exports_ReadByStream E streamID;
     case r of
       Inl err \<Rightarrow>
         if IsExportNotFound err then ret (Some (Sentinel ErrExportNotFound))
         else ret (Some (Wrapf ''failed to read stream export: '' err []))
     | Inr export \<Rightarrow>
         if ExportStatus export \<noteq> ExportStatusPending then ret None
         else do {
           (r, export) \<leftarrow> exports_Update E (record_outcome sz exportErr export);
           case r of
             Some err \<Rightarrow> ret (Some err)
           | None \<Rightarrow>
               if HasHub S then
                 (case uuid_Parse E (UserID export) of
                    Inl err \<Rightarrow> ret None
                  | Inr ownerID \<Rightarrow> do {
                      SendMessgeToOwner E ownerID (export_message E streamID export);
                      ret None
                    })
               else ret None
         }
   }"

end
