(* ===== verification/GrpcHandlers.thy ===== *)
theory GrpcHandlers
  imports ServiceProcessing ServiceExport
begin

text \<open>
  \<open>internal/delivery/grpc/stream_handler.go\<close>: the calls of the workers. The message types are generated
  from the proto file; their fields are records here, and an enum value is its number.
\<close>

datatype grpc_code = InvalidArgument | NotFound | Internal

type_synonym 'a grpc_result = "(grpc_code \<times> string) + 'a"

record UpdateStreamStatusMsg =
  SMsg_StreamUuid :: string
  SMsg_Status :: int

record UpdateStreamMetadataMsg =
  MMsg_StreamUuid :: string
  MMsg_Duration :: int
  MMsg_Size :: int
  MMsg_Format :: string
  MMsg_Resolution :: string
  MMsg_RecordedAt :: string
  MMsg_Location :: string
  MMsg_Camera :: string

record UpdateStreamProcessingMsg =
  PMsg_StreamUuid :: string
  PMsg_Task :: string
  PMsg_Progress :: int
  PMsg_Steps :: "string list option"
  PMsg_Error :: string

record CompleteStreamExportMsg =
  EMsg_StreamUuid :: string
  EMsg_Success :: bool
  EMsg_Size :: int
  EMsg_Error :: string

section \<open>Status\<close>

text \<open>
  The numbers are those of the enum in \<open>proto/stream/stream_service.proto\<close>; any other gives the empty
  status.
\<close>

definition mapProtoStatusToDomain :: "int \<Rightarrow> StreamStatus" where
  "mapProtoStatusToDomain pbStatus =
    (if pbStatus = 0 then StatusDraft else if pbStatus = 1 then StatusProcessing
     else if pbStatus = 2 then StatusReady else if pbStatus = 3 then StatusPublished
     else if pbStatus = 4 then StatusError else if pbStatus = 5 then StatusUploading
     else StatusOther [])"

definition grpc_UpdateStreamStatus ::
  "env \<Rightarrow> service \<Rightarrow> UpdateStreamStatusMsg \<Rightarrow> bool grpc_result outcome io" where
  "grpc_UpdateStreamStatus E S req =
    (case uuid_Parse E (SMsg_StreamUuid req) of
       Inl err \<Rightarrow> ret (Returns (Inl (InvalidArgument, Error_text err)))
     | Inr streamID \<Rightarrow> do {
         r \<leftarrow> UpdateStreamStatus E S streamID (mapProtoStatusToDomain (SMsg_Status req));
         ret (case r of
                Panics \<Rightarrow> Panics
              | Returns (Some err) \<Rightarrow> Returns (Inl (Internal, Error_text err))
              | Returns None \<Rightarrow> Returns (Inr True))
       })"

section \<open>Metadata\<close>

text \<open>
  \<open>time.Parse(time.RFC3339Nano, v)\<close> and the text its UTC instant marshals to are the library's:
  \<open>to_utc\<close> gives that text, or nothing when the value does not parse.
\<close>

definition parseOptionalTime :: "(string \<Rightarrow> string option) \<Rightarrow> string \<Rightarrow> string option" where
  "parseOptionalTime to_utc v = (if v = [] then None else to_utc v)"

definition parseOptionalString :: "string \<Rightarrow> string option" where
  "parseOptionalString v = (if v = [] then None else Some v)"

definition protoMetadataReqToService ::
  "env \<Rightarrow> (string \<Rightarrow> string option) \<Rightarrow> UpdateStreamMetadataMsg \<Rightarrow> goerr + UpdateStreamMetadataRequest" where
  "protoMetadataReqToService E to_utc req =
    (case uuid_Parse E (MMsg_StreamUuid req) of
       Inl err \<Rightarrow> Inl (Wrapf ''error parse stream uuid: '' err [])
     | Inr streamUUID \<Rightarrow>
         Inr \<lparr>Meta_StreamUUID = streamUUID,
              Meta_Metadata = \<lparr>Duration = MMsg_Duration req, MetaSize = MMsg_Size req,
                Format = MMsg_Format req, Resolution = MMsg_Resolution req,
                RecordedAt = parseOptionalTime to_utc (MMsg_RecordedAt req),
                Location = parseOptionalString (MMsg_Location req),
                Camera = parseOptionalString (MMsg_Camera req), Rotation = 0\<rparr>\<rparr>)"

definition grpc_UpdateStreamMetadata ::
  "env \<Rightarrow> service \<Rightarrow> (string \<Rightarrow> string option) \<Rightarrow> UpdateStreamMetadataMsg \<Rightarrow> bool grpc_result io" where
  "grpc_UpdateStreamMetadata E S to_utc req =
    (case protoMetadataReqToService E to_utc req of
       Inl err \<Rightarrow> ret (Inl (InvalidArgument, Error_text err))
     | Inr serviceReq \<Rightarrow> do {
         r \<leftarrow> UpdateStreamMetadata E S serviceReq;
         ret (case r of Some err \<Rightarrow> Inl (Internal, Error_text err) | None \<Rightarrow> Inr True)
       })"

section \<open>Progress\<close>

definition protoProcessingReqToService ::
  "env \<Rightarrow> UpdateStreamProcessingMsg \<Rightarrow> goerr + UpdateStreamProcessingRequest" where
  "protoProcessingReqToService E req =
    (case uuid_Parse E (PMsg_StreamUuid req) of
       Inl err \<Rightarrow> Inl (Wrapf ''error parse stream uuid: '' err [])
     | Inr streamUUID \<Rightarrow>
         Inr \<lparr>Proc_StreamUUID = streamUUID,
              Proc_Processing = \<lparr>TaskType = PMsg_Task req, Progress = PMsg_Progress req,
                Steps = PMsg_Steps req, TaskError = Some (PMsg_Error req), TaskID = None\<rparr>\<rparr>)"

definition grpc_UpdateStreamProcessing ::
  "env \<Rightarrow> service \<Rightarrow> UpdateStreamProcessingMsg \<Rightarrow> bool grpc_result io" where
  "grpc_UpdateStreamProcessing E S req =
    (case protoProcessingReqToService E req of
       Inl err \<Rightarrow> ret (Inl (InvalidArgument, Error_text err))
     | Inr serviceReq \<Rightarrow> do {
         r \<leftarrow> UpdateStreamProcessing E S serviceReq;
         ret (case r of Some err \<Rightarrow> Inl (Internal, Error_text err) | None \<Rightarrow> Inr True)
       })"

section \<open>Exports\<close>

definition grpc_CompleteStreamExport ::
  "env \<Rightarrow> service \<Rightarrow> CompleteStreamExportMsg \<Rightarrow> bool grpc_result io" where
  "grpc_CompleteStreamExport E S req =
    (case uuid_Parse E (EMsg_StreamUuid req) of
       Inl err \<Rightarrow> ret (Inl (InvalidArgument, Error_text err))
     | Inr streamID \<Rightarrow>
         if EMsg_Success req \<and> EMsg_Size req \<le> 0 then
           ret (Inl (InvalidArgument, ''size must be positive for a successful export''))
         else do {
           r \<leftarrow> CompleteStreamExport E S streamID (EMsg_Size req) (EMsg_Error req);
           ret (case r of
                  Some err \<Rightarrow>
                    if errors_Is err ErrExportNotFound then Inl (NotFound, Error_text err)
                    else Inl (Internal, Error_text err)
                | None \<Rightarrow> Inr True)
         })"

end
