(* ===== verification/System.thy ===== *)
theory System
  imports Lifecycle ServiceHls GrpcHandlers Reference
begin

text \<open>
  Runs of the whole service: any sequence of its operations with any arguments, in any environment whose
  database keeps \<open>db_law\<close>, starting with an empty history. Every operation is one step; the reports of
  a status by the transcoder are steps of their own, because they may set any status.
\<close>

section \<open>Operations that leave the streams table alone\<close>

lemma emits_queue_export [emits]:
  "(\<And>t. A (EvNow t)) \<Longrightarrow> (\<And>t r. A (EvEnqueue ExportClient t r)) \<Longrightarrow> (\<And>x r. A (EvExSave x r)) \<Longrightarrow>
   emits A (queue_export E i u m n x)"
  by (auto simp: queue_export_def intro!: emits)

lemma emits_claim_export [emits]:
  "(\<And>t. A (EvNow t)) \<Longrightarrow> (\<And>v. A (EvUuid v)) \<Longrightarrow> (\<And>r. A (EvExFirst i r)) \<Longrightarrow> (\<And>x r. A (EvExReset x r)) \<Longrightarrow>
   (\<And>x r. A (EvExCreate x r)) \<Longrightarrow> emits A (claim_export E i u n)"
  by (auto simp: claim_export_def intro!: emits)

lemma emits_neighbour_loop:
  "(\<And>b k r. A (EvGetObject b k r)) \<Longrightarrow> emits A (neighbour_loop E S u idx fuel i merged found)"
  by (induction fuel arbitrary: i merged found)
     (auto intro!: emits split: prod.split option.split)

lemma tspec_exports [tspec]:
  "(\<And>a. P1 a db) \<Longrightarrow> tspec db (claim_export E i u n) P1"
  "(\<And>a. P2 a db) \<Longrightarrow> tspec db (queue_export E i u m n x) P2"
  "(\<And>a. P3 a db) \<Longrightarrow> tspec db (exports_ReadByStream E i) P3"
  "(\<And>a. P4 a db) \<Longrightarrow> tspec db (exports_Update E x) P4"
  "(\<And>a. P5 a db) \<Longrightarrow> tspec db (storage_Download E b k) P5"
  "(\<And>a. P6 a db) \<Longrightarrow> tspec db (SendMessgeToOwner E v msg) P6"
  "(\<And>a. P7 a db) \<Longrightarrow> tspec db (neighbour_loop E S u idx fuel j merged found) P7"
  "(\<And>a. P8 a db) \<Longrightarrow> tspec db (repo_List E f) P8"
  by (rule tspec_frame; auto intro!: emits emits_neighbour_loop)+

lemma RequestStreamExport_table:
  "db_law E \<Longrightarrow> tspec db (RequestStreamExport E i u m) (\<lambda>r db'. db' = db)"
  unfolding RequestStreamExport_def by (intro tspec) auto

lemma CompleteStreamExport_table: "tspec db (CompleteStreamExport E S i sz e) (\<lambda>r db'. db' = db)"
  unfolding CompleteStreamExport_def by (intro tspec) auto

lemma GetFileByKey_table:
  "db_law E \<Longrightarrow> tspec db (GetFileByKey E S fuel req) (\<lambda>r db'. db' = db)"
  unfolding GetFileByKey_def GetStream_def concatNeighbourSegments_def Let_def
  by (intro tspec) auto

section \<open>Steps\<close>

inductive service_step :: "env \<Rightarrow> service \<Rightarrow> world \<Rightarrow> world \<Rightarrow> bool" for E S where
  create: "run_state (CreateStream E S creq) w = (r1, w') \<Longrightarrow> service_step E S w w'"
| edit: "run_state (UpdateStream E S i ureq) w = (r2, w') \<Longrightarrow> service_step E S w w'"
| delete: "run_state (DeleteStream E S i) w = (r3, w') \<Longrightarrow> service_step E S w w'"
| publish: "run_state (PublishStream E S i) w = (r4, w') \<Longrightarrow> service_step E S w w'"
| unpublish: "run_state (UnpublishStream E S i) w = (r5, w') \<Longrightarrow> service_step E S w w'"
| upload: "run_state (UploadVideo E S vreq) w = (r6, w') \<Longrightarrow> service_step E S w w'"
| start: "run_state (StartStreamUpload E S sreq) w = (r7, w') \<Longrightarrow> service_step E S w w'"
| part: "run_state (UploadPart E S preq) w = (r8, w') \<Longrightarrow> service_step E S w w'"
| complete: "run_state (CompleteStreamUpload E S fin) w = (r9, w') \<Longrightarrow> service_step E S w w'"
| metadata: "run_state (UpdateStreamMetadata E S mreq) w = (r10, w') \<Longrightarrow> service_step E S w w'"
| progress: "run_state (UpdateStreamProcessing E S qreq) w = (r11, w') \<Longrightarrow> service_step E S w w'"
| reprocess: "run_state (ReprocessStream E S i) w = (r12, w') \<Longrightarrow> service_step E S w w'"
| faces: "run_state (ProcessFacesStream E S i) w = (r13, w') \<Longrightarrow> service_step E S w w'"
| batch: "run_state (ProcessFacesBatch E S u a ids) w = (r14, w') \<Longrightarrow> service_step E S w w'"
| request_export: "run_state (RequestStreamExport E i u m) w = (r15, w') \<Longrightarrow> service_step E S w w'"
| complete_export: "run_state (CompleteStreamExport E S i sz e) w = (r16, w') \<Longrightarrow> service_step E S w w'"
| watch: "run_state (GetFileByKey E S fuel freq) w = (r17, w') \<Longrightarrow> service_step E S w w'"
| open_ws: "service_step E S w (w\<lparr>clients := hub_register u c (clients w)\<rparr>)"
| close_ws: "service_step E S w (w\<lparr>clients := hub_unregister u c (clients w)\<rparr>)"

inductive report_step :: "env \<Rightarrow> service \<Rightarrow> world \<Rightarrow> world \<Rightarrow> bool" for E S where
  report: "run_state (UpdateStreamStatus E S i (mapProtoStatusToDomain n)) w = (r, w') \<Longrightarrow> report_step E S w w'"

inductive reachable :: "env \<Rightarrow> service \<Rightarrow> world \<Rightarrow> bool" for E S where
  initial: "hist w = [] \<Longrightarrow> reachable E S w"
| serve: "reachable E S w \<Longrightarrow> service_step E S w w' \<Longrightarrow> reachable E S w'"
| status: "reachable E S w \<Longrightarrow> report_step E S w w' \<Longrightarrow> reachable E S w'"

section \<open>The life cycle\<close>

text \<open>The edges of the status, for everything but the reports of the transcoder.\<close>

inductive status_edge :: "StreamStatus \<Rightarrow> StreamStatus \<Rightarrow> bool" where
  stay: "status_edge st st"
| uploaded: "status_edge StatusDraft StatusProcessing"
| uploading: "status_edge StatusDraft StatusUploading"
| completed: "status_edge StatusUploading StatusProcessing"
| failed: "status_edge StatusProcessing StatusError"
| retried: "status_edge StatusError StatusProcessing"
| published: "status_edge StatusReady StatusPublished"
| unpublished: "status_edge StatusPublished StatusReady"

inductive_simps status_edge_to [simp]:
  "status_edge st StatusPublished" "status_edge st StatusReady" "status_edge StatusPublished st"
  "status_edge st StatusDraft"

definition row_edge :: "Stream \<Rightarrow> Stream \<Rightarrow> bool" where
  "row_edge s s' \<longleftrightarrow> same_row s s' \<and> status_edge (Status s) (Status s')"

lemma row_edge_refl [simp]: "row_edge s s"
  by (simp add: row_edge_def status_edge.stay)

text \<open>What a step does to the table: a new draft, a deleted row, or rows that move along an edge.\<close>

definition table_step :: "history \<Rightarrow> history \<Rightarrow> bool" where
  "table_step h h' \<longleftrightarrow>
     (creates h' = creates h \<and> evolves row_edge (table h) (table h')) \<or>
     (\<exists>req s. inserts req s h h') \<or>
     (creates h' = creates h \<and> (\<exists>i. (\<exists>s. table h i = Some s \<and> Status s \<noteq> StatusPublished) \<and>
        table h' = (table h)(i := None)))"

lemma row_edge_intros:
  "edited req s s' \<Longrightarrow> row_edge s s'"
  "restatus StatusReady StatusPublished s s' \<Longrightarrow> row_edge s s'"
  "restatus StatusPublished StatusReady s s' \<Longrightarrow> row_edge s s'"
  "uploaded E S u StatusProcessing s s' \<Longrightarrow> row_edge s s'"
  "uploaded E S u StatusUploading s s' \<Longrightarrow> row_edge s s'"
  "completed u s s' \<Longrightarrow> row_edge s s'"
  "described m s s' \<Longrightarrow> row_edge s s'"
  "progressed p s s' \<Longrightarrow> row_edge s s'"
  "reprocessed s s' \<Longrightarrow> row_edge s s'"
  "refaced s s' \<Longrightarrow> row_edge s s'"
  by (auto simp: row_edge_def edited_def restatus_def uploaded_def completed_def moved_def described_def reprocessed_def refaced_def
      dest!: apply_edits_row progressed_row intro: status_edge.intros)

lemma reflp_row_edge: "reflp row_edge"
  by (simp add: reflp_def)

lemma table_step_same: "creates h' = creates h \<Longrightarrow> table h' = table h \<Longrightarrow> table_step h h'"
  by (simp add: table_step_def evolves_refl reflp_row_edge)

lemma table_step_updates:
  "creates h' = creates h \<Longrightarrow> updates Q i (table h) (table h') \<Longrightarrow> (\<And>s s'. Q s s' \<Longrightarrow> row_edge s s') \<Longrightarrow>
   table_step h h'"
  unfolding table_step_def using evolves_updates [OF reflp_row_edge] by blast

text \<open>What each operation does to the table, as a step.\<close>

lemma create_step:
  assumes law: "db_law E" and step: "run_state (CreateStream E S req) w = (r, w')"
  shows "table_step (hist w) (hist w')"
  using wpreD [OF CreateStream_table [OF law] step]
    by (auto simp: table_step_def evolves_refl reflp_row_edge split: sum.splits)

lemma edit_step:
  assumes law: "db_law E" and step: "run_state (UpdateStream E S i req) w = (r, w')"
  shows "table_step (hist w) (hist w')"
  using tspecD [OF UpdateStream_table [OF law] step]
    by (auto intro: table_step_same table_step_updates row_edge_intros split: sum.splits)

lemma delete_step:
  assumes law: "db_law E" and step: "run_state (DeleteStream E S i) w = (r, w')"
  shows "table_step (hist w) (hist w')"
  using tspecD [OF DeleteStream_table [OF law] step]
    by (auto simp: table_step_def evolves_refl reflp_row_edge split: option.splits)

lemma publish_step:
  assumes law: "db_law E" and step: "run_state (PublishStream E S i) w = (r, w')"
  shows "table_step (hist w) (hist w')"
  using tspecD [OF PublishStream_table [OF law] step]
    by (auto intro: table_step_same table_step_updates row_edge_intros split: option.splits)

lemma unpublish_step:
  assumes law: "db_law E" and step: "run_state (UnpublishStream E S i) w = (r, w')"
  shows "table_step (hist w) (hist w')"
  using tspecD [OF UnpublishStream_table [OF law] step]
    by (auto intro: table_step_same table_step_updates row_edge_intros split: option.splits)

lemma upload_step:
  assumes law: "db_law E" and step: "run_state (UploadVideo E S req) w = (r, w')"
  shows "table_step (hist w) (hist w')"
  using tspecD [OF UploadVideo_table [OF law] step]
    by (auto intro: table_step_same table_step_updates row_edge_intros)

lemma start_step:
  assumes law: "db_law E" and step: "run_state (StartStreamUpload E S req) w = (r, w')"
  shows "table_step (hist w) (hist w')"
  using tspecD [OF StartStreamUpload_table [OF law] step]
    by (auto intro: table_step_same table_step_updates row_edge_intros split: sum.splits)

lemma part_step:
  assumes law: "db_law E" and step: "run_state (UploadPart E S req) w = (r, w')"
  shows "table_step (hist w) (hist w')"
  using tspecD [OF UploadPart_table [OF law] step] by (auto intro: table_step_same)

lemma complete_step:
  assumes law: "db_law E" and step: "run_state (CompleteStreamUpload E S req) w = (r, w')"
  shows "table_step (hist w) (hist w')"
  using tspecD [OF CompleteStreamUpload_table [OF law] step]
    by (auto intro: table_step_same table_step_updates row_edge_intros)

lemma metadata_step:
  assumes law: "db_law E" and step: "run_state (UpdateStreamMetadata E S req) w = (r, w')"
  shows "table_step (hist w) (hist w')"
  using tspecD [OF UpdateStreamMetadata_table [OF law] step]
    by (auto intro: table_step_same table_step_updates row_edge_intros split: option.splits)

lemma progress_step:
  assumes law: "db_law E" and step: "run_state (UpdateStreamProcessing E S req) w = (r, w')"
  shows "table_step (hist w) (hist w')"
  using tspecD [OF UpdateStreamProcessing_table [OF law] step]
    by (auto intro: table_step_same table_step_updates row_edge_intros split: option.splits)

lemma reprocess_step:
  assumes law: "db_law E" and step: "run_state (ReprocessStream E S i) w = (r, w')"
  shows "table_step (hist w) (hist w')"
  using tspecD [OF ReprocessStream_table [OF law] step]
    by (auto intro: table_step_same table_step_updates row_edge_intros split: option.splits)

lemma faces_step:
  assumes law: "db_law E" and step: "run_state (ProcessFacesStream E S i) w = (r, w')"
  shows "table_step (hist w) (hist w')"
  using tspecD [OF ProcessFacesStream_table [OF law] step]
    by (auto intro: table_step_same table_step_updates row_edge_intros)

lemma batch_step:
  assumes law: "db_law E" and step: "run_state (ProcessFacesBatch E S u a ids) w = (r, w')"
  shows "table_step (hist w) (hist w')"
proof -
  have "\<forall>i s. table (hist w) i = Some s \<longrightarrow> ID s = i" using ID_table by blast
  then have "evolves refaced (table (hist w)) (table (hist w')) \<and> creates (hist w') = creates (hist w)"
    using tspecD [OF ProcessFacesBatch_table [OF law] step] by blast
  then show ?thesis
    unfolding table_step_def evolves_def
    using option.rel_mono_strong row_edge_intros(10) by metis
qed

lemma request_export_step:
  assumes law: "db_law E" and step: "run_state (RequestStreamExport E i u m) w = (r, w')"
  shows "table_step (hist w) (hist w')"
  using tspecD [OF RequestStreamExport_table [OF law] step]
    by (auto intro: table_step_same)

lemma complete_export_step:
  assumes step: "run_state (CompleteStreamExport E S i sz e) w = (r, w')"
  shows "table_step (hist w) (hist w')"
  using tspecD [OF CompleteStreamExport_table step] by (auto intro: table_step_same)

lemma watch_step:
  assumes law: "db_law E" and step: "run_state (GetFileByKey E S fuel req) w = (r, w')"
  shows "table_step (hist w) (hist w')"
  using tspecD [OF GetFileByKey_table [OF law] step] by (auto intro: table_step_same)

lemmas operation_steps =
  create_step edit_step delete_step publish_step unpublish_step upload_step start_step part_step
  complete_step metadata_step progress_step reprocess_step faces_step batch_step
  request_export_step complete_export_step watch_step

lemma service_step_table: "service_step E S w w' \<Longrightarrow> db_law E \<Longrightarrow> table_step (hist w) (hist w')"
  by (induction rule: service_step.induct) (rule operation_steps; assumption | simp add: table_step_same)+

lemma report_step_table:
  assumes "report_step E S w w'" and "db_law E"
  shows "creates (hist w') = creates (hist w) \<and>
    (table (hist w') = table (hist w) \<or> (\<exists>i n. updates (reported (mapProtoStatusToDomain n)) i (table (hist w)) (table (hist w'))))"
  using assms(1)
proof cases
  case (report i n r)
  then show ?thesis using tspecD [OF UpdateStreamStatus_table [OF assms(2)] report]
    by (auto split: outcome.splits option.splits)
qed

text \<open>Every row comes from exactly one insertion, and keeps what that insertion fixed.\<close>

definition rooted :: "history \<Rightarrow> bool" where
  "rooted h \<longleftrightarrow> distinct (map ID (creates h)) \<and>
     (\<forall>i s. table h i = Some s \<longrightarrow> (\<exists>s0\<in>set (creates h). same_row s0 s)) \<and>
     (\<forall>s0\<in>set (creates h). PublishedAt s0 = None \<and> OwnerID s0 \<noteq> uuid_Nil)"

lemma rooted_origin: "rooted h \<Longrightarrow> table h i = Some s \<Longrightarrow> \<exists>s0\<in>set (creates h). same_row s0 s"
  unfolding rooted_def by blast

lemma rooted_evolves:
  assumes "rooted h" and "creates h' = creates h" and "evolves (\<lambda>s s'. same_row s s') (table h) (table h')"
  shows "rooted h'"
proof -
  have "\<exists>s0\<in>set (creates h). same_row s0 s'" if "table h' i = Some s'" for i s'
  proof -
    have "rel_option same_row (table h i) (Some s')" using assms(3) that by (metis evolves_def)
    then obtain s where "table h i = Some s" "same_row s s'" by (auto simp: option_rel_Some2)
    then show ?thesis using assms(1) same_row_trans unfolding rooted_def by blast
  qed
  then show ?thesis using assms by (simp add: rooted_def)
qed

lemma inserts_row:
  assumes "inserts req s h h'"
  shows "OwnerID s = Create_OwnerID req" "OwnerID s \<noteq> uuid_Nil" "Status s = StatusDraft" "PublishedAt s = None"
proof -
  obtain t1 t2 where s: "s = BeforeCreate (ID s) t1 t2 (new_stream req)" and o: "Create_OwnerID req \<noteq> uuid_Nil"
    using assms by (auto simp: inserts_def)
  show "OwnerID s = Create_OwnerID req" "Status s = StatusDraft" "PublishedAt s = None"
    by (subst s; simp add: new_stream_def BeforeCreate_def Let_def)+
  then show "OwnerID s \<noteq> uuid_Nil" using o by simp
qed

lemma rooted_inserts:
  assumes "rooted h" and "inserts req s h h'"
  shows "rooted h'"
  using assms inserts_row [OF assms(2)]
  by (auto simp: rooted_def inserts_def split: if_splits)

lemma row_edge_same_row: "row_edge s s' \<Longrightarrow> same_row s s'"
  by (simp add: row_edge_def)

lemma evolves_mono: "evolves R db db' \<Longrightarrow> (\<And>s s'. R s s' \<Longrightarrow> Q s s') \<Longrightarrow> evolves Q db db'"
  unfolding evolves_def by (blast intro: option.rel_mono_strong)

lemma rooted_table_step:
  assumes "rooted h" and "table_step h h'"
  shows "rooted h'"
  using assms(2) unfolding table_step_def
proof (elim disjE exE conjE)
  assume "creates h' = creates h" "evolves row_edge (table h) (table h')"
  then show ?thesis using rooted_evolves [OF assms(1)] evolves_mono row_edge_same_row by blast
next
  fix req s
  assume "inserts req s h h'"
  then show ?thesis by (rule rooted_inserts [OF assms(1)])
next
  fix i s
  assume "creates h' = creates h" "table h' = (table h)(i := None)"
  then show ?thesis using assms(1) by (auto simp: rooted_def split: if_splits)
qed

lemma evolves_reported:
  "updates (reported st) i db db' \<Longrightarrow> evolves same_row db db'"
  by (rule evolves_updates [of same_row "reported st"]) (auto simp: reflp_def reported_def)

lemma rooted_report_step:
  assumes "rooted (hist w)" and "report_step E S w w'" and "db_law E"
  shows "rooted (hist w')"
  using report_step_table [OF assms(2,3)] rooted_evolves [OF assms(1)] evolves_reported
    evolves_refl [of same_row] by (metis (no_types, lifting) reflpI same_row_refl)

lemma reachable_rooted: "reachable E S w \<Longrightarrow> db_law E \<Longrightarrow> rooted (hist w)"
proof (induction rule: reachable.induct)
  case (initial w)
  then show ?case by (simp add: rooted_def)
next
  case (serve w w')
  then show ?case using rooted_table_step service_step_table by blast
next
  case (status w w')
  then show ?case using rooted_report_step by blast
qed

lemma rooted_key: "rooted h \<Longrightarrow> table h i = Some s \<Longrightarrow> i \<in> ID ` set (creates h)"
  unfolding rooted_def using ID_table same_row_ID by (metis image_eqI)

lemma table_step_row:
  assumes "rooted h" and "table_step h h'" and "table h i = Some s" and "table h' i = Some s'"
  shows "row_edge s s'"
  using assms(2) unfolding table_step_def
proof (elim disjE exE conjE)
  assume "evolves row_edge (table h) (table h')"
  then show ?thesis using assms(3,4) by (metis evolves_def option.rel_inject(2))
next
  fix req t
  assume ins: "inserts req t h h'"
  then have "i \<noteq> ID t" using rooted_key [OF assms(1,3)] unfolding inserts_def by blast
  then show ?thesis using ins assms(3,4) by (simp add: inserts_def)
next
  fix j t
  assume "table h' = (table h)(j := None)"
  then show ?thesis using assms(3,4) by (auto split: if_splits)
qed

section \<open>Runs of the reference environment\<close>

lemma reachable_created: "reachable ref_env ref_service created_world"
  unfolding created_world_def
  by (rule reachable.serve [OF reachable.initial service_step.create [OF run_after]]) (simp add: ref_world_def)

lemma reachable_ready: "reachable ref_env ref_service ready_world"
proof -
  have "mapProtoStatusToDomain 2 = StatusReady" by (simp add: mapProtoStatusToDomain_def)
  then show ?thesis
    using reachable.status [OF reachable_created report_step.report [where i = 1 and n = 2, OF run_after]]
    by (simp add: ready_world_def)
qed

lemma publish_ready: "service_step ref_env ref_service ready_world published_world"
  unfolding published_world_def by (rule service_step.publish [OF run_after])

lemma published_world_table:
  "\<exists>t. table (hist published_world) = [1 \<mapsto> BeforeUpdate t (ref_row\<lparr>Status := StatusPublished\<rparr>)]"
proof -
  obtain t where "table (hist ready_world) = [1 \<mapsto> BeforeUpdate t (ref_row\<lparr>Status := StatusReady\<rparr>)]"
    using ready_world_table by blast
  then show ?thesis
    by (simp add: published_world_def after_def PublishStream_def repo_Read_def repo_Update_def gorm_Save_def
        run_BeforeUpdate_def ref_env_def ref_First_def ref_service_def recordEvent_def notifyComplete_def
        ref_row_def BeforeCreate_def Let_def new_stream_def uuid_Nil_def BeforeUpdate_def) blast
qed

section \<open>Properties of runs\<close>

text \<open>
  C1: In any run of the service every row of the streams table stems from exactly one insertion, and
  has that insertion's owner (never the nil UUID) and creation time. No operation can take a stream over,
  forge its age or make a row appear that \<open>CreateStream\<close> did not insert.
\<close>

theorem row_provenance:
  assumes "db_law E" and "reachable E S w" and "table (hist w) i = Some s"
  shows "\<exists>s0. filter (\<lambda>s0. ID s0 = i) (creates (hist w)) = [s0] \<and> OwnerID s = OwnerID s0 \<and>
    OwnerID s \<noteq> uuid_Nil \<and> CreatedAt s = CreatedAt s0"
proof -
  have r: "rooted (hist w)" using reachable_rooted assms(1,2) by blast
  then obtain s0 where s0: "s0 \<in> set (creates (hist w))" "same_row s0 s"
    using rooted_origin assms(3) by blast
  then have "ID s0 = i" using ID_table [OF assms(3)] same_row_ID by metis
  moreover have "distinct (map ID (creates (hist w)))" using r by (simp add: rooted_def)
  ultimately have "filter (\<lambda>t. ID t = i) (creates (hist w)) = [s0]"
    using s0(1) by (intro filter_key_singleton) auto
  moreover have "OwnerID s0 \<noteq> uuid_Nil" using r s0(1) by (simp add: rooted_def)
  ultimately show ?thesis using s0(2) by (auto simp: same_row_def)
qed

theorem row_provenance_witness:
  "\<exists>s0. filter (\<lambda>s0. ID s0 = 1) (creates (hist created_world)) = [s0] \<and> OwnerID ref_row = OwnerID s0 \<and>
    OwnerID ref_row \<noteq> uuid_Nil \<and> CreatedAt ref_row = CreatedAt s0"
  using row_provenance [OF ref_env_law reachable_created, of 1 ref_row] created_world_table by simp

text \<open>
  No step of a run, user operation or worker report, changes the key, the owner, the creation
  time, the deletion mark or the publication time of a stream that exists before and after it.
\<close>

theorem identity_immutable:
  assumes "db_law E" and "reachable E S w" and "service_step E S w w' \<or> report_step E S w w'"
    and "table (hist w) i = Some s" and "table (hist w') i = Some s'"
  shows "ID s' = ID s \<and> OwnerID s' = OwnerID s \<and> CreatedAt s' = CreatedAt s \<and>
    DeletedAt s' = DeletedAt s \<and> PublishedAt s' = PublishedAt s"
  using assms(3)
proof
  assume "service_step E S w w'"
  then have "row_edge s s'"
    using table_step_row [OF reachable_rooted service_step_table] assms by blast
  then show ?thesis by (simp add: row_edge_def same_row_def)
next
  assume "report_step E S w w'"
  then have "evolves same_row (table (hist w)) (table (hist w'))"
    using report_step_table [OF _ assms(1)] evolves_reported evolves_refl [of same_row]
    by (metis (no_types, lifting) reflpI same_row_refl)
  then have "same_row s s'" using assms(4,5) by (metis evolves_def option.rel_inject(2))
  then show ?thesis by (simp add: same_row_def)
qed

theorem identity_immutable_witness:
  "\<exists>t t'. let s = BeforeUpdate t (ref_row\<lparr>Status := StatusReady\<rparr>);
       s' = BeforeUpdate t' (ref_row\<lparr>Status := StatusPublished\<rparr>)
     in table (hist ready_world) 1 = Some s \<and> table (hist published_world) 1 = Some s' \<and>
        ID s' = ID s \<and> OwnerID s' = OwnerID s \<and> PublishedAt s' = PublishedAt s"
proof -
  obtain t where t: "table (hist ready_world) = [1 \<mapsto> BeforeUpdate t (ref_row\<lparr>Status := StatusReady\<rparr>)]"
    using ready_world_table by blast
  obtain t' where t': "table (hist published_world) = [1 \<mapsto> BeforeUpdate t' (ref_row\<lparr>Status := StatusPublished\<rparr>)]"
    using published_world_table by blast
  let ?s = "BeforeUpdate t (ref_row\<lparr>Status := StatusReady\<rparr>)"
  let ?s' = "BeforeUpdate t' (ref_row\<lparr>Status := StatusPublished\<rparr>)"
  have "table (hist ready_world) 1 = Some ?s" "table (hist published_world) 1 = Some ?s'"
    using t t' by simp_all
  with identity_immutable [OF ref_env_law reachable_ready disjI1 [OF publish_ready] this]
  show ?thesis unfolding Let_def by blast
qed

text \<open>
  C2: Apart from the status reports of the transcoder, every step of a run moves the status of a
  stream along an edge of the life cycle: only a draft can start an upload, a stream becomes processing
  only from draft, uploading or error, it becomes published only from ready, and leaves published only
  for ready.
\<close>

theorem status_follows_life_cycle:
  assumes "db_law E" and "reachable E S w" and "service_step E S w w'"
    and "table (hist w) i = Some s" and "table (hist w') i = Some s'"
  shows "status_edge (Status s) (Status s')"
  using table_step_row [OF reachable_rooted service_step_table] assms unfolding row_edge_def by blast

theorem status_follows_life_cycle_witness:
  "status_edge StatusReady StatusPublished \<and>
   (\<exists>t. table (hist published_world) 1 = Some (BeforeUpdate t (ref_row\<lparr>Status := StatusPublished\<rparr>)))"
proof -
  obtain t where t: "table (hist ready_world) = [1 \<mapsto> BeforeUpdate t (ref_row\<lparr>Status := StatusReady\<rparr>)]"
    using ready_world_table by blast
  obtain t' where t': "table (hist published_world) = [1 \<mapsto> BeforeUpdate t' (ref_row\<lparr>Status := StatusPublished\<rparr>)]"
    using published_world_table by blast
  have "table (hist ready_world) 1 = Some (BeforeUpdate t (ref_row\<lparr>Status := StatusReady\<rparr>))"
    "table (hist published_world) 1 = Some (BeforeUpdate t' (ref_row\<lparr>Status := StatusPublished\<rparr>))"
    using t t' by simp_all
  with status_follows_life_cycle [OF ref_env_law reachable_ready publish_ready this]
  show ?thesis by auto
qed



text \<open>
  The publication time is never recorded: in any run every row has a nil \<open>PublishedAt\<close>, also the
  published ones. (\<open>PublishStream\<close> sets only the status; the model's own \<open>Publish\<close> method, which sets
  both, is not called.)
\<close>

theorem published_at_never_set:
  assumes "db_law E" and "reachable E S w" and "table (hist w) i = Some s"
  shows "PublishedAt s = None"
proof -
  have r: "rooted (hist w)" using reachable_rooted assms(1,2) by blast
  then obtain s0 where "s0 \<in> set (creates (hist w))" "same_row s0 s" using rooted_origin assms(3) by blast
  then show ?thesis using r by (simp add: rooted_def same_row_def)
qed

theorem published_at_never_set_witness:
  "\<exists>s. table (hist published_world) 1 = Some s \<and> Status s = StatusPublished \<and> PublishedAt s = None"
proof -
  obtain t where "table (hist published_world) = [1 \<mapsto> BeforeUpdate t (ref_row\<lparr>Status := StatusPublished\<rparr>)]"
    using published_world_table by blast
  then have row: "table (hist published_world) 1 = Some (BeforeUpdate t (ref_row\<lparr>Status := StatusPublished\<rparr>))"
    by simp
  show ?thesis
    using published_at_never_set [OF ref_env_law reachable.serve [OF reachable_ready publish_ready] row] row by auto
qed

end
