(* ===== verification/HlsProperties.thy ===== *)
theory HlsProperties
  imports ServiceHls System
begin

text \<open>
  What the file server of \<open>ServiceHls\<close> can read, that its fallback ends, what the fallback returns, and
  the one segment number for which it does not end.
\<close>

section \<open>Paths\<close>

definition path_element :: "string \<Rightarrow> bool" where
  "path_element p \<longleftrightarrow> p \<noteq> [] \<and> p \<noteq> ''.'' \<and> p \<noteq> ''..'' \<and> CHR ''/'' \<notin> set p"

lemma split_slash_nonempty [simp]: "split_slash s \<noteq> []"
  by (induction s) (auto split: list.splits)

lemma split_slash_append: "CHR ''/'' \<notin> set p \<Longrightarrow> split_slash (p @ CHR ''/'' # s) = p # split_slash s"
  by (induction p) auto

lemma split_slash_single [simp]: "CHR ''/'' \<notin> set p \<Longrightarrow> split_slash p = [p]"
  by (induction p) auto

lemma split_slash_factor: "p \<in> set (split_slash s) \<Longrightarrow> \<exists>u v. s = u @ p @ v"
proof (induction s arbitrary: p)
  case (Cons c s)
  show ?case
  proof (cases "c = CHR ''/''")
    case True
    then show ?thesis using Cons by (auto intro: exI [of _ "[]"]) (metis append_Cons)
  next
    case False
    obtain q qs where q: "split_slash s = q # qs" by (metis list.exhaust split_slash_nonempty)
    have join: "split_slash s = q # qs \<Longrightarrow> \<exists>v. s = q @ v" for s q qs
      by (induction s arbitrary: q qs) (auto split: if_splits list.splits)
    have "p = c # q \<or> p \<in> set qs" using Cons.prems False q by simp
    then show ?thesis
    proof
      assume "p = c # q"
      then show ?thesis using join [OF q] by (metis append_Cons append_Nil)
    next
      assume "p \<in> set qs"
      then show ?thesis using Cons.IH [of p] q by (metis append_Cons list.set_intros(2))
    qed
  qed
qed simp

lemma clean_elems_no_dotdot:
  "''..'' \<notin> set ps \<Longrightarrow> clean_elems acc ps = rev acc @ filter (\<lambda>p. p \<noteq> [] \<and> p \<noteq> ''.'') ps"
  by (induction ps arbitrary: acc) auto

lemma join_slash_Cons: "ps \<noteq> [] \<Longrightarrow> join_slash (p # ps) = p @ CHR ''/'' # join_slash ps"
  by (cases ps) auto

text \<open>A file name without \<open>..\<close> is cleaned to elements below the directory of the stream.\<close>

lemma path_Join_stream:
  assumes "path_element u" and "\<not> Contains f ''..''" and "f \<noteq> []"
  shows "path_Join [''processed'', u, f] =
     join_slash (''processed'' # u # filter (\<lambda>p. p \<noteq> [] \<and> p \<noteq> ''.'') (split_slash f))"
proof -
  have u: "u \<noteq> []" "u \<noteq> ''.''" "u \<noteq> ''..''" "CHR ''/'' \<notin> set u" using assms(1) by (auto simp: path_element_def)
  have "''..'' \<notin> set (split_slash f)"
    using split_slash_factor [of "''..''" f] assms(2) by (auto simp: Contains_iff)
  moreover have "split_slash (''processed/'' @ u @ ''/'' @ f) = ''processed'' # u # split_slash f"
    using split_slash_append [of "''processed''" "u @ CHR ''/'' # f"] split_slash_append [OF u(4), of f] by simp
  moreover have "join_slash [''processed'', u, f] = ''processed/'' @ u @ ''/'' @ f" by simp
  ultimately show ?thesis
    using u assms(3) by (simp add: path_Join_def path_Clean_def clean_elems_no_dotdot del: split_slash.simps)
qed

definition stream_dir :: "env \<Rightarrow> uuid \<Rightarrow> string" where
  "stream_dir E u = ''processed/'' @ uuid_String E u"

lemma hls_key_below:
  assumes "path_element (uuid_String E u)" and "\<not> Contains f ''..''" and "f \<noteq> []"
  shows "hls_key E u f = stream_dir E u \<or> HasPrefix (hls_key E u f) (stream_dir E u @ ''/'')"
proof -
  let ?es = "filter (\<lambda>p. p \<noteq> [] \<and> p \<noteq> ''.'') (split_slash f)"
  have "hls_key E u f = join_slash (''processed'' # uuid_String E u # ?es)"
    unfolding hls_key_def by (rule path_Join_stream [OF assms])
  then show ?thesis by (cases "?es = []") (simp_all add: join_slash_Cons HasPrefix_iff stream_dir_def)
qed

lemma segment_name_element: "0 \<le> i \<Longrightarrow> path_element (segment_name i)"
  using not_digit_minus Itoa_nat_digits [of "nat i"]
  by (auto simp: path_element_def segment_name_def Itoa_def list_all_iff)

lemma segment_name_no_dotdot: "0 \<le> i \<Longrightarrow> \<not> Contains (segment_name i) ''..''"
proof
  assume i: "0 \<le> i" and "Contains (segment_name i) ''..''"
  then obtain a b where ab: "''seg_'' @ Itoa i @ ''.ts'' = a @ ''..'' @ b" by (auto simp: Contains_iff segment_name_def)
  have "CHR ''.'' \<notin> set (Itoa i)"
    using not_digit_minus Itoa_nat_digits [of "nat i"] i by (auto simp: Itoa_def list_all_iff)
  then have "length (filter (\<lambda>c. c = CHR ''.'') (''seg_'' @ Itoa i @ ''.ts'')) = 1"
    by (auto simp: filter_empty_conv)
  moreover have "length (filter (\<lambda>c. c = CHR ''.'') (a @ ''..'' @ b)) \<ge> 2" by simp
  ultimately show False unfolding ab by linarith
qed

lemma segment_key_eq:
  assumes "path_element (uuid_String E u)" and "0 \<le> i"
  shows "segment_key E u i = ''processed/'' @ uuid_String E u @ ''/'' @ segment_name i"
proof -
  have e: "path_element (segment_name i)" using assms(2) by (rule segment_name_element)
  have "segment_key E u i = join_slash (''processed'' # uuid_String E u # filter (\<lambda>p. p \<noteq> [] \<and> p \<noteq> ''.'') (split_slash (segment_name i)))"
    unfolding segment_key_def using assms e segment_name_no_dotdot
    by (intro path_Join_stream) (auto simp: path_element_def)
  moreover have "split_slash (segment_name i) = [segment_name i]" using e by (simp add: path_element_def)
  ultimately show ?thesis using e by (simp add: path_element_def)
qed

text \<open>The events of a request that may read only below one directory.\<close>

fun reads_below :: "string \<Rightarrow> string \<Rightarrow> event \<Rightarrow> bool" where
  "reads_below b dir (EvGetObject b' k r) = (b' = b \<and> (k = dir \<or> HasPrefix k (dir @ ''/'')))"
| "reads_below b dir (EvDbFirst i r) = True"
| "reads_below b dir (EvMetric c l n) = True"
| "reads_below b dir _ = False"

lemma emits_neighbours_below:
  assumes "path_element (uuid_String E u)"
  shows "emits (reads_below (StorageBucket S) (stream_dir E u)) (neighbour_loop E S u idx fuel i merged found)"
proof (induction fuel arbitrary: i merged found)
  case (Suc fuel)
  have "reads_below (StorageBucket S) (stream_dir E u) (EvGetObject (StorageBucket S) (segment_key E u i) r)"
    if "\<not> i < 0" for r
    using segment_key_eq [OF assms, of i] that by (simp add: HasPrefix_iff stream_dir_def)
  then show ?case
    using Suc by (auto intro!: emits split: prod.split option.split)
qed (auto intro!: emits)

lemma emits_GetFileByKey_below:
  assumes "path_element (uuid_String E (File_StreamUUID req))"
  shows "emits (reads_below (StorageBucket S) (stream_dir E (File_StreamUUID req))) (GetFileByKey E S fuel req)"
  unfolding GetFileByKey_def GetStream_def concatNeighbourSegments_def Let_def
  by (intro emits emits_neighbours_below [OF assms]) (auto simp: hls_key_below [OF assms])

section \<open>Termination\<close>

lemma Download_any: "(\<And>r w'. Q r w') \<Longrightarrow> wpre (storage_Download E b k) Q w"
  by (rule wpreI)

lemma neighbour_loop_ends:
  assumes "int64_ok i" and "wrap64 (idx + maxRadius) < max_int64"
    and "nat (wrap64 (idx + maxRadius) + 1 - i) < fuel"
  shows "wpre (neighbour_loop E S u idx fuel i merged found) (\<lambda>r w'. r \<noteq> None) w"
  using assms
proof (induction fuel arbitrary: i merged found w)
  case (Suc fuel)
  show ?case
  proof (cases "i \<le> wrap64 (idx + maxRadius)")
    case True
    then have next_ok: "wrap64 (i + 1) = i + 1" "int64_ok (i + 1)"
      using Suc.prems(1,2) by (auto simp: int64_ok_def)
    moreover have "nat (wrap64 (idx + maxRadius) + 1 - (i + 1)) < fuel" using Suc.prems(3) True by linarith
    ultimately have "wpre (neighbour_loop E S u idx fuel (wrap64 (i + 1)) m f) (\<lambda>r w'. r \<noteq> None) w'" for m f w'
      using Suc.IH [of "i + 1" m f w'] Suc.prems(2) by simp
    then show ?thesis
      using True by (auto simp: wp intro!: Download_any split: sum.split option.split)
  qed (simp add: wp)
qed simp

text \<open>The loop goes round at most seven times, whatever the segment number, except for one number.\<close>

lemma segment_loop_ends:
  assumes "0 \<le> idx" and "idx \<le> max_int64" and "idx \<noteq> max_int64 - 3" and "8 \<le> fuel"
  shows "wpre (neighbour_loop E S u idx fuel (wrap64 (idx - maxRadius)) merged found) (\<lambda>r w'. r \<noteq> None) w"
proof (rule neighbour_loop_ends)
  show "int64_ok (wrap64 (idx - maxRadius))" by simp
  have "idx + 3 < max_int64 \<or> max_int64 < idx + 3" using assms(2,3) by linarith
  then have w: "wrap64 (idx + maxRadius) = idx + 3 \<and> idx + 3 < max_int64 \<or>
      wrap64 (idx + maxRadius) = idx + 3 - 18446744073709551616"
    using assms(1,2) wrap64_over [of "idx + 3"]
    by (auto simp: maxRadius_def int64_ok_def max_int64_def min_int64_def)
  then show "wrap64 (idx + maxRadius) < max_int64"
    using assms(2) by (auto simp: max_int64_def)
  have "wrap64 (idx - maxRadius) = idx - maxRadius"
    using assms(1,2) by (intro wrap64_id) (simp add: int64_ok_def int64_defs maxRadius_def)
  moreover have "wrap64 (idx + maxRadius) \<le> idx + maxRadius"
    using w by (auto simp: maxRadius_def)
  ultimately have "wrap64 (idx + maxRadius) + 1 - wrap64 (idx - maxRadius) \<le> 7"
    by (simp add: maxRadius_def)
  then show "nat (wrap64 (idx + maxRadius) + 1 - wrap64 (idx - maxRadius)) < fuel" using assms(4) by linarith
qed

text \<open>For that number the bound of the loop is the greatest integer and the counter wraps around.\<close>

lemma neighbour_loop_diverges:
  assumes "\<And>h b k. \<exists>msg t. s3_GetObject E h b k = Inl (Foreign (MinioErrorResponse ''NoSuchKey'' msg) t)"
    and "int64_ok i"
  shows "wpre (neighbour_loop E S u (max_int64 - 3) fuel i merged found) (\<lambda>r w'. r = None) w"
  using assms(2)
proof (induction fuel arbitrary: i w)
  case (Suc fuel)
  have top: "wrap64 (max_int64 - 3 + maxRadius) = max_int64"
    by (simp add: int64_defs maxRadius_def)
  have i: "i \<le> max_int64" using Suc.prems by (simp add: int64_ok_def)
  have step: "wpre (neighbour_loop E S u (max_int64 - 3) fuel (wrap64 (i + 1)) merged found) (\<lambda>r w'. r = None) w'" for w'
    by (rule Suc.IH) simp
  have down: "wpre (storage_Download E b k) Q w"
    if "\<And>err w'. errors_Is err StorageErrNotFound \<Longrightarrow> Q (Inl err) w'" for b k Q and w :: world
    using assms(1) [of "hist w" b k] that by (auto simp: storage_Download_def mapMinIOError_def wp)
  show ?case using i step by (auto simp: top wp intro!: down)
qed (simp add: wp)

section \<open>What the fallback returns\<close>

definition neighbours :: "int \<Rightarrow> int list" where
  "neighbours idx = filter (\<lambda>i. i \<noteq> idx \<and> 0 \<le> i) [idx - 3..idx + 3]"

text \<open>A store whose objects are read whole and do not change.\<close>

definition steady_store :: "env \<Rightarrow> (string \<rightharpoonup> string) \<Rightarrow> bool" where
  "steady_store E store \<longleftrightarrow> (\<forall>h b k. s3_GetObject E h b k =
     (case store k of
        None \<Rightarrow> Inl no_such_key
      | Some d \<Rightarrow> Inr \<lparr>ObjStat = Inr (int (length d)), ObjData = d, ObjReadErr = None\<rparr>))"

lemma steady_Download:
  assumes "steady_store E store"
  shows "wpre (storage_Download E b k) Q w \<longleftrightarrow>
    Q (case store k of None \<Rightarrow> Inl (Sentinel StorageErrNotFound)
       | Some d \<Rightarrow> Inr (\<lparr>ObjStat = Inr (int (length d)), ObjData = d, ObjReadErr = None\<rparr>, int (length d)))
      (w\<lparr>hist := hist w @ [EvGetObject b k (s3_GetObject E (hist w) b k)]\<rparr>)"
  using assms
  by (cases "store k") (simp_all add: steady_store_def storage_Download_def wp no_such_key_def mapMinIOError_def)

lemma neighbour_loop_merges:
  assumes "steady_store E store" and "idx + 3 < max_int64" and "0 \<le> idx"
    and "int64_ok i" and "nat (idx + 4 - i) < fuel"
  shows "wpre (neighbour_loop E S u idx fuel i merged found) (\<lambda>r w'.
     let parts = List.map_filter (\<lambda>j. store (segment_key E u j)) (filter (\<lambda>j. j \<noteq> idx \<and> 0 \<le> j) [i..idx + 3])
     in r = Some (Inr (merged @ concat parts, found \<or> parts \<noteq> []))) w"
  using assms(4,5)
proof (induction fuel arbitrary: i merged found w)
  case (Suc fuel)
  have top: "wrap64 (idx + maxRadius) = idx + 3"
    using assms(2,3) by (simp add: int64_defs maxRadius_def)
  show ?case
  proof (cases "i \<le> idx + 3")
    case True
    then have i1: "wrap64 (i + 1) = i + 1" "int64_ok (i + 1)"
      using Suc.prems(1) assms(2) by (auto simp: int64_ok_def)
    have split: "[i..idx + 3] = i # [i + 1..idx + 3]" using True by (rule upto_rec1)
    have "nat (idx + 4 - (i + 1)) < fuel" using Suc.prems(2) True by linarith
    note IH = Suc.IH [OF i1(2) this]
    show ?thesis
    proof (cases "i = idx \<or> i < 0")
      case True
      then have "filter (\<lambda>j. j \<noteq> idx \<and> 0 \<le> j) [i..idx + 3] = filter (\<lambda>j. j \<noteq> idx \<and> 0 \<le> j) [i + 1..idx + 3]"
        using split by auto
      then show ?thesis using True IH [of merged found] \<open>i \<le> idx + 3\<close> by (simp add: top i1)
    next
      case False
      then show ?thesis
        using \<open>i \<le> idx + 3\<close> IH [of "merged @ the (store (segment_key E u i))" True] IH [of merged found]
        by (cases "store (segment_key E u i)")
           (simp_all add: top i1 split wp steady_Download [OF assms(1)] copy_limited_def map_filter_simps Let_def)
    qed
  qed (simp add: top wp map_filter_simps Let_def)
qed simp

lemma concat_ends:
  assumes "segmentIndex f \<noteq> Some (max_int64 - 3)" and "8 \<le> fuel"
  shows "wpre (concatNeighbourSegments E S fuel u f) (\<lambda>r w'. r \<noteq> None) w"
proof (cases "segmentIndex f")
  case (Some idx)
  then have "wpre (neighbour_loop E S u idx fuel (wrap64 (idx - maxRadius)) [] False) (\<lambda>r w'. r \<noteq> None) w"
    using segmentIndex_range [OF Some] assms by (intro segment_loop_ends) auto
  then show ?thesis
    using Some by (auto simp: concatNeighbourSegments_def wp elim!: wpre_mono split: sum.split)
qed (simp add: concatNeighbourSegments_def wp)

lemma Contains_single: "Contains s [c] \<longleftrightarrow> c \<in> set s"
  by (induction s) (auto simp: HasPrefix_def)

lemma GetStream_any: "(\<And>r w'. Q r w') \<Longrightarrow> wpre (GetStream E i) Q w"
  by (rule wpreI)

lemma metric_any: "(\<And>r w'. Q r w') \<Longrightarrow> wpre (metric c l n) Q w"
  by (rule wpreI)

section \<open>Properties\<close>

text \<open>
  C6: Whatever file name a viewer sends, a request for an HLS file reads only objects of the service's
  bucket at or below \<open>processed/<stream id>\<close>, in the fallback too, and changes nothing. It is assumed
  that the text of a UUID is one path element.
\<close>

theorem hls_reads_confined:
  assumes "path_element (uuid_String E (File_StreamUUID req))"
    and "run_state (GetFileByKey E S fuel req) w = (r, w')"
  shows "list_all (reads_below (StorageBucket S) (stream_dir E (File_StreamUUID req))) (trace w w')"
  using emits_trace [OF emits_GetFileByKey_below [OF assms(1)] assms(2)] .

theorem hls_reads_confined_witness:
  "list_all (reads_below ''videos'' ''processed/u1'')
     (trace ref_world (after (GetFileByKey ref_env ref_service 8
        \<lparr>File_StreamUUID = 1, File_FileName = ''/seg_1.ts''\<rparr>) ref_world))"
proof -
  have u: "uuid_String ref_env 1 = ''u1''"
  proof -
    have "ref_String 1 = ''u1''" by code_simp
    then show ?thesis by (simp add: ref_env_def)
  qed
  show ?thesis
    using hls_reads_confined [OF _ run_after, where E = ref_env and S = ref_service and fuel = 8 and w = ref_world
        and req = "\<lparr>File_StreamUUID = 1, File_FileName = ''/seg_1.ts''\<rparr>"]
    by (simp add: u stream_dir_def path_element_def ref_service_def)
qed

text \<open>
  C15: Serving an HLS file ends: for every file name but that of segment 9223372036854775804 the loop
  over the neighbours of a missing segment takes at most seven turns, so fuel 8 gives an answer,
  whatever the storage and the database do.
\<close>

theorem GetFileByKey_returns:
  assumes "segmentIndex (TrimPrefix (File_FileName req) ''/'') \<noteq> Some (max_int64 - 3)" and "8 \<le> fuel"
  shows "\<exists>answer. fst (run_state (GetFileByKey E S fuel req) w) = Some answer"
proof -
  have cat: "wpre (concatNeighbourSegments E S fuel u (TrimPrefix (File_FileName req) ''/'')) Q w"
    if "\<And>r w'. r \<noteq> None \<Longrightarrow> Q r w'" for u Q and w :: world
    using concat_ends [OF assms] by (rule wpre_mono) (use that in blast)
  have "wpre (GetFileByKey E S fuel req) (\<lambda>r w'. r \<noteq> None) w"
    unfolding GetFileByKey_def Let_def
    by (auto simp: wp intro!: GetStream_any Download_any metric_any cat split: sum.split option.split)
  then show ?thesis by (auto simp: wpre_def split: prod.splits)
qed

theorem GetFileByKey_returns_witness:
  "\<exists>answer. fst (run_state (GetFileByKey ref_env ref_service 8
      \<lparr>File_StreamUUID = 1, File_FileName = ''/seg_000.ts''\<rparr>) ready_world) = Some answer"
proof -
  have "segmentIndex ''seg_000.ts'' = Some 0"
    by (simp add: segmentIndex_def segment_digits_def Atoi_def digits_value_def is_digit_def byte_def int64_defs)
  moreover have "TrimPrefix ''/seg_000.ts'' ''/'' = ''seg_000.ts''" by (simp add: TrimPrefix_def HasPrefix_def)
  ultimately show ?thesis
    using GetFileByKey_returns [of "\<lparr>File_StreamUUID = 1, File_FileName = ''/seg_000.ts''\<rparr>" 8]
    by (simp add: max_int64_def)
qed

text \<open>
  C39: For segment 9223372036854775804 of a stream that can be watched the request never ends when the
  storage has no object: the bound \<open>idx + 3\<close> of the loop is the greatest \<open>int\<close>, every counter value is
  below it, and the counter wraps around. No amount of fuel gives an answer.
\<close>

theorem hls_fallback_diverges:
  assumes "\<And>h b k. \<exists>msg t. s3_GetObject E h b k = Inl (Foreign (MinioErrorResponse ''NoSuchKey'' msg) t)"
    and "db_First E (hist w) u = Inr s" and "Status s = StatusReady \<or> Status s = StatusPublished"
  shows "fst (run_state (GetFileByKey E S fuel
    \<lparr>File_StreamUUID = u, File_FileName = segment_name (max_int64 - 3)\<rparr>) w) = None"
proof -
  let ?f = "segment_name (max_int64 - 3)"
  have max: "0 \<le> max_int64 - 3" by (simp add: max_int64_def)
  have name: "TrimPrefix ?f ''/'' = ?f" "?f \<noteq> []" "HasSuffix ?f ''.ts''"
    by (auto simp: segment_name_def TrimPrefix_def HasPrefix_def HasSuffix_iff)
  have bs: "\<not> Contains ?f [CHR 0x5C]"
  proof -
    have "\<not> is_digit (CHR 0x5C)" by (simp add: is_digit_def byte_def)
    then have "CHR 0x5C \<notin> set (Itoa_nat n)" for n using Itoa_nat_digits [of n] by (auto simp: list_all_iff)
    then show ?thesis using max by (simp add: Contains_single segment_name_def Itoa_def)
  qed
  have down: "wpre (storage_Download E b k) Q w"
    if "\<And>err w'. errors_Is err StorageErrNotFound \<Longrightarrow> Q (Inl err) w'" for b k Q and w :: world
    using assms(1) [of "hist w" b k] that by (auto simp: storage_Download_def mapMinIOError_def wp)
  have cat: "wpre (concatNeighbourSegments E S fuel u ?f) Q w" if "\<And>w'. Q None w'" for u Q and w :: world
  proof -
    have "wpre (neighbour_loop E S u (max_int64 - 3) fuel (wrap64 (max_int64 - 3 - maxRadius)) [] False)
        (\<lambda>r w'. r = None) w" by (rule neighbour_loop_diverges [OF assms(1)]) simp
    then show ?thesis
      using segmentIndex_name [OF max] that by (auto simp: concatNeighbourSegments_def wp elim!: wpre_mono)
  qed
  have "wpre (GetFileByKey E S fuel \<lparr>File_StreamUUID = u, File_FileName = ?f\<rparr>) (\<lambda>r w'. r = None) w"
    using assms(2,3) name bs segment_name_no_dotdot [OF max]
    by (auto simp: GetFileByKey_def GetStream_def repo_Read_def wp Let_def intro!: down cat)
  then show ?thesis by (auto simp: wpre_def split: prod.splits)
qed

theorem hls_fallback_diverges_witness:
  "\<forall>fuel. fst (run_state (GetFileByKey (ref_env\<lparr>s3_GetObject := \<lambda>h b k. Inl no_such_key\<rparr>) ref_service fuel
    \<lparr>File_StreamUUID = 1, File_FileName = segment_name (max_int64 - 3)\<rparr>) ready_world) = None"
proof -
  let ?E = "ref_env\<lparr>s3_GetObject := \<lambda>h b k. Inl no_such_key\<rparr>"
  obtain t where "table (hist ready_world) = [1 \<mapsto> BeforeUpdate t (ref_row\<lparr>Status := StatusReady\<rparr>)]"
    using ready_world_table by blast
  then have "db_First ?E (hist ready_world) 1 = Inr (BeforeUpdate t (ref_row\<lparr>Status := StatusReady\<rparr>))"
    by (simp add: ref_env_def ref_First_def)
  moreover have "\<exists>msg t. s3_GetObject ?E h b k = Inl (Foreign (MinioErrorResponse ''NoSuchKey'' msg) t)" for h b k
    by (simp add: no_such_key_def)
  ultimately show ?thesis by (intro allI hls_fallback_diverges) auto
qed

text \<open>
  When segment \<open>n\<close> is missing from a store that does not change, the fallback answers with the
  stored segments among the three before and the three after it, in playback order and without gaps
  between them, or with nothing when none is stored.
\<close>

theorem hls_fallback_merges:
  assumes "steady_store E store" and "0 \<le> n" and "n < max_int64 - 3" and "8 \<le> fuel"
  shows "fst (run_state (concatNeighbourSegments E S fuel u (segment_name n)) w) =
    (let parts = List.map_filter (\<lambda>i. store (segment_key E u i)) (neighbours n)
     in Some (Inr (if parts = [] then None else Some (concat parts))))"
proof -
  have start: "wrap64 (n - maxRadius) = n - 3" and ok: "int64_ok (n - 3)"
    using assms(2,3) by (auto simp: int64_defs maxRadius_def)
  have "wpre (neighbour_loop E S u n fuel (n - 3) [] False) (\<lambda>r w'.
     let parts = List.map_filter (\<lambda>j. store (segment_key E u j)) (filter (\<lambda>j. j \<noteq> n \<and> 0 \<le> j) [n - 3..n + 3])
     in r = Some (Inr ([] @ concat parts, False \<or> parts \<noteq> []))) w"
    using assms ok by (intro neighbour_loop_merges) auto
  then have "wpre (concatNeighbourSegments E S fuel u (segment_name n)) (\<lambda>r w'.
     r = (let parts = List.map_filter (\<lambda>i. store (segment_key E u i)) (neighbours n)
          in Some (Inr (if parts = [] then None else Some (concat parts))))) w"
    using assms(2,3) segmentIndex_name [of n]
    by (auto simp: concatNeighbourSegments_def wp start neighbours_def Let_def elim!: wpre_mono)
  then show ?thesis by (auto simp: wpre_def split: prod.splits)
qed

text \<open>The reference environment with two segments of stream 1 in its store.\<close>

definition two_segments :: "string \<rightharpoonup> string" where
  "two_segments = [''processed/u1/seg_1.ts'' \<mapsto> ''one'', ''processed/u1/seg_3.ts'' \<mapsto> ''three'']"

definition two_segments_env :: env where
  "two_segments_env = ref_env\<lparr>s3_GetObject := \<lambda>h b k. (case two_segments k of
     None \<Rightarrow> Inl no_such_key
   | Some d \<Rightarrow> Inr \<lparr>ObjStat = Inr (int (length d)), ObjData = d, ObjReadErr = None\<rparr>)\<rparr>"

theorem hls_fallback_merges_witness:
  "fst (run_state (concatNeighbourSegments two_segments_env ref_service 8 1 (segment_name 2)) ready_world) =
     Some (Inr (Some ''onethree''))"
proof -
  have steady: "steady_store two_segments_env two_segments" by (simp add: steady_store_def two_segments_env_def)
  have u: "uuid_String two_segments_env 1 = ''u1''"
  proof -
    have "ref_String 1 = ''u1''" by code_simp
    then show ?thesis by (simp add: two_segments_env_def ref_env_def)
  qed
  have nb: "neighbours 2 = [0, 1, 3, 4, 5]" by code_simp
  have names: "segment_name 0 = ''seg_0.ts''" "segment_name 1 = ''seg_1.ts''" "segment_name 3 = ''seg_3.ts''"
    "segment_name 4 = ''seg_4.ts''" "segment_name 5 = ''seg_5.ts''" by code_simp+
  have "path_element (uuid_String two_segments_env 1)" unfolding u by (simp add: path_element_def)
  then have keys: "segment_key two_segments_env 1 i = ''processed/u1/'' @ segment_name i" if "0 \<le> i" for i
    using segment_key_eq [of two_segments_env 1 i] that unfolding u by simp
  have "List.map_filter (\<lambda>i. two_segments (segment_key two_segments_env 1 i)) (neighbours 2) = [''one'', ''three'']"
    by (simp add: nb keys names map_filter_simps two_segments_def)
  then show ?thesis
    using hls_fallback_merges [OF steady, of 2 8 ref_service 1 ready_world] by (simp add: max_int64_def)
qed

end
