(* ===== verification/ServiceProperties.thy ===== *)
theory ServiceProperties
  imports UploadProperties HlsProperties
begin

text \<open>
  Who may do what, what a deletion removes, and what the reports of the workers leave in a row.
\<close>

section \<open>Refusals\<close>

text \<open>A refused operation answers with an error and has read one row.\<close>

definition refused :: "env \<Rightarrow> uuid \<Rightarrow> goerr option \<Rightarrow> world \<Rightarrow> world \<Rightarrow> bool" where
  "refused E i r w w' \<longleftrightarrow> r \<noteq> None \<and> w' = w\<lparr>hist := hist w @ [EvDbFirst i (db_First E (hist w) i)]\<rparr>"

definition failure :: "goerr + 'a \<Rightarrow> goerr option" where
  "failure r = (case r of Inl err \<Rightarrow> Some err | Inr _ \<Rightarrow> None)"

lemmas refusal_defs = result_of_def after_def refused_def failure_def repo_Read_def

section \<open>What a deletion removes\<close>

datatype removed =
    RemoveObject string | RemoveFolder string | RemoveRow uuid | RemovePolicy string string string

fun removal :: "event \<Rightarrow> removed list" where
  "removal (EvRemoveObject b k r) = [RemoveObject k]"
| "removal (EvRemoveObjects b p r) = [RemoveFolder p]"
| "removal (EvDbDelete i r) = [RemoveRow i]"
| "removal (EvRemovePolicy s p a r) = [RemovePolicy s p a]"
| "removal _ = []"

definition removals :: "event list \<Rightarrow> removed list" where
  "removals evs = concat (map removal evs)"

lemma removals_simps [simp]:
  "removals [] = []" "removals (e # evs) = removal e @ removals evs"
  "removals (xs @ ys) = removals xs @ removals ys"
  by (simp_all add: removals_def)

lemma removals_none: "list_all (\<lambda>e. removal e = []) evs \<Longrightarrow> removals evs = []"
  by (induction evs) simp_all

text \<open>The objects of a row: the source, when its key is known, the renditions, the thumbnail.\<close>

definition object_removals :: "env \<Rightarrow> uuid \<Rightarrow> Stream \<Rightarrow> removed list" where
  "object_removals E i s =
    (if Storage s = RNil then []
     else (let key = Key (fst (Unmarshal dec_storage (Storage s) zero_storage)) in
       (if key = [] then [] else [RemoveObject key]) @
       (if Status s = StatusReady then [RemoveFolder (''processed/'' @ uuid_String E i @ ''/'')] else []) @
       [RemoveObject (''thumbnails/'' @ uuid_String E i @ ''.jpg'')]))"

lemma delete_objects_spec:
  assumes "path_element (uuid_String E i)"
  shows "wpre (delete_objects E S i s) (\<lambda>r w'. r = None \<longrightarrow> (\<exists>evs. hist w' = hist w @ evs \<and>
     removals evs = object_removals E i s)) w"
proof -
  have "\<not> HasSuffix (''processed/'' @ uuid_String E i) ''/''"
  proof
    assume "HasSuffix (''processed/'' @ uuid_String E i) ''/''"
    then obtain t where "''processed/'' @ uuid_String E i = t @ ''/''" by (auto simp: HasSuffix_iff)
    then have "last (''processed/'' @ uuid_String E i) = CHR ''/''" by (simp only: last_snoc)
    then show False using assms by (metis last_appendR last_in_set path_element_def)
  qed
  then show ?thesis
    unfolding delete_objects_def storage_Delete_def storage_DeleteFolder_def
    by (auto simp: wp object_removals_def split: option.split)
qed

lemma DeleteStream_removals:
  assumes "path_element (uuid_String E i)"
  shows "wpre (DeleteStream E S i) (\<lambda>r w'. r = None \<longrightarrow> (\<exists>s. db_First E (hist w) i = Inr s \<and>
     (let sub = uuid_String E (OwnerID s); obj = ''stream/'' @ uuid_String E (ID s) in
      removals (trace w w') = object_removals E i s @ [RemoveRow i] @
        [RemovePolicy sub obj ''read'', RemovePolicy sub obj ''write'', RemovePolicy sub obj ''delete'']))) w"
proof -
  have silent: "emits (\<lambda>e. removal e = []) (terminate_tasks E s)"
    "emits (\<lambda>e. removal e = []) (recordEvent E S s k p)"
    "emits (\<lambda>e. removal e = []) (recordFaceCascade E S i)" for s k p
    by (auto intro!: emits)
  show ?thesis
    unfolding DeleteStream_def repo_Read_def repo_Delete_def Let_def
    by (auto simp: wp removals_none
        intro!: wpre_mono [OF delete_objects_spec [OF assms]] wpre_tail [OF silent(1)] wpre_tail [OF silent(2)]
          wpre_tail [OF silent(3)] split: sum.split option.split)
qed

section \<open>Properties\<close>

text \<open>
  C3: A published stream is frozen: editing, deleting, publishing it again and every step of an upload
  are refused with an error after one read of the row, before anything is changed anywhere.
\<close>

theorem published_frozen:
  assumes "db_First E (hist w) i = Inr s" and "Status s = StatusPublished"
  shows "refused E i (failure (result_of (UpdateStream E S i req) w)) w (after (UpdateStream E S i req) w) \<and>
    refused E i (result_of (DeleteStream E S i) w) w (after (DeleteStream E S i) w) \<and>
    refused E i (result_of (PublishStream E S i) w) w (after (PublishStream E S i) w) \<and>
    refused E i (result_of (UploadVideo E S (vreq\<lparr>Video_StreamID := i\<rparr>)) w) w
      (after (UploadVideo E S (vreq\<lparr>Video_StreamID := i\<rparr>)) w) \<and>
    refused E i (failure (result_of (StartStreamUpload E S (sreq\<lparr>Start_StreamID := i\<rparr>)) w)) w
      (after (StartStreamUpload E S (sreq\<lparr>Start_StreamID := i\<rparr>)) w) \<and>
    refused E i (failure (result_of (UploadPart E S (preq\<lparr>Part_StreamID := i\<rparr>)) w)) w
      (after (UploadPart E S (preq\<lparr>Part_StreamID := i\<rparr>)) w) \<and>
    refused E i (result_of (CompleteStreamUpload E S (creq\<lparr>Complete_StreamID := i\<rparr>)) w) w
      (after (CompleteStreamUpload E S (creq\<lparr>Complete_StreamID := i\<rparr>)) w)"
  using assms
  by (simp add: refusal_defs UpdateStream_def DeleteStream_def PublishStream_def UploadVideo_def
      StartStreamUpload_def UploadPart_def CompleteStreamUpload_def)

theorem published_frozen_witness:
  "refused ref_env 1 (result_of (DeleteStream ref_env ref_service 1) published_world) published_world
     (after (DeleteStream ref_env ref_service 1) published_world)"
proof -
  obtain t where "table (hist published_world) = [1 \<mapsto> BeforeUpdate t (ref_row\<lparr>Status := StatusPublished\<rparr>)]"
    using published_world_table by blast
  then have "db_First ref_env (hist published_world) 1 = Inr (BeforeUpdate t (ref_row\<lparr>Status := StatusPublished\<rparr>))"
    by (simp add: ref_env_def ref_First_def)
  then show ?thesis using published_frozen [where S = ref_service] by fastforce
qed

text \<open>
  C5: Nobody works on a stream of another user: an upload in one request, each step of a multipart
  upload, and the request, the state and the download of an export are refused with an error before
  anything is changed, when the row that is read belongs to someone else.
\<close>

theorem foreign_user_refused:
  assumes "db_First E (hist w) i = Inr s" and "OwnerID s \<noteq> u"
  shows "refused E i (result_of (UploadVideo E S (vreq\<lparr>Video_StreamID := i, Video_UserID := u\<rparr>)) w) w
      (after (UploadVideo E S (vreq\<lparr>Video_StreamID := i, Video_UserID := u\<rparr>)) w) \<and>
    refused E i (failure (result_of (StartStreamUpload E S (sreq\<lparr>Start_StreamID := i, Start_UserID := u\<rparr>)) w)) w
      (after (StartStreamUpload E S (sreq\<lparr>Start_StreamID := i, Start_UserID := u\<rparr>)) w) \<and>
    refused E i (failure (result_of (UploadPart E S (preq\<lparr>Part_StreamID := i, Part_UserID := u\<rparr>)) w)) w
      (after (UploadPart E S (preq\<lparr>Part_StreamID := i, Part_UserID := u\<rparr>)) w) \<and>
    refused E i (result_of (CompleteStreamUpload E S (creq\<lparr>Complete_StreamID := i, Complete_UserID := u\<rparr>)) w) w
      (after (CompleteStreamUpload E S (creq\<lparr>Complete_StreamID := i, Complete_UserID := u\<rparr>)) w) \<and>
    refused E i (failure (result_of (RequestStreamExport E i u m) w)) w (after (RequestStreamExport E i u m) w) \<and>
    refused E i (failure (result_of (GetStreamExport E i u) w)) w (after (GetStreamExport E i u) w) \<and>
    refused E i (failure (result_of (OpenStreamDownload E S i u) w)) w (after (OpenStreamDownload E S i u) w)"
  using assms
  by (simp add: refusal_defs UploadVideo_def StartStreamUpload_def UploadPart_def CompleteStreamUpload_def
      RequestStreamExport_def GetStreamExport_def OpenStreamDownload_def split: prod.split option.split)

theorem foreign_user_refused_witness:
  "refused ref_env 1 (failure (result_of (OpenStreamDownload ref_env ref_service 1 8) created_world)) created_world
     (after (OpenStreamDownload ref_env ref_service 1 8) created_world)"
proof -
  have "db_First ref_env (hist created_world) 1 = Inr ref_row"
    using created_world_table by (simp add: ref_env_def ref_First_def)
  moreover have "OwnerID ref_row \<noteq> 8" by (simp add: ref_row_def new_stream_def ref_create_def)
  ultimately show ?thesis using foreign_user_refused [where S = ref_service] by fastforce
qed

text \<open>
  C20: A successful deletion asks for the removal, in this order, of the source object, of the folder of
  the renditions when the stream was ready, of the thumbnail, then of the row, then of the owner's three
  policies, and of nothing else. It is assumed that the text of a UUID is one path element.
\<close>

theorem delete_removes_everything:
  assumes "path_element (uuid_String E i)" and "result_of (DeleteStream E S i) w = None"
  shows "\<exists>s. db_First E (hist w) i = Inr s \<and>
     (let sub = uuid_String E (OwnerID s); obj = ''stream/'' @ uuid_String E (ID s) in
      removals (trace w (after (DeleteStream E S i) w)) = object_removals E i s @ [RemoveRow i] @
        [RemovePolicy sub obj ''read'', RemovePolicy sub obj ''write'', RemovePolicy sub obj ''delete''])"
  using wpre_result [OF DeleteStream_removals [OF assms(1)]] assms(2) by blast

lemma ref_uuid_one: "uuid_String ref_env 1 = ''u1''"
proof -
  have "ref_String 1 = ''u1''" by code_simp
  then show ?thesis by (simp add: ref_env_def)
qed

lemma ref_delete_done: "result_of (DeleteStream ref_env ref_service 1) started_world = None"
proof -
  obtain s info where "table (hist started_world) 1 = Some s" "Status s = StatusUploading" "OwnerID s = 7" "ID s = 1"
    "Unmarshal dec_storage (Storage s) zero_storage = (info, None)"
    using started_world_table by blast
  then show ?thesis
    by (simp add: result_of_def DeleteStream_def ref_run delete_objects_def storage_defs terminate_tasks_def
        repo_Delete_def recordFaceCascade_def split: sum.split)
qed

theorem delete_removes_everything_witness:
  "\<exists>s. db_First ref_env (hist started_world) 1 = Inr s \<and>
     removals (trace started_world (after (DeleteStream ref_env ref_service 1) started_world)) =
       object_removals ref_env 1 s @ [RemoveRow 1] @
       map (RemovePolicy (uuid_String ref_env (OwnerID s)) (''stream/'' @ uuid_String ref_env (ID s)))
         [''read'', ''write'', ''delete'']"
proof -
  have "path_element (uuid_String ref_env 1)" unfolding ref_uuid_one by (simp add: path_element_def)
  from delete_removes_everything [OF this ref_delete_done] show ?thesis by (simp add: Let_def)
qed



section \<open>Reports of the workers\<close>

lemma run_tspec:
  "tspec (table (hist w)) m P \<Longrightarrow> P (result_of m w) (table (hist (after m w)))"
  using tspecD [OF _ run_result] by blast

text \<open>
  A metadata report that says nothing of the rotation keeps the rotation the owner chose, and
  replaces every other field of the metadata.
\<close>

theorem metadata_report_keeps_rotation:
  assumes "db_law E" and "table (hist w) (Meta_StreamUUID req) = Some s" and "GetMetadata s = Inr old"
    and "Rotation (Meta_Metadata req) = 0" and "metadata_wf (Meta_Metadata req)" and "int64_ok (Rotation old)"
    and "result_of (UpdateStreamMetadata E S req) w = None"
  shows "\<exists>s'. table (hist (after (UpdateStreamMetadata E S req) w)) (Meta_StreamUUID req) = Some s' \<and>
    GetMetadata s' = Inr ((Meta_Metadata req)\<lparr>Rotation := Rotation old\<rparr>)"
proof -
  have "updates (described (Meta_Metadata req)) (Meta_StreamUUID req) (table (hist w))
      (table (hist (after (UpdateStreamMetadata E S req) w)))"
    using run_tspec [OF UpdateStreamMetadata_table [OF assms(1)], where w = w and S1 = S and req1 = req] assms(7) by simp
  then obtain t where t: "table (hist (after (UpdateStreamMetadata E S req) w)) (Meta_StreamUUID req) =
      Some (BeforeUpdate t (SetMetadata (carry_rotation s (Meta_Metadata req)) s))"
    using assms(2) by (auto simp: updates_def described_def)
  have "carry_rotation s (Meta_Metadata req) = (Meta_Metadata req)\<lparr>Rotation := Rotation old\<rparr>"
    using assms(3,4) by (simp add: carry_rotation_def)
  moreover have "metadata_wf ((Meta_Metadata req)\<lparr>Rotation := Rotation old\<rparr>)"
    using assms(5,6) by (simp add: metadata_wf_def)
  moreover have "GetMetadata (BeforeUpdate t v) = GetMetadata v" for v by (simp add: GetMetadata_def)
  ultimately show ?thesis using t by (simp add: GetMetadata_SetMetadata)
qed

text \<open>The reference row turned by its owner, and a report of its length.\<close>

definition rotate_request :: UpdateStreamRequest where
  "rotate_request = \<lparr>Update_Title = None, Update_Description = None, Update_Visibility = None,
     Update_Tags = None, Update_Rotation = Some 90\<rparr>"

definition rotated_world :: world where
  "rotated_world = after (UpdateStream ref_env ref_service 1 rotate_request) created_world"

definition ref_metadata :: UpdateStreamMetadataRequest where
  "ref_metadata = \<lparr>Meta_StreamUUID = 1, Meta_Metadata = zero_metadata\<lparr>Duration := 60\<rparr>\<rparr>"

lemma rotated_world_row:
  "\<exists>s. table (hist rotated_world) 1 = Some s \<and> GetMetadata s = Inr (zero_metadata\<lparr>Rotation := 90\<rparr>) \<and> ID s = 1"
  using created_world_table
  by (simp add: rotated_world_def after_def UpdateStream_def ref_run rotate_request_def apply_edits_def
      edit_title_def setStreamRotation_def metadata_map_def raw_empty_def GetMetadata_def Unmarshal_def
      codec_defs zero_metadata_def int64_defs)

lemma ref_metadata_done: "result_of (UpdateStreamMetadata ref_env ref_service ref_metadata) rotated_world = None"
proof -
  obtain s where "table (hist rotated_world) 1 = Some s" "ID s = 1"
    using rotated_world_row by blast
  then show ?thesis
    by (simp add: result_of_def UpdateStreamMetadata_def ref_run ref_metadata_def)
qed

theorem metadata_report_keeps_rotation_witness:
  "\<exists>s'. table (hist (after (UpdateStreamMetadata ref_env ref_service ref_metadata) rotated_world)) 1 = Some s' \<and>
    GetMetadata s' = Inr (zero_metadata\<lparr>Duration := 60, Rotation := 90\<rparr>)"
proof -
  obtain s where "table (hist rotated_world) (Meta_StreamUUID ref_metadata) = Some s"
    "GetMetadata s = Inr (zero_metadata\<lparr>Rotation := 90\<rparr>)"
    using rotated_world_row by (auto simp: ref_metadata_def)
  from metadata_report_keeps_rotation [OF ref_env_law this _ _ _ ref_metadata_done] show ?thesis
    by (simp add: ref_metadata_def zero_metadata_def metadata_wf_def int64_defs utf8_valid_def)
qed

text \<open>The values a passage through \<open>float64\<close> and the printer keeps.\<close>

fun scalar_exact :: "json \<Rightarrow> bool" where
  "scalar_exact (JNum n) = (\<bar>n\<bar> < 9007199254740992)"
| "scalar_exact (JStr t) = utf8_valid t"
| "scalar_exact (JArr js) = False"
| "scalar_exact (JObj kvs) = False"
| "scalar_exact _ = True"

lemma reprint_exact: "scalar_exact j \<Longrightarrow> reprint j = j \<and> numbers_finite j"
  by (cases j) (auto simp: float64_finite_def intro: less_trans)

text \<open>
  An edit of the rotation keeps the rest of the metadata document: every other key has the value it
  had (the last one, if the document repeats it), provided its numbers are below 2^53 and its keys and
  strings are valid UTF-8.
\<close>

theorem rotation_edit_keeps_document:
  assumes "Metadata s = RDoc (JObj kvs)" and "list_all (\<lambda>(k, j). utf8_valid k \<and> scalar_exact j) kvs"
  shows "\<exists>m. setStreamRotation s n = Inr (s\<lparr>Metadata := RDoc (JObj m)\<rparr>) \<and>
    map_of m = (map_of (rev kvs))(''rotation'' \<mapsto> JNum n)"
proof -
  have "map (\<lambda>(k, j). (coerce_utf8 k, reprint j)) kvs = kvs"
    using assms(2) reprint_exact by (auto simp: list_all_iff intro!: map_idI)
  moreover have "numbers_finite (JObj kvs)" using assms(2) reprint_exact by (auto simp: list_all_iff)
  ultimately have "metadata_map (Metadata s) = Inr (map_merge [] kvs)"
    using assms(1) by (simp add: metadata_map_def raw_empty_def)
  then show ?thesis
    by (intro exI [of _ "map_set ''rotation'' (JNum n) (map_merge [] kvs)"])
      (simp add: setStreamRotation_def map_of_map_merge jmap.look_put)
qed

theorem rotation_edit_keeps_document_witness:
  "\<exists>m. setStreamRotation (ref_row\<lparr>Metadata := RDoc (JObj [(''size'', JNum 6), (''camera'', JStr ''front'')])\<rparr>) 90 =
     Inr (ref_row\<lparr>Metadata := RDoc (JObj m)\<rparr>) \<and>
   map_of m = [''size'' \<mapsto> JNum 6, ''camera'' \<mapsto> JStr ''front'', ''rotation'' \<mapsto> JNum 90]"
proof -
  have utf8: "utf8_valid ''size''" "utf8_valid ''camera''" "utf8_valid ''front''" by code_simp+
  show ?thesis
    using rotation_edit_keeps_document [of "ref_row\<lparr>Metadata := RDoc (JObj [(''size'', JNum 6), (''camera'', JStr ''front'')])\<rparr>"
        "[(''size'', JNum 6), (''camera'', JStr ''front'')]" 90] utf8
    by (simp add: fun_upd_twist)
qed

text \<open>
  A rotation edit is not lossless in general, because the document passes through \<open>float64\<close>: the
  documents with size 2^53 and 2^53 + 1 become the same document.
\<close>

theorem rotation_edit_loses_precision:
  "setStreamRotation (s\<lparr>Metadata := RDoc (JObj [(''size'', JNum 9007199254740993)])\<rparr>) n =
   setStreamRotation (s\<lparr>Metadata := RDoc (JObj [(''size'', JNum 9007199254740992)])\<rparr>) n \<and>
   (\<exists>s'. setStreamRotation (s\<lparr>Metadata := RDoc (JObj [(''size'', JNum 9007199254740993)])\<rparr>) n = Inr s')"
proof -
  have fuel: "(1100 :: nat) = Suc (Suc 1098)" by simp
  have "float_step (Suc (Suc k)) 9007199254740993 = 2" "float_step (Suc (Suc k)) 9007199254740992 = 2" for k
    by simp_all
  then have "float_step 1100 9007199254740993 = 2" "float_step 1100 9007199254740992 = 2"
    unfolding fuel by blast+
  then have "float64_of 9007199254740993 = float64_of 9007199254740992"
    by (simp add: float64_of_def round_half_even_def)
  then have "reprint_number 9007199254740993 = reprint_number 9007199254740992"
    by (simp add: reprint_number_def)
  moreover have "float64_finite 9007199254740993" "float64_finite 9007199254740992"
    by (auto simp: float64_finite_def)
  ultimately show ?thesis by (simp add: setStreamRotation_def metadata_map_def raw_empty_def)
qed

end
