(* ===== verification/WorkProperties.thy ===== *)
theory WorkProperties
  imports UploadProperties HlsProperties
begin

text \<open>
  The task list of a stream under the reports of the workers, and the requests to run tasks again: what
  is queued for whom.
\<close>

section \<open>The task list\<close>

text \<open>A sequence of progress reports, written one after the other into the row.\<close>

fun SetTaskProgress_all :: "StreamProcessingTask list \<Rightarrow> Stream \<Rightarrow> goerr + Stream" where
  "SetTaskProgress_all [] s = Inr s"
| "SetTaskProgress_all (p # ps) s =
    (case SetTaskProgress (TaskType p) (Progress p) (Steps p) (TaskError p) (TaskID p) s of
       Inl err \<Rightarrow> Inl err | Inr s' \<Rightarrow> SetTaskProgress_all ps s')"

lemma SetTaskProgress_wf:
  assumes "ProcessingTasks s = Inr ts" and "list_all task_wf ts" and "task_wf p"
  shows "SetTaskProgress (TaskType p) (Progress p) (Steps p) (TaskError p) (TaskID p) s =
      Inr (SetInitialTasks (upsert_task p ts) s)"
    and "ProcessingTasks (SetInitialTasks (upsert_task p ts) s) = Inr (upsert_task p ts)"
    and "list_all task_wf (upsert_task p ts)"
proof -
  show wf: "list_all task_wf (upsert_task p ts)" using upsert_task_wf assms(2,3) .
  show "SetTaskProgress (TaskType p) (Progress p) (Steps p) (TaskError p) (TaskID p) s =
      Inr (SetInitialTasks (upsert_task p ts) s)"
    using SetTaskProgress_eq [OF assms(1)] by (cases p) simp
  show "ProcessingTasks (SetInitialTasks (upsert_task p ts) s) = Inr (upsert_task p ts)"
    by (rule ProcessingTasks_SetInitialTasks [OF wf])
qed

lemma SetTaskProgress_all_board:
  assumes "ProcessingTasks s = Inr ts" and "list_all task_wf ts" and "list_all task_wf ps"
  shows "\<exists>s'. SetTaskProgress_all ps s = Inr s' \<and> ProcessingTasks s' = Inr (fold upsert_task ps ts) \<and>
    same_row s s' \<and> Status s' = Status s"
  using assms
proof (induction ps arbitrary: s ts)
  case (Cons p ps)
  note p = SetTaskProgress_wf [OF Cons.prems(1,2), of p]
  obtain s' where "SetTaskProgress_all ps (SetInitialTasks (upsert_task p ts) s) = Inr s'"
    "ProcessingTasks s' = Inr (fold upsert_task ps (upsert_task p ts))"
    "same_row (SetInitialTasks (upsert_task p ts) s) s'" "Status s' = Status s"
    using Cons.IH [OF p(2,3)] Cons.prems(3) by auto
  then show ?case using p(1) Cons.prems(3) same_row_trans [of s "SetInitialTasks (upsert_task p ts) s"] by auto
qed simp



text \<open>
  A progress report that is accepted replaces the entry of its task type and no other: a report
  without a task id keeps the id already known, an empty error clears the error, the row fails only when
  a transcoding report carries an error while the stream is processing, and the faces flag is raised by a
  faces report of 100 percent or more without an error, and never lowered.
\<close>

theorem progress_report_effect:
  assumes "db_law E" and "table (hist w) (Proc_StreamUUID req) = Some s" and "ProcessingTasks s = Inr ts"
    and "list_all task_wf ts" and "task_wf (Proc_Processing req)"
    and "result_of (UpdateStreamProcessing E S req) w = None"
  shows "\<exists>s' ts'. let p = Proc_Processing req in
    table (hist (after (UpdateStreamProcessing E S req) w)) (Proc_StreamUUID req) = Some s' \<and>
    ProcessingTasks s' = Inr ts' \<and>
    look_task ts' = (look_task ts)(TaskType p \<mapsto>
      p\<lparr>TaskError := (if report_error p \<noteq> [] then TaskError p else None), TaskID := report_task_id p ts\<rparr>) \<and>
    Status s' = (if report_error p \<noteq> [] \<and> TaskType p = ''transcode'' \<and> Status s = StatusProcessing
      then StatusError else Status s) \<and>
    FacesDetected s' = (FacesDetected s \<or> TaskType p = ''faces'' \<and> Progress p \<ge> 100 \<and> report_error p = [])"
proof -
  let ?p = "Proc_Processing req"
  let ?q = "?p\<lparr>TaskError := (if report_error ?p \<noteq> [] then TaskError ?p else None), TaskID := report_task_id ?p ts\<rparr>"
  have "pred_option utf8_valid (report_task_id ?p ts)"
    using assms(4,5) by (auto simp: report_task_id_def task_wf_def list_all_iff split: option.splits
        dest!: find_Some_iff_mem)
  then have q: "task_wf ?q" using assms(5) by (simp add: task_wf_def)
  have "updates (progressed ?p) (Proc_StreamUUID req) (table (hist w))
      (table (hist (after (UpdateStreamProcessing E S req) w)))"
    using wpre_result [of "UpdateStreamProcessing E S req" _ w] assms(6)
      UpdateStreamProcessing_table [OF assms(1), of "table (hist w)" S req] by (fastforce simp: tspec_def)
  then obtain s1 t where s1: "SetTaskProgress (TaskType ?q) (Progress ?q) (Steps ?q) (TaskError ?q) (TaskID ?q) s = Inr s1"
    and s': "table (hist (after (UpdateStreamProcessing E S req) w)) (Proc_StreamUUID req) =
      Some (BeforeUpdate t (apply_report ?p s1))"
    using assms(2,3) by (auto simp: updates_def progressed_def)
  have row: "s1 = SetInitialTasks (upsert_task ?q ts) s"
    using s1 SetTaskProgress_wf(1) [OF assms(3,4) q] by simp
  have "ProcessingTasks (BeforeUpdate t (apply_report ?p s1)) = ProcessingTasks s1"
    by (simp add: ProcessingTasks_def apply_report_def Let_def)
  then have "ProcessingTasks (BeforeUpdate t (apply_report ?p s1)) = Inr (upsert_task ?q ts)"
    using row SetTaskProgress_wf(2) [OF assms(3,4) q] by simp
  moreover have "look_task (upsert_task ?q ts) = (look_task ts)(TaskType ?p \<mapsto> ?q)"
    using board.look_put [of ?q ts] by simp
  moreover have "Status s1 = Status s" "FacesDetected s1 = FacesDetected s"
    using row by (simp_all add: SetInitialTasks_def)
  ultimately show ?thesis
    using s' unfolding Let_def by (auto simp: apply_report_def Let_def)
qed

text \<open>A faces report on the reference row.\<close>

definition ref_report :: UpdateStreamProcessingRequest where
  "ref_report = \<lparr>Proc_StreamUUID = 1, Proc_Processing =
     \<lparr>TaskType = ''faces'', Progress = 100, Steps = None, TaskError = Some [], TaskID = None\<rparr>\<rparr>"

lemma ref_row_first: "table (hist created_world) 1 = Some ref_row" "ID ref_row = 1"
proof -
  show "table (hist created_world) 1 = Some ref_row" using created_world_table by simp
  then show "ID ref_row = 1" by (rule ID_table)
qed

lemma ref_row_tasks: "ProcessingTasks ref_row = Inr []"
  by (simp add: ref_row_def new_stream_def ProcessingTasks_def raw_empty_def)

lemma ref_report_done: "result_of (UpdateStreamProcessing ref_env ref_service ref_report) created_world = None"
  using ref_row_first(1)
  by (simp add: result_of_def UpdateStreamProcessing_def ref_run ref_report_def report_event_def report_error_def
      report_task_id_def SetTaskProgress_def ProcessingTasks_def raw_empty_def apply_report_def)

theorem progress_report_effect_witness:
  "\<exists>s' ts'. table (hist (after (UpdateStreamProcessing ref_env ref_service ref_report) created_world)) 1 = Some s' \<and>
     ProcessingTasks s' = Inr ts' \<and>
     look_task ts' ''faces'' = Some (zero_task\<lparr>TaskType := ''faces'', Progress := 100\<rparr>) \<and>
     Status s' = StatusDraft \<and> FacesDetected s'"
proof -
  have "utf8_valid ''faces''" by code_simp
  then show ?thesis
    using progress_report_effect [OF ref_env_law _ ref_row_tasks _ _ ref_report_done] ref_row_first(1)
    by (auto simp: ref_report_def task_wf_def int64_defs utf8_valid_def report_error_def report_task_id_def
        zero_task_def ref_row_def new_stream_def Let_def)
qed

section \<open>Running failed tasks again\<close>

text \<open>The queue of each task type, and what is queued for the failed tasks of a list.\<close>

definition rerunnable :: "StreamProcessingTask \<Rightarrow> bool" where
  "rerunnable t \<longleftrightarrow> task_failed t \<and> TaskType t \<in> {TaskTypeTranscode, TaskTypeThumbnail, TaskTypeFaces}"

definition queue_mark :: "env \<Rightarrow> uuid \<Rightarrow> string \<Rightarrow> string \<Rightarrow> mark" where
  "queue_mark E i key k =
    (if k = TaskTypeTranscode then Queued ''video:transcode'' None (stream_payload E i key)
     else if k = TaskTypeThumbnail then Queued ''video:thumbsnail'' (Some ''thumbsnails'') (stream_payload E i key)
     else Queued ''video:faces'' (Some ''faces'') (stream_payload E i key))"

definition requeued :: "env \<Rightarrow> uuid \<Rightarrow> string \<Rightarrow> StreamProcessingTask list \<Rightarrow> mark list" where
  "requeued E i key ts = map (\<lambda>t. queue_mark E i key (TaskType t)) (filter rerunnable ts)"

text \<open>The entry of a task after the reprocessing: reset when it was queued again, else unchanged.\<close>

definition rerun :: "StreamProcessingTask \<Rightarrow> StreamProcessingTask \<Rightarrow> bool" where
  "rerun t t' \<longleftrightarrow> (if rerunnable t then \<exists>i. t' = reset_task i t else t' = t)"

lemma rerun_intros: "\<not> rerunnable t \<Longrightarrow> rerun t t" "rerunnable t \<Longrightarrow> rerun t (reset_task j t)"
  by (auto simp: rerun_def)

lemma requeue_none: "requeue E i key k = None \<longleftrightarrow> k \<notin> {TaskTypeTranscode, TaskTypeThumbnail, TaskTypeFaces}"
  by (simp add: requeue_def)

lemma requeue_spec:
  assumes "requeue E i key k = Some call"
  shows "wpre call (\<lambda>q w'. \<exists>evs. hist w' = hist w @ evs \<and> milestones evs = [queue_mark E i key k]) w"
  using assms
  by (auto simp: requeue_def ReprocessVideoTranscoding_def ReprocessThumbsnailProcessor_def
      ReprocessFacesProcessor_def redistribute_def queue_mark_def task_defs task_name_defs wp
      split: if_splits sum.split)

lemma reprocess_loop_spec:
  "wpre (reprocess_loop E i key ts) (\<lambda>r w'. \<forall>ts'. r = Inr ts' \<longrightarrow> list_all2 rerun ts ts' \<and>
     (\<exists>evs. hist w' = hist w @ evs \<and> milestones evs = requeued E i key ts)) w"
proof (induction ts arbitrary: w)
  case (Cons t ts)
  have rest: "wpre (do { r \<leftarrow> reprocess_loop E i key ts; ret (case r of Inl err \<Rightarrow> Inl err | Inr us \<Rightarrow> Inr (t' # us)) })
      (\<lambda>r w'. \<forall>ts'. r = Inr ts' \<longrightarrow> list_all2 rerun (t # ts) ts' \<and>
        (\<exists>evs. hist w' = hist w @ evs \<and> milestones evs = ms)) w1"
    if "hist w1 = hist w @ pre" "rerun t t'" "milestones pre @ requeued E i key ts = ms"
    for w1 pre t' ms
    unfolding wpre_bind wpre_return
    using that by (intro wpre_mono [OF Cons.IH]) (auto split: sum.splits)
  show ?case
  proof (cases "rerunnable t")
    case False
    then have "\<not> task_failed t \<or> requeue E i key (TaskType t) = None"
      by (auto simp: rerunnable_def requeue_none)
    then show ?thesis
      using rest [of w "[]" t] False by (auto simp: rerun_intros requeued_def)
  next
    case True
    then obtain call where call: "requeue E i key (TaskType t) = Some call" "task_failed t"
      using requeue_none [of E i key "TaskType t"] by (auto simp: rerunnable_def)
    have "wpre call (\<lambda>q. wpre (case q of
         Inl err \<Rightarrow> ret (Inl (Wrapf (''failed to enqueue '' @ TaskType t @ '' reprocess: '') err []))
       | Inr j \<Rightarrow> do {
           r \<leftarrow> reprocess_loop E i key ts;
           ret (case r of Inl err \<Rightarrow> Inl err | Inr us \<Rightarrow> Inr (reset_task j t # us)) })
      (\<lambda>r w'. \<forall>ts'. r = Inr ts' \<longrightarrow> list_all2 rerun (t # ts) ts' \<and>
        (\<exists>evs. hist w' = hist w @ evs \<and> milestones evs = requeued E i key (t # ts)))) w"
      using True
      by (intro wpre_mono [OF requeue_spec [OF call(1)]])
        (auto simp: wpre_return rerun_intros requeued_def intro!: rest split: sum.split)
    then show ?thesis using call by (simp only: reprocess_loop.simps wpre_bind simp_thms if_True if_False option.case)
  qed
qed (simp add: wp requeued_def)

lemma ReprocessStream_spec:
  "wpre (ReprocessStream E S i) (\<lambda>r w'. r = None \<longrightarrow> (\<exists>s ts info ts'.
     db_First E (hist w) i = Inr s \<and> ProcessingTasks s = Inr ts \<and> GetStorageInfo s = Inr info \<and>
     list_ex task_failed ts \<and> list_all2 rerun ts ts' \<and>
     milestones (trace w w') = requeued E (ID s) (Key info) ts @
       [Saved (if Status s = StatusError then StatusProcessing else Status s) (Storage s) (Marshal enc_tasks ts')])) w"
proof -
  have silent: "emits (\<lambda>e. milestone e = []) (notifyUpdate E S v)"
    "emits (\<lambda>e. milestone e = []) (recordEvent E S v k p)" for v k p
    by (auto intro!: emits)
  have exists_spec: "wpre (storage_Exists E b k) (\<lambda>r w'. \<exists>evs. hist w' = hist w0 @ evs \<and> milestones evs = []) w0"
    for b k and w0 :: world
    by (auto simp: storage_Exists_def wp split: option.split goerr.split foreign_kind.split)
  show ?thesis
    unfolding ReprocessStream_def repo_Read_def Let_def
    by (auto simp: wp milestones_none
        intro!: wpre_mono [OF exists_spec] wpre_mono [OF reprocess_loop_spec] wpre_mono [OF repo_Update_spec]
          wpre_tail [OF silent(1)] wpre_tail [OF silent(2)] split: sum.split option.split) blast+
qed


text \<open>A store and a database with one row whose transcoding failed.\<close>

definition failed_tasks :: "StreamProcessingTask list" where
  "failed_tasks = [zero_task\<lparr>TaskType := ''thumbnail'', Progress := 100\<rparr>,
     zero_task\<lparr>TaskType := ''transcode'', TaskError := Some ''codec''\<rparr>]"

definition failed_row :: Stream where
  "failed_row = SetInitialTasks failed_tasks (SetStorageInfo zero_storage (ref_row\<lparr>Status := StatusError\<rparr>))"

definition failed_env :: env where
  "failed_env = ref_env\<lparr>db_First := \<lambda>h i. Inr failed_row, s3_StatObject := \<lambda>h b k. None,
     aq_Enqueue := \<lambda>h c t. Inr \<lparr>InfoID = ''task'', InfoQueue = ''default''\<rparr>\<rparr>"

lemma failed_row_reads:
  "ProcessingTasks failed_row = Inr failed_tasks" "GetStorageInfo failed_row = Inr zero_storage" "ID failed_row = 1"
  "Status failed_row = StatusError"
proof -
  have "utf8_valid ''thumbnail''" "utf8_valid ''transcode''" "utf8_valid ''codec''" by code_simp+
  then have "list_all task_wf failed_tasks"
    by (simp add: failed_tasks_def zero_task_def task_wf_def int64_defs)
  then show "ProcessingTasks failed_row = Inr failed_tasks"
    unfolding failed_row_def by (rule ProcessingTasks_SetInitialTasks)
  have "GetStorageInfo (SetInitialTasks ts v) = GetStorageInfo v" for ts v by (simp add: GetStorageInfo_def)
  then show "GetStorageInfo failed_row = Inr zero_storage"
    using GetStorageInfo_SetStorageInfo [of zero_storage]
    by (simp add: failed_row_def storage_wf_def zero_storage_def utf8_valid_def)
qed (use ref_row_first(2) in \<open>simp_all add: failed_row_def\<close>)

lemma ref_reprocess_done: "result_of (ReprocessStream failed_env ref_service 1) ref_world = None"
proof -
  have first: "db_First failed_env = (\<lambda>h i. Inr failed_row)" by (simp add: failed_env_def)
  have rest: "s3_StatObject failed_env = (\<lambda>h b k. None)"
    "aq_Enqueue failed_env h c t = Inr \<lparr>InfoID = ''task'', InfoQueue = ''default''\<rparr>"
    "db_Save failed_env h s = None" for h c t s by (simp_all add: failed_env_def ref_env_def)
  have failed: "map task_failed failed_tasks = [False, True]" by (simp add: failed_tasks_def task_failed_def zero_task_def)
  show ?thesis
    using failed
    by (simp add: result_of_def ReprocessStream_def repo_Read_def first failed_row_reads storage_Exists_def rest
        repo_Update_def gorm_Save_def run_BeforeUpdate_def ref_service_def notifyUpdate_def recordEvent_def
        failed_tasks_def requeue_def ReprocessVideoTranscoding_def redistribute_def zero_task_def task_failed_def uuid_Nil_def Let_def)
qed


section \<open>A batch of faces requests\<close>

text \<open>The events a batch may add: tasks and saves only for rows of the list the user may work on.\<close>

fun batch_event :: "env \<Rightarrow> uuid \<Rightarrow> bool \<Rightarrow> Stream list \<Rightarrow> event \<Rightarrow> bool" where
  "batch_event E u admin ss (EvEnqueue c t r) =
     (c = TaskClient \<and> TaskName t = ''video:faces'' \<and>
      (\<exists>s\<in>set ss. (OwnerID s = u \<or> admin) \<and> (\<exists>p. Payload t = stream_payload E (ID s) p)))"
| "batch_event E u admin ss (EvDbSave s' r) = (\<exists>s\<in>set ss. (OwnerID s = u \<or> admin) \<and> same_row s s')"
| "batch_event E u admin ss (EvDbFirst i r) = True"
| "batch_event E u admin ss (EvDbFind is r) = True"
| "batch_event E u admin ss (EvStatObject b k r) = True"
| "batch_event E u admin ss (EvNow t) = True"
| "batch_event E u admin ss (EvUuid v) = True"
| "batch_event E u admin ss (EvWriteJSON c m r) = True"
| "batch_event E u admin ss (EvMetric c l n) = True"
| "batch_event E u admin ss _ = False"

lemma emits_faces_task:
  assumes "\<And>u. A (EvUuid u)"
    and "\<And>t r. TaskName t = ''video:faces'' \<Longrightarrow> (\<exists>p. Payload t = stream_payload E i p) \<Longrightarrow> A (EvEnqueue TaskClient t r)"
  shows "emits A (ReprocessFacesProcessor E i p)"
proof -
  have "A (EvEnqueue TaskClient (newFacesTask E i p k) r)" for k r
    by (rule assms(2)) (auto simp: newFacesTask_def TaskFacesProcessor_def)
  then show ?thesis
    unfolding ReprocessFacesProcessor_def using assms(1) by (intro emits_bind emits_ask emits_distribute) auto
qed

lemma emits_enqueueFaces:
  assumes "s0 \<in> set ss" and "OwnerID s0 = u \<or> admin" and "same_row s0 s"
  shows "emits (batch_event E u admin ss) (enqueueFaces E S s)"
proof -
  have save: "emits (batch_event E u admin ss) (repo_Update E v)" if "same_row s0 v" for v
    using assms that by (auto intro!: emits)
  have task: "emits (batch_event E u admin ss) (ReprocessFacesProcessor E (ID s) p)" for p
    using assms by (intro emits_faces_task) (auto simp: same_row_def)
  have row: "SetTaskProgress k n st e i s = Inr v \<Longrightarrow> same_row s0 v" for k n st e i v
    using SetTaskProgress_row same_row_trans assms(3) by blast
  show ?thesis
    unfolding enqueueFaces_def Let_def
    by (auto intro!: emits_return emits_bind emits_sum emits_option emits_prod emits_storage emits_notify save task row
        split: bool.split)
qed

lemma enqueueFaces_row: "wpre (enqueueFaces E S s) (\<lambda>p w'. same_row s (snd p)) w"
proof -
  have skip: "wpre (storage_Exists E b k) Q v" if "\<And>a w'. Q a w'" for b k Q v
    by (rule wpreI) (rule that)
  have skip': "wpre (ReprocessFacesProcessor E i p) Q v" if "\<And>a w'. Q a w'" for i p Q v
    by (rule wpreI) (rule that)
  have skip'': "wpre (notifyUpdate E S x) Q v" if "\<And>a w'. Q a w'" for x Q v
    by (rule wpreI) (rule that)
  have save: "wpre (repo_Update E v) (\<lambda>(r, s') w'. same_row s s') w1" if "same_row s v" for v w1
    unfolding repo_Update_def gorm_Save_def run_BeforeUpdate_def
    using that by (auto simp: wp split: sum.split option.split)
  have row: "SetTaskProgress k n st e i s = Inr v \<Longrightarrow> same_row s v" for k n st e i v
    using SetTaskProgress_row by blast
  show ?thesis
    unfolding enqueueFaces_def Let_def
    by (auto simp: wp intro!: skip skip' skip'' wpre_mono [OF save] dest!: row split: sum.split option.split bool.split)
qed

text \<open>The verdicts of a batch: each id once, in its order within its list.\<close>

definition verdicts :: "FacesBatchResult \<Rightarrow> uuid multiset" where
  "verdicts res = mset (Processed res) + mset (map fst (Failed res))"

lemma verdicts_Nil [simp]: "verdicts \<lparr>Processed = [], Failed = []\<rparr> = {#}"
  by (simp add: verdicts_def)

lemma verdicts_add [simp]: "verdicts (add_outcome i v res) = add_mset i (verdicts res)"
  by (auto simp: verdicts_def add_outcome_def split: option.split)

definition batch_rows :: "Stream list \<Rightarrow> (uuid \<rightharpoonup> Stream) \<Rightarrow> bool" where
  "batch_rows ss byID \<longleftrightarrow> (\<forall>i s. byID i = Some s \<longrightarrow> (\<exists>s0\<in>set ss. same_row s0 s))"

lemma batch_rows_index: "batch_rows ss (index_streams ss)"
proof -
  have "index_streams ss i = Some s \<Longrightarrow> s \<in> set ss" for i s
    unfolding index_streams_def by (induction ss rule: rev_induct) (auto split: if_splits)
  then show ?thesis unfolding batch_rows_def by (meson same_row_refl)
qed

lemma faces_one_spec:
  assumes "batch_rows ss byID"
  shows "wpre (faces_one E S u admin i byID) (\<lambda>(v, byID') w'. batch_rows ss byID' \<and>
    (\<exists>evs. hist w' = hist w @ evs \<and> list_all (batch_event E u admin ss) evs)) w"
proof (cases "byID i")
  case (Some s)
  then obtain s0 where s0: "s0 \<in> set ss" "same_row s0 s" using assms by (auto simp: batch_rows_def)
  have rows: "batch_rows ss (byID(i \<mapsto> s'))" if "same_row s s'" for s'
    using assms s0 that same_row_trans unfolding batch_rows_def by (metis map_upd_Some_unfold)
  show ?thesis
  proof (cases "OwnerID s \<noteq> u \<and> \<not> admin")
    case False
    then have own: "OwnerID s0 = u \<or> admin" using s0(2) by (auto simp: same_row_def)
    have "wpre (enqueueFaces E S s) (\<lambda>_ w'. \<exists>evs. hist w' = hist w @ evs \<and> list_all (batch_event E u admin ss) evs) w"
      using emits_enqueueFaces [OF s0(1) own s0(2)] by (simp add: emits_def)
    then have "wpre (enqueueFaces E S s) (\<lambda>p w'. same_row s (snd p) \<and>
        (\<exists>evs. hist w' = hist w @ evs \<and> list_all (batch_event E u admin ss) evs)) w"
      unfolding wpre_conj
      by (intro conjI enqueueFaces_row)
    then have "wpre (enqueueFaces E S s) (\<lambda>p. wpre (case p of (r, s') \<Rightarrow> ret (faces_outcome r, byID(i \<mapsto> s')))
       (\<lambda>(v, byID') w'. batch_rows ss byID' \<and> (\<exists>evs. hist w' = hist w @ evs \<and> list_all (batch_event E u admin ss) evs))) w"
      by (rule wpre_mono) (auto simp: wp rows)
    then show ?thesis using Some False by (auto simp: faces_one_def wpre_bind)
  qed (use Some assms in \<open>auto simp: faces_one_def wp\<close>)
qed (use assms in \<open>simp add: faces_one_def wp\<close>)

lemma faces_loop_spec:
  assumes "batch_rows ss byID"
  shows "wpre (faces_loop E S u admin ids byID res) (\<lambda>r w'. verdicts r = verdicts res + mset ids \<and>
    (\<exists>evs. hist w' = hist w @ evs \<and> list_all (batch_event E u admin ss) evs)) w"
  using assms
proof (induction ids arbitrary: byID res w)
  case (Cons i ids)
  have rest: "wpre (faces_loop E S u admin ids byID' (add_outcome i v res)) (\<lambda>r w'. verdicts r = add_mset i (verdicts res + mset ids) \<and>
    (\<exists>evs. hist w' = hist w @ evs \<and> list_all (batch_event E u admin ss) evs)) w1"
    if "batch_rows ss byID'" "hist w1 = hist w @ pre" "list_all (batch_event E u admin ss) pre" for byID' v w1 pre
    using that by (intro wpre_mono [OF Cons.IH]) auto
  show ?case
    unfolding faces_loop.simps wpre_bind
    by (rule wpre_mono [OF faces_one_spec [OF Cons.prems]]) (auto intro!: rest)
qed (simp add: wp)

lemma ProcessFacesBatch_spec:
  "wpre (ProcessFacesBatch E S u admin ids) (\<lambda>r w'. \<forall>res. r = Inr res \<longrightarrow> verdicts res = mset ids \<and>
    (\<exists>ss. list_all (batch_event E u admin ss) (trace w w') \<and> (ids \<noteq> [] \<longrightarrow> db_Find E (hist w) ids = Inr ss))) w"
proof -
  have loop: "wpre (faces_loop E S u admin ids (index_streams ss) \<lparr>Processed = [], Failed = []\<rparr>) Q w1"
    if "\<And>r w' evs. verdicts r = mset ids \<Longrightarrow> hist w' = hist w1 @ evs \<Longrightarrow> list_all (batch_event E u admin ss) evs \<Longrightarrow> Q r w'"
    for ss Q and w1 :: world
    by (rule wpre_mono [OF faces_loop_spec [OF batch_rows_index]]) (use that in auto)
  show ?thesis
    unfolding ProcessFacesBatch_def repo_ReadMany_def
    by (auto simp: wp metric_def intro!: loop split: sum.split)
qed

text \<open>
  C22: A batch of faces requests gives a verdict on every id of the request exactly once, as processed or
  as failed with a reason, and queues and saves only rows the database returned for the batch that belong
  to the user, or any of them for an administrator; the owner, the age and the key of a saved row are
  those of the row that was read.
\<close>

theorem faces_batch_sound:
  assumes "result_of (ProcessFacesBatch E S u admin ids) w = Inr res"
  shows "mset (Processed res) + mset (map fst (Failed res)) = mset ids \<and>
    (\<exists>ss. list_all (batch_event E u admin ss) (trace w (after (ProcessFacesBatch E S u admin ids) w)) \<and>
      (ids \<noteq> [] \<longrightarrow> db_Find E (hist w) ids = Inr ss))"
  using wpre_result [OF ProcessFacesBatch_spec] assms by (auto simp: verdicts_def)

lemma ref_batch_done:
  "\<exists>res. result_of (ProcessFacesBatch ref_env ref_service 7 False [1, 2]) created_world = Inr res"
proof -
  have "db_Find ref_env h ids = Inr (List.map_filter (table h) ids)" for h ids by (simp add: ref_env_def)
  moreover have skip: "wpre (faces_loop E S u a ids byID res) Q v" if "\<And>r w'. Q r w'" for E S u a ids byID res Q v
    by (rule wpreI) (rule that)
  ultimately have "wpre (ProcessFacesBatch ref_env ref_service 7 False [1, 2]) (\<lambda>r w'. \<exists>res. r = Inr res) created_world"
    by (auto simp: ProcessFacesBatch_def repo_ReadMany_def wp metric_def simp del: faces_loop.simps intro!: skip)
  from wpre_result [OF this] show ?thesis .
qed

theorem faces_batch_sound_witness:
  "\<exists>res. mset (Processed res) + mset (map fst (Failed res)) = {#1, 2#} \<and>
     result_of (ProcessFacesBatch ref_env ref_service 7 False [1, 2]) created_world = Inr res"
  using ref_batch_done faces_batch_sound [where E = ref_env and S = ref_service and u = 7 and admin = False
      and ids = "[1, 2]" and w = created_world] by auto

end
