(* ===== verification/ExportProperties.thy ===== *)
theory ExportProperties
  imports ServiceExport GrpcHandlers Reference
begin

text \<open>
  The life of an export: when it is queued, how often, what a worker's report makes of it, and what a
  download gives.
\<close>

section \<open>What a request queues\<close>

text \<open>The events of a request that claim the export or queue it.\<close>

fun claims :: "event \<Rightarrow> bool" where
  "claims (EvExCreate x None) = (ExportStatus x = ExportStatusPending)"
| "claims (EvExReset i (Inr n)) = (n > 0)"
| "claims _ = False"

fun queues_export :: "event \<Rightarrow> bool" where
  "queues_export (EvEnqueue ExportClient t r) = True"
| "queues_export _ = False"

definition plain :: "event \<Rightarrow> bool" where
  "plain e \<longleftrightarrow> \<not> queues_export e \<and> \<not> claims e"

lemma filter_plain: "list_all plain evs \<Longrightarrow> filter queues_export evs = [] \<and> filter claims evs = []"
  by (induction evs) (auto simp: plain_def)

text \<open>A claim gives an answer without a claim, or the claimed row after exactly one.\<close>

lemma claim_export_spec:
  "wpre (claim_export E i u n) (\<lambda>r w'. \<exists>evs. hist w' = hist w @ evs \<and> filter queues_export evs = [] \<and>
     (case r of Inl answer \<Rightarrow> filter claims evs = []
      | Inr x \<Rightarrow> (\<exists>e. filter claims evs = [e]) \<and> ExportStatus x = ExportStatusPending)) w"
  unfolding claim_export_def exports_defs
  by (auto simp: wp new_export_def uuid_Nil_def BeforeCreate_def Let_def split: sum.split option.split)

lemma queue_export_spec:
  "wpre (queue_export E i u m n x) (\<lambda>r w'. \<exists>evs. hist w' = hist w @ evs \<and>
     (\<exists>t q. filter queues_export evs = [EvEnqueue ExportClient t q] \<and> TaskName t = ''video:export'' \<and>
        Payload t = export_payload E i u m) \<and> filter claims evs = [] \<and>
     (\<forall>err. r = Inl err \<longrightarrow> ID x \<noteq> uuid_Nil \<longrightarrow>
        (\<exists>v q. EvExSave v q \<in> set evs \<and> ID v = ID x \<and> ExportStatus v = ExportStatusFailed))) w"
proof -
  have lookup: "wpre (DistributeVideoExport E i u m) (\<lambda>r w'. \<exists>evs t q. hist w' = hist w @ evs \<and>
     filter queues_export evs = [EvEnqueue ExportClient t q] \<and> TaskName t = ''video:export'' \<and>
     Payload t = export_payload E i u m \<and> filter claims evs = []) w"
    unfolding DistributeVideoExport_def exportTaskID_def Let_def
    by (auto simp: wp task_defs task_name_defs split: sum.split)
  have save: "wpre (exports_Update E v) (\<lambda>r w'. \<exists>evs. hist w' = hist w0 @ evs \<and> list_all plain evs \<and>
     (ID v \<noteq> uuid_Nil \<longrightarrow> (\<exists>t q. EvExSave (BeforeUpdate t v) q \<in> set evs))) w0" for v and w0 :: world
    unfolding exports_Update_def run_BeforeUpdate_def
    by (auto simp: wp plain_def split: option.split)
  show ?thesis
    unfolding queue_export_def
    by (auto simp: wp filter_plain intro!: wpre_mono [OF lookup] wpre_mono [OF save] split: sum.split) force+
qed

text \<open>The streams a user may export: the own ones that are ready or published.\<close>

definition exportable :: "env \<Rightarrow> world \<Rightarrow> uuid \<Rightarrow> uuid \<Rightarrow> bool" where
  "exportable E w i u \<longleftrightarrow> (\<exists>s. db_First E (hist w) i = Inr s \<and> OwnerID s = u \<and>
     (Status s = StatusReady \<or> Status s = StatusPublished))"

definition export_work :: "event list \<Rightarrow> nat \<times> nat" where
  "export_work evs = (length (filter claims evs), length (filter queues_export evs))"

lemma RequestStreamExport_spec:
  "wpre (RequestStreamExport E i u m) (\<lambda>r w'. export_work (trace w w') = (0, 0) \<or>
     (export_work (trace w w') = (1, 1) \<and> exportable E w i u)) w"
proof -
  have queue: "wpre (queue_export E i v m n x) Q w0"
    if "\<And>r w' evs. hist w' = hist w0 @ evs \<Longrightarrow> length (filter queues_export evs) = 1 \<Longrightarrow> filter claims evs = [] \<Longrightarrow> Q r w'"
    for v n x Q and w0 :: world
    by (rule wpre_mono [OF queue_export_spec]) (use that in auto)
  show ?thesis
    unfolding RequestStreamExport_def repo_Read_def
    by (auto simp: wp export_work_def exportable_def intro!: wpre_mono [OF claim_export_spec] queue split: sum.split)
qed

section \<open>What a report saves\<close>

definition saves_export :: "event \<Rightarrow> StreamExport list" where
  "saves_export e = (case e of EvExSave x r \<Rightarrow> [x] | _ \<Rightarrow> [])"

definition saved_exports :: "event list \<Rightarrow> StreamExport list" where
  "saved_exports evs = concat (map saves_export evs)"

lemma saved_exports_simps [simp]:
  "saved_exports [] = []" "saved_exports (e # evs) = saves_export e @ saved_exports evs"
  "saved_exports (xs @ ys) = saved_exports xs @ saved_exports ys"
  by (simp_all add: saved_exports_def)

lemma saved_exports_none: "list_all (\<lambda>e. saves_export e = []) evs \<Longrightarrow> saved_exports evs = []"
  by (induction evs) simp_all

section \<open>Properties\<close>

text \<open>
  A request to export a stream queues at most one export, and it queues one exactly when it claimed
  the row of the export, by inserting it as pending or by a conditional update that changed a failed one;
  it does so only for the owner of a stream that is ready or published. So of several requests only those
  whose claim the database grants reach the worker.
\<close>

theorem export_queued_once:
  "export_work (trace w (after (RequestStreamExport E i u m) w)) = (0, 0) \<or>
   (export_work (trace w (after (RequestStreamExport E i u m) w)) = (1, 1) \<and> exportable E w i u)"
  using wpre_result [OF RequestStreamExport_spec] .

text \<open>
  The report of the export worker is recorded once: for a pending export the row is saved with the
  outcome, failed with the reason when there is one and else ready with the size; a report on an export
  that is no longer pending is acknowledged and changes nothing.
\<close>

theorem export_outcome_recorded_once:
  assumes "ex_First E (hist w) i = Inr x" and "ID x \<noteq> uuid_Nil"
  shows "if ExportStatus x = ExportStatusPending
    then \<exists>t. saved_exports (trace w (after (CompleteStreamExport E S i sz err) w)) =
           [BeforeUpdate t (if err = [] then x\<lparr>ExportStatus := ExportStatusReady, ExportError := [], ExportSize := sz\<rparr>
              else x\<lparr>ExportStatus := ExportStatusFailed, ExportError := err, ExportSize := 0\<rparr>)]
    else result_of (CompleteStreamExport E S i sz err) w = None \<and>
         list_all (\<lambda>e. \<not> is_effect e) (trace w (after (CompleteStreamExport E S i sz err) w))"
proof -
  have silent: "emits (\<lambda>e. saves_export e = []) (SendMessgeToOwner E v msg)" for v msg
    by (auto intro!: emits simp: saves_export_def)
  have "wpre (CompleteStreamExport E S i sz err) (\<lambda>r w'. if ExportStatus x = ExportStatusPending
    then \<exists>t. saved_exports (trace w w') =
           [BeforeUpdate t (if err = [] then x\<lparr>ExportStatus := ExportStatusReady, ExportError := [], ExportSize := sz\<rparr>
              else x\<lparr>ExportStatus := ExportStatusFailed, ExportError := err, ExportSize := 0\<rparr>)]
    else r = None \<and> list_all (\<lambda>e. \<not> is_effect e) (trace w w')) w"
    unfolding CompleteStreamExport_def exports_ReadByStream_def exports_Update_def run_BeforeUpdate_def
    using assms
    by (auto simp: wp record_outcome_def is_effect_def saves_export_def saved_exports_none
        intro!: wpre_tail [OF silent] split: sum.split option.split)
  from wpre_result [OF this] show ?thesis .
qed

text \<open>The reference environment with one export.\<close>

definition ref_export :: StreamExport where
  "ref_export = (new_export ref_env 1 7)\<lparr>ID := 5\<rparr>"

definition export_env :: "StreamExportStatus \<Rightarrow> env" where
  "export_env st = ref_env\<lparr>ex_First := \<lambda>h i. Inr (ref_export\<lparr>ExportStatus := st\<rparr>)\<rparr>"

theorem export_outcome_recorded_once_witness:
  "(\<exists>t. saved_exports (trace ref_world (after (CompleteStreamExport (export_env ExportStatusPending) ref_service 1 9 []) ref_world)) =
      [BeforeUpdate t (ref_export\<lparr>ExportStatus := ExportStatusReady, ExportError := [], ExportSize := 9\<rparr>)]) \<and>
   list_all (\<lambda>e. \<not> is_effect e)
     (trace ref_world (after (CompleteStreamExport (export_env ExportStatusReady) ref_service 1 9 []) ref_world))"
proof -
  have x: "ex_First (export_env st) (hist ref_world) 1 = Inr (ref_export\<lparr>ExportStatus := st\<rparr>)"
    "ID (ref_export\<lparr>ExportStatus := st\<rparr>) \<noteq> uuid_Nil" for st
    by (simp_all add: export_env_def ref_export_def uuid_Nil_def)
  show ?thesis
    using export_outcome_recorded_once [OF x, of ExportStatusPending ref_service 9 "[]"]
      export_outcome_recorded_once [OF x, of ExportStatusReady ref_service 9 "[]"] by simp
qed


definition download_env :: env where
  "download_env = (export_env ExportStatusReady)\<lparr>db_First := \<lambda>h i. Inr ref_row,
     s3_GetObject := \<lambda>h b k. Inr \<lparr>ObjStat = Inr 4, ObjData = ''mp4!'', ObjReadErr = None\<rparr>\<rparr>"


text \<open>
  The success flag of the worker's call does not decide the outcome: once the size is positive the
  call with \<open>success\<close> false is the same as with \<open>success\<close> true, so without an error text it marks the
  export as ready.
\<close>

theorem success_flag_ignored:
  "grpc_CompleteStreamExport E S (req\<lparr>EMsg_Success := False, EMsg_Size := int (Suc n)\<rparr>) =
   grpc_CompleteStreamExport E S (req\<lparr>EMsg_Success := True, EMsg_Size := int (Suc n)\<rparr>)"
  by (simp add: grpc_CompleteStreamExport_def split: sum.split)

end
