(* ===== verification/Dto.thy ===== *)
theory Dto
  imports ServiceUpload ServiceProcessing ServiceExport
begin

text \<open>
  \<open>internal/delivery/http/dto\<close>: the request types with their validation and conversion to the
  service's types, and the response types. The \<open>binding\<close> tags are checked by gin before; a bound
  request is an input here.
\<close>

section \<open>Requests\<close>

definition CreateStreamRequest_Validate :: "string \<Rightarrow> StreamVisibility \<Rightarrow> goerr option" where
  "CreateStreamRequest_Validate title visibility =
    (if title = [] then Some (Errorf ''title is required'')
     else if length title > 255 then Some (Errorf ''title is too long'')
     else (case visibility of
             VisibilityOther v \<Rightarrow> Some (Errorf (''invalid visibility: '' @ v))
           | _ \<Rightarrow> None))"

record CreateStreamBody =
  BodyTitle :: string
  BodyDescription :: string
  BodyVisibility :: StreamVisibility
  BodyTags :: "string list"

definition Create_ToServiceRequest :: "CreateStreamBody \<Rightarrow> uuid \<Rightarrow> goerr + CreateStreamRequest" where
  "Create_ToServiceRequest r ownerID =
    (case CreateStreamRequest_Validate (BodyTitle r) (BodyVisibility r) of
       Some err \<Rightarrow> Inl (Wrapf ''validate error: '' err [])
     | None \<Rightarrow>
         if ownerID = uuid_Nil then Inl (Errorf ''owner uuid can not be nil'')
         else Inr \<lparr>Create_Title = BodyTitle r, Create_Description = BodyDescription r,
                   Create_Visibility = BodyVisibility r, Create_Tags = BodyTags r,
                   Create_OwnerID = ownerID\<rparr>)"

text \<open>The request of an edit has the same fields on both sides.\<close>

definition UpdateStreamRequest_Validate :: "UpdateStreamRequest \<Rightarrow> goerr option" where
  "UpdateStreamRequest_Validate r =
    (if Update_Title r = Some [] then Some (Errorf ''title cannot be empty'')
     else if (case Update_Title r of None \<Rightarrow> False | Some title \<Rightarrow> length title > 255)
       then Some (Errorf ''tiitle is too long'')
     else (case Update_Visibility r of
             Some (VisibilityOther v) \<Rightarrow> Some (Errorf (''invalid visibility: '' @ v))
           | _ \<Rightarrow>
               (case Update_Rotation r of
                  None \<Rightarrow> None
                | Some n \<Rightarrow>
                    if n \<in> {0, 90, 180, 270} then None
                    else Some (Errorf (''invalid rotation: '' @ Itoa n @ '' (must be one of 0, 90, 180, 270)'')))))"

definition Update_ToServiceRequest :: "UpdateStreamRequest \<Rightarrow> goerr + UpdateStreamRequest" where
  "Update_ToServiceRequest r =
    (case UpdateStreamRequest_Validate r of
       Some err \<Rightarrow> Inl (Wrapf ''validate failed: '' err [])
     | None \<Rightarrow> Inr r)"

definition MaxFacesBatchSize :: nat where "MaxFacesBatchSize = 100"

fun faces_ids_check :: "(uuid \<Rightarrow> string) \<Rightarrow> uuid set \<Rightarrow> uuid list \<Rightarrow> goerr option" where
  "faces_ids_check str seen [] = None"
| "faces_ids_check str seen (i # ids) =
    (if i = uuid_Nil then Some (Errorf ''invalid id: nil uuid'')
     else if i \<in> seen then Some (Errorf (''duplicate id: '' @ str i))
     else faces_ids_check str (insert i seen) ids)"

definition FacesBatchRequest_Validate :: "(uuid \<Rightarrow> string) \<Rightarrow> uuid list \<Rightarrow> goerr option" where
  "FacesBatchRequest_Validate str ids =
    (if length ids = 0 then Some (Errorf ''ids is required'')
     else if length ids > MaxFacesBatchSize then Some (Errorf ''too many ids, max 100'')
     else faces_ids_check str {} ids)"

record StartUploadBody =
  SU_FileName :: string
  SU_TotalSize :: int

definition Start_ToService :: "StartUploadBody \<Rightarrow> uuid \<Rightarrow> uuid \<Rightarrow> StartUploadRequest" where
  "Start_ToService s streamID userID =
     \<lparr>Start_StreamID = streamID, Start_UserID = userID, Start_Filename = SU_FileName s,
      Start_TotalSize = SU_TotalSize s\<rparr>"

text \<open>A file of a multipart form: its name, declared type and size, and what opening it gives.\<close>

record FileHeader =
  FH_Filename :: string
  FH_ContentType :: string
  FH_Size :: int
  FH_Open :: "goerr + string"

record UploadPartBody =
  UP_UploadID :: string
  UP_PartNumber :: int
  UP_Video :: FileHeader

definition Part_ToService :: "UploadPartBody \<Rightarrow> uuid \<Rightarrow> uuid \<Rightarrow> goerr + UploadPartRequest" where
  "Part_ToService r streamUUID userUUID =
    (case FH_Open (UP_Video r) of
       Inl err \<Rightarrow> Inl err
     | Inr file \<Rightarrow>
         if streamUUID = uuid_Nil then Inl (Errorf ''StreamUUID can not be nil'')
         else if userUUID = uuid_Nil then Inl (Errorf ''UserUUID can not be nil'')
         else Inr \<lparr>Part_StreamID = streamUUID, Part_UserID = userUUID, Part_UploadID = UP_UploadID r,
                   Part_Number = UP_PartNumber r, Part_Data = file, Part_Size = FH_Size (UP_Video r)\<rparr>)"

definition Complete_ToService ::
  "MultipartPart list \<Rightarrow> uuid \<Rightarrow> uuid \<Rightarrow> goerr + CompleteStreamUploadRequest" where
  "Complete_ToService parts streamUUID userUUID =
    (if streamUUID = uuid_Nil then Inl (Errorf ''StreamUUID can not be nil'')
     else if userUUID = uuid_Nil then Inl (Errorf ''UserUUID can not be nil'')
     else Inr \<lparr>Complete_StreamID = streamUUID, Complete_UserID = userUUID, Complete_Parts = parts\<rparr>)"

section \<open>The upload of a video in one request\<close>

definition isValidVideoContentType :: "string \<Rightarrow> bool" where
  "isValidVideoContentType contentType \<longleftrightarrow>
     contentType \<in> set [''video/mp4'', ''video/webm'', ''video/quicktime'', ''video/x-msvideo'',
                        ''video/x-matroska'', ''application/octet-stream'', []]"

text \<open>
  \<open>strings.ToLower\<close>, as far as a suffix of ASCII letters can see it: ASCII letters, and the Kelvin sign,
  whose lower case is the letter k. No other rune outside ASCII has an ASCII lower case but U+0130,
  which Go maps to the letter i.
\<close>

definition lower_rune :: "string \<Rightarrow> string" where
  "lower_rune r =
    (if r = [CHR 0xE2, CHR 0x84, CHR 0xAA] then ''k''
     else if r = [CHR 0xC4, CHR 0xB0] then ''i''
     else map (\<lambda>c. if 65 \<le> byte c \<and> byte c \<le> 90 then char_of (byte c + 32) else c) r)"

definition ToLower :: "string \<Rightarrow> string" where
  "ToLower s = strings_Map lower_rune s"

definition isValidVideoExtension :: "string \<Rightarrow> bool" where
  "isValidVideoExtension filename =
    list_ex (\<lambda>ext. HasSuffix (ToLower filename) ext) [''.mp4'', ''.webm'', ''.mov'', ''.avi'', ''.mkv'']"

definition maxFileSize :: int where "maxFileSize = 5 * 1024 * 1024 * 1024"

text \<open>Every error here is a \<open>ValidationError\<close>; its message is the result.\<close>

definition Video_ToServiceRequest ::
  "uuid \<Rightarrow> uuid \<Rightarrow> string \<Rightarrow> FileHeader \<Rightarrow> string + UploadVideoRequest" where
  "Video_ToServiceRequest streamID userID file header =
    (if \<not> isValidVideoContentType (FH_ContentType header) then
       Inl ''invalid video format. allowed: mp4, webm, mov, avi, mkv''
     else if FH_Size header > maxFileSize then Inl ''file too large. maximum size is 5GB''
     else if \<not> isValidVideoExtension (FH_Filename header) then
       Inl ''invalid file extension. allowed: mp4, webm, mov, avi, mkv''
     else Inr \<lparr>Video_StreamID = streamID, Video_UserID = userID, Video_File = file,
               Video_FileName = FH_Filename header, Video_Size = FH_Size header\<rparr>)"

section \<open>Responses\<close>

record StreamResponse =
  R_ID :: uuid
  R_Title :: string
  R_Description :: string
  R_Status :: StreamStatus
  R_OwnerID :: uuid
  R_Visibility :: StreamVisibility
  R_Tags :: "string list option"
  R_Metadata :: StreamMetadata
  R_CreatedAt :: time
  R_UpdatedAt :: time
  R_PublishedAt :: "time option"
  R_Storage :: StreamStorage
  R_Processing :: "StreamProcessingTask list option"
  R_FacesDetected :: bool

text \<open>The errors of \<open>json.Unmarshal\<close> are dropped: a column that does not fit shows what could be read.\<close>

definition FromDomainModel :: "Stream \<Rightarrow> StreamResponse" where
  "FromDomainModel stream =
     \<lparr>R_ID = ID stream, R_Title = Title stream, R_Description = Description stream,
      R_Status = Status stream, R_OwnerID = OwnerID stream, R_Visibility = Visibility stream,
      R_Tags = (if raw_empty (Tags stream) then None
                else fst (Unmarshal (dec_slice [] dec_string) (Tags stream) None)),
      R_Metadata = (if raw_empty (Metadata stream) then zero_metadata
                    else fst (Unmarshal dec_metadata (Metadata stream) zero_metadata)),
      R_CreatedAt = CreatedAt stream, R_UpdatedAt = UpdatedAt stream, R_PublishedAt = PublishedAt stream,
      R_Storage = (if raw_empty (Storage stream) then zero_storage
                   else fst (Unmarshal dec_storage (Storage stream) zero_storage)),
      R_Processing = (if raw_empty (Processing stream) then None
                      else fst (Unmarshal (dec_slice zero_task dec_task) (Processing stream) None)),
      R_FacesDetected = FacesDetected stream\<rparr>"

record ExportResponse =
  XR_StreamID :: string
  XR_Status :: StreamExportStatus
  XR_Size :: int
  XR_Error :: string
  XR_Requested :: bool
  XR_FileName :: string

definition NewExportResponse :: "(uuid \<Rightarrow> string) \<Rightarrow> StreamExportInfo \<Rightarrow> ExportResponse" where
  "NewExportResponse str export =
     \<lparr>XR_StreamID = str (EI_StreamID export), XR_Status = EI_Status export, XR_Size = EI_Size export,
      XR_Error = EI_Error export, XR_Requested = EI_Requested export, XR_FileName = EI_FileName export\<rparr>"

section \<open>Properties\<close>

lemma faces_ids_check_iff:
  "faces_ids_check str seen ids = None \<longleftrightarrow> uuid_Nil \<notin> set ids \<and> distinct ids \<and> set ids \<inter> seen = {}"
  by (induction ids arbitrary: seen) auto

lemma FacesBatchRequest_Validate_iff:
  "FacesBatchRequest_Validate str ids = None \<longleftrightarrow>
     ids \<noteq> [] \<and> length ids \<le> MaxFacesBatchSize \<and> uuid_Nil \<notin> set ids \<and> distinct ids"
  by (auto simp: FacesBatchRequest_Validate_def faces_ids_check_iff)

text \<open>What the HTTP layer lets through is a row the model's own validation accepts.\<close>

lemma created_row_valid:
  assumes "Create_ToServiceRequest r u = Inr req"
  shows "Validate (new_stream req) = None"
  using assms
  by (auto simp: Create_ToServiceRequest_def CreateStreamRequest_Validate_def Validate_def new_stream_def
      validateTitle_def validateVisibility_def validateStatus_def validateOwnerID_def
      split: option.splits if_splits StreamVisibility.splits)

end
