(* ===== verification/Config.thy ===== *)
theory Config
  imports GoStrings
begin

text \<open>
  \<open>config/config.go\<close>: the configuration as a function of the process environment, a partial map from
  names to values (\<open>os.Getenv\<close> gives the empty string for a name that is not set), and the choice of
  configuration in \<open>SetupRoutes\<close> (\<open>http/routes/routes.go\<close>).
\<close>

type_synonym environ = "string \<rightharpoonup> string"

definition Getenv :: "environ \<Rightarrow> string \<Rightarrow> string" where
  "Getenv os k = (case os k of None \<Rightarrow> [] | Some v \<Rightarrow> v)"

datatype ServerMode = Debug | Release | Test | OtherMode string

definition mode_of :: "string \<Rightarrow> ServerMode" where
  "mode_of s = (if s = ''debug'' then Debug else if s = ''release'' then Release
                else if s = ''test'' then Test else OtherMode s)"

definition isValid :: "ServerMode \<Rightarrow> bool" where
  "isValid m \<longleftrightarrow> m \<in> {Test, Debug, Release}"

record Redis =
  RedisAddr :: string
  RedisPassword :: string
  EventsQueueDB :: int
  ExportQueueDB :: int

record Server =
  ServerAddr :: string
  AuthServiceAddr :: string
  CfgKeepOriginalFile :: bool
  Mode :: ServerMode
  GRPCTLSCertFile :: string
  GRPCTLSKeyFile :: string
  GRPCTLSCAFile :: string
  GRPCTLSAllowedOUs :: "string list"
  GRPCTLSEnabled :: bool
  AllowedOrigins :: "string list"

record Database =
  DbHost :: string
  DbPort :: string
  DbUser :: string
  DbPassword :: string
  DbName :: string
  DbSslMode :: string
  DbTimeZone :: string

record MinIO =
  Endpoint :: string
  AccessKeyID :: string
  SecretAccessKey :: string
  BucketName :: string
  UseSSL :: bool
  Region :: string

record Config =
  CfgServer :: Server
  CfgDatabase :: Database
  AccessPublicKeyURL :: string
  CfgMinIO :: MinIO
  CfgRedis :: Redis

section \<open>Reading values\<close>

definition getEnv :: "environ \<Rightarrow> string \<Rightarrow> string \<Rightarrow> string" where
  "getEnv os key defaultValue =
    (let value = Getenv os key in if value \<noteq> [] then value else defaultValue)"

text \<open>\<open>strconv.ParseBool\<close>.\<close>

definition ParseBool :: "string \<Rightarrow> bool option" where
  "ParseBool s =
    (if s \<in> {''1'', ''t'', ''T'', ''TRUE'', ''true'', ''True''} then Some True
     else if s \<in> {''0'', ''f'', ''F'', ''FALSE'', ''false'', ''False''} then Some False
     else None)"

text \<open>The error of \<open>ParseBool\<close> is dropped, and its value is then false.\<close>

definition parse_bool_or_false :: "string \<Rightarrow> bool" where
  "parse_bool_or_false s = (case ParseBool s of None \<Rightarrow> False | Some b \<Rightarrow> b)"

definition getBool :: "environ \<Rightarrow> string \<Rightarrow> bool" where
  "getBool os key = parse_bool_or_false (Getenv os key)"

definition getQueueDB :: "environ \<Rightarrow> string \<Rightarrow> int \<Rightarrow> int" where
  "getQueueDB os key fallback = (case Atoi (Getenv os key) of None \<Rightarrow> fallback | Some v \<Rightarrow> v)"

text \<open>\<open>strings.Split(v, ",")\<close>.\<close>

fun split_comma :: "string \<Rightarrow> string list" where
  "split_comma [] = [[]]"
| "split_comma (c # s) =
    (if c = CHR '','' then [] # split_comma s
     else (case split_comma s of p # ps \<Rightarrow> (c # p) # ps | [] \<Rightarrow> [[c]]))"

definition commaSplit :: "string \<Rightarrow> string list" where
  "commaSplit v =
    (let v = TrimSpace v in
     if v = [] then [] else filter (\<lambda>p. p \<noteq> []) (map TrimSpace (split_comma v)))"

definition default_origins :: string where
  "default_origins = ''http://localhost:5173,https://example.com,https://api.example.com''"

section \<open>The configurations\<close>

definition LoadConfig :: "environ \<Rightarrow> Config" where
  "LoadConfig os =
    (let mode = mode_of (getEnv os ''MODE'' ''debug'');
         mode = (if isValid mode then mode else Release)
     in \<lparr>CfgServer = \<lparr>ServerAddr = Getenv os ''SERVER_ADDR'',
           AuthServiceAddr = Getenv os ''AUTH_SERVICE_ADDRESS'',
           CfgKeepOriginalFile = parse_bool_or_false (getEnv os ''KEEP_ORIGINAL_FILE'' ''true''),
           Mode = mode,
           GRPCTLSCertFile = Getenv os ''GRPC_TLS_CERT'',
           GRPCTLSKeyFile = Getenv os ''GRPC_TLS_KEY'',
           GRPCTLSCAFile = Getenv os ''GRPC_TLS_CA'',
           GRPCTLSAllowedOUs = commaSplit (getEnv os ''GRPC_TLS_ALLOWED_OUS'' []),
           GRPCTLSEnabled = getBool os ''GRPC_TLS_ENABLED'',
           AllowedOrigins = commaSplit (getEnv os ''CORS_ALLOW_ORIGINS'' default_origins)\<rparr>,
         CfgDatabase = \<lparr>DbHost = getEnv os ''DB_HOST'' ''localhost'', DbPort = getEnv os ''DB_PORT'' ''5432'',
           DbUser = getEnv os ''DB_USER'' ''postgres'', DbPassword = getEnv os ''DB_PASS'' [],
           DbName = getEnv os ''DB_NAME'' ''postgres'', DbSslMode = ''disable'', DbTimeZone = ''UTC''\<rparr>,
         AccessPublicKeyURL = Getenv os ''JWT_ACCESS_PUBLIC_KEY_URL'',
         CfgMinIO = \<lparr>Endpoint = getEnv os ''MINIO_ENDPOINT'' ''localhost:9000'',
           AccessKeyID = getEnv os ''MINIO_ACCESS_KEY'' ''admin'',
           SecretAccessKey = getEnv os ''MINIO_SECRET_KEY'' ''minio123'',
           BucketName = getEnv os ''MINIO_BUCKET_NAME'' ''stream-service-test'',
           UseSSL = parse_bool_or_false (getEnv os ''MINIO_USE_SSL'' ''false''),
           Region = getEnv os ''MINIO_REGION'' ''ru-east-1''\<rparr>,
         CfgRedis = \<lparr>RedisAddr = getEnv os ''REDIS_ADDR'' ''localhost'',
           RedisPassword = getEnv os ''redis-password'' [],
           EventsQueueDB = getQueueDB os ''EVENTS_QUEUE_DB'' 3,
           ExportQueueDB = getQueueDB os ''EXPORT_QUEUE_DB'' 4\<rparr>\<rparr>)"

definition TestConfig :: "environ \<Rightarrow> Config" where
  "TestConfig os =
     \<lparr>CfgServer = \<lparr>ServerAddr = Getenv os ''SERVER_ADDR'', AuthServiceAddr = [],
        CfgKeepOriginalFile = False, Mode = Test, GRPCTLSCertFile = [], GRPCTLSKeyFile = [],
        GRPCTLSCAFile = [], GRPCTLSAllowedOUs = [], GRPCTLSEnabled = False,
        AllowedOrigins = commaSplit (getEnv os ''CORS_ALLOW_ORIGINS'' default_origins)\<rparr>,
      CfgDatabase = \<lparr>DbHost = Getenv os ''DB_HOST'', DbPort = Getenv os ''DB_PORT'',
        DbUser = Getenv os ''DB_USER'', DbPassword = Getenv os ''DB_PASS'',
        DbName = ''testdatabase1'', DbSslMode = ''disable'', DbTimeZone = ''UTC''\<rparr>,
      AccessPublicKeyURL = Getenv os ''JWT_ACCESS_PUBLIC_KEY_URL'',
      CfgMinIO = \<lparr>Endpoint = [], AccessKeyID = [], SecretAccessKey = [], BucketName = [],
        UseSSL = False, Region = []\<rparr>,
      CfgRedis = \<lparr>RedisAddr = [], RedisPassword = [], EventsQueueDB = 0, ExportQueueDB = 0\<rparr>\<rparr>"

definition GetDsn :: "Config \<Rightarrow> string" where
  "GetDsn cfg =
    (let db = CfgDatabase cfg in
     ''host='' @ DbHost db @ '' port='' @ DbPort db @ '' user='' @ DbUser db @ '' password='' @ DbPassword db @
     '' dbname='' @ DbName db @ '' sslmode='' @ DbSslMode db @ '' TimeZone='' @ DbTimeZone db)"

text \<open>The switch of \<open>SetupRoutes\<close>: the configuration the HTTP service, its queues and its hub are built from.\<close>

definition routes_config :: "ServerMode \<Rightarrow> environ \<Rightarrow> Config" where
  "routes_config mode os =
    (case mode of Test \<Rightarrow> TestConfig os | Debug \<Rightarrow> TestConfig os
     | Release \<Rightarrow> LoadConfig os | OtherMode s \<Rightarrow> LoadConfig os)"

section \<open>Properties\<close>

text \<open>Joining with commas, to speak about what a list of origins contains.\<close>

fun join_comma :: "string list \<Rightarrow> string" where
  "join_comma [] = []"
| "join_comma [p] = p"
| "join_comma (p # q # ps) = p @ CHR '','' # join_comma (q # ps)"

lemma split_comma_nonempty [simp]: "split_comma s \<noteq> []"
  by (induction s) (auto split: list.splits)

lemma split_comma_no_comma [simp]: "CHR '','' \<notin> set p \<Longrightarrow> split_comma p = [p]"
  by (induction p) auto

lemma split_comma_append: "CHR '','' \<notin> set p \<Longrightarrow> split_comma (p @ CHR '','' # s) = p # split_comma s"
  by (induction p) auto

lemma split_join_comma:
  "ps \<noteq> [] \<Longrightarrow> list_all (\<lambda>p. CHR '','' \<notin> set p) ps \<Longrightarrow> split_comma (join_comma ps) = ps"
  by (induction ps rule: join_comma.induct) (auto simp: split_comma_append)

lemma split_comma_parts: "p \<in> set (split_comma s) \<Longrightarrow> CHR '','' \<notin> set p"
  by (induction s arbitrary: p) (auto split: if_splits list.splits)

text \<open>A list of non-empty names without blanks at their ends is read back from its comma-joined text.\<close>

lemma commaSplit_join:
  assumes "list_all (\<lambda>p. p \<noteq> [] \<and> CHR '','' \<notin> set p \<and> TrimSpace p = p) ps"
    and "TrimSpace (join_comma ps) = join_comma ps"
  shows "commaSplit (join_comma ps) = ps"
proof (cases "join_comma ps = []")
  case True
  then have "ps = []" using assms(1) by (cases ps rule: join_comma.cases) auto
  then show ?thesis using assms(2) by (simp add: commaSplit_def)
next
  case False
  then have ne: "ps \<noteq> []" by auto
  have "split_comma (join_comma ps) = ps"
    using assms(1) ne by (intro split_join_comma) (auto simp: list_all_iff)
  moreover have "map TrimSpace ps = ps"
    using assms(1) by (auto simp: list_all_iff intro: map_idI)
  moreover have "filter (\<lambda>p. p \<noteq> []) ps = ps"
    using assms(1) by (auto simp: list_all_iff)
  ultimately show ?thesis using False assms(2) by (simp add: commaSplit_def)
qed

end
