(* ===== verification/HttpHandlers.thy ===== *)
theory HttpHandlers
  imports Dto ServiceHls Config
begin

text \<open>
  \<open>internal/delivery/http/handlers/stream_handler.go\<close> and \<open>http/middleware/ws_auth.go\<close>. A handler is a
  computation from the request context to the response. Routing, JSON binding and the identity
  service's middleware are gin's and the identity service's: their results are fields of the context.
\<close>

section \<open>Contexts and responses\<close>

record AccessClaims =
  Claim_UserID :: string
  Claim_Role :: string
  Claim_Email :: string
  Claim_EmailVerified :: bool

text \<open>The value under the key \<open>user\<close> of the context: absent, a UUID, or something else.\<close>

datatype user_value = NoUser | UserUUID uuid | OtherUser

record ctx =
  Param_id :: string
  User :: user_value
  Claims :: "AccessClaims option"

text \<open>What a query string gives; a missing parameter is the empty string.\<close>

record list_params =
  P_limit :: string
  P_offset :: string
  P_status :: string
  P_faces :: string
  P_sort :: string
  P_order :: string
  P_q :: string

record 'a list_response =
  LR_Items :: "'a list option"
  LR_Total :: int
  LR_Limit :: int
  LR_Offset :: int

datatype body =
    NoBody
  | NullBody
  | ErrorBody string
  | MessageBody "(string \<times> string) list"
  | StreamBody StreamResponse
  | ListBody "StreamResponse list_response"
  | StatusBody StreamStatus StreamVisibility uuid string
  | ExportBody ExportResponse
  | StartBody string string
  | PartBody int string
  | FacesBody "string list" "(string \<times> string) list"
  | FileBody "(string \<times> string) list" s3_object
  | DataBody int string content

record http_response =
  Code :: nat
  Body :: body

definition reply :: "nat \<Rightarrow> body \<Rightarrow> http_response outcome io" where
  "reply code b = ret (Returns \<lparr>Code = code, Body = b\<rparr>)"

abbreviation fail_with :: "nat \<Rightarrow> string \<Rightarrow> http_response outcome io" where
  "fail_with code text \<equiv> reply code (ErrorBody text)"

text \<open>\<open>uuid.Parse(c.Param("id"))\<close>, with the answer to a value that is no UUID.\<close>

definition with_id ::
  "env \<Rightarrow> ctx \<Rightarrow> http_response outcome io \<Rightarrow> (uuid \<Rightarrow> http_response outcome io) \<Rightarrow> http_response outcome io" where
  "with_id E c bad k = (case uuid_Parse E (Param_id c) of Inl err \<Rightarrow> bad | Inr i \<Rightarrow> k i)"

text \<open>\<open>c.MustGet("user").(uuid.UUID)\<close> panics unless the middleware put a UUID there.\<close>

definition must_user :: "ctx \<Rightarrow> (uuid \<Rightarrow> http_response outcome io) \<Rightarrow> http_response outcome io" where
  "must_user c k = (case User c of UserUUID u \<Rightarrow> k u | _ \<Rightarrow> ret Panics)"

definition isAdmin :: "ctx \<Rightarrow> bool" where
  "isAdmin c = (case Claims c of None \<Rightarrow> False | Some claims \<Rightarrow> Claim_Role claims = ''admin'')"

section \<open>Websocket\<close>

definition default_origin_list :: "string list" where
  "default_origin_list = [''http://localhost:5173'', ''https://example.com'', ''https://api.example.com'']"

text \<open>The handler: the service, whether there is a hub, and the map of allowed origins as the set of its keys.\<close>

record StreamHandler =
  HandlerService :: service
  HandlerHub :: bool
  allowedOrigs :: "string set"

definition NewStreamHandlerWithOrigins :: "service \<Rightarrow> bool \<Rightarrow> string list \<Rightarrow> StreamHandler" where
  "NewStreamHandlerWithOrigins S hub origins =
     \<lparr>HandlerService = S, HandlerHub = hub,
      allowedOrigs = set (if length origins = 0 then default_origin_list else origins)\<rparr>"

definition NewStreamHandler :: "service \<Rightarrow> bool \<Rightarrow> StreamHandler" where
  "NewStreamHandler S hub = NewStreamHandlerWithOrigins S hub []"

definition checkOrigin :: "StreamHandler \<Rightarrow> string \<Rightarrow> bool" where
  "checkOrigin H origin = (if origin = [] then True else origin \<in> allowedOrigs H)"

text \<open>
  A connection lives from \<open>Register\<close> to \<open>Unregister\<close>; \<open>session\<close> is what the rest of the program does
  while the read loop runs. \<open>Upgrade\<close> is the upgrader, which is given the check of the origin and
  answers the request, with the connection when it succeeds.
\<close>

definition HandleWS ::
  "StreamHandler \<Rightarrow> uuid \<Rightarrow> ((string \<Rightarrow> bool) \<Rightarrow> http_response \<times> conn option) \<Rightarrow> unit io \<Rightarrow> http_response io" where
  "HandleWS H userUUID Upgrade session =
    (case Upgrade (checkOrigin H) of
       (resp, None) \<Rightarrow> ret resp
     | (resp, Some c) \<Rightarrow>
         if HandlerHub H then do { hub_Register userUUID c; session; hub_Unregister userUUID c; ret resp }
         else do { session; ret resp })"

definition WSProtocolAuth ::
  "(string \<Rightarrow> goerr + AccessClaims) \<Rightarrow> (string \<Rightarrow> goerr + uuid) \<Rightarrow> string \<Rightarrow> ctx \<Rightarrow>
   http_response + ctx" where
  "WSProtocolAuth validate parse token c =
    (if token = [] then Inl \<lparr>Code = 401, Body = ErrorBody ''auth token required''\<rparr>
     else (case validate token of
       Inl err \<Rightarrow> Inl \<lparr>Code = 401, Body = ErrorBody ''invalid token''\<rparr>
     | Inr claims \<Rightarrow>
         (case parse (Claim_UserID claims) of
            Inl err \<Rightarrow> Inl \<lparr>Code = 401, Body = ErrorBody ''invalid user id''\<rparr>
          | Inr userUUID \<Rightarrow> Inr (c\<lparr>User := UserUUID userUUID, Claims := Some claims\<rparr>))))"

section \<open>Lists\<close>

definition empty_filter :: StreamFilter where
  "empty_filter = \<lparr>FOwnerID = None, FStatus = None, FVisibility = None, FFacesDetected = None,
     FSortBy = [], FSortOrder = [], FLimit = 0, FOffset = 0, FSearch = []\<rparr>"

text \<open>The two page parameters, read the same way in both handlers.\<close>

definition page_number :: "string \<Rightarrow> string \<Rightarrow> int \<Rightarrow> int \<Rightarrow> string + int" where
  "page_number what v dflt bound =
    (if v = [] then Inr dflt
     else (case Atoi v of
       None \<Rightarrow> Inl (''not valid '' @ what @ '' query'')
     | Some n \<Rightarrow>
         if n < 0 then Inl (''not valid '' @ what @ '' query'')
         else if n > bound then Inl (what @ '' must be '' @ Itoa bound @ '' or less'')
         else Inr n))"

definition validStreamStatus :: "string \<Rightarrow> bool" where
  "validStreamStatus s = (case status_of s of StatusOther _ \<Rightarrow> False | _ \<Rightarrow> True)"

definition validStreamSort :: "string \<Rightarrow> bool" where
  "validStreamSort sortBy \<longleftrightarrow> sortBy = ''created_at'' \<or> sortBy = ''title'' \<or> sortBy = ''status''"

definition owner_filter :: "list_params \<Rightarrow> string + StreamFilter" where
  "owner_filter p =
    (case page_number ''limit'' (P_limit p) 100 100 of Inl e \<Rightarrow> Inl e | Inr limit \<Rightarrow>
     (case page_number ''offset'' (P_offset p) 0 10000 of Inl e \<Rightarrow> Inl e | Inr offset \<Rightarrow>
       if P_status p \<noteq> [] \<and> \<not> validStreamStatus (P_status p) then Inl ''not valid status query''
       else if P_faces p \<noteq> [] \<and> ParseBool (P_faces p) = None then Inl ''not valid faces_detected query''
       else if P_sort p \<noteq> [] \<and> \<not> validStreamSort (P_sort p) then Inl ''not valid sort query''
       else if P_order p \<noteq> [] \<and> P_order p \<noteq> ''asc'' \<and> P_order p \<noteq> ''desc'' then Inl ''not valid order query''
       else Inr (empty_filter\<lparr>FLimit := limit, FOffset := offset,
                  FStatus := (if P_status p = [] then None else Some (status_of (P_status p))),
                  FFacesDetected := (if P_faces p = [] then None else ParseBool (P_faces p)),
                  FSortBy := P_sort p, FSortOrder := P_order p\<rparr>)))"

definition public_filter :: "list_params \<Rightarrow> string + StreamFilter" where
  "public_filter p =
    (case page_number ''limit'' (P_limit p) 10 100 of Inl e \<Rightarrow> Inl e | Inr limit \<Rightarrow>
     (case page_number ''offset'' (P_offset p) 0 10000 of Inl e \<Rightarrow> Inl e | Inr offset \<Rightarrow>
       if P_q p \<noteq> [] \<and> RuneCountInString (P_q p) > 100 then Inl ''q must be 100 characters or less''
       else Inr (empty_filter\<lparr>FLimit := limit, FOffset := offset,
                  FVisibility := Some VisibilityPublic, FStatus := Some StatusPublished,
                  FSearch := P_q p\<rparr>)))"

definition ListStreamOwner :: "env \<Rightarrow> ctx \<Rightarrow> list_params \<Rightarrow> http_response outcome io" where
  "ListStreamOwner E c p = must_user c (\<lambda>userUUID.
     case owner_filter p of
       Inl msg \<Rightarrow> fail_with 400 msg
     | Inr f \<Rightarrow> do {
         (r, count) \<leftarrow> ListUserStreams E userUUID f;
         case r of
           Inl err \<Rightarrow> fail_with 500 ''internal server error''
         | Inr streams \<Rightarrow> reply 200 (ListBody
             \<lparr>LR_Items = (if streams = [] then None else Some (map FromDomainModel streams)),
              LR_Total = count, LR_Limit = FLimit f, LR_Offset = FOffset f\<rparr>)
       })"

definition ListStreamPublic :: "env \<Rightarrow> list_params \<Rightarrow> http_response outcome io" where
  "ListStreamPublic E p =
    (case public_filter p of
       Inl msg \<Rightarrow> fail_with 400 msg
     | Inr f \<Rightarrow> do {
         (r, count) \<leftarrow> ListStreams E f;
         case r of
           Inl err \<Rightarrow> fail_with 500 ''error getting stream list from service''
         | Inr streams \<Rightarrow> reply 200 (ListBody
             \<lparr>LR_Items = Some (map FromDomainModel streams),
              LR_Total = count, LR_Limit = FLimit f, LR_Offset = FOffset f\<rparr>)
       })"

section \<open>One stream\<close>

text \<open>\<open>body\<close> is the bound request, or nothing when \<open>ShouldBindJSON\<close> fails.\<close>

definition http_CreateStream ::
  "env \<Rightarrow> service \<Rightarrow> ctx \<Rightarrow> CreateStreamBody option \<Rightarrow> http_response outcome io" where
  "http_CreateStream E S c body = must_user c (\<lambda>userUUID.
     if (case Claims c of None \<Rightarrow> False
         | Some claims \<Rightarrow> Claim_Role claims \<noteq> ''admin'' \<and> \<not> Claim_EmailVerified claims)
     then fail_with 403 ''email not verified''
     else (case body of
       None \<Rightarrow> fail_with 400 ''invalid request body''
     | Some req \<Rightarrow>
         (case Create_ToServiceRequest req userUUID of
            Inl err \<Rightarrow> fail_with 400 ''invalid stream request''
          | Inr serviceReq \<Rightarrow> do {
              r \<leftarrow> CreateStream E S serviceReq;
              case r of
                Inl err \<Rightarrow> fail_with 500 ''internal server error''
              | Inr stream \<Rightarrow> do {
                  metric ''lifecycle'' ''created'' 1;
                  reply 201 (StreamBody (FromDomainModel stream))
                }
            })))"

text \<open>The check of a private stream; a nil UUID is nobody.\<close>

definition may_view :: "ctx \<Rightarrow> Stream \<Rightarrow> bool" where
  "may_view c stream \<longleftrightarrow>
    (Visibility stream = VisibilityPrivate \<longrightarrow>
      (case User c of UserUUID u \<Rightarrow> u \<noteq> uuid_Nil \<and> u = OwnerID stream | _ \<Rightarrow> False))"

definition http_GetStream :: "env \<Rightarrow> ctx \<Rightarrow> http_response outcome io" where
  "http_GetStream E c = with_id E c (fail_with 500 ''invalid stream ID in params'') (\<lambda>i. do {
     r \<leftarrow> GetStream E i;
     case r of
       Inl err \<Rightarrow>
         if errors_Is err ErrStreamNotFound then fail_with 404 ''stream not found''
         else fail_with 500 ''internal server error''
     | Inr stream \<Rightarrow>
         if \<not> may_view c stream then fail_with 403 ''access denied''
         else reply 200 (StreamBody (FromDomainModel stream))
   })"

definition http_GetStreamStatus :: "env \<Rightarrow> ctx \<Rightarrow> http_response outcome io" where
  "http_GetStreamStatus E c = with_id E c (fail_with 400 ''invalid stream ID in params'') (\<lambda>i. do {
     r \<leftarrow> GetStreamStatus E i;
     case r of
       Inl err \<Rightarrow>
         if errors_Is err ErrStreamNotFound then fail_with 404 ''stream not found''
         else fail_with 500 ''internal server error''
     | Inr stream \<Rightarrow>
         reply 200 (StatusBody (Status stream) (Visibility stream) (OwnerID stream) (Title stream))
   })"

definition http_UpdateStream ::
  "env \<Rightarrow> service \<Rightarrow> ctx \<Rightarrow> UpdateStreamRequest option \<Rightarrow> http_response outcome io" where
  "http_UpdateStream E S c body = with_id E c (fail_with 500 ''invalid stream ID in params'') (\<lambda>i.
     case body of
       None \<Rightarrow> fail_with 400 ''invalid request body''
     | Some req \<Rightarrow>
         (case Update_ToServiceRequest req of
            Inl err \<Rightarrow> fail_with 400 ''invalid stream request''
          | Inr serviceReq \<Rightarrow> do {
              r \<leftarrow> UpdateStream E S i serviceReq;
              case r of
                Inl err \<Rightarrow>
                  if errors_Is err ErrStreamNotFound then fail_with 404 ''stream not found''
                  else if errors_Is err ErrCannotUpdatePublished then fail_with 400 (Error_text err)
                  else fail_with 500 ''internal server error''
              | Inr stream \<Rightarrow> reply 200 (StreamBody (FromDomainModel stream))
            }))"

definition http_DeleteStream :: "env \<Rightarrow> service \<Rightarrow> ctx \<Rightarrow> http_response outcome io" where
  "http_DeleteStream E S c = with_id E c (fail_with 400 ''invalid stream ID in params'') (\<lambda>i. do {
     r \<leftarrow> DeleteStream E S i;
     case r of
       Some err \<Rightarrow>
         if errors_Is err ErrStreamNotFound then fail_with 404 (Error_text err)
         else if errors_Is err ErrCannotDeletePublished then fail_with 400 (Error_text err)
         else fail_with 500 ''internal server error''
     | None \<Rightarrow> do { metric ''lifecycle'' ''deleted'' 1; reply 200 NullBody }
   })"

section \<open>Uploads\<close>

definition http_UploadVideo ::
  "env \<Rightarrow> service \<Rightarrow> ctx \<Rightarrow> (string \<times> FileHeader) option \<Rightarrow> http_response outcome io" where
  "http_UploadVideo E S c form = must_user c (\<lambda>userUUID.
     with_id E c (fail_with 400 ''invalid stream id'') (\<lambda>streamUUID.
       case form of
         None \<Rightarrow> fail_with 400 ''video file required''
       | Some (file, header) \<Rightarrow>
           (case Video_ToServiceRequest streamUUID userUUID file header of
              Inl msg \<Rightarrow> fail_with 400 msg
            | Inr serviceReq \<Rightarrow> do {
                r \<leftarrow> UploadVideo E S serviceReq;
                case r of
                  Some err \<Rightarrow> fail_with 500 ''internal server error''
                | None \<Rightarrow> do {
                    metric ''uploads'' ''simple'' 1;
                    reply 200 (MessageBody [(''message'', ''video uploaded successfully''), (''status'', ''success'')])
                  }
              })))"

definition InitUpload ::
  "env \<Rightarrow> service \<Rightarrow> ctx \<Rightarrow> StartUploadBody option \<Rightarrow> http_response outcome io" where
  "InitUpload E S c body = with_id E c (fail_with 400 ''invalid stream id'') (\<lambda>streamUUID.
     case body of
       None \<Rightarrow> fail_with 400 ''invalid request body''
     | Some req \<Rightarrow> must_user c (\<lambda>userUUID. do {
         r \<leftarrow> StartStreamUpload E S (Start_ToService req streamUUID userUUID);
         case r of
           Inl err \<Rightarrow> fail_with 500 ''internal server error''
         | Inr info \<Rightarrow> do {
             metric ''uploads'' ''init'' 1;
             reply 200 (StartBody (Info_UploadID info) (uuid_String E (Info_StreamID info)))
           }
       }))"

definition PartUpload ::
  "env \<Rightarrow> service \<Rightarrow> ctx \<Rightarrow> UploadPartBody option \<Rightarrow> http_response outcome io" where
  "PartUpload E S c body = must_user c (\<lambda>userUUID.
     with_id E c (fail_with 400 ''invalid stream id'') (\<lambda>streamUUID.
       case body of
         None \<Rightarrow> fail_with 400 ''invalid request body''
       | Some req \<Rightarrow>
           (case Part_ToService req streamUUID userUUID of
              Inl err \<Rightarrow> fail_with 400 ''invalid part upload request''
            | Inr serviceReq \<Rightarrow> do {
                r \<leftarrow> UploadPart E S serviceReq;
                case r of
                  Inl err \<Rightarrow> fail_with 500 ''internal server error''
                | Inr part \<Rightarrow> do {
                    metric ''uploads'' ''part'' 1;
                    reply 200 (PartBody (PartNumber part) (ETag part))
                  }
              })))"

definition CompleteUpload ::
  "env \<Rightarrow> service \<Rightarrow> ctx \<Rightarrow> MultipartPart list option \<Rightarrow> http_response outcome io" where
  "CompleteUpload E S c body = must_user c (\<lambda>userUUID.
     with_id E c (fail_with 400 ''invalid stream id'') (\<lambda>streamUUID.
       case body of
         None \<Rightarrow> fail_with 400 ''invalid request body''
       | Some parts \<Rightarrow>
           (case Complete_ToService parts streamUUID userUUID of
              Inl err \<Rightarrow> fail_with 400 ''invalid complete upload request''
            | Inr serviceReq \<Rightarrow> do {
                r \<leftarrow> CompleteStreamUpload E S serviceReq;
                case r of
                  Some err \<Rightarrow> fail_with 500 ''internal server error''
                | None \<Rightarrow> do { metric ''uploads'' ''complete'' 1; reply 204 NoBody }
              })))"

end
