(* ===== verification/HttpMedia.thy ===== *)
theory HttpMedia
  imports HttpHandlers
begin

text \<open>
  The rest of \<open>http/handlers/stream_handler.go\<close>: exports and downloads, HLS files, publication and the
  requests to run tasks again.
\<close>

section \<open>Exports\<close>

definition handleDownloadError :: "goerr \<Rightarrow> nat \<times> string" where
  "handleDownloadError err =
    (if errors_Is err ErrStreamNotFound \<or> errors_Is err ErrExportNotFound then (404, ''stream not found'')
     else if errors_Is err ErrStreamForbidden then (403, ''forbidden'')
     else if errors_Is err ErrStreamNotReady then (400, ''stream not available for download'')
     else if errors_Is err ErrExportPending then (409, ''export is still being prepared'')
     else if HasPrefix (Error_text err) ''export failed'' then (409, ''export failed, try again'')
     else (500, ''failed to prepare download''))"

definition download_failure :: "goerr \<Rightarrow> http_response outcome io" where
  "download_failure err = (case handleDownloadError err of (code, text) \<Rightarrow> fail_with code text)"

definition RequestExport :: "env \<Rightarrow> ctx \<Rightarrow> http_response outcome io" where
  "RequestExport E c = with_id E c (fail_with 400 ''invalid stream id'') (\<lambda>streamUUID.
     must_user c (\<lambda>userUUID. do {
       r \<leftarrow> RequestStreamExport E streamUUID userUUID
              (case Claims c of None \<Rightarrow> [] | Some claims \<Rightarrow> Claim_Email claims);
       case r of
         Inl err \<Rightarrow> download_failure err
       | Inr info \<Rightarrow> reply 202 (ExportBody (NewExportResponse (uuid_String E) info))
     }))"

definition GetExport :: "env \<Rightarrow> ctx \<Rightarrow> http_response outcome io" where
  "GetExport E c = with_id E c (fail_with 400 ''invalid stream id'') (\<lambda>streamUUID.
     must_user c (\<lambda>userUUID. do {
       r \<leftarrow> GetStreamExport E streamUUID userUUID;
       case r of
         Inl err \<Rightarrow> download_failure err
       | Inr info \<Rightarrow> reply 200 (ExportBody (NewExportResponse (uuid_String E) info))
     }))"

definition download_headers :: "DownloadStreamInfo \<Rightarrow> (string \<times> string) list" where
  "download_headers info =
    [(''Content-Type'', DL_ContentType info), (''Content-Length'', Itoa (DL_Size info)),
     (''Content-Disposition'', content_disposition (DL_FileName info))]"

definition DownloadStream :: "env \<Rightarrow> service \<Rightarrow> ctx \<Rightarrow> http_response outcome io" where
  "DownloadStream E S c = with_id E c (fail_with 400 ''invalid stream id'') (\<lambda>streamUUID.
     must_user c (\<lambda>userUUID. do {
       r \<leftarrow> OpenStreamDownload E S streamUUID userUUID;
       case r of
         Inl err \<Rightarrow> download_failure err
       | Inr info \<Rightarrow> reply 200 (FileBody (download_headers info) (DL_Content info))
     }))"

section \<open>HLS files\<close>

text \<open>Who may watch: everyone a published stream that is not private, else only the owner.\<close>

definition may_watch :: "ctx \<Rightarrow> Stream \<Rightarrow> bool" where
  "may_watch c stream \<longleftrightarrow>
    (Status stream \<noteq> StatusPublished \<or> Visibility stream = VisibilityPrivate \<longrightarrow>
      (case User c of UserUUID u \<Rightarrow> u = OwnerID stream | _ \<Rightarrow> False))"

text \<open>The result is \<open>None\<close> when the fuel of the fallback's loop is used up.\<close>

definition GetHLS :: "env \<Rightarrow> service \<Rightarrow> nat \<Rightarrow> ctx \<Rightarrow> string \<Rightarrow> http_response outcome option io" where
  "GetHLS E S fuel c fileName =
    (case uuid_Parse E (Param_id c) of
       Inl err \<Rightarrow> ret (Some (Returns \<lparr>Code = 400, Body = ErrorBody ''invalid stream id''\<rparr>))
     | Inr streamUUID \<Rightarrow> do {
         r \<leftarrow> GetStream E streamUUID;
         case r of
           Inl err \<Rightarrow> ret (Some (Returns \<lparr>Code = 404, Body = ErrorBody ''stream not found''\<rparr>))
         | Inr stream \<Rightarrow>
             if \<not> may_watch c stream then do {
               metric ''hls_requests'' ''403'' 1;
               ret (Some (Returns \<lparr>Code = 403, Body = ErrorBody ''this stream is private or not ready ''\<rparr>))
             }
             else if fileName = [] \<or> fileName = ''/'' then
               ret (Some (Returns \<lparr>Code = 400, Body = ErrorBody ''filename cannot be empty''\<rparr>))
             else do {
               r \<leftarrow> GetFileByKey E S fuel \<lparr>File_StreamUUID = streamUUID, File_FileName = fileName\<rparr>;
               case r of
                 None \<Rightarrow> ret None
               | Some (Inl err) \<Rightarrow>
                   ret (Some (Returns
                     (if errors_Is err ErrInvalidFileName then
                        \<lparr>Code = 400, Body = ErrorBody ''invalid file name''\<rparr>
                      else if errors_Is err ErrCannotWatch then
                        \<lparr>Code = 403, Body = ErrorBody ''stream is not available for watching''\<rparr>
                      else \<lparr>Code = 500, Body = ErrorBody ''internal server error''\<rparr>)))
               | Some (Inr res) \<Rightarrow> do {
                   metric ''hls_requests'' ''200'' 1;
                   ret (Some (Returns \<lparr>Code = 200,
                     Body = DataBody (Resp_Size res) (Resp_ContentType res) (Resp_Content res)\<rparr>))
                 }
             }
       })"

section \<open>Publication\<close>

definition http_PublishStream :: "env \<Rightarrow> service \<Rightarrow> ctx \<Rightarrow> http_response outcome io" where
  "http_PublishStream E S c = must_user c (\<lambda>userUUID.
     with_id E c (fail_with 400 ''invalid stream id'') (\<lambda>streamUUID. do {
       r \<leftarrow> GetStream E streamUUID;
       case r of
         Inl err \<Rightarrow> fail_with 404 ''stream not found''
       | Inr stream \<Rightarrow>
           if OwnerID stream \<noteq> userUUID \<and> \<not> isAdmin c then
             fail_with 403 ''only owner can published that stream''
           else do {
             r \<leftarrow> PublishStream E S streamUUID;
             case r of
               Some err \<Rightarrow>
                 if errors_Is err ErrCannotPublish then fail_with 400 ''stream must be ready before publishing''
                 else if errors_Is err ErrStreamNotFound then fail_with 404 ''stream not found''
                 else fail_with 500 ''service error''
             | None \<Rightarrow> do { metric ''lifecycle'' ''published'' 1; reply 201 NoBody }
           }
     }))"

definition http_UnpublishStream :: "env \<Rightarrow> service \<Rightarrow> ctx \<Rightarrow> http_response outcome io" where
  "http_UnpublishStream E S c = must_user c (\<lambda>userUUID.
     with_id E c (fail_with 400 ''invalid stream id'') (\<lambda>streamUUID. do {
       r \<leftarrow> GetStream E streamUUID;
       case r of
         Inl err \<Rightarrow> fail_with 404 ''stream not found''
       | Inr stream \<Rightarrow>
           if OwnerID stream \<noteq> userUUID \<and> \<not> isAdmin c then
             fail_with 403 ''only owner can unpublished that stream''
           else do {
             r \<leftarrow> UnpublishStream E S streamUUID;
             case r of
               Some err \<Rightarrow>
                 if errors_Is err ErrCannotUnpublish then fail_with 400 ''only published streams can be unpublished''
                 else if errors_Is err ErrStreamNotFound then fail_with 404 ''stream not found''
                 else fail_with 500 ''service error''
             | None \<Rightarrow> do { metric ''lifecycle'' ''unpublished'' 1; reply 201 NoBody }
           }
     }))"

section \<open>Running tasks again\<close>

definition http_ReprocessStream :: "env \<Rightarrow> service \<Rightarrow> ctx \<Rightarrow> http_response outcome io" where
  "http_ReprocessStream E S c = with_id E c (fail_with 400 ''invalid stream id'') (\<lambda>streamUUID. do {
     r \<leftarrow> ReprocessStream E S streamUUID;
     case r of
       Some err \<Rightarrow>
         if errors_Is err ErrStreamNotFound then fail_with 404 ''stream not found''
         else if errors_Is err ErrStreamNotInErrorState then fail_with 400 (Error_text err)
         else if errors_Is err ErrSourceFileMissing then
           fail_with 409 ''source file has been removed; re-upload is required''
         else fail_with 500 ''internal server error''
     | None \<Rightarrow> do { metric ''lifecycle'' ''reprocessed'' 1; reply 200 NullBody }
   })"

definition http_ProcessFacesStream :: "env \<Rightarrow> service \<Rightarrow> ctx \<Rightarrow> http_response outcome io" where
  "http_ProcessFacesStream E S c = with_id E c (fail_with 400 ''invalid stream id'') (\<lambda>streamUUID. do {
     r \<leftarrow> ProcessFacesStream E S streamUUID;
     case r of
       Some err \<Rightarrow>
         if errors_Is err ErrStreamNotFound then fail_with 404 ''stream not found''
         else if errors_Is err ErrSourceFileMissing then
           fail_with 409 ''source file has been removed; re-upload is required''
         else fail_with 500 ''internal server error''
     | None \<Rightarrow> do { metric ''lifecycle'' ''faces'' 1; reply 200 NullBody }
   })"

definition http_ProcessFacesBatch ::
  "env \<Rightarrow> service \<Rightarrow> ctx \<Rightarrow> uuid list option \<Rightarrow> http_response outcome io" where
  "http_ProcessFacesBatch E S c body = must_user c (\<lambda>userUUID.
     case body of
       None \<Rightarrow> fail_with 400 ''invalid request body''
     | Some ids \<Rightarrow>
         (case FacesBatchRequest_Validate (uuid_String E) ids of
            Some err \<Rightarrow> fail_with 400 (Error_text err)
          | None \<Rightarrow> do {
              r \<leftarrow> ProcessFacesBatch E S userUUID (isAdmin c) ids;
              case r of
                Inl err \<Rightarrow> fail_with 500 ''internal server error''
              | Inr res \<Rightarrow> reply 200 (FacesBody (map (uuid_String E) (Processed res))
                  (map (\<lambda>(i, reason). (uuid_String E i, faces_reason_text reason)) (Failed res)))
            }))"

end
