(* ===== verification/NameProperties.thy ===== *)
theory NameProperties
  imports HttpMedia
begin

text \<open>
  The names of downloads and the header that carries them: safe on every file system and in the header,
  and where the cut of a long name goes wrong.
\<close>

text \<open>A title of one ASCII letter and sixty letters of two bytes.\<close>

definition long_title :: string where
  "long_title = CHR ''a'' # concat (replicate 60 [CHR 0xC3, CHR 0xA9])"

section \<open>Properties\<close>

text \<open>
  Every title gives a usable file name: it ends in \<open>.mp4\<close>, the stem before that is not empty and at
  most 120 bytes long, and holds no control character and none of the characters reserved in file names.
\<close>

theorem download_name_safe:
  "\<exists>stem. downloadFileName title = stem @ ''.mp4'' \<and> stem \<noteq> [] \<and> length stem \<le> 120 \<and>
     list_all (\<lambda>c. 32 \<le> byte c \<and> byte c \<noteq> 127 \<and> c \<notin> {CHR 0x5C, CHR ''/'', CHR '':'', CHR ''*'', CHR ''?'',
       CHR 0x22, CHR ''<'', CHR ''>'', CHR ''|''}) stem"
proof -
  obtain stem where stem: "downloadFileName title = stem @ ''.mp4''" "stem \<noteq> []"
    "length stem \<le> maxDownloadNameLen" "list_all (\<lambda>c. \<not> is_reserved c) stem"
    by (rule downloadFileName_stem)
  have "32 \<le> byte c \<and> byte c \<noteq> 127 \<and> c \<notin> {CHR 0x5C, CHR ''/'', CHR '':'', CHR ''*'', CHR ''?'',
       CHR 0x22, CHR ''<'', CHR ''>'', CHR ''|''}" if "\<not> is_reserved c" for c
    using that unfolding is_reserved_def reserved_chars_def by (simp only: de_Morgan_disj not_less list.set) blast
  then have "list_all (\<lambda>c. 32 \<le> byte c \<and> byte c \<noteq> 127 \<and> c \<notin> {CHR 0x5C, CHR ''/'', CHR '':'', CHR ''*'', CHR ''?'',
       CHR 0x22, CHR ''<'', CHR ''>'', CHR ''|''}) stem"
    by (rule list.pred_mono_strong [OF stem(4)])
  then show ?thesis using stem(1-3) unfolding maxDownloadNameLen_def by blast
qed

text \<open>
  The header that names a download cannot be broken by a title: it is printable ASCII throughout, and
  the quoted name ends at the closing quote, since it contains neither a quote nor a backslash. What
  follows is nothing or the extended form, whose value is percent-encoded.
\<close>

theorem download_header_safe:
  "\<exists>name rest. content_disposition (downloadFileName title) =
       ''attachment; filename='' @ [CHR 0x22] @ name @ [CHR 0x22] @ rest \<and>
     list_all (\<lambda>c. c \<noteq> CHR 0x22 \<and> c \<noteq> CHR 0x5C) name \<and> rest \<in> {[], ''; filename*=UTF-8'' @ [CHR 0x27, CHR 0x27] @
       PathEscape (downloadFileName title)} \<and>
     list_all (\<lambda>c. 32 \<le> byte c \<and> byte c < 127) (content_disposition (downloadFileName title))"
proof -
  let ?name = "asciiFallbackName (downloadFileName title)"
  let ?ext = "''; filename*=UTF-8'' @ [CHR 0x27, CHR 0x27] @ PathEscape (downloadFileName title)"
  let ?rest = "if downloadFileName title \<noteq> ?name then ?ext else []"
  let ?start = "''attachment; filename='' @ [CHR 0x22]"
  have eq: "content_disposition (downloadFileName title) = ?start @ ?name @ [CHR 0x22] @ ?rest"
    by (simp add: content_disposition_def)
  have "list_all quoted_safe ?name" by (rule asciiFallbackName_download)
  then have name: "list_all (\<lambda>c. c \<noteq> CHR 0x22 \<and> c \<noteq> CHR 0x5C) ?name" "list_all header_safe ?name"
    by (auto simp: list_all_iff quoted_safe_def)
  have "list_all header_safe ?start" "list_all header_safe [CHR 0x22]"
    "list_all header_safe (''; filename*=UTF-8'' @ [CHR 0x27, CHR 0x27])"
    by (simp_all add: header_safe_def byte_def)
  moreover have "list_all header_safe (PathEscape (downloadFileName title))" by (rule PathEscape_safe)
  ultimately have "list_all header_safe (content_disposition (downloadFileName title))"
    unfolding eq using name(2) by simp
  then have "list_all (\<lambda>c. 32 \<le> byte c \<and> byte c < 127) (content_disposition (downloadFileName title))"
    by (simp add: header_safe_def [abs_def])
  then show ?thesis
    using name(1) eq by (intro exI [of _ ?name] exI [of _ ?rest]) simp
qed

text \<open>
  The cut of a long name counts bytes and can fall inside a character: a title of valid UTF-8 gives a
  name that is not.
\<close>

theorem download_name_cut_inside_character:
  "utf8_valid long_title \<and> \<not> utf8_valid (downloadFileName long_title)"
  by code_simp

end
