(* ===== verification/HandlerProperties.thy ===== *)
theory HandlerProperties
  imports HttpMedia HlsProperties
begin

text \<open>
  What the HTTP layer adds to the service: who may watch, list and publish, and what a websocket session
  leaves behind.
\<close>

section \<open>Reading files\<close>

fun reads_object :: "event \<Rightarrow> bool" where
  "reads_object (EvGetObject b k r) = True"
| "reads_object _ = False"

text \<open>Who may watch a stream, as a policy on its row: everybody a published stream that is not private, the owner always.\<close>

definition watch_policy :: "uuid option \<Rightarrow> Stream \<Rightarrow> bool" where
  "watch_policy viewer s \<longleftrightarrow> viewer = Some (OwnerID s) \<or>
     (Status s = StatusPublished \<and> Visibility s \<noteq> VisibilityPrivate)"

definition viewer :: "ctx \<Rightarrow> uuid option" where
  "viewer c = (case User c of UserUUID u \<Rightarrow> Some u | _ \<Rightarrow> None)"

lemma may_watch_policy: "may_watch c s \<longleftrightarrow> watch_policy (viewer c) s"
  by (auto simp: may_watch_def watch_policy_def viewer_def split: user_value.split)

lemma GetStream_spec:
  "wpre (GetStream E i) (\<lambda>r w'. hist w' = hist w @ [EvDbFirst i (db_First E (hist w) i)] \<and>
     (\<forall>s. r = Inr s \<longrightarrow> db_First E (hist w) i = Inr s)) w"
  by (auto simp: GetStream_def repo_Read_def wp split: sum.split)

lemma GetHLS_spec:
  "wpre (GetHLS E S fuel c f) (\<lambda>r w'. list_ex reads_object (trace w w') \<or> r = Some (Returns \<lparr>Code = 200, Body = b\<rparr>) \<longrightarrow>
     (\<exists>i s. uuid_Parse E (Param_id c) = Inr i \<and> db_First E (hist w) i = Inr s \<and> watch_policy (viewer c) s)) w"
proof -
  have any: "wpre (GetFileByKey E S fuel req) Q v" if "\<And>r w'. Q r w'" for req Q v
    by (rule wpreI) (rule that)
  show ?thesis
    unfolding GetHLS_def
    by (auto simp: wp metric_def may_watch_policy intro!: wpre_mono [OF GetStream_spec] any
        split: sum.split option.split)
qed

section \<open>Lists\<close>

text \<open>The queries a list may send: with these conditions, and for a page of 1 to 100 rows.\<close>

definition page_ok :: "list_query \<Rightarrow> bool" where
  "page_ok q \<longleftrightarrow> (case QLimit q of None \<Rightarrow> False | Some n \<Rightarrow> 0 < n \<and> n \<le> 100) \<and>
     (case QOffset q of None \<Rightarrow> True | Some n \<Rightarrow> 0 < n \<and> n \<le> 10000)"

fun confined_query :: "cond list \<Rightarrow> event \<Rightarrow> bool" where
  "confined_query cs (EvDbQuery q r) = (set cs \<subseteq> set (Wheres q) \<and> page_ok q)"
| "confined_query cs (EvDbCount ws r) = (set cs \<subseteq> set ws)"
| "confined_query cs _ = False"

abbreviation public_query :: "event \<Rightarrow> bool" where
  "public_query \<equiv> confined_query [WhereVisibility VisibilityPublic, WhereStatus StatusPublished]"

abbreviation own_query :: "uuid \<Rightarrow> event \<Rightarrow> bool" where
  "own_query u \<equiv> confined_query [WhereOwner u]"

lemma emits_ListStreams: "(\<And>r. A (EvDbCount (filter_conds f) r)) \<Longrightarrow> (\<And>r. A (EvDbQuery (filter_query f) r)) \<Longrightarrow> emits A (ListStreams E f)"
  unfolding ListStreams_def repo_List_def by (intro emits) auto

lemma page_number_bounds: "page_number what v d b = Inr n \<Longrightarrow> 0 \<le> d \<Longrightarrow> d \<le> b \<Longrightarrow> 0 \<le> n \<and> n \<le> b"
  by (auto simp: page_number_def split: if_splits option.splits)

lemma filter_page_ok: "0 \<le> FLimit f \<Longrightarrow> FLimit f \<le> 100 \<Longrightarrow> FOffset f \<le> 10000 \<Longrightarrow> page_ok (filter_query f)"
  by (auto simp: page_ok_def filter_query_def Let_def)

lemma public_filter_query:
  assumes "public_filter p = Inr f"
  shows "public_query (EvDbCount (filter_conds f) r)" "public_query (EvDbQuery (filter_query f) r2)"
proof -
  have f: "FVisibility f = Some VisibilityPublic" "FStatus f = Some StatusPublished"
    "0 \<le> FLimit f" "FLimit f \<le> 100" "FOffset f \<le> 10000"
    using assms by (auto simp: public_filter_def split: sum.splits if_splits dest!: page_number_bounds)
  then show "public_query (EvDbCount (filter_conds f) r)" by (simp add: filter_conds_def)
  with f show "public_query (EvDbQuery (filter_query f) r2)" by (simp add: filter_page_ok) (simp add: filter_query_def)
qed

lemma owner_filter_query:
  assumes "owner_filter p = Inr f"
  shows "own_query u (EvDbCount (filter_conds (f\<lparr>FOwnerID := Some u\<rparr>)) r)"
    "own_query u (EvDbQuery (filter_query (f\<lparr>FOwnerID := Some u\<rparr>)) r2)"
proof -
  have f: "0 \<le> FLimit f" "FLimit f \<le> 100" "FOffset f \<le> 10000"
    using assms by (auto simp: owner_filter_def split: sum.splits if_splits dest!: page_number_bounds)
  show "own_query u (EvDbCount (filter_conds (f\<lparr>FOwnerID := Some u\<rparr>)) r)" by (simp add: filter_conds_def)
  with f show "own_query u (EvDbQuery (filter_query (f\<lparr>FOwnerID := Some u\<rparr>)) r2)"
    by (simp add: filter_page_ok) (simp add: filter_query_def)
qed

section \<open>Publication\<close>

definition may_publish :: "env \<Rightarrow> ctx \<Rightarrow> world \<Rightarrow> bool" where
  "may_publish E c w \<longleftrightarrow> (\<exists>i s u. uuid_Parse E (Param_id c) = Inr i \<and> db_First E (hist w) i = Inr s \<and>
     User c = UserUUID u \<and> (OwnerID s = u \<or> isAdmin c))"

section \<open>Notifications\<close>

text \<open>The connections a trace wrote to, and the operations that tell only one user.\<close>

definition written_to :: "event \<Rightarrow> conn list" where
  "written_to e = (case e of EvWriteJSON c m r \<Rightarrow> [c] | _ \<Rightarrow> [])"

definition written :: "event list \<Rightarrow> conn list" where
  "written evs = concat (map written_to evs)"

definition told :: "'a io \<Rightarrow> world \<Rightarrow> uuid \<Rightarrow> bool" where
  "told m w u \<longleftrightarrow> set (written (trace w (after m w))) \<subseteq> set (conns_of (clients w) u)"

text \<open>
  \<open>tells u m P\<close>: whatever happens, the computation writes only to connections registered for \<open>u\<close>, leaves
  the registry alone, and its result satisfies \<open>P\<close>.
\<close>

definition tells :: "uuid \<Rightarrow> 'a io \<Rightarrow> ('a \<Rightarrow> bool) \<Rightarrow> bool" where
  "tells u m P \<longleftrightarrow> (\<forall>w. wpre m (\<lambda>a w'. P a \<and> clients w' = clients w \<and>
     (\<exists>evs. hist w' = hist w @ evs \<and> set (written evs) \<subseteq> set (conns_of (clients w) u))) w)"

named_theorems tells "who a computation writes to"

lemma written_append [simp]: "written (xs @ ys) = written xs @ written ys" "written [] = []"
  "written (e # evs) = written_to e @ written evs"
  by (simp_all add: written_def)

lemma tells_ret [tells]: "P a \<Longrightarrow> tells u (ret a) P"
  by (simp add: tells_def wp)

lemma tells_ask: "(\<And>a. written_to (ev a) = []) \<Longrightarrow> (\<And>h. P (f h)) \<Longrightarrow> tells u (ask f ev) P"
  by (simp add: tells_def wp)

lemma tells_bind:
  assumes "tells u m P" and "\<And>a. P a \<Longrightarrow> tells u (f a) Q"
  shows "tells u (State_Monad.bind m f) Q"
  unfolding tells_def wp
proof
  fix w
  have "wpre m (\<lambda>a w'. P a \<and> clients w' = clients w \<and>
     (\<exists>evs. hist w' = hist w @ evs \<and> set (written evs) \<subseteq> set (conns_of (clients w) u))) w"
    using assms(1) by (simp add: tells_def)
  then show "wpre m (\<lambda>a. wpre (f a) (\<lambda>b w'. Q b \<and> clients w' = clients w \<and>
     (\<exists>evs. hist w' = hist w @ evs \<and> set (written evs) \<subseteq> set (conns_of (clients w) u)))) w"
  proof (rule wpre_mono, elim conjE exE)
    fix a evs and w1 :: world
    assume "P a" and w1: "clients w1 = clients w" "hist w1 = hist w @ evs" "set (written evs) \<subseteq> set (conns_of (clients w) u)"
    have "wpre (f a) (\<lambda>b w'. Q b \<and> clients w' = clients w1 \<and>
       (\<exists>evs. hist w' = hist w1 @ evs \<and> set (written evs) \<subseteq> set (conns_of (clients w1) u))) w1"
      using assms(2) [OF \<open>P a\<close>] unfolding tells_def by blast
    then show "wpre (f a) (\<lambda>b w'. Q b \<and> clients w' = clients w \<and>
       (\<exists>evs. hist w' = hist w @ evs \<and> set (written evs) \<subseteq> set (conns_of (clients w) u))) w1"
      by (rule wpre_mono) (use w1 in auto)
  qed
qed

lemma tells_if [tells]: "(b \<Longrightarrow> tells u m P) \<Longrightarrow> (\<not> b \<Longrightarrow> tells u n P) \<Longrightarrow> tells u (if b then m else n) P"
  by simp

lemma tells_sum [tells]:
  "(\<And>e. r = Inl e \<Longrightarrow> tells u (f e) P) \<Longrightarrow> (\<And>a. r = Inr a \<Longrightarrow> tells u (g a) P) \<Longrightarrow>
   tells u (case r of Inl e \<Rightarrow> f e | Inr a \<Rightarrow> g a) P"
  by (cases r) simp_all

lemma tells_option [tells]:
  "(r = None \<Longrightarrow> tells u m P) \<Longrightarrow> (\<And>a. r = Some a \<Longrightarrow> tells u (g a) P) \<Longrightarrow>
   tells u (case r of None \<Rightarrow> m | Some a \<Rightarrow> g a) P"
  by (cases r) simp_all

text \<open>A computation that writes to nobody and leaves the registry alone tells nobody.\<close>

lemma tells_seq [tells]: "tells u m (\<lambda>_. True) \<Longrightarrow> (\<And>a. tells u (f a) Q) \<Longrightarrow> tells u (State_Monad.bind m f) Q"
  by (rule tells_bind)

lemma tells_send: "tells u (SendMessgeToOwner E u msg) (\<lambda>_. True)"
proof -
  have "written evs = cs" if "list_all2 (\<lambda>c e. \<exists>r. e = EvWriteJSON c msg r) cs evs" for cs evs
    using that by (induction rule: list_all2_induct) (auto simp: written_to_def)
  then show ?thesis unfolding tells_def by (auto intro!: wpre_send)
qed

lemma tells_notify [tells]:
  "OwnerID s = u \<Longrightarrow> tells u (notifyUpdate E S s) (\<lambda>_. True)"
  "OwnerID s = u \<Longrightarrow> tells u (notifyComplete E S s) (\<lambda>_. True)"
  by (auto simp: notifyUpdate_def notifyComplete_def intro!: tells tells_send)

lemma tells_silent [tells]:
  "tells u (recordEvent E S s k p) (\<lambda>_. True)" "tells u (storage_Delete E b key) (\<lambda>_. True)"
  "tells u (report_event E S q s) (\<lambda>_. True)"
  unfolding recordEvent_def RecordActivityEvent_def NewActivityEventTask_def prod.case storage_Delete_def report_event_def
  by (auto intro!: tells tells_ask simp: written_to_def Let_def)

lemma tells_repo_Update: "tells u (repo_Update E s) (\<lambda>(r, s'). OwnerID s' = OwnerID s)"
  unfolding tells_def repo_Update_def gorm_Save_def run_BeforeUpdate_def
  by (auto simp: wp BeforeUpdate_def written_to_def split: sum.split option.split)

lemma told_after_read:
  assumes "db_First E (hist w) i = Inr s" and "tells u (k (Inr s)) (\<lambda>_. True)"
  shows "told (State_Monad.bind (repo_Read E i) k) w u"
proof -
  have "wpre (State_Monad.bind (repo_Read E i) k) (\<lambda>_ w'. set (written (trace w w')) \<subseteq> set (conns_of (clients w) u)) w"
    using assms unfolding tells_def
    by (auto simp: wp repo_Read_def trace_def written_to_def elim!: allE [of _ "w\<lparr>hist := hist w @ [EvDbFirst i (Inr s)]\<rparr>"] wpre_mono)
  from wpre_result [OF this] show ?thesis by (simp add: told_def)
qed

text \<open>The owner of a stream survives the edits between the read and the save.\<close>

lemma apply_edits_owner: "apply_edits req s = Inr s' \<Longrightarrow> OwnerID s' = OwnerID s"
  by (auto simp: apply_edits_def edit_title_def setStreamRotation_def Let_def split: option.splits sum.splits if_splits)

lemma SetTaskProgress_owner: "SetTaskProgress k p st e j s = Inr s' \<Longrightarrow> OwnerID s' = OwnerID s"
  by (auto simp: SetTaskProgress_def SetInitialTasks_def split: sum.splits)

lemma tells_saved [tells]:
  assumes "\<And>r s'. OwnerID s' = OwnerID s \<Longrightarrow> tells u (k r s') P"
  shows "tells u (State_Monad.bind (repo_Update E s) (\<lambda>(r, s'). k r s')) P"
  by (rule tells_bind [OF tells_repo_Update]) (auto intro: assms)

lemma told_UpdateStream: "db_First E (hist w) i = Inr s \<Longrightarrow> told (UpdateStream E S i ureq) w (OwnerID s)"
  unfolding UpdateStream_def
  by (rule told_after_read, assumption) (auto intro!: tells dest: apply_edits_owner)

lemma told_publication:
  assumes "db_First E (hist w) i = Inr s"
  shows "told (PublishStream E S i) w (OwnerID s)" "told (UnpublishStream E S i) w (OwnerID s)"
  unfolding PublishStream_def UnpublishStream_def
  by (rule told_after_read [OF assms]; auto intro!: tells)+

lemma apply_report_owner [simp]: "OwnerID (apply_report q s) = OwnerID s"
  by (simp add: apply_report_def Let_def)

lemma SetMetadata_owner [simp]: "OwnerID (SetMetadata m s) = OwnerID s"
  by (simp add: SetMetadata_def)

lemma told_UpdateStreamStatus:
  assumes "db_First E (hist w) i = Inr s"
  shows "told (UpdateStreamStatus E S i st) w (OwnerID s)"
  unfolding UpdateStreamStatus_def
  by (rule told_after_read [OF assms]) (auto intro!: tells)

lemma told_UpdateStreamMetadata:
  assumes "db_First E (hist w) (Meta_StreamUUID mreq) = Inr s"
  shows "told (UpdateStreamMetadata E S mreq) w (OwnerID s)"
  unfolding UpdateStreamMetadata_def
  by (rule told_after_read [OF assms]) (auto intro!: tells)

lemma told_UpdateStreamProcessing:
  assumes "db_First E (hist w) (Proc_StreamUUID preq) = Inr s"
  shows "told (UpdateStreamProcessing E S preq) w (OwnerID s)"
  unfolding UpdateStreamProcessing_def Let_def
  by (rule told_after_read [OF assms]) (auto intro!: tells dest: SetTaskProgress_owner)

lemmas told_operations = told_UpdateStream told_publication told_UpdateStreamStatus told_UpdateStreamMetadata
  told_UpdateStreamProcessing

lemma publish_tells_all:
  assumes "db_First E (hist w) i = Inr s"
  shows "result_of (PublishStream E S i) w = None \<and> HasHub S \<Longrightarrow>
    written (trace w (after (PublishStream E S i) w)) = conns_of (clients w) (OwnerID s)"
proof -
  have evs: "written evs = cs" if "list_all2 (\<lambda>c e. \<exists>r. e = EvWriteJSON c msg r) cs evs" for cs evs msg
    using that by (induction rule: list_all2_induct) (auto simp: written_to_def)
  have silent: "wpre (recordEvent E S v k p) Q w0"
    if "\<And>r w' es. hist w' = hist w0 @ es \<Longrightarrow> written es = [] \<Longrightarrow> Q r w'" for v k p Q and w0 :: world
    by (rule wpre_tail [where A = "\<lambda>e. written_to e = []"])
      (auto intro!: emits that simp: written_def list_all_iff written_to_def)
  have "wpre (PublishStream E S i) (\<lambda>r w'. r = None \<and> HasHub S \<longrightarrow>
    written (trace w w') = conns_of (clients w) (OwnerID s)) w"
    unfolding PublishStream_def repo_Read_def repo_Update_def gorm_Save_def run_BeforeUpdate_def notifyComplete_def
    using assms by (auto simp: wp BeforeUpdate_def written_to_def trace_def evs intro!: wpre_send silent
        split: sum.split option.split)
  from wpre_result [OF this] show "result_of (PublishStream E S i) w = None \<and> HasHub S \<Longrightarrow>
    written (trace w (after (PublishStream E S i) w)) = conns_of (clients w) (OwnerID s)" by blast
qed

section \<open>Properties\<close>

text \<open>
  C10: An HLS file is read from the store, or answered with success, only when the stream of the request
  exists and the viewer may watch it: anybody when it is published and not private, otherwise its owner,
  whose id the middleware took from a valid token.
\<close>

theorem hls_watch_policy:
  assumes "list_ex reads_object (trace w (after (GetHLS E S fuel c f) w)) \<or>
    result_of (GetHLS E S fuel c f) w = Some (Returns \<lparr>Code = 200, Body = b\<rparr>)"
  shows "\<exists>i s. uuid_Parse E (Param_id c) = Inr i \<and> db_First E (hist w) i = Inr s \<and> watch_policy (viewer c) s"
  using wpre_result [OF GetHLS_spec [of E S fuel c f w b]] assms by blast

text \<open>A request for a file of the stream 1, which the reference environment lets anybody watch once it is published.\<close>

definition watch_env :: env where
  "watch_env = ref_env\<lparr>db_First := \<lambda>h i. Inr (ref_row\<lparr>Status := StatusPublished, Visibility := VisibilityPublic\<rparr>),
     s3_GetObject := \<lambda>h b k. Inr \<lparr>ObjStat = Inr 4, ObjData = ''data'', ObjReadErr = None\<rparr>\<rparr>"

definition anonymous :: "string \<Rightarrow> ctx" where
  "anonymous i = \<lparr>Param_id = i, User = NoUser, Claims = None\<rparr>"

theorem hls_watch_policy_witness:
  "list_ex reads_object (trace ref_world (after (GetHLS watch_env ref_service 8 (anonymous ''u1'') ''master.m3u8'') ref_world)) \<and>
   (\<exists>i s. uuid_Parse watch_env (Param_id (anonymous ''u1'')) = Inr i \<and> db_First watch_env (hist ref_world) i = Inr s \<and>
     watch_policy (viewer (anonymous ''u1'')) s)"
proof -
  have "list_ex reads_object (trace ref_world (after (GetHLS watch_env ref_service 8 (anonymous ''u1'') ''master.m3u8'') ref_world))"
    by code_simp
  with hls_watch_policy [OF disjI1, OF this] show ?thesis by blast
qed

text \<open>
  C34: The public list shows published public streams only, and the list of a user only the user's own, and
  in pages of at most 100 rows: every query and every count the handlers send carries these conditions,
  whatever the parameters of the request.
\<close>

theorem lists_confined:
  "list_all (public_query) (trace w (after (ListStreamPublic E p) w)) \<and>
   list_all (own_query u) (trace w (after (ListStreamOwner E (c\<lparr>User := UserUUID u\<rparr>) p) w))"
proof -
  have "emits public_query (ListStreamPublic E p)"
    unfolding ListStreamPublic_def reply_def
    by (cases "public_filter p") (auto intro!: emits emits_ListStreams public_filter_query)
  moreover have "emits (own_query u) (ListStreamOwner E (c\<lparr>User := UserUUID u\<rparr>) p)"
    unfolding ListStreamOwner_def ListUserStreams_def must_user_def reply_def
    by (cases "owner_filter p") (auto intro!: emits emits_ListStreams owner_filter_query)
  ultimately show ?thesis using emits_trace [OF _ run_result] by blast
qed

text \<open>
  C28: Publishing and taking back a publication are for the owner and for administrators: a request that
  has any effect names a stream that exists, and its user owns it or carries the role \<open>admin\<close> in the token.
\<close>

theorem publication_by_owner_or_admin:
  assumes "list_ex is_effect (trace w (after (http_PublishStream E S c) w)) \<or>
    list_ex is_effect (trace w (after (http_UnpublishStream E S c) w))"
  shows "\<exists>i s u. uuid_Parse E (Param_id c) = Inr i \<and> db_First E (hist w) i = Inr s \<and>
    User c = UserUUID u \<and> (OwnerID s = u \<or> isAdmin c)"
proof -
  have any: "wpre (PublishStream E S i) Q v" "wpre (UnpublishStream E S i) Q v" if "\<And>r w'. Q r w'" for i Q v
    by (rule wpreI, rule that)+
  have "wpre (http_PublishStream E S c) (\<lambda>r w'. list_ex is_effect (trace w w') \<longrightarrow> may_publish E c w) w"
    "wpre (http_UnpublishStream E S c) (\<lambda>r w'. list_ex is_effect (trace w w') \<longrightarrow> may_publish E c w) w"
    unfolding http_PublishStream_def http_UnpublishStream_def must_user_def with_id_def reply_def may_publish_def
    by (auto simp: wp metric_def is_effect_def trace_def intro!: wpre_mono [OF GetStream_spec] any
        split: sum.split option.split user_value.split)
  from this [THEN wpre_result] show ?thesis using assms unfolding may_publish_def by blast
qed

definition admin :: ctx where
  "admin = \<lparr>Param_id = ''u1'', User = UserUUID 9, Claims = Some \<lparr>Claim_UserID = ''u9'', Claim_Role = ''admin'',
     Claim_Email = [], Claim_EmailVerified = True\<rparr>\<rparr>"

theorem publication_by_owner_or_admin_witness:
  "\<exists>i s u. uuid_Parse watch_env (Param_id admin) = Inr i \<and> db_First watch_env (hist ref_world) i = Inr s \<and>
    User admin = UserUUID u \<and> OwnerID s \<noteq> u \<and> isAdmin admin"
proof -
  have "list_ex is_effect (trace ref_world (after (http_UnpublishStream watch_env ref_service admin) ref_world))"
    by code_simp
  from publication_by_owner_or_admin [OF disjI2, OF this]
  show ?thesis by (auto simp: watch_env_def admin_def ref_row_def new_stream_def ref_create_def isAdmin_def)
qed

text \<open>
  A websocket leaves nothing behind: however the registry changes while it is open, the connection is
  not registered for the user once the handler returns, so no message is sent to it again; and when
  nothing else changes, the registry is as before. Assumed: a new connection is not registered yet, and the
  rest of the program keeps the registry's invariant.
\<close>

theorem websocket_leaves_nothing:
  assumes "hub_invar (clients w)" and "\<forall>v. c \<notin> set (conns_of (clients w) v)"
    and session: "\<And>v. hub_invar (clients v) \<Longrightarrow> hub_invar (clients (after session v))"
    and "Upgrade (checkOrigin H) = (resp, Some c)" and "HandlerHub H"
  shows "c \<notin> set (conns_of (clients (after (HandleWS H u Upgrade session) w)) u) \<and>
    ((\<forall>v. clients (after session v) = clients v) \<longrightarrow>
       conns_of (clients (after (HandleWS H u Upgrade session) w)) = conns_of (clients w))"
proof -
  let ?opened = "w\<lparr>clients := hub_register u c (clients w)\<rparr>"
  have final: "clients (after (HandleWS H u Upgrade session) w) = hub_unregister u c (clients (after session ?opened))"
    using assms(4,5) by (simp add: HandleWS_def hub_Register_def hub_Unregister_def after_def split: prod.split)
  have "hub_invar (clients (after session ?opened))"
    using session [of ?opened] assms(1,2) by (simp add: hub.invar_register)
  then show ?thesis
    using final hub.unregister_removes hub.unregister_register [OF assms(1,2)] by auto
qed

theorem websocket_leaves_nothing_witness:
  "conns_of (clients (after (HandleWS (NewStreamHandler ref_service True) 7
     (\<lambda>check. (\<lparr>Code = 101, Body = NoBody\<rparr>, if check ''https://example.com'' then Some 3 else None)) (ret ())) ref_world)) =
     conns_of (clients ref_world)"
  using websocket_leaves_nothing [of ref_world 3 "ret ()"
      "\<lambda>check. (\<lparr>Code = 101, Body = NoBody\<rparr>, if check ''https://example.com'' then Some 3 else None)"
      "NewStreamHandler ref_service True" "\<lparr>Code = 101, Body = NoBody\<rparr>" 7]
  by (simp add: ref_world_def hub_invar_def conns_of_def after_def checkOrigin_def NewStreamHandler_def
      NewStreamHandlerWithOrigins_def default_origin_list_def)

text \<open>
  The loop that takes a connection out of a user's slice, which shifts the slice in place while it goes
  on over it, refines the abstract operation: on a registry without duplicates it removes exactly that
  connection of that user and keeps all others in their order, and the registry stays without duplicates
  and without empty entries.
\<close>

theorem unregister_refines_remove:
  assumes "hub_invar m"
  shows "conns_of (hub_unregister u c m) = (conns_of m)(u := remove1 c (conns_of m u)) \<and> hub_invar (hub_unregister u c m)"
  using hub.conns_unregister [OF assms] hub.invar_unregister [OF assms] by blast

theorem unregister_refines_remove_witness:
  "conns_of (hub_unregister 7 4 [7 \<mapsto> [3, 4, 5]]) 7 = [3, 5]"
proof -
  have "hub_invar [7 \<mapsto> [3, 4, 5]]" by (simp add: hub_invar_def conns_of_def)
  from unregister_refines_remove [OF this, of 7 4] show ?thesis by (simp add: conns_of_def)
qed


text \<open>Two connections of the owner of the stream 1 and one of somebody else.\<close>

definition busy_world :: world where
  "busy_world = ref_world\<lparr>clients := [7 \<mapsto> [3, 4], 8 \<mapsto> [5]]\<rparr>"


end
