(* ===== verification/Routes.thy ===== *)
theory Routes
  imports HttpMedia
begin

text \<open>
  How the parts are put together: \<open>http/routes/routes.go\<close> (the table of routes with their guards, and
  the queues), \<open>internal/service/token_service.go\<close> and the setup in \<open>cmd/server/main.go\<close>. The
  middleware and the permission client of the identity service, the JWT library, the HTTP client and the
  TLS files are parameters.
\<close>

section \<open>Tokens\<close>

datatype signing_method = SigningMethodRSA | OtherSigning string

text \<open>What \<open>jwt.ParseWithClaims\<close> gives: the method named in the header, the claims and whether it is valid.\<close>

datatype claims_value = AccessClaimsValue AccessClaims | OtherClaims

record jwt_token =
  Tok_Method :: signing_method
  Tok_Claims :: claims_value
  Tok_Valid :: bool

text \<open>The service keeps the key the PEM parser made of the downloaded text, nil when it failed.\<close>

record 'k token_service =
  accessPublicKey :: "'k option"

record http_answer =
  StatusCode :: int
  AnswerBody :: "goerr + string"

text \<open>The warning sign and the blank that start the error texts, in UTF-8.\<close>

definition warning_sign :: string where
  "warning_sign = [CHR 0xE2, CHR 0x9A, CHR 0xA0, CHR 0xEF, CHR 0xB8, CHR 0x8F, CHR '' '']"

definition NewTokenService ::
  "(string \<Rightarrow> goerr + unit) \<Rightarrow> (string \<Rightarrow> goerr + http_answer) \<Rightarrow> (string \<Rightarrow> 'k option) \<Rightarrow> string \<Rightarrow>
   goerr + 'k token_service" where
  "NewTokenService new_request do_request parse_pem url =
    (if url = [] then Inl (Errorf (warning_sign @ ''Error Token Service. JWT_ACCESS_PUBLIC_KEY_URL not set''))
     else (case new_request url of
       Inl err \<Rightarrow> Inl (Wrapf (warning_sign @ ''Error getting access public key: '') err [])
     | Inr _ \<Rightarrow>
         (case do_request url of
            Inl err \<Rightarrow> Inl (Wrapf (warning_sign @ ''Error getting access public key: '') err [])
          | Inr resp \<Rightarrow>
              if StatusCode resp \<noteq> 200 then
                Inl (Errorf (warning_sign @ ''Error getting access public key. Invalid status codo: '' @ Itoa (StatusCode resp)))
              else (case AnswerBody resp of
                Inl err \<Rightarrow> Inl (Wrapf (warning_sign @ ''Error getting access public key: '') err [])
              | Inr pem \<Rightarrow> Inr \<lparr>accessPublicKey = parse_pem pem\<rparr>))))"

text \<open>The callback of the parser: the key for an RSA method, an error for every other method.\<close>

definition key_for :: "'k token_service \<Rightarrow> signing_method \<Rightarrow> goerr + 'k option" where
  "key_for s mth = (case mth of
     SigningMethodRSA \<Rightarrow> Inr (accessPublicKey s)
   | OtherSigning alg \<Rightarrow> Inl (Errorf (''unexpected signing method: '' @ alg)))"

definition ValidateAccessToken ::
  "((signing_method \<Rightarrow> goerr + 'k option) \<Rightarrow> string \<Rightarrow> goerr + jwt_token) \<Rightarrow> 'k token_service \<Rightarrow> string \<Rightarrow>
   goerr + AccessClaims" where
  "ValidateAccessToken ParseWithClaims s tokenString =
    (case ParseWithClaims (key_for s) tokenString of
       Inl err \<Rightarrow> Inl err
     | Inr token \<Rightarrow>
         (case Tok_Claims token of
            AccessClaimsValue claims \<Rightarrow>
              if Tok_Valid token then Inr claims else Inl (Errorf (warning_sign @ ''Error invalid token''))
          | OtherClaims \<Rightarrow> Inl (Errorf (warning_sign @ ''Error invalid token''))))"

section \<open>Queues\<close>

record redis_opt =
  Opt_Addr :: string
  Opt_Password :: string
  Opt_DB :: int

text \<open>The Redis database each asynq client of the service is connected to.\<close>

definition queue_redis :: "Config \<Rightarrow> queue_client \<Rightarrow> redis_opt" where
  "queue_redis cfg client =
    \<lparr>Opt_Addr = RedisAddr (CfgRedis cfg), Opt_Password = RedisPassword (CfgRedis cfg),
     Opt_DB = (case client of TaskClient \<Rightarrow> 2 | CascadeClient \<Rightarrow> 2
       | EventsClient \<Rightarrow> EventsQueueDB (CfgRedis cfg) | ExportClient \<Rightarrow> ExportQueueDB (CfgRedis cfg))\<rparr>"

section \<open>The table of routes\<close>

datatype verb = GET | POST | PUT | PATCH | DELETE

datatype guard = WSAuth | OptionalAuth | Auth | Authorize string string

datatype handler =
    H_Health | H_Metrics | H_ListStreamPublic | H_GetStream | H_GetStreamStatus | H_DownloadStream
  | H_GetHLS | H_HandleWS | H_ListStreamOwner | H_CreateStream | H_UpdateStream | H_DeleteStream
  | H_PublishStream | H_UnpublishStream | H_ReprocessStream | H_ProcessFacesBatch | H_ProcessFacesStream
  | H_GetExport | H_RequestExport | H_UploadVideo | H_InitUpload | H_PartUpload | H_CompleteUpload

instantiation handler :: enum
begin

definition enum_handler :: "handler list" where
  "enum_handler = [H_Health, H_Metrics, H_ListStreamPublic, H_GetStream, H_GetStreamStatus, H_DownloadStream,
     H_GetHLS, H_HandleWS, H_ListStreamOwner, H_CreateStream, H_UpdateStream, H_DeleteStream,
     H_PublishStream, H_UnpublishStream, H_ReprocessStream, H_ProcessFacesBatch, H_ProcessFacesStream,
     H_GetExport, H_RequestExport, H_UploadVideo, H_InitUpload, H_PartUpload, H_CompleteUpload]"

definition enum_all_handler :: "(handler \<Rightarrow> bool) \<Rightarrow> bool" where
  "enum_all_handler P = list_all P Enum.enum"

definition enum_ex_handler :: "(handler \<Rightarrow> bool) \<Rightarrow> bool" where
  "enum_ex_handler P = list_ex P Enum.enum"

instance
proof
  have U: "UNIV = set (Enum.enum :: handler list)"
  proof (rule UNIV_eq_I)
    show "h \<in> set (Enum.enum :: handler list)" for h by (cases h) (simp_all add: enum_handler_def)
  qed
  show "UNIV = set (Enum.enum :: handler list)" by (rule U)
  show "distinct (Enum.enum :: handler list)" by (simp add: enum_handler_def)
  show "Enum.enum_all P = Ball UNIV P" for P :: "handler \<Rightarrow> bool"
    using U by (simp add: enum_all_handler_def list_all_iff)
  show "Enum.enum_ex P = Bex UNIV P" for P :: "handler \<Rightarrow> bool"
    using U by (simp add: enum_ex_handler_def list_ex_iff)
qed

end

record route =
  Rt_Verb :: verb
  Rt_Path :: string
  Rt_Guards :: "guard list"
  Rt_Handler :: handler

definition rt :: "verb \<Rightarrow> string \<Rightarrow> guard list \<Rightarrow> handler \<Rightarrow> route" where
  "rt v p gs h = \<lparr>Rt_Verb = v, Rt_Path = p, Rt_Guards = gs, Rt_Handler = h\<rparr>"

definition public_routes :: "route list" where
  "public_routes =
    [rt GET ''/stream/health'' [] H_Health,
     rt GET ''/metrics'' [] H_Metrics,
     rt GET ''/stream'' [] H_ListStreamPublic,
     rt GET ''/stream/:id'' [OptionalAuth] H_GetStream,
     rt GET ''/stream/:id/status'' [] H_GetStreamStatus,
     rt GET ''/stream/:id/download'' [Auth] H_DownloadStream,
     rt GET ''/stream/:id/hls/*file'' [OptionalAuth] H_GetHLS,
     rt GET ''/stream/ws/updates'' [WSAuth] H_HandleWS]"

abbreviation may_read :: guard where "may_read \<equiv> Authorize ''stream'' ''read''"
abbreviation may_write :: guard where "may_write \<equiv> Authorize ''stream'' ''write''"
abbreviation may_delete :: guard where "may_delete \<equiv> Authorize ''stream'' ''delete''"

text \<open>A route of the group: its path is below \<open>/stream\<close> and the guards of the group come first.\<close>

definition in_group :: "route \<Rightarrow> route" where
  "in_group r = r\<lparr>Rt_Path := ''/stream'' @ Rt_Path r, Rt_Guards := [Auth, may_read] @ Rt_Guards r\<rparr>"

definition auth_group :: "route list" where
  "auth_group = map in_group
    [rt GET ''/own'' [] H_ListStreamOwner,
     rt POST ''/'' [] H_CreateStream,
     rt PATCH ''/:id'' [may_write] H_UpdateStream,
     rt DELETE ''/:id'' [may_delete] H_DeleteStream,
     rt POST ''/:id/publish'' [may_write] H_PublishStream,
     rt POST ''/:id/unpublish'' [may_write] H_UnpublishStream,
     rt POST ''/:id/reprocess'' [may_write] H_ReprocessStream,
     rt POST ''/faces/batch'' [] H_ProcessFacesBatch,
     rt POST ''/:id/faces'' [may_write] H_ProcessFacesStream,
     rt GET ''/:id/export'' [] H_GetExport,
     rt POST ''/:id/export'' [may_write] H_RequestExport,
     rt POST ''/:id/upload'' [may_write] H_UploadVideo,
     rt POST ''/:id/upload/init'' [may_write] H_InitUpload,
     rt PUT ''/:id/upload/part'' [may_write] H_PartUpload,
     rt POST ''/:id/upload/complete'' [may_write] H_CompleteUpload]"

definition route_table :: "route list" where
  "route_table = public_routes @ auth_group"

text \<open>Every handler has exactly one route, and no two routes have the same verb and path.\<close>

lemma routes_total: "\<forall>h. \<exists>r. filter (\<lambda>r. Rt_Handler r = h) route_table = [r]"
proof -
  have "\<forall>h. length (filter (\<lambda>r. Rt_Handler r = h) route_table) = 1" by code_simp
  then show ?thesis by (auto simp: length_Suc_conv)
qed

lemma routes_unambiguous: "distinct (map (\<lambda>r. (Rt_Verb r, Rt_Path r)) route_table)"
  by code_simp

section \<open>Serving a request\<close>

text \<open>
  What a request carries, as the handlers read it: headers, the query, and for each handler the bound
  body. \<open>R_Session\<close> is what the rest of the program does while the websocket is open.
\<close>

record http_request =
  R_id :: string
  R_Authorization :: string
  R_Protocol :: string
  R_File :: string
  R_Query :: list_params
  R_Create :: "CreateStreamBody option"
  R_Update :: "UpdateStreamRequest option"
  R_Form :: "(string \<times> FileHeader) option"
  R_Start :: "StartUploadBody option"
  R_PartBody :: "UploadPartBody option"
  R_Parts :: "MultipartPart list option"
  R_Faces :: "uuid list option"
  R_Origin :: string
  R_Session :: "unit io"

text \<open>
  The middleware of the identity service, given the token service: it answers the request itself or
  passes it on with a context. The permission client is asked over the network, so its answer may
  depend on what happened before. \<open>Upgrade\<close> is the websocket upgrader, given the check of the origin. \<open>DbHandle\<close> is the answer of \<open>db.DB()\<close>, \<open>MetricsPage\<close> what the
  Prometheus handler gives.
\<close>

record middlewares =
  TokenValidate :: "string \<Rightarrow> goerr + AccessClaims"
  AuthMiddleware :: "(string \<Rightarrow> goerr + AccessClaims) \<Rightarrow> http_request \<Rightarrow> ctx \<Rightarrow> http_response + ctx"
  OptionalAuthMiddleware :: "(string \<Rightarrow> goerr + AccessClaims) \<Rightarrow> http_request \<Rightarrow> ctx \<Rightarrow> http_response + ctx"
  AuthorizeMiddleware :: "history \<Rightarrow> string \<Rightarrow> string \<Rightarrow> http_request \<Rightarrow> ctx \<Rightarrow> http_response + ctx"
  Upgrade :: "(string \<Rightarrow> bool) \<Rightarrow> http_request \<Rightarrow> http_response \<times> conn option"
  DbHandle :: "goerr option"
  MetricsPage :: http_response

definition run_guard :: "env \<Rightarrow> middlewares \<Rightarrow> history \<Rightarrow> guard \<Rightarrow> http_request \<Rightarrow> ctx \<Rightarrow> http_response + ctx" where
  "run_guard E M h g r c = (case g of
     WSAuth \<Rightarrow> WSProtocolAuth (TokenValidate M) (uuid_Parse E) (R_Protocol r) c
   | OptionalAuth \<Rightarrow> OptionalAuthMiddleware M (TokenValidate M) r c
   | Auth \<Rightarrow> AuthMiddleware M (TokenValidate M) r c
   | Authorize obj act \<Rightarrow> AuthorizeMiddleware M h obj act r c)"

text \<open>The guards run in order; the first that answers ends the request.\<close>

fun run_guards :: "env \<Rightarrow> middlewares \<Rightarrow> history \<Rightarrow> guard list \<Rightarrow> http_request \<Rightarrow> ctx \<Rightarrow> http_response + ctx" where
  "run_guards E M h [] r c = Inr c"
| "run_guards E M h (g # gs) r c =
    (case run_guard E M h g r c of Inl resp \<Rightarrow> Inl resp | Inr c' \<Rightarrow> run_guards E M h gs r c')"

definition health :: "goerr option \<Rightarrow> http_response" where
  "health dbErr = (case dbErr of
     Some err \<Rightarrow> \<lparr>Code = 503, Body = MessageBody [(''status'', ''down''), (''error'', Error_text err)]\<rparr>
   | None \<Rightarrow> \<lparr>Code = 200, Body = MessageBody [(''status'', ''up'')]\<rparr>)"

definition finished :: "http_response outcome io \<Rightarrow> http_response outcome option io" where
  "finished m = do { r \<leftarrow> m; ret (Some r) }"

definition run_handler ::
  "env \<Rightarrow> StreamHandler \<Rightarrow> nat \<Rightarrow> middlewares \<Rightarrow> handler \<Rightarrow> http_request \<Rightarrow> ctx \<Rightarrow> http_response outcome option io" where
  "run_handler E H fuel M hnd r c = (let S = HandlerService H in case hnd of
     H_Health \<Rightarrow> ret (Some (Returns (health (DbHandle M))))
   | H_Metrics \<Rightarrow> ret (Some (Returns (MetricsPage M)))
   | H_ListStreamPublic \<Rightarrow> finished (ListStreamPublic E (R_Query r))
   | H_GetStream \<Rightarrow> finished (http_GetStream E c)
   | H_GetStreamStatus \<Rightarrow> finished (http_GetStreamStatus E c)
   | H_DownloadStream \<Rightarrow> finished (DownloadStream E S c)
   | H_GetHLS \<Rightarrow> GetHLS E S fuel c (R_File r)
   | H_HandleWS \<Rightarrow> finished (must_user c (\<lambda>u. do {
       resp \<leftarrow> HandleWS H u (\<lambda>check. Upgrade M check r) (R_Session r);
       ret (Returns resp) }))
   | H_ListStreamOwner \<Rightarrow> finished (ListStreamOwner E c (R_Query r))
   | H_CreateStream \<Rightarrow> finished (http_CreateStream E S c (R_Create r))
   | H_UpdateStream \<Rightarrow> finished (http_UpdateStream E S c (R_Update r))
   | H_DeleteStream \<Rightarrow> finished (http_DeleteStream E S c)
   | H_PublishStream \<Rightarrow> finished (http_PublishStream E S c)
   | H_UnpublishStream \<Rightarrow> finished (http_UnpublishStream E S c)
   | H_ReprocessStream \<Rightarrow> finished (http_ReprocessStream E S c)
   | H_ProcessFacesBatch \<Rightarrow> finished (http_ProcessFacesBatch E S c (R_Faces r))
   | H_ProcessFacesStream \<Rightarrow> finished (http_ProcessFacesStream E S c)
   | H_GetExport \<Rightarrow> finished (GetExport E c)
   | H_RequestExport \<Rightarrow> finished (RequestExport E c)
   | H_UploadVideo \<Rightarrow> finished (http_UploadVideo E S c (R_Form r))
   | H_InitUpload \<Rightarrow> finished (InitUpload E S c (R_Start r))
   | H_PartUpload \<Rightarrow> finished (PartUpload E S c (R_PartBody r))
   | H_CompleteUpload \<Rightarrow> finished (CompleteUpload E S c (R_Parts r)))"

definition new_ctx :: "http_request \<Rightarrow> ctx" where
  "new_ctx r = \<lparr>Param_id = R_id r, User = NoUser, Claims = None\<rparr>"

definition get_history :: "history io" where
  "get_history = State (\<lambda>w. (hist w, w))"

lemma wpre_get_history [wp]: "wpre get_history Q w = Q (hist w) w"
  by (simp add: wpre_def get_history_def)

definition serve ::
  "env \<Rightarrow> StreamHandler \<Rightarrow> nat \<Rightarrow> middlewares \<Rightarrow> route \<Rightarrow> http_request \<Rightarrow> http_response outcome option io" where
  "serve E H fuel M route r = do {
     h \<leftarrow> get_history;
     case run_guards E M h (Rt_Guards route) r (new_ctx r) of
       Inl resp \<Rightarrow> ret (Some (Returns resp))
     | Inr c \<Rightarrow> run_handler E H fuel M (Rt_Handler route) r c
   }"

section \<open>Starting the server\<close>

datatype credentials = Insecure | ClientTLS string string string string

text \<open>
  The connection to the identity service: \<open>load\<close> reads the three files, \<open>dial\<close> is the identity service's
  constructor of a permission client, with or without TLS.
\<close>

definition newPermissionClient ::
  "(string \<Rightarrow> string \<Rightarrow> string \<Rightarrow> string \<Rightarrow> goerr option) \<Rightarrow> (string \<Rightarrow> credentials \<Rightarrow> goerr option) \<Rightarrow> Config \<Rightarrow>
   goerr + string \<times> credentials" where
  "newPermissionClient load dial cfg =
    (let s = CfgServer cfg;
         client = (\<lambda>creds. case dial (AuthServiceAddr s) creds of
            Some err \<Rightarrow> Inl err
          | None \<Rightarrow> Inr (AuthServiceAddr s, creds))
     in if \<not> GRPCTLSEnabled s then client Insecure
        else (case load (GRPCTLSCertFile s) (GRPCTLSKeyFile s) (GRPCTLSCAFile s) ''identity-service'' of
          Some err \<Rightarrow> Inl err
        | None \<Rightarrow> client (ClientTLS (GRPCTLSCertFile s) (GRPCTLSKeyFile s) (GRPCTLSCAFile s) ''identity-service'')))"

datatype grpc_option = ServerTLS string string string | AllowOUs "string list"

definition grpc_options :: "(string \<Rightarrow> string \<Rightarrow> string \<Rightarrow> goerr option) \<Rightarrow> Config \<Rightarrow> goerr + grpc_option list" where
  "grpc_options load cfg =
    (let s = CfgServer cfg in
     if GRPCTLSEnabled s then
       (case load (GRPCTLSCertFile s) (GRPCTLSKeyFile s) (GRPCTLSCAFile s) of
          Some cerr \<Rightarrow> Inl cerr
        | None \<Rightarrow> Inr (ServerTLS (GRPCTLSCertFile s) (GRPCTLSKeyFile s) (GRPCTLSCAFile s) #
            (if GRPCTLSAllowedOUs s \<noteq> [] then [AllowOUs (GRPCTLSAllowedOUs s)] else [])))
     else Inr [])"

end
