(* ===== verification/RouteProperties.thy ===== *)
theory RouteProperties
  imports Routes System
begin

text \<open>
  What the routing adds: which requests can change anything, and that a handler finds the user it takes
  from the context.
\<close>

section \<open>Requests that change nothing\<close>

abbreviation inert :: "event \<Rightarrow> bool" where
  "inert e \<equiv> \<not> is_effect e"

lemma emits_with_id [emits]: "emits A bad \<Longrightarrow> (\<And>i. emits A (k i)) \<Longrightarrow> emits A (with_id E c bad k)"
  by (simp add: with_id_def split: sum.split)

lemma emits_must_user [emits]: "(\<And>u. emits A (k u)) \<Longrightarrow> emits A (must_user c k)"
  by (auto simp: must_user_def intro!: emits split: user_value.split)

lemma emits_reply [emits]: "emits A (reply code b)"
  by (simp add: reply_def emits_return)

lemma emits_finished [emits]: "emits A m \<Longrightarrow> emits A (finished m)"
  by (auto simp: finished_def intro!: emits)

lemma emits_hub [emits]: "emits A (hub_Register u c)" "emits A (hub_Unregister u c)"
  by (auto simp: hub_Register_def hub_Unregister_def intro!: emits)

lemma emits_GetHLS_inert: "emits inert (GetHLS E S fuel c f)"
  unfolding GetHLS_def GetFileByKey_def GetStream_def concatNeighbourSegments_def Let_def
  by (intro emits emits_neighbour_loop) (auto simp: is_effect_def)

lemma emits_reading_handlers:
  "emits inert (ListStreamPublic E p)" "emits inert (ListStreamOwner E c p)"
  "emits inert (http_GetStream E c)" "emits inert (http_GetStreamStatus E c)"
  "emits inert (DownloadStream E S c)" "emits inert (GetExport E c)"
  unfolding ListStreamPublic_def ListStreamOwner_def ListStreams_def ListUserStreams_def http_GetStream_def
    http_GetStreamStatus_def GetStream_def GetStreamStatus_def DownloadStream_def GetExport_def
    OpenStreamDownload_def GetStreamExport_def download_failure_def
  by (intro emits; auto simp: is_effect_def intro!: emits split: prod.split)+

lemma emits_HandleWS: "emits A session \<Longrightarrow> emits A (HandleWS H u upgrade session)"
  by (auto simp: HandleWS_def intro!: emits split: option.split prod.split)

definition reading :: "handler set" where
  "reading = {H_Health, H_Metrics, H_ListStreamPublic, H_GetStream, H_GetStreamStatus, H_DownloadStream,
     H_GetHLS, H_HandleWS, H_ListStreamOwner, H_GetExport}"

lemma emits_run_handler:
  "hnd \<in> reading \<Longrightarrow> emits inert (R_Session r) \<Longrightarrow> emits inert (run_handler E H fuel M hnd r c)"
  unfolding reading_def run_handler_def Let_def
  by (auto intro!: emits emits_reading_handlers emits_GetHLS_inert emits_HandleWS)

section \<open>The table\<close>

text \<open>Every other handler stands in the group, behind a permission or behind the checks of the service.\<close>

definition guarded :: "route \<Rightarrow> bool" where
  "guarded route \<longleftrightarrow> Rt_Verb route \<noteq> GET \<and>
     (Rt_Handler route \<in> {H_CreateStream, H_ProcessFacesBatch} \<and> Rt_Guards route = [Auth, may_read] \<or>
      Rt_Guards route = [Auth, may_read, may_write] \<or> Rt_Guards route = [Auth, may_read, may_delete])"

lemma table_guarded: "route \<in> set route_table \<Longrightarrow> Rt_Handler route \<in> reading \<or> guarded route"
  by (auto simp: route_table_def public_routes_def auth_group_def in_group_def rt_def reading_def guarded_def)

lemma run_guards_Cons:
  "run_guards E M h (g # gs) r c = Inr c' \<longleftrightarrow>
     (\<exists>c1. run_guard E M h g r c = Inr c1 \<and> run_guards E M h gs r c1 = Inr c')"
  by (auto split: sum.split)

section \<open>Results\<close>

text \<open>\<open>yields P m\<close>: whatever happens, the result satisfies \<open>P\<close>.\<close>

definition yields :: "('a \<Rightarrow> bool) \<Rightarrow> 'a io \<Rightarrow> bool" where
  "yields P m \<longleftrightarrow> (\<forall>w. wpre m (\<lambda>r _. P r) w)"

named_theorems yields "what a computation can give"

lemma yields_ret [yields]: "P a \<Longrightarrow> yields P (ret a)"
  by (simp add: yields_def wp)

lemma yields_bind [yields]: "(\<And>a. yields P (f a)) \<Longrightarrow> yields P (State_Monad.bind m f)"
  unfolding yields_def wp by (rule allI, rule wpreI) blast

lemma yields_if [yields]: "(b \<Longrightarrow> yields P m) \<Longrightarrow> (\<not> b \<Longrightarrow> yields P n) \<Longrightarrow> yields P (if b then m else n)"
  by simp

lemma yields_sum [yields]:
  "(\<And>e. r = Inl e \<Longrightarrow> yields P (f e)) \<Longrightarrow> (\<And>a. r = Inr a \<Longrightarrow> yields P (g a)) \<Longrightarrow>
   yields P (case r of Inl e \<Rightarrow> f e | Inr a \<Rightarrow> g a)"
  by (cases r) simp_all

lemma yields_option [yields]:
  "(r = None \<Longrightarrow> yields P m) \<Longrightarrow> (\<And>a. r = Some a \<Longrightarrow> yields P (g a)) \<Longrightarrow>
   yields P (case r of None \<Rightarrow> m | Some a \<Rightarrow> g a)"
  by (cases r) simp_all

lemma yields_prod [yields]: "(\<And>a b. yields P (f a b)) \<Longrightarrow> yields P (case p of (a, b) \<Rightarrow> f a b)"
  by (cases p) simp

abbreviation no_panic :: "http_response outcome option \<Rightarrow> bool" where
  "no_panic r \<equiv> r \<noteq> Some Panics"

abbreviation answers :: "http_response outcome \<Rightarrow> bool" where
  "answers r \<equiv> r \<noteq> Panics"

lemma yields_reply [yields]: "yields answers (reply code b)"
  by (simp add: reply_def yields_ret)

lemma yields_with_id [yields]:
  "yields P bad \<Longrightarrow> (\<And>i. yields P (k i)) \<Longrightarrow> yields P (with_id E c bad k)"
  by (simp add: with_id_def split: sum.split)

lemma yields_must_user: "User c = UserUUID u \<Longrightarrow> yields P (k u) \<Longrightarrow> yields P (must_user c k)"
  by (simp add: must_user_def)

lemma yields_finished: "yields answers m \<Longrightarrow> yields no_panic (finished m)"
  unfolding yields_def finished_def wp by (blast intro: wpre_mono)

lemma yields_open_handlers:
  "yields answers (ListStreamPublic E p)" "yields answers (http_GetStream E c)"
  "yields answers (http_GetStreamStatus E c)" "yields answers (http_UpdateStream E S c ub)"
  "yields answers (http_DeleteStream E S c)" "yields answers (http_ReprocessStream E S c)"
  "yields answers (http_ProcessFacesStream E S c)"
  unfolding ListStreamPublic_def http_GetStream_def http_GetStreamStatus_def http_UpdateStream_def
    http_DeleteStream_def http_ReprocessStream_def http_ProcessFacesStream_def
  by (intro yields; simp)+

lemma yields_GetHLS: "yields no_panic (GetHLS E S fuel c f)"
  unfolding GetHLS_def by (intro yields; simp)+

lemma yields_user_handlers:
  assumes "User c = UserUUID u"
  shows "yields answers (ListStreamOwner E c p)" "yields answers (http_CreateStream E S c cb)"
    "yields answers (http_UploadVideo E S c form)" "yields answers (InitUpload E S c sb)"
    "yields answers (PartUpload E S c pb)" "yields answers (CompleteUpload E S c parts)"
    "yields answers (RequestExport E c)" "yields answers (GetExport E c)" "yields answers (DownloadStream E S c)"
    "yields answers (http_PublishStream E S c)" "yields answers (http_UnpublishStream E S c)"
    "yields answers (http_ProcessFacesBatch E S c ids)"
  unfolding ListStreamOwner_def http_CreateStream_def http_UploadVideo_def InitUpload_def PartUpload_def
    CompleteUpload_def RequestExport_def GetExport_def DownloadStream_def http_PublishStream_def
    http_UnpublishStream_def http_ProcessFacesBatch_def download_failure_def
  by (intro yields yields_must_user [OF assms]; simp)+

text \<open>A handler that takes the user from the context stands behind a guard that puts one there.\<close>

definition open_handlers :: "handler set" where
  "open_handlers = {H_Health, H_Metrics, H_ListStreamPublic, H_GetStream, H_GetStreamStatus, H_GetHLS}"

fun is_authorize :: "guard \<Rightarrow> bool" where
  "is_authorize (Authorize obj act) = True"
| "is_authorize _ = False"

definition authenticated :: "guard list \<Rightarrow> bool" where
  "authenticated gs \<longleftrightarrow> gs = [WSAuth] \<or> (\<exists>as. gs = Auth # as \<and> list_all is_authorize as)"

lemma table_authenticated: "route \<in> set route_table \<Longrightarrow> Rt_Handler route \<in> open_handlers \<or> authenticated (Rt_Guards route)"
  by (auto simp: route_table_def public_routes_def auth_group_def in_group_def rt_def open_handlers_def authenticated_def)

lemma authorize_keeps_user:
  assumes "\<And>h obj act c c'. AuthorizeMiddleware M h obj act r c = Inr c' \<Longrightarrow> User c' = User c"
  shows "list_all is_authorize gs \<Longrightarrow> run_guards E M h gs r c = Inr c' \<Longrightarrow> User c' = User c"
  using assms
proof (induction gs arbitrary: c)
  case (Cons g gs)
  then show ?case by (cases g) (auto simp: run_guard_def split: sum.splits)
qed simp

lemma WSProtocolAuth_user: "WSProtocolAuth v p token c = Inr c' \<Longrightarrow> \<exists>u. User c' = UserUUID u"
  by (auto simp: WSProtocolAuth_def split: if_splits sum.splits)

lemma yields_run_handler:
  "hnd \<in> open_handlers \<or> User c = UserUUID u \<Longrightarrow> yields no_panic (run_handler E H fuel M hnd r c)"
  unfolding run_handler_def open_handlers_def Let_def
  by (cases hnd) (auto intro!: yields_finished yields_open_handlers yields_user_handlers yields_GetHLS
    yields yields_must_user)

section \<open>Properties\<close>

text \<open>
  C4: No request changes anything in the database, the object store, the queues or the policies without
  permission: if one did, its route is not a GET, the authentication middleware let it pass, the
  permission service granted reading, and granted writing or deleting too, unless the route creates a
  stream or sends a batch of faces requests (where the service itself checks the owner). What other
  requests do while a websocket is open is not counted.
\<close>

theorem effects_need_permission:
  assumes "route \<in> set route_table" and "emits inert (R_Session r)"
    and "list_ex is_effect (trace w (after (serve E H fuel M route r) w))"
  shows "Rt_Verb route \<noteq> GET \<and>
    (\<exists>c1 c2. AuthMiddleware M (TokenValidate M) r (new_ctx r) = Inr c1 \<and>
       AuthorizeMiddleware M (hist w) ''stream'' ''read'' r c1 = Inr c2 \<and>
       (Rt_Handler route \<in> {H_CreateStream, H_ProcessFacesBatch} \<or>
        (\<exists>act c3. act \<in> {''write'', ''delete''} \<and> AuthorizeMiddleware M (hist w) ''stream'' act r c2 = Inr c3)))"
proof -
  have noeff: "\<not> list_ex is_effect (trace w (after m w))" if "emits inert m" for m :: "'b io"
    using emits_trace [OF that run_result] by (auto simp: list_ex_iff list_all_iff)
  obtain c where c: "run_guards E M (hist w) (Rt_Guards route) r (new_ctx r) = Inr c"
  proof (cases "run_guards E M (hist w) (Rt_Guards route) r (new_ctx r)")
    case (Inl resp)
    then have "after (serve E H fuel M route r) w = w"
      by (simp add: after_def serve_def get_history_def)
    then show ?thesis using assms(3) by (simp add: trace_def)
  qed (use that in blast)
  then have "after (serve E H fuel M route r) w = after (run_handler E H fuel M (Rt_Handler route) r c) w"
    by (simp add: after_def serve_def get_history_def)
  then have "Rt_Handler route \<notin> reading"
    using assms(2,3) noeff emits_run_handler by metis
  then have "guarded route" using table_guarded [OF assms(1)] by blast
  then show ?thesis
    using c unfolding guarded_def by (auto simp: run_guards_Cons run_guard_def simp del: run_guards.simps(2)) blast+
qed

text \<open>Middleware that trusts everybody as the user 7, and a request to publish the stream 1.\<close>

definition ref_middlewares :: middlewares where
  "ref_middlewares = \<lparr>TokenValidate = \<lambda>t. Inl (Errorf ''no token''),
     AuthMiddleware = \<lambda>v r c. Inr (c\<lparr>User := UserUUID 7\<rparr>), OptionalAuthMiddleware = \<lambda>v r c. Inr c,
     AuthorizeMiddleware = \<lambda>h obj act r c. Inr c,
     Upgrade = \<lambda>check r. if check (R_Origin r) then (\<lparr>Code = 101, Body = NoBody\<rparr>, Some 3) else (\<lparr>Code = 403, Body = NoBody\<rparr>, None), DbHandle = None, MetricsPage = \<lparr>Code = 200, Body = NoBody\<rparr>\<rparr>"

definition ref_request :: http_request where
  "ref_request = \<lparr>R_id = ''u1'', R_Authorization = [], R_Protocol = [], R_File = [],
     R_Query = \<lparr>P_limit = [], P_offset = [], P_status = [], P_faces = [], P_sort = [], P_order = [], P_q = []\<rparr>,
     R_Create = None, R_Update = None, R_Form = None, R_Start = None, R_PartBody = None, R_Parts = None,
     R_Faces = None, R_Origin = [], R_Session = ret ()\<rparr>"

definition ref_handler :: StreamHandler where
  "ref_handler = NewStreamHandler ref_service (HasHub ref_service)"

definition publish_route :: route where
  "publish_route = rt POST ''/stream/:id/publish'' [Auth, may_read, may_write] H_PublishStream"

definition publish_env :: env where
  "publish_env = ref_env\<lparr>db_First := \<lambda>h i. Inr (ref_row\<lparr>Status := StatusReady\<rparr>)\<rparr>"

theorem effects_need_permission_witness:
  "list_ex is_effect (trace ref_world (after (serve publish_env ref_handler 8 ref_middlewares publish_route ref_request) ref_world)) \<and>
   Rt_Verb publish_route \<noteq> GET"
proof -
  have route: "publish_route \<in> set route_table"
    by (simp add: publish_route_def route_table_def auth_group_def in_group_def rt_def)
  have inert: "emits inert (R_Session ref_request)" by (simp add: ref_request_def emits_return)
  have "list_ex is_effect (trace ref_world (after (serve publish_env ref_handler 8 ref_middlewares publish_route ref_request) ref_world))"
    by (simp add: serve_def get_history_def after_def publish_route_def rt_def run_guard_def ref_middlewares_def
        run_handler_def ref_handler_def NewStreamHandler_def NewStreamHandlerWithOrigins_def finished_def http_PublishStream_def must_user_def with_id_def ref_request_def new_ctx_def
        publish_env_def ref_env_def ref_Parse_def GetStream_def PublishStream_def repo_Read_def repo_Update_def
        gorm_Save_def run_BeforeUpdate_def ref_row_def new_stream_def ref_create_def BeforeCreate_def Let_def
        is_digit_def digits_value_def ref_world_def notifyComplete_def recordEvent_def ref_service_def
        reply_def metric_def trace_def is_effect_def uuid_Nil_def byte_def)
  with effects_need_permission [OF route inert this] show ?thesis by blast
qed



section \<open>Tokens and queues\<close>

text \<open>
  A token is accepted only when its header names an RSA method, whatever the parser does with the key
  it is given: the callback has no key for any other method. Assumed of the parser: it returns a token
  only when the callback gave a key for the method of its header.
\<close>

theorem token_must_be_rsa:
  assumes "\<And>kf t tok. ParseWithClaims kf t = Inr tok \<Longrightarrow> \<exists>k. kf (Tok_Method tok) = Inr k"
    and "ValidateAccessToken ParseWithClaims s t = Inr claims"
  shows "\<exists>tok. ParseWithClaims (key_for s) t = Inr tok \<and> Tok_Method tok = SigningMethodRSA \<and> Tok_Valid tok \<and>
    Tok_Claims tok = AccessClaimsValue claims"
proof -
  obtain tok where tok: "ParseWithClaims (key_for s) t = Inr tok" "Tok_Valid tok" "Tok_Claims tok = AccessClaimsValue claims"
    using assms(2) by (auto simp: ValidateAccessToken_def split: sum.splits claims_value.splits if_splits)
  then have "Tok_Method tok = SigningMethodRSA"
    using assms(1) [OF tok(1)] by (auto simp: key_for_def split: signing_method.splits)
  with tok show ?thesis by blast
qed

text \<open>A parser that reads the method and the user from the first character and the rest of the token.\<close>

definition toy_parse :: "(signing_method \<Rightarrow> goerr + nat option) \<Rightarrow> string \<Rightarrow> goerr + jwt_token" where
  "toy_parse kf t =
    (let mth = (if HasPrefix t ''R'' then SigningMethodRSA else OtherSigning ''HS256'') in
     case kf mth of
       Inl err \<Rightarrow> Inl err
     | Inr key \<Rightarrow> Inr \<lparr>Tok_Method = mth, Tok_Claims = AccessClaimsValue
         \<lparr>Claim_UserID = tl t, Claim_Role = ''user'', Claim_Email = [], Claim_EmailVerified = True\<rparr>, Tok_Valid = True\<rparr>)"

theorem token_must_be_rsa_witness:
  "\<exists>claims tok. ValidateAccessToken toy_parse \<lparr>accessPublicKey = Some 5\<rparr> ''Ralice'' = Inr claims \<and>
     Claim_UserID claims = ''alice'' \<and> toy_parse (key_for \<lparr>accessPublicKey = Some 5\<rparr>) ''Ralice'' = Inr tok \<and>
     Tok_Method tok = SigningMethodRSA"
proof -
  have law: "\<exists>k. kf (Tok_Method tok) = Inr k" if "toy_parse kf t = Inr tok" for kf t tok
    using that by (auto simp: toy_parse_def Let_def split: sum.splits)
  obtain claims where claims: "ValidateAccessToken toy_parse \<lparr>accessPublicKey = Some 5\<rparr> ''Ralice'' = Inr claims"
    "Claim_UserID claims = ''alice''"
    by (simp add: ValidateAccessToken_def toy_parse_def key_for_def HasPrefix_def)
  have "\<exists>tok. toy_parse (key_for \<lparr>accessPublicKey = Some 5\<rparr>) ''Ralice'' = Inr tok \<and> Tok_Method tok = SigningMethodRSA \<and>
      Tok_Valid tok \<and> Tok_Claims tok = AccessClaimsValue claims"
    by (rule token_must_be_rsa [of toy_parse]) (erule law, rule claims(1))
  with claims show ?thesis by blast
qed

text \<open>
  C25: A websocket is opened only for a request with an RSA-signed valid token that names a user, and an
  origin of the configured list or none at all; with anything else nothing happens: no connection is
  registered and nothing is sent. Assumed of the upgrader: it returns a connection only when the check of
  the origin it was given holds; and of the parser what \<open>token_must_be_rsa\<close> assumes.
\<close>

theorem websocket_guarded:
  assumes "route \<in> set route_table" and "Rt_Handler route = H_HandleWS"
    and parser: "\<And>kf t tok. ParseWithClaims kf t = Inr tok \<Longrightarrow> \<exists>k. kf (Tok_Method tok) = Inr k"
    and service: "TokenValidate M = ValidateAccessToken ParseWithClaims ts"
    and upgrader: "\<And>check resp c. Upgrade M check r = (resp, Some c) \<Longrightarrow> check (R_Origin r)"
    and opened: "after (serve E H fuel M route r) w \<noteq> w"
  shows "checkOrigin H (R_Origin r) \<and> (\<exists>tok claims u. ParseWithClaims (key_for ts) (R_Protocol r) = Inr tok \<and>
    Tok_Method tok = SigningMethodRSA \<and> Tok_Valid tok \<and> Tok_Claims tok = AccessClaimsValue claims \<and>
    uuid_Parse E (Claim_UserID claims) = Inr u)"
proof -
  have guards: "Rt_Guards route = [WSAuth]"
    using assms(1,2) by (auto simp: route_table_def public_routes_def auth_group_def in_group_def rt_def)
  let ?auth = "WSProtocolAuth (TokenValidate M) (uuid_Parse E) (R_Protocol r) (new_ctx r)"
  obtain c where c: "?auth = Inr c"
  proof (cases ?auth)
    case (Inl resp)
    then have "after (serve E H fuel M route r) w = w"
      by (simp add: after_def serve_def get_history_def guards run_guard_def)
    with opened show ?thesis by simp
  qed (use that in blast)
  then obtain claims u where claims: "ValidateAccessToken ParseWithClaims ts (R_Protocol r) = Inr claims"
    "uuid_Parse E (Claim_UserID claims) = Inr u" "User c = UserUUID u"
    by (auto simp: WSProtocolAuth_def service split: if_splits sum.splits)
  have "checkOrigin H (R_Origin r)"
  proof (cases "Upgrade M (checkOrigin H) r")
    case (Pair resp conn)
    have "conn \<noteq> None"
    proof
      assume "conn = None"
      then have "after (serve E H fuel M route r) w = w"
        using c claims(3) Pair assms(2)
        by (simp add: after_def serve_def get_history_def guards run_guard_def run_handler_def finished_def
            must_user_def HandleWS_def)
      with opened show False by simp
    qed
    then show ?thesis using upgrader [of "checkOrigin H" resp] Pair by auto
  qed
  moreover have "\<exists>tok. ParseWithClaims (key_for ts) (R_Protocol r) = Inr tok \<and> Tok_Method tok = SigningMethodRSA \<and>
      Tok_Valid tok \<and> Tok_Claims tok = AccessClaimsValue claims"
    by (rule token_must_be_rsa [of ParseWithClaims]) (erule parser, rule claims(1))
  ultimately show ?thesis using claims(2) by blast
qed

definition ws_route :: route where
  "ws_route = rt GET ''/stream/ws/updates'' [WSAuth] H_HandleWS"

definition ws_request :: http_request where
  "ws_request = ref_request\<lparr>R_Protocol := ''Ru7'', R_Origin := ''https://example.com'',
     R_Session := metric ''test'' ''session'' 1\<rparr>"

definition ws_middlewares :: middlewares where
  "ws_middlewares = ref_middlewares\<lparr>TokenValidate := ValidateAccessToken toy_parse \<lparr>accessPublicKey = Some 5\<rparr>\<rparr>"

theorem websocket_guarded_witness:
  "\<exists>tok claims. toy_parse (key_for \<lparr>accessPublicKey = Some 5\<rparr>) ''Ru7'' = Inr tok \<and>
     Tok_Claims tok = AccessClaimsValue claims \<and> uuid_Parse ref_env (Claim_UserID claims) = Inr 7"
proof -
  have law: "\<exists>k. kf (Tok_Method tok) = Inr k" if "toy_parse kf t = Inr tok" for kf t tok
    using that by (auto simp: toy_parse_def Let_def split: sum.splits)
  have opened: "after (serve ref_env ref_handler 8 ws_middlewares ws_route ws_request) ref_world \<noteq> ref_world"
    by (simp add: serve_def get_history_def after_def ws_route_def rt_def run_guard_def ws_middlewares_def ref_middlewares_def
        run_handler_def ref_handler_def NewStreamHandler_def NewStreamHandlerWithOrigins_def finished_def
        must_user_def ws_request_def ref_request_def new_ctx_def ref_env_def ref_Parse_def WSProtocolAuth_def
        ValidateAccessToken_def toy_parse_def key_for_def HasPrefix_def HandleWS_def checkOrigin_def
        default_origin_list_def hub_Register_def hub_Unregister_def metric_def is_digit_def digits_value_def
        ref_world_def byte_def ref_service_def Let_def)
  have "checkOrigin ref_handler (R_Origin ws_request) \<and>
    (\<exists>tok claims u. toy_parse (key_for \<lparr>accessPublicKey = Some 5\<rparr>) (R_Protocol ws_request) = Inr tok \<and>
    Tok_Method tok = SigningMethodRSA \<and> Tok_Valid tok \<and> Tok_Claims tok = AccessClaimsValue claims \<and>
    uuid_Parse ref_env (Claim_UserID claims) = Inr u)"
  proof (rule websocket_guarded [of ws_route toy_parse ws_middlewares "\<lparr>accessPublicKey = Some 5\<rparr>" ws_request ref_env ref_handler 8 ref_world])
    show "ws_route \<in> set route_table" by (simp add: ws_route_def route_table_def public_routes_def rt_def)
  qed (use law opened in \<open>auto simp: ws_route_def rt_def ws_middlewares_def ref_middlewares_def split: if_splits\<close>)
  then show ?thesis
    by (auto simp: toy_parse_def key_for_def HasPrefix_def ws_request_def ref_env_def ref_Parse_def
        is_digit_def digits_value_def byte_def Let_def)
qed

text \<open>
  In debug mode, which is the default, the queues ignore the environment: every client is connected
  to an empty address without a password, activity events and exports to database 0. In release mode,
  when the two variables are not set, tasks, events and exports go to three different databases of the
  configured address.
\<close>

theorem debug_mode_ignores_redis_settings:
  "queue_redis (routes_config Debug os) client =
     \<lparr>Opt_Addr = [], Opt_Password = [],
      Opt_DB = (if client \<in> {TaskClient, CascadeClient} then 2 else 0)\<rparr> \<and>
   map (\<lambda>q. Opt_DB (queue_redis (routes_config Release (\<lambda>_. None)) q)) [TaskClient, EventsClient, ExportClient] = [2, 3, 4] \<and>
   Opt_Addr (queue_redis (routes_config Release os) client) = getEnv os ''REDIS_ADDR'' ''localhost'' \<and>
   Mode (CfgServer (LoadConfig (\<lambda>_. None))) = Debug"
  by (cases client) (simp_all add: queue_redis_def routes_config_def TestConfig_def LoadConfig_def Let_def
      getQueueDB_def Getenv_def getEnv_def Atoi_def mode_of_def isValid_def)

end
