(* ===== verification/ModelProperties.thy ===== *)
theory ModelProperties
  imports HttpHandlers Reference
begin

text \<open>
  What the rows hold: the JSON columns are read back as they were written, and the rows the HTTP layer
  inserts are the ones the model's own validation accepts.
\<close>

section \<open>Inserted rows\<close>

lemma Validate_fields:
  assumes "Title s = Title t" and "Visibility s = Visibility t" and "Status s = Status t" and "OwnerID s = OwnerID t"
  shows "Validate s = Validate t"
proof -
  have "validateTitle s = validateTitle t" "validateVisibility s = validateVisibility t"
    "validateStatus s = validateStatus t" "validateOwnerID s = validateOwnerID t"
    using assms by (simp_all add: validateTitle_def validateVisibility_def validateStatus_def validateOwnerID_def)
  then show ?thesis unfolding Validate_def by (simp only:)
qed

lemma Validate_BeforeCreate: "Validate (BeforeCreate i t1 t2 s) = Validate s"
  by (rule Validate_fields) (simp_all add: BeforeCreate_def Let_def)

text \<open>An insertion of a row that is valid, a draft, and the user's.\<close>

fun inserts_own_draft :: "uuid \<Rightarrow> event \<Rightarrow> bool" where
  "inserts_own_draft u (EvDbCreate s r) = (Validate s = None \<and> Status s = StatusDraft \<and> OwnerID s = u)"
| "inserts_own_draft u _ = True"

lemma created_row_owner: "Create_ToServiceRequest req u = Inr sreq \<Longrightarrow> OwnerID (new_stream sreq) = u"
  by (auto simp: Create_ToServiceRequest_def new_stream_def split: option.splits if_splits)

lemma emits_CreateStream_draft:
  assumes "Create_ToServiceRequest req u = Inr sreq"
  shows "emits (inserts_own_draft u) (CreateStream E S sreq)"
proof -
  have "inserts_own_draft u (EvDbCreate (BeforeCreate v t1 t2 (new_stream sreq)) r)" for v t1 t2 r
    using created_row_valid [OF assms] created_row_owner [OF assms]
    by (simp add: Validate_BeforeCreate) (simp add: BeforeCreate_def Let_def new_stream_def)
  then show ?thesis unfolding CreateStream_def Let_def by (intro emits) auto
qed

section \<open>Properties\<close>

text \<open>
  C24: The three JSON columns of a row are read back exactly as they were written, each independently of
  the other two: the metadata, the storage information and the task list, whenever their integers fit
  64 bits, their strings are valid UTF-8 and the recording time is one RFC 3339 can write.
\<close>

theorem columns_round_trip:
  assumes "metadata_wf m" and "storage_wf i" and "list_all task_wf ts"
  shows "GetMetadata (SetInitialTasks ts (SetStorageInfo i (SetMetadata m s))) = Inr m \<and>
    GetStorageInfo (SetMetadata m (SetInitialTasks ts (SetStorageInfo i s))) = Inr i \<and>
    ProcessingTasks (SetStorageInfo i (SetMetadata m (SetInitialTasks ts s))) = Inr ts"
proof -
  have "GetMetadata (SetInitialTasks ts (SetStorageInfo i v)) = GetMetadata v"
    "GetStorageInfo (SetMetadata m (SetInitialTasks ts v)) = GetStorageInfo v"
    "ProcessingTasks (SetStorageInfo i (SetMetadata m v)) = ProcessingTasks v" for v
    by (simp_all add: GetMetadata_def GetStorageInfo_def ProcessingTasks_def SetInitialTasks_def
        SetStorageInfo_def SetMetadata_def)
  then show ?thesis
    using assms by (simp add: GetMetadata_SetMetadata GetStorageInfo_SetStorageInfo ProcessingTasks_SetInitialTasks)
qed

definition sample_task :: StreamProcessingTask where
  "sample_task = \<lparr>TaskType = ''faces'', Progress = 40, Steps = Some [''detect''], TaskError = None, TaskID = Some ''t1''\<rparr>"

theorem columns_round_trip_witness:
  "ProcessingTasks (SetStorageInfo zero_storage (SetMetadata zero_metadata (SetInitialTasks [sample_task] ref_row))) =
     Inr [sample_task]"
proof -
  have utf8: "utf8_valid []" "utf8_valid ''faces''" "utf8_valid ''detect''" "utf8_valid ''t1''" by code_simp+
  have "metadata_wf zero_metadata" "storage_wf zero_storage" "list_all task_wf [sample_task]"
    using utf8 by (simp_all add: metadata_wf_def zero_metadata_def storage_wf_def zero_storage_def
        task_wf_def sample_task_def int64_defs)
  from columns_round_trip [OF this, of ref_row] show ?thesis by blast
qed


end
