(* ===== verification/LiveProperties.thy ===== *)
theory LiveProperties
  imports Reference
begin

text \<open>
  Progress: in a cooperative environment the operations of the service succeed one after the other, from
  the draft to the published stream. \<open>cooperative\<close> is the environment without failures: reads find the
  rows, saves and uploads succeed. The queues, the event recorder and the clients may still fail.
\<close>

definition cooperative :: "env \<Rightarrow> bool" where
  "cooperative E \<longleftrightarrow>
    (\<forall>h i s. table h i = Some s \<longrightarrow> db_First E h i = Inr s) \<and> (\<forall>h s. db_Save E h s = None) \<and>
    (\<forall>h b. s3_BucketExists E h b = Inr True) \<and> (\<forall>h b k d n. s3_PutObject E h b k d n = None)"

text \<open>The rules of the calculus but those for the calls that a cooperative environment makes succeed.\<close>

lemmas live_rules = tspec_return tspec_bind tspec_if tspec_sum tspec_option tspec_prod tspec_bool tspec_let
  tspec_storage(2-7) tspec_queue tspec_events tspec_fresh

lemma live_Read:
  assumes "cooperative E" and "db i = Some s" and "P (Inr s) db"
  shows "tspec db (repo_Read E i) P"
  using assms by (auto simp: tspec_def repo_Read_def wp cooperative_def)

lemma live_Update:
  assumes "cooperative E" and "db (ID s) \<noteq> None" and "ID s \<noteq> uuid_Nil"
    and "\<And>t. P (None, BeforeUpdate t s) (db(ID s \<mapsto> BeforeUpdate t s))"
  shows "tspec db (repo_Update E s) P"
  unfolding tspec_def
proof (intro allI impI)
  fix w :: world
  assume w: "table (hist w) = db"
  obtain s0 where "db (ID s) = Some s0" using assms(2) by blast
  with assms(1) w have "db_First E (hist w) (ID s) = Inr s0" unfolding cooperative_def by blast
  moreover have "db_Save E h v = None" for h v using assms(1) by (simp add: cooperative_def)
  ultimately show "wpre (repo_Update E s) (\<lambda>a w'. creates (hist w') = creates (hist w) \<and> P a (table (hist w'))) w"
    using assms(3,4) w by (simp add: repo_Update_def gorm_Save_def run_BeforeUpdate_def wp)
qed

lemma live_Upload:
  assumes "cooperative E" and "P None db"
  shows "tspec db (storage_Upload E b k d n) P"
  using assms by (auto simp: tspec_def storage_Upload_def storage_BucketExists_def storage_CreateBucket_def wp cooperative_def)

section \<open>The three steps\<close>

definition restarted :: "uuid \<Rightarrow> Stream \<Rightarrow> StreamStatus \<Rightarrow> (uuid \<rightharpoonup> Stream) \<Rightarrow> bool" where
  "restarted i s st db \<longleftrightarrow> (\<exists>s'. db i = Some s' \<and> ID s' = i \<and> Status s' = st \<and> OwnerID s' = OwnerID s)"

lemma UploadVideo_live:
  assumes "cooperative E" and "db (Video_StreamID req) = Some s" and "ID s = Video_StreamID req"
    and "Video_StreamID req \<noteq> uuid_Nil" and "Status s = StatusDraft" and "OwnerID s = Video_UserID req"
  shows "tspec db (UploadVideo E S req) (\<lambda>r db'. r = None \<and> restarted (Video_StreamID req) s StatusProcessing db')"
  unfolding UploadVideo_def queue_new_video_def Let_def
  by (intro live_rules live_Read [where s = s] live_Update live_Upload assms(1,2))
    (use assms in \<open>auto simp: restarted_def BeforeUpdate_def\<close>)

lemma report_ready_live:
  assumes "cooperative E" and "restarted i s st db" and "i \<noteq> uuid_Nil" and "KeepOriginalFile S"
  shows "tspec db (UpdateStreamStatus E S i StatusReady) (\<lambda>r db'. r = Returns None \<and> restarted i s StatusReady db')"
proof -
  obtain s' where s': "db i = Some s'" "ID s' = i" "OwnerID s' = OwnerID s" using assms(2) by (auto simp: restarted_def)
  show ?thesis
    unfolding UpdateStreamStatus_def
    by (intro live_rules live_Read [where s = s'] live_Update assms(1) s'(1))
      (use assms s' in \<open>auto simp: restarted_def BeforeUpdate_def\<close>)
qed

lemma PublishStream_live:
  assumes "cooperative E" and "restarted i s StatusReady db" and "i \<noteq> uuid_Nil"
  shows "tspec db (PublishStream E S i) (\<lambda>r db'. r = None \<and> restarted i s StatusPublished db')"
proof -
  obtain s' where s': "db i = Some s'" "ID s' = i" "OwnerID s' = OwnerID s" "Status s' = StatusReady"
    using assms(2) by (auto simp: restarted_def)
  show ?thesis
    unfolding PublishStream_def
    by (intro live_rules live_Read [where s = s'] live_Update assms(1) s'(1))
      (use assms s' in \<open>auto simp: restarted_def BeforeUpdate_def\<close>)
qed

section \<open>Properties\<close>

text \<open>
  C16: A draft can be published: when reads, saves and the object store do not fail, the owner's upload
  succeeds and leaves the stream processing, the transcoder's report that it is ready is accepted, and then
  publishing succeeds and leaves the stream of the same owner published, whatever happens to the queues,
  the event log and the connections. (Originals are kept, as is the default.)
\<close>

theorem draft_can_be_published:
  assumes "cooperative E" and "KeepOriginalFile S" and "i \<noteq> uuid_Nil"
    and "table (hist w) i = Some s" and "Status s = StatusDraft"
    and "Video_StreamID req = i" and "Video_UserID req = OwnerID s"
    and w1: "w1 = after (UploadVideo E S req) w" and w2: "w2 = after (UpdateStreamStatus E S i StatusReady) w1"
    and w3: "w3 = after (PublishStream E S i) w2"
  shows "result_of (UploadVideo E S req) w = None \<and> result_of (UpdateStreamStatus E S i StatusReady) w1 = Returns None \<and>
    result_of (PublishStream E S i) w2 = None \<and>
    (\<exists>s'. table (hist w3) i = Some s' \<and> Status s' = StatusPublished \<and> OwnerID s' = OwnerID s)"
proof -
  have step: "P (result_of m v) (table (hist (after m v)))" if "tspec (table (hist v)) m P" for m :: "'b io" and v P
    using tspecD [OF that run_result] by blast
  have up: "result_of (UploadVideo E S req) w = None \<and> restarted i s StatusProcessing (table (hist w1))"
    using step [OF UploadVideo_live [of E _ req s S]] assms ID_table [OF assms(4)] by metis
  then have ready: "result_of (UpdateStreamStatus E S i StatusReady) w1 = Returns None \<and> restarted i s StatusReady (table (hist w2))"
    using step [OF report_ready_live [OF assms(1)]] assms(2,3) w2 by blast
  then have "result_of (PublishStream E S i) w2 = None \<and> restarted i s StatusPublished (table (hist w3))"
    using step [OF PublishStream_live [OF assms(1)]] assms(3) w3 by blast
  then show ?thesis using up ready by (auto simp: restarted_def)
qed

lemma ref_cooperative: "cooperative ref_env"
  by (simp add: cooperative_def ref_env_def ref_First_def)

definition ref_upload :: UploadVideoRequest where
  "ref_upload = \<lparr>Video_StreamID = 1, Video_UserID = 7, Video_File = ''data'', Video_FileName = ''a.mp4'', Video_Size = 4\<rparr>"

theorem draft_can_be_published_witness:
  "\<exists>w3 s'. table (hist w3) 1 = Some s' \<and> Status s' = StatusPublished \<and> OwnerID s' = 7 \<and>
     w3 = after (PublishStream ref_env ref_service 1) (after (UpdateStreamStatus ref_env ref_service 1 StatusReady)
            (after (UploadVideo ref_env ref_service ref_upload) created_world))"
proof -
  have row: "table (hist created_world) 1 = Some ref_row" using created_world_table by simp
  have s: "Status ref_row = StatusDraft" "Video_UserID ref_upload = OwnerID ref_row" "Video_StreamID ref_upload = 1"
    "OwnerID ref_row = 7" "KeepOriginalFile ref_service" "(1 :: uuid) \<noteq> uuid_Nil"
    by (simp_all add: ref_row_def BeforeCreate_def Let_def new_stream_def ref_create_def ref_upload_def ref_service_def uuid_Nil_def)
  show ?thesis
    using draft_can_be_published [OF ref_cooperative s(5,6) row s(1,3,2) refl refl refl] s(4) by auto
qed

end
