(* ===== verification/RaceProperties.thy ===== *)
theory RaceProperties
  imports LiveProperties
begin

text \<open>
  Two operations at once. An operation runs in an environment that is shared with others: \<open>interfere n evs E\<close>
  is \<open>E\<close> in which another process made the calls \<open>evs\<close> right after the first \<open>n\<close> calls of the history, so the
  database answers from the spliced history from then on. The rows are read, changed in memory and saved
  as a whole, without a lock or a version, so the later save wins.
\<close>

section \<open>Interference\<close>

definition splice :: "nat \<Rightarrow> event list \<Rightarrow> history \<Rightarrow> history" where
  "splice n evs h = (if n \<le> length h then take n h @ evs @ drop n h else h)"

definition interfere :: "nat \<Rightarrow> event list \<Rightarrow> env \<Rightarrow> env" where
  "interfere n evs E = E\<lparr>
     db_Create := \<lambda>h. db_Create E (splice n evs h), db_First := \<lambda>h. db_First E (splice n evs h),
     db_Find := \<lambda>h. db_Find E (splice n evs h), db_Save := \<lambda>h. db_Save E (splice n evs h),
     db_Delete := \<lambda>h. db_Delete E (splice n evs h), db_Count := \<lambda>h. db_Count E (splice n evs h),
     db_Query := \<lambda>h. db_Query E (splice n evs h)\<rparr>"

lemma splice_before [simp]: "length h < n \<Longrightarrow> splice n evs h = h"
  by (simp add: splice_def)

lemma splice_after [simp]: "splice (length h) evs (h @ h') = h @ evs @ h'"
  by (simp add: splice_def)

section \<open>A report that races with a publication\<close>

text \<open>
  What the report does to the row it read: a row that is ready when read is saved as ready, whatever its
  status is by then.
\<close>

lemma apply_report_status: "Status s \<noteq> StatusProcessing \<Longrightarrow> Status (apply_report p s) = Status s"
  by (simp add: apply_report_def Let_def)

lemma SetTaskProgress_status:
  "SetTaskProgress k p st e j s = Inr s' \<Longrightarrow> ID s' = ID s \<and> Status s' = Status s"
  by (auto simp: SetTaskProgress_def SetInitialTasks_def split: sum.splits)

lemma silent_tail:
  assumes "emits (\<lambda>e. \<not> writes_stream e) m"
    and "\<And>a w' evs. hist w' = hist w @ evs \<Longrightarrow> list_all (\<lambda>e. \<not> writes_stream e) evs \<Longrightarrow> Q a w'"
  shows "wpre m Q w"
  using assms by (rule wpre_tail)

lemma hist_after:
  assumes "emits (\<lambda>_. True) m"
  shows "hist (after m w) = hist w @ trace w (after m w)"
  using emitsD [OF assms run_result] trace_append by metis

lemma emits_PublishStream: "emits (\<lambda>_. True) (PublishStream E S i)"
  unfolding PublishStream_def by (intro emits) auto

text \<open>The report as seen from the database: it reads, looks for the row again, and saves the row it read.\<close>

lemma report_saves_stale_row:
  assumes E: "db_First E (hist w) i = Inr s" "db_First E (hist w @ [EvDbFirst i (Inr s)]) i = Inr s0"
      "\<And>h v. db_Save E h v = None"
    and s: "ID s = i" "i \<noteq> uuid_Nil" "Status s = StatusReady" "ProcessingTasks s = Inr ts"
    and req: "Proc_StreamUUID req = i"
  shows "wpre (UpdateStreamProcessing E S req) (\<lambda>r w'. r = None \<and> (\<exists>t s' evs. ID s' = i \<and> Status s' = StatusReady \<and>
    hist w' = (hist w @ [EvDbFirst i (Inr s)]) @ [EvDbFirst i (Inr s0), EvNow t, EvDbSave s' None] @ evs \<and>
    list_all (\<lambda>e. \<not> writes_stream e) evs)) w"
proof -
  obtain s1 where s1: "SetTaskProgress (TaskType (Proc_Processing req)) (Progress (Proc_Processing req)) (Steps (Proc_Processing req))
      (if report_error (Proc_Processing req) \<noteq> [] then TaskError (Proc_Processing req) else None)
      (report_task_id (Proc_Processing req) ts) s = Inr s1"
    using s(4) by (simp add: SetTaskProgress_def)
  let ?s2 = "apply_report (Proc_Processing req) s1"
  have s2: "ID ?s2 = i" "Status ?s2 = StatusReady"
    using SetTaskProgress_status [OF s1] s by (simp_all add: apply_report_status) (simp add: apply_report_def Let_def)
  have silent: "emits (\<lambda>e. \<not> writes_stream e) (report_event E S q v)" "emits (\<lambda>e. \<not> writes_stream e) (notifyUpdate E S v)" for q v
    by (auto intro!: emits)
  show ?thesis
    unfolding UpdateStreamProcessing_def repo_Read_def repo_Update_def gorm_Save_def run_BeforeUpdate_def Let_def
    using E s(2) s1 s2 req s(4)
    by (auto simp: wp BeforeUpdate_def intro!: silent_tail [OF silent(1)] silent_tail [OF silent(2)])
qed

section \<open>Properties\<close>

text \<open>
  C37: A publication can be lost. When a worker's progress report reads the row of a ready stream and the
  owner publishes the stream before the report saves, both succeed, the stream is published in between, and
  the report puts the row it read back: in the end the stream is ready and not published, though nobody
  took the publication back. (The save writes the whole row, without a lock or a version.)
\<close>

theorem publication_lost:
  assumes "cooperative E" and "i \<noteq> uuid_Nil" and "table (hist w) i = Some s" and "Status s = StatusReady"
    and "ProcessingTasks s = Inr ts" and "Proc_StreamUUID req = i"
    and w1: "w1 = w\<lparr>hist := hist w @ [EvDbFirst i (Inr s)]\<rparr>"
    and evs: "evs = trace w1 (after (PublishStream E S i) w1)"
    and E': "E' = interfere (length (hist w1)) evs E"
  shows "result_of (PublishStream E S i) w1 = None \<and> result_of (UpdateStreamProcessing E' S req) w = None \<and>
    (\<exists>s1. table (hist w1 @ evs) i = Some s1 \<and> Status s1 = StatusPublished) \<and>
    (\<exists>s2. table (splice (length (hist w1)) evs (hist (after (UpdateStreamProcessing E' S req) w))) i = Some s2 \<and>
       Status s2 = StatusReady)"
proof -
  have ID: "ID s = i" by (rule ID_table [OF assms(3)])
  have "table (hist w1) i = Some s" using assms(3) w1 by simp
  then have "restarted i s StatusReady (table (hist w1))" using assms(4) ID by (simp add: restarted_def)
  from tspecD [OF PublishStream_live [OF assms(1) this assms(2)] run_result]
  have pub: "result_of (PublishStream E S i) w1 = None" "restarted i s StatusPublished (table (hist (after (PublishStream E S i) w1)))"
    by blast+
  moreover have "hist (after (PublishStream E S i) w1) = hist w1 @ evs"
    unfolding evs by (rule hist_after [OF emits_PublishStream])
  ultimately obtain s1 where s1: "table (hist w1 @ evs) i = Some s1" "Status s1 = StatusPublished"
    by (auto simp: restarted_def)
  have read: "db_First E h i = Inr v" if "table h i = Some v" for h v
    using assms(1) that unfolding cooperative_def by blast
  have "db_First E' (hist w) i = Inr s" "db_First E' (hist w @ [EvDbFirst i (Inr s)]) i = Inr s1"
    using read [OF assms(3)] read [OF s1(1)] w1 splice_after [of "hist w1" evs "[]"] by (simp_all add: E' interfere_def)
  moreover have "db_Save E' h v = None" for h v using assms(1) by (simp add: E' interfere_def cooperative_def)
  ultimately obtain t s2 es where "result_of (UpdateStreamProcessing E' S req) w = None" "ID s2 = i" "Status s2 = StatusReady"
    "hist (after (UpdateStreamProcessing E' S req) w) = hist w1 @ [EvDbFirst i (Inr s1), EvNow t, EvDbSave s2 None] @ es"
    "list_all (\<lambda>e. \<not> writes_stream e) es"
    using wpre_result [OF report_saves_stale_row [OF _ _ _ ID assms(2,4,5,6)]] w1 by fastforce
  then show ?thesis using pub(1) s1 by (simp add: replay_frame)
qed

text \<open>The reference environment, where the stream 1 of the user 7 is ready and a worker reports progress.\<close>

definition ref_report :: UpdateStreamProcessingRequest where
  "ref_report = \<lparr>Proc_StreamUUID = 1, Proc_Processing =
     \<lparr>TaskType = ''faces'', Progress = 50, Steps = None, TaskError = None, TaskID = None\<rparr>\<rparr>"

theorem publication_lost_witness:
  "\<exists>evs v s1 s2. table (hist ready_world @ evs) 1 = Some s1 \<and> Status s1 = StatusPublished \<and>
     v = after (UpdateStreamProcessing (interfere (Suc (length (hist ready_world))) (tl evs) ref_env) ref_service ref_report) ready_world \<and>
     table (splice (Suc (length (hist ready_world))) (tl evs) (hist v)) 1 = Some s2 \<and> Status s2 = StatusReady"
proof -
  obtain t where row: "table (hist ready_world) 1 = Some (BeforeUpdate t (ref_row\<lparr>Status := StatusReady\<rparr>))" (is "_ = Some ?s")
    using ready_world_table by auto
  have s: "Status ?s = StatusReady" "ProcessingTasks ?s = Inr []" "Proc_StreamUUID ref_report = 1" "(1 :: uuid) \<noteq> uuid_Nil"
    by (simp_all add: BeforeUpdate_def ref_row_def BeforeCreate_def Let_def new_stream_def ProcessingTasks_def raw_empty_def
        ref_report_def uuid_Nil_def)
  let ?read = "EvDbFirst 1 (Inr ?s)"
  let ?w1 = "ready_world\<lparr>hist := hist ready_world @ [?read]\<rparr>"
  let ?evs = "trace ?w1 (after (PublishStream ref_env ref_service 1) ?w1)"
  show ?thesis
    using publication_lost [OF ref_cooperative s(4) row s(1,2,3) refl refl refl]
    by (intro exI [of _ "?read # ?evs"]) simp
qed

end
