(* ===== verification/MinioAdapter.thy ===== *)
theory MinioAdapter
  imports StorageMinio
begin

text \<open>
  \<open>internal/storage/minio_adapter.go\<close> and \<open>minio_client.go\<close>: the adapter between \<open>MinIOStorage\<close> and
  minio-go. The client and the core of minio-go are parameters, functions of the history like every call of
  \<open>env\<close>; \<open>with_storage\<close> puts the adapter, with the options \<open>minio_storage.go\<close> passes, behind the
  object-store calls of an environment.
\<close>

section \<open>The library\<close>

text \<open>Options are reduced to what the code sets. The type variable is minio-go's \<open>UploadInfo\<close>, which nobody reads.\<close>

record list_options =
  Prefix :: string
  Recursive :: bool

record 'i minio_client =
  client_PutObject :: "history \<Rightarrow> string \<Rightarrow> string \<Rightarrow> string \<Rightarrow> int \<Rightarrow> string \<Rightarrow> goerr + 'i"
  client_GetObject :: "history \<Rightarrow> string \<Rightarrow> string \<Rightarrow> goerr + s3_object"
  client_RemoveObject :: "history \<Rightarrow> string \<Rightarrow> string \<Rightarrow> goerr option"
  client_StatObject :: "history \<Rightarrow> string \<Rightarrow> string \<Rightarrow> goerr + int"
  client_BucketExists :: "history \<Rightarrow> string \<Rightarrow> goerr + bool"
  client_MakeBucket :: "history \<Rightarrow> string \<Rightarrow> goerr option"
  client_PresignedGetObject :: "history \<Rightarrow> string \<Rightarrow> string \<Rightarrow> goerr + string"
  client_ListObjects :: "history \<Rightarrow> string \<Rightarrow> list_options \<Rightarrow> string list"
  client_RemoveObjects :: "history \<Rightarrow> string \<Rightarrow> string list \<Rightarrow> (string \<times> goerr option) list"

record 'i minio_core =
  core_NewMultipartUpload :: "history \<Rightarrow> string \<Rightarrow> string \<Rightarrow> string \<Rightarrow> goerr + string"
  core_PutObjectPart :: "history \<Rightarrow> string \<Rightarrow> string \<Rightarrow> string \<Rightarrow> int \<Rightarrow> string \<Rightarrow> int \<Rightarrow> goerr + string"
  core_CompleteMultipartUpload :: "history \<Rightarrow> string \<Rightarrow> string \<Rightarrow> string \<Rightarrow> (int \<times> string) list \<Rightarrow> goerr + 'i"
  core_AbortMultipartUpload :: "history \<Rightarrow> string \<Rightarrow> string \<Rightarrow> string \<Rightarrow> goerr option"

section \<open>The adapter\<close>

record 'i minioAdapter =
  client :: "'i minio_client"
  core :: "'i minio_core"

text \<open>\<open>core_of\<close> is \<open>&minio.Core{Client: client}\<close>.\<close>

definition NewMinIOAdapter :: "('i minio_client \<Rightarrow> 'i minio_core) \<Rightarrow> 'i minio_client \<Rightarrow> 'i minioAdapter" where
  "NewMinIOAdapter core_of c = \<lparr>client = c, core = core_of c\<rparr>"

definition adapter_PutObject ::
  "'i minioAdapter \<Rightarrow> history \<Rightarrow> string \<Rightarrow> string \<Rightarrow> string \<Rightarrow> int \<Rightarrow> string \<Rightarrow> goerr + 'i" where
  "adapter_PutObject a h bucket object data sz contentType =
     client_PutObject (client a) h bucket object data sz contentType"

definition adapter_GetObject :: "'i minioAdapter \<Rightarrow> history \<Rightarrow> string \<Rightarrow> string \<Rightarrow> goerr + s3_object" where
  "adapter_GetObject a h bucket object = client_GetObject (client a) h bucket object"

definition adapter_RemoveObject :: "'i minioAdapter \<Rightarrow> history \<Rightarrow> string \<Rightarrow> string \<Rightarrow> goerr option" where
  "adapter_RemoveObject a h bucket object = client_RemoveObject (client a) h bucket object"

definition adapter_StatObject :: "'i minioAdapter \<Rightarrow> history \<Rightarrow> string \<Rightarrow> string \<Rightarrow> goerr + int" where
  "adapter_StatObject a h bucket object = client_StatObject (client a) h bucket object"

definition adapter_BucketExists :: "'i minioAdapter \<Rightarrow> history \<Rightarrow> string \<Rightarrow> goerr + bool" where
  "adapter_BucketExists a h bucket = client_BucketExists (client a) h bucket"

definition adapter_MakeBucket :: "'i minioAdapter \<Rightarrow> history \<Rightarrow> string \<Rightarrow> goerr option" where
  "adapter_MakeBucket a h bucket = client_MakeBucket (client a) h bucket"

definition adapter_PresignedGetObject :: "'i minioAdapter \<Rightarrow> history \<Rightarrow> string \<Rightarrow> string \<Rightarrow> goerr + string" where
  "adapter_PresignedGetObject a h bucket object = client_PresignedGetObject (client a) h bucket object"

definition adapter_ListObjects :: "'i minioAdapter \<Rightarrow> history \<Rightarrow> string \<Rightarrow> list_options \<Rightarrow> string list" where
  "adapter_ListObjects a h bucket opts = client_ListObjects (client a) h bucket opts"

definition adapter_RemoveObjects ::
  "'i minioAdapter \<Rightarrow> history \<Rightarrow> string \<Rightarrow> string list \<Rightarrow> (string \<times> goerr option) list" where
  "adapter_RemoveObjects a h bucket objects = client_RemoveObjects (client a) h bucket objects"

text \<open>The calls of a multipart upload go to the core.\<close>

definition adapter_NewMultipartUpload ::
  "'i minioAdapter \<Rightarrow> history \<Rightarrow> string \<Rightarrow> string \<Rightarrow> string \<Rightarrow> goerr + string" where
  "adapter_NewMultipartUpload a h bucket object contentType =
     core_NewMultipartUpload (core a) h bucket object contentType"

definition adapter_PutObjectPart ::
  "'i minioAdapter \<Rightarrow> history \<Rightarrow> string \<Rightarrow> string \<Rightarrow> string \<Rightarrow> int \<Rightarrow> string \<Rightarrow> int \<Rightarrow> goerr + string" where
  "adapter_PutObjectPart a h bucket object uploadID partNumber data sz =
     core_PutObjectPart (core a) h bucket object uploadID partNumber data sz"

definition adapter_CompleteMultipartUpload ::
  "'i minioAdapter \<Rightarrow> history \<Rightarrow> string \<Rightarrow> string \<Rightarrow> string \<Rightarrow> (int \<times> string) list \<Rightarrow> goerr + 'i" where
  "adapter_CompleteMultipartUpload a h bucket object uploadID parts =
     core_CompleteMultipartUpload (core a) h bucket object uploadID parts"

definition adapter_AbortMultipartUpload ::
  "'i minioAdapter \<Rightarrow> history \<Rightarrow> string \<Rightarrow> string \<Rightarrow> string \<Rightarrow> goerr option" where
  "adapter_AbortMultipartUpload a h bucket object uploadID =
     core_AbortMultipartUpload (core a) h bucket object uploadID"

section \<open>The storage over the adapter\<close>

record 'i MinIOStorage =
  MinioClient :: "'i minioAdapter"
  MinioBucket :: string

definition NewMinIOStorage ::
  "('i minio_client \<Rightarrow> 'i minio_core) \<Rightarrow> 'i minio_client \<Rightarrow> string \<Rightarrow> 'i MinIOStorage" where
  "NewMinIOStorage core_of c bucket = \<lparr>MinioClient = NewMinIOAdapter core_of c, MinioBucket = bucket\<rparr>"

definition GetBucketName :: "'i MinIOStorage \<Rightarrow> string" where
  "GetBucketName s = MinioBucket s"

text \<open>\<open>_, err := f()\<close>.\<close>

definition error_of :: "goerr + 'a \<Rightarrow> goerr option" where
  "error_of r = (case r of Inl err \<Rightarrow> Some err | Inr _ \<Rightarrow> None)"

definition complete_parts :: "MultipartPart list \<Rightarrow> (int \<times> string) list" where
  "complete_parts parts = map (\<lambda>p. (PartNumber p, ETag p)) parts"

definition with_storage :: "'i MinIOStorage \<Rightarrow> env \<Rightarrow> env" where
  "with_storage s E = (let a = MinioClient s in
     E\<lparr>s3_BucketExists := adapter_BucketExists a,
       s3_MakeBucket := adapter_MakeBucket a,
       s3_PutObject := \<lambda>h b k d n. error_of (adapter_PutObject a h b k d n ''application/octet-stream''),
       s3_GetObject := adapter_GetObject a,
       s3_StatObject := \<lambda>h b k. error_of (adapter_StatObject a h b k),
       s3_RemoveObject := adapter_RemoveObject a,
       s3_RemoveObjects := \<lambda>h b p. adapter_RemoveObjects a h b
         (adapter_ListObjects a h b \<lparr>Prefix = p, Recursive = True\<rparr>),
       s3_Presign := adapter_PresignedGetObject a,
       s3_NewMultipart := \<lambda>h b k. adapter_NewMultipartUpload a h b k ''video/mp4'',
       s3_PutPart := adapter_PutObjectPart a,
       s3_CompleteMultipart := \<lambda>h b k u ps. error_of (adapter_CompleteMultipartUpload a h b k u (complete_parts ps)),
       s3_AbortMultipart := adapter_AbortMultipartUpload a\<rparr>)"

lemmas adapter_defs = adapter_PutObject_def adapter_GetObject_def adapter_RemoveObject_def adapter_StatObject_def
  adapter_BucketExists_def adapter_MakeBucket_def adapter_PresignedGetObject_def adapter_ListObjects_def
  adapter_RemoveObjects_def adapter_NewMultipartUpload_def adapter_PutObjectPart_def
  adapter_CompleteMultipartUpload_def adapter_AbortMultipartUpload_def

section \<open>Properties\<close>

text \<open>
  A folder's deletion fails only with the error of an object below the folder, the slash included, so no
  object beside the folder is touched. Assumed of the library: a listing has only names with the prefix,
  and the removal answers only for objects it was given.
\<close>

lemma first_remove_error_Some:
  "first_remove_error es = Some e \<Longrightarrow>
     \<exists>n err. (n, Some err) \<in> set es \<and> e = Wrapf (''failed to delete object '' @ n @ '': '') err []"
  by (induction es rule: first_remove_error.induct) auto

lemma delete_folder_confined:
  assumes "\<And>h b opts n. n \<in> set (client_ListObjects c h b opts) \<Longrightarrow> HasPrefix n (Prefix opts)"
    and "\<And>h b os n e. (n, e) \<in> set (client_RemoveObjects c h b os) \<Longrightarrow> n \<in> set os"
    and "result_of (storage_DeleteFolder (with_storage (NewMinIOStorage core_of c bucket) E) bucket dir) w = Some e"
  shows "\<exists>n err. HasPrefix n (dir @ ''/'') \<and> e = Wrapf (''failed to delete object '' @ n @ '': '') err []"
proof -
  let ?os = "client_ListObjects c (hist w) bucket \<lparr>Prefix = dir @ ''/'', Recursive = True\<rparr>"
  have "first_remove_error (client_RemoveObjects c (hist w) bucket ?os) = Some e"
    using assms(3) by (simp add: storage_DeleteFolder_def with_storage_def NewMinIOStorage_def
        NewMinIOAdapter_def adapter_defs result_of_def Let_def split: if_splits)
  then obtain n err where n: "(n, Some err) \<in> set (client_RemoveObjects c (hist w) bucket ?os)"
    and e: "e = Wrapf (''failed to delete object '' @ n @ '': '') err []"
    using first_remove_error_Some by blast
  from assms(1) [OF assms(2) [OF n]] have "HasPrefix n (dir @ ''/'')" by simp
  with e show ?thesis by blast
qed

end
