(* ===== verification/Server.thy ===== *)
theory Server
  imports Routes MinioAdapter
begin

text \<open>
  From the environment variables to the running servers: \<open>internal/storage/factory.go\<close>,
  \<open>internal/database/database.go\<close>, the constructors of the service, \<open>SetupRoutes\<close> as a whole
  (\<open>http/routes/routes.go\<close>) and \<open>main\<close> (\<open>cmd/server/main.go\<close>), the shutdown included. What the libraries
  answer while the program starts is the record \<open>libraries\<close>.
\<close>

section \<open>Storage and database\<close>

record minio_options =
  OptCreds :: "string \<times> string \<times> string"
  OptSecure :: bool
  OptRegion :: string

definition NewMinIOStorageFromConfig ::
  "(string \<Rightarrow> minio_options \<Rightarrow> goerr + 'i minio_client) \<Rightarrow> ('i minio_client \<Rightarrow> 'i minio_core) \<Rightarrow> MinIO \<Rightarrow>
   goerr + 'i MinIOStorage" where
  "NewMinIOStorageFromConfig minio_New core_of cfg =
    (case minio_New (Endpoint cfg) \<lparr>OptCreds = (AccessKeyID cfg, SecretAccessKey cfg, []),
       OptSecure = UseSSL cfg, OptRegion = Region cfg\<rparr> of
       Inl err \<Rightarrow> Inl (Wrapf ''failed to create MinIO client: '' err [])
     | Inr c \<Rightarrow> Inr (NewMinIOStorage core_of c (BucketName cfg)))"

text \<open>The settings of the connection pool; durations in nanoseconds.\<close>

record pool =
  MaxOpenConns :: int
  MaxIdleConns :: int
  ConnMaxLifetime :: int
  ConnMaxIdleTime :: int

text \<open>\<open>gorm_Open\<close> opens the database of a DSN; \<open>DB\<close> gives its \<open>sql.DB\<close>, whose setters cannot fail.\<close>

definition SetupDatabase :: "(string \<Rightarrow> goerr + 'db) \<Rightarrow> ('db \<Rightarrow> goerr option) \<Rightarrow> Config \<Rightarrow> goerr + 'db \<times> pool" where
  "SetupDatabase gorm_Open DB cfg =
    (case gorm_Open (GetDsn cfg) of
       Inl err \<Rightarrow> Inl (Errorf (warning_sign @ ''GORM not open DB''))
     | Inr db \<Rightarrow>
         (case DB db of
            Some err \<Rightarrow> Inl (Errorf (warning_sign @ ''GORM not open DB''))
          | None \<Rightarrow> Inr (db, \<lparr>MaxOpenConns = 100, MaxIdleConns = 10,
              ConnMaxLifetime = 3600000000000, ConnMaxIdleTime = 1800000000000\<rparr>)))"

section \<open>The service\<close>

definition NewStreamServiceImpl :: "string \<Rightarrow> bool \<Rightarrow> Server \<Rightarrow> service" where
  "NewStreamServiceImpl bucket hub cfg =
     \<lparr>HasHub = hub, HasEvents = False, HasCascade = False,
      KeepOriginalFile = CfgKeepOriginalFile cfg, StorageBucket = bucket\<rparr>"

definition WithActivityRecorder :: "service \<Rightarrow> service" where
  "WithActivityRecorder s = s\<lparr>HasEvents := True\<rparr>"

definition WithFacesCascadeRecorder :: "service \<Rightarrow> service" where
  "WithFacesCascadeRecorder s = s\<lparr>HasCascade := True\<rparr>"

text \<open>The service the routes are built on; the hub is there and everything optional is attached.\<close>

definition routes_service :: "Config \<Rightarrow> string \<Rightarrow> service" where
  "routes_service cfg bucket =
     WithFacesCascadeRecorder (WithActivityRecorder (NewStreamServiceImpl bucket True (CfgServer cfg)))"

section \<open>Setting up the routes\<close>

record cors_config =
  AllowOrigins :: "string list"
  AllowMethods :: "string list"
  AllowHeaders :: "string list"
  ExposeHeaders :: "string list"
  AllowCredentials :: bool

definition cors_of :: "Config \<Rightarrow> cors_config" where
  "cors_of cfg =
     \<lparr>AllowOrigins = AllowedOrigins (CfgServer cfg),
      AllowMethods = [''GET'', ''PATCH'', ''POST'', ''OPTIONS'', ''PUT'', ''DELETE''],
      AllowHeaders = [''Content-Type'', ''Authorization''],
      ExposeHeaders = [''Content-Length'', ''Content-Type''],
      AllowCredentials = True\<rparr>"

datatype gin_mode = TestMode | DebugMode | ReleaseMode

definition gin_mode_of :: "ServerMode \<Rightarrow> gin_mode" where
  "gin_mode_of mode =
    (case mode of Test \<Rightarrow> TestMode | Debug \<Rightarrow> DebugMode | Release \<Rightarrow> ReleaseMode | OtherMode s \<Rightarrow> DebugMode)"

datatype middleware = StructuredLog | MetricsMiddleware | Recovery | Cors cors_config

record 'k engine =
  Eng_Mode :: gin_mode
  Eng_Use :: "middleware list"
  Eng_Tokens :: "'k token_service"
  Eng_Queues :: "queue_client \<Rightarrow> redis_opt"
  Eng_Handler :: StreamHandler
  Eng_Routes :: "route list"

text \<open>
  What the libraries answer: minio-go, gorm, the identity service's packages for TLS files and for the
  permission client, gin-contrib/cors (which panics on a configuration it does not accept), net/http and
  the PEM parser.
\<close>

record ('i, 'db, 'k) libraries =
  minio_New :: "string \<Rightarrow> minio_options \<Rightarrow> goerr + 'i minio_client"
  minio_Core :: "'i minio_client \<Rightarrow> 'i minio_core"
  gorm_Open :: "string \<Rightarrow> goerr + 'db"
  gorm_DB :: "'db \<Rightarrow> goerr option"
  ClientTLSCreds :: "string \<Rightarrow> string \<Rightarrow> string \<Rightarrow> string \<Rightarrow> goerr option"
  NewPermissionClient :: "string \<Rightarrow> credentials \<Rightarrow> goerr option"
  ServerTLSCreds :: "string \<Rightarrow> string \<Rightarrow> string \<Rightarrow> goerr option"
  cors_New :: "cors_config \<Rightarrow> unit outcome"
  NewRequest :: "string \<Rightarrow> goerr + unit"
  DoRequest :: "string \<Rightarrow> goerr + http_answer"
  ParsePEM :: "string \<Rightarrow> 'k option"

text \<open>The configurations come without an error, so the check after the CORS middleware never returns.\<close>

definition SetupRoutes ::
  "('i, 'db, 'k) libraries \<Rightarrow> environ \<Rightarrow> ServerMode \<Rightarrow> string \<Rightarrow> (goerr + 'k engine) outcome" where
  "SetupRoutes L os mode bucket =
    (let cfg = routes_config mode os in
     case cors_New L (cors_of cfg) of
       Panics \<Rightarrow> Panics
     | Returns _ \<Rightarrow> Returns
         (case NewTokenService (NewRequest L) (DoRequest L) (ParsePEM L) (AccessPublicKeyURL cfg) of
            Inl err \<Rightarrow> Inl (Wrapf (warning_sign @ ''Error setup routes: '') err [])
          | Inr tokenService \<Rightarrow> Inr
              \<lparr>Eng_Mode = gin_mode_of mode,
               Eng_Use = [StructuredLog, MetricsMiddleware, Recovery, Cors (cors_of cfg)],
               Eng_Tokens = tokenService,
               Eng_Queues = queue_redis cfg,
               Eng_Handler = NewStreamHandlerWithOrigins (routes_service cfg bucket) True (AllowedOrigins (CfgServer cfg)),
               Eng_Routes = route_table\<rparr>))"

section \<open>Starting\<close>

text \<open>The signs in front of the messages, in UTF-8.\<close>

definition cross_mark :: string where "cross_mark = [CHR 0xE2, CHR 0x9D, CHR 0x8C, CHR '' '']"
definition red_circle :: string where "red_circle = [CHR 0xF0, CHR 0x9F, CHR 0x94, CHR 0xB4, CHR '' '']"
definition yellow_circle :: string where "yellow_circle = [CHR 0xF0, CHR 0x9F, CHR 0x9F, CHR 0xA1, CHR '' '']"
definition green_circle :: string where "green_circle = [CHR 0xF0, CHR 0x9F, CHR 0x9F, CHR 0xA2, CHR '' '']"

record http_server =
  Addr :: string
  ReadTimeout :: int
  WriteTimeout :: int
  IdleTimeout :: int

record ('i, 'db, 'k) server =
  Srv_Storage :: "'i MinIOStorage"
  Srv_DB :: 'db
  Srv_Pool :: pool
  Srv_Permissions :: "string \<times> credentials"
  Srv_Engine :: "'k engine"
  Srv_HTTP :: http_server
  Srv_Grpc :: service
  Srv_GrpcOptions :: "grpc_option list"
  Srv_GrpcAddr :: string

text \<open>\<open>log.Fatal\<close> prints and exits, a panic crashes, and otherwise both servers are started.\<close>

datatype 'a startup = Fatal string | Crashes | Running 'a

definition or_fatal :: "string \<Rightarrow> goerr + 'a \<Rightarrow> ('a \<Rightarrow> 'b startup) \<Rightarrow> 'b startup" where
  "or_fatal text r k = (case r of Inl err \<Rightarrow> Fatal (text @ Error_text err) | Inr a \<Rightarrow> k a)"

text \<open>\<open>internal/delivery/grpc/stream_handler.go\<close>: the gRPC server serves the service it is given; nil is fatal.\<close>

definition NewStreamGRPCServer :: "service option \<Rightarrow> service startup" where
  "NewStreamGRPCServer svc =
    (case svc of
       None \<Rightarrow> Fatal (cross_mark @ ''Stream srevice is nil in NewStreamGRPCServer'')
     | Some s \<Rightarrow> Running s)"

definition main_start :: "('i, 'db, 'k) libraries \<Rightarrow> environ \<Rightarrow> ('i, 'db, 'k) server startup" where
  "main_start L os =
    (let cfg = LoadConfig os in
     or_fatal (cross_mark @ '' Error create file storage: '')
       (NewMinIOStorageFromConfig (minio_New L) (minio_Core L) (CfgMinIO cfg)) (\<lambda>fileMinIOStorage.
     or_fatal (cross_mark @ ''Error open database: '') (SetupDatabase (gorm_Open L) (gorm_DB L) cfg) (\<lambda>(db, pool).
     or_fatal (cross_mark @ ''Permission gRPC client: '') (newPermissionClient (ClientTLSCreds L) (NewPermissionClient L) cfg) (\<lambda>permissionClient.
     case SetupRoutes L os (Mode (CfgServer cfg)) (GetBucketName fileMinIOStorage) of
       Panics \<Rightarrow> Crashes
     | Returns r \<Rightarrow>
         or_fatal (cross_mark @ ''Error gin route: '') r (\<lambda>engine.
         case NewStreamGRPCServer (Some (HandlerService (Eng_Handler engine))) of
           Fatal text \<Rightarrow> Fatal text
         | Crashes \<Rightarrow> Crashes
         | Running grpcHandle \<Rightarrow>
         or_fatal (red_circle @ ''Failed to load gRPC server TLS: '') (grpc_options (ServerTLSCreds L) cfg) (\<lambda>grpcOpts.
         Running \<lparr>Srv_Storage = fileMinIOStorage, Srv_DB = db, Srv_Pool = pool,
           Srv_Permissions = permissionClient, Srv_Engine = engine,
           Srv_HTTP = \<lparr>Addr = ServerAddr (CfgServer cfg), ReadTimeout = 15000000000,
             WriteTimeout = 15000000000, IdleTimeout = 60000000000\<rparr>,
           Srv_Grpc = grpcHandle, Srv_GrpcOptions = grpcOpts, Srv_GrpcAddr = '':50051''\<rparr>))))))"

section \<open>Stopping\<close>

text \<open>
  What ends the wait of \<open>main\<close>: one of the two serving goroutines comes back, or a signal arrives.
  \<open>HttpServed None\<close> is \<open>http.ErrServerClosed\<close> or nil.
\<close>

datatype occurrence = HttpServed "goerr option" | GrpcListen goerr | GrpcServed "goerr option" | StopSignal

datatype action = LogFatal string | HttpShutdown int | GracefulStop | ClosePool

fun main_wait :: "occurrence list \<Rightarrow> action list" where
  "main_wait [] = []"
| "main_wait (HttpServed None # os) = main_wait os"
| "main_wait (HttpServed (Some err) # os) = [LogFatal (red_circle @ ''Server error: '' @ Error_text err)]"
| "main_wait (GrpcListen err # os) = [LogFatal (red_circle @ ''Failed to listen: '' @ Error_text err)]"
| "main_wait (GrpcServed None # os) = main_wait os"
| "main_wait (GrpcServed (Some err) # os) = [LogFatal (red_circle @ ''Failed to serve: '' @ Error_text err)]"
| "main_wait (StopSignal # os) = [HttpShutdown 30000000000, GracefulStop, ClosePool]"

text \<open>
  The deferred function: what it prints, given the answer of \<open>db.DB()\<close>, where \<open>Inr\<close> holds the answer of
  \<open>Close\<close>. Without a pool \<open>sqlDB\<close> is nil and its \<open>Close\<close> panics.
\<close>

definition close_pool :: "goerr + goerr option \<Rightarrow> string list \<times> unit outcome" where
  "close_pool db =
    (let start = yellow_circle @ ''Closing database pool...'' in
     case db of
       Inl err \<Rightarrow> ([start, ''failed to get sql.DB: '' @ Error_text err], Panics)
     | Inr closed \<Rightarrow>
         ((case closed of
             None \<Rightarrow> [start]
           | Some err \<Rightarrow> [start, green_circle @ ''Database pool closed'']), Returns ()))"

end
