(* ===== verification/ServerProperties.thy ===== *)
theory ServerProperties
  imports Server Reference
begin

text \<open>
  What a started program has in common with its configuration, and how it stops. A start is inverted into
  its parts once (\<open>main_start_Running\<close>); the properties read off the parts.
\<close>

section \<open>Inverting a start\<close>

lemma or_fatal_Running: "or_fatal text r k = Running b \<longleftrightarrow> (\<exists>a. r = Inr a \<and> k a = Running b)"
  by (simp add: or_fatal_def split: sum.split)

lemma or_fatal_not_Crashes: "or_fatal text r k = Crashes \<longleftrightarrow> (\<exists>a. r = Inr a \<and> k a = Crashes)"
  by (simp add: or_fatal_def split: sum.split)

lemma SetupRoutes_engine:
  assumes "SetupRoutes L os mode bucket = Returns (Inr e)"
  shows "Eng_Use e = [StructuredLog, MetricsMiddleware, Recovery, Cors (cors_of (routes_config mode os))] \<and>
    Eng_Queues e = queue_redis (routes_config mode os) \<and> Eng_Routes e = route_table \<and>
    Eng_Handler e = NewStreamHandlerWithOrigins (routes_service (routes_config mode os) bucket) True
      (AllowedOrigins (CfgServer (routes_config mode os))) \<and>
    cors_New L (cors_of (routes_config mode os)) = Returns () \<and>
    NewTokenService (NewRequest L) (DoRequest L) (ParsePEM L) (AccessPublicKeyURL (routes_config mode os)) = Inr (Eng_Tokens e)"
  using assms by (auto simp: SetupRoutes_def Let_def split: outcome.splits sum.splits)

lemma main_start_Running:
  assumes "main_start L os = Running srv"
  defines "cfg \<equiv> LoadConfig os"
  shows "NewMinIOStorageFromConfig (minio_New L) (minio_Core L) (CfgMinIO cfg) = Inr (Srv_Storage srv)"
    "SetupDatabase (gorm_Open L) (gorm_DB L) cfg = Inr (Srv_DB srv, Srv_Pool srv)"
    "newPermissionClient (ClientTLSCreds L) (NewPermissionClient L) cfg = Inr (Srv_Permissions srv)"
    "SetupRoutes L os (Mode (CfgServer cfg)) (GetBucketName (Srv_Storage srv)) = Returns (Inr (Srv_Engine srv))"
    "grpc_options (ServerTLSCreds L) cfg = Inr (Srv_GrpcOptions srv)"
    "Srv_Grpc srv = HandlerService (Eng_Handler (Srv_Engine srv))"
    "Addr (Srv_HTTP srv) = ServerAddr (CfgServer cfg)"
proof -
  obtain s p r where parts: "NewMinIOStorageFromConfig (minio_New L) (minio_Core L) (CfgMinIO cfg) = Inr s"
    "newPermissionClient (ClientTLSCreds L) (NewPermissionClient L) cfg = Inr p"
    "SetupRoutes L os (Mode (CfgServer cfg)) (GetBucketName s) = Returns r"
    using assms by (cases "SetupRoutes L os (Mode (CfgServer cfg)) (GetBucketName (projr
        (NewMinIOStorageFromConfig (minio_New L) (minio_Core L) (CfgMinIO cfg))))")
      (auto simp: main_start_def or_fatal_Running Let_def)
  show "NewMinIOStorageFromConfig (minio_New L) (minio_Core L) (CfgMinIO cfg) = Inr (Srv_Storage srv)"
    "SetupDatabase (gorm_Open L) (gorm_DB L) cfg = Inr (Srv_DB srv, Srv_Pool srv)"
    "newPermissionClient (ClientTLSCreds L) (NewPermissionClient L) cfg = Inr (Srv_Permissions srv)"
    "SetupRoutes L os (Mode (CfgServer cfg)) (GetBucketName (Srv_Storage srv)) = Returns (Inr (Srv_Engine srv))"
    "grpc_options (ServerTLSCreds L) cfg = Inr (Srv_GrpcOptions srv)"
    "Srv_Grpc srv = HandlerService (Eng_Handler (Srv_Engine srv))"
    "Addr (Srv_HTTP srv) = ServerAddr (CfgServer cfg)"
    using assms parts by (auto simp: main_start_def or_fatal_Running Let_def NewStreamGRPCServer_def)
qed

lemma routes_service_fields:
  "StorageBucket (routes_service cfg b) = b" "HasHub (routes_service cfg b)" "HasEvents (routes_service cfg b)"
  "HasCascade (routes_service cfg b)"
  "KeepOriginalFile (routes_service cfg b) = CfgKeepOriginalFile (CfgServer cfg)"
  by (simp_all add: routes_service_def NewStreamServiceImpl_def WithActivityRecorder_def WithFacesCascadeRecorder_def)

lemma bucket_of_config:
  "NewMinIOStorageFromConfig nw co m = Inr s \<Longrightarrow> GetBucketName s = BucketName m"
  by (auto simp: NewMinIOStorageFromConfig_def NewMinIOStorage_def GetBucketName_def split: sum.splits)

lemma newPermissionClient_creds:
  assumes "newPermissionClient load dial cfg = Inr (addr, creds)"
  shows "addr = AuthServiceAddr (CfgServer cfg) \<and> dial addr creds = None \<and>
    (case creds of
       Insecure \<Rightarrow> \<not> GRPCTLSEnabled (CfgServer cfg)
     | ClientTLS crt key ca name \<Rightarrow> GRPCTLSEnabled (CfgServer cfg) \<and> load crt key ca name = None \<and>
         name = ''identity-service'' \<and> crt = GRPCTLSCertFile (CfgServer cfg) \<and>
         key = GRPCTLSKeyFile (CfgServer cfg) \<and> ca = GRPCTLSCAFile (CfgServer cfg))"
  using assms by (auto simp: newPermissionClient_def Let_def split: if_splits option.splits)

lemma grpc_options_cases:
  assumes "grpc_options load cfg = Inr opts"
  shows "if GRPCTLSEnabled (CfgServer cfg)
    then load (GRPCTLSCertFile (CfgServer cfg)) (GRPCTLSKeyFile (CfgServer cfg)) (GRPCTLSCAFile (CfgServer cfg)) = None \<and>
      opts = ServerTLS (GRPCTLSCertFile (CfgServer cfg)) (GRPCTLSKeyFile (CfgServer cfg)) (GRPCTLSCAFile (CfgServer cfg)) #
        (if GRPCTLSAllowedOUs (CfgServer cfg) \<noteq> [] then [AllowOUs (GRPCTLSAllowedOUs (CfgServer cfg))] else [])
    else opts = []"
  using assms by (auto simp: grpc_options_def Let_def split: option.splits if_splits)

section \<open>Properties of a running program\<close>

text \<open>
  C27: Transport security is all or nothing: when the program runs with TLS enabled, the connection to the
  identity service presents the configured client certificate and checks the name of that service, the
  gRPC server asks with the same three files, and certificates of other organisational units are refused
  when a list of units is set; with TLS disabled neither side uses it. A file that cannot be loaded stops
  the start, so no server runs with less than was configured.
\<close>

theorem tls_all_or_nothing:
  assumes "main_start L os = Running srv"
  shows "let s = CfgServer (LoadConfig os);
      crt = GRPCTLSCertFile s; key = GRPCTLSKeyFile s; ca = GRPCTLSCAFile s in
    fst (Srv_Permissions srv) = AuthServiceAddr s \<and>
    (if GRPCTLSEnabled s
     then snd (Srv_Permissions srv) = ClientTLS crt key ca ''identity-service'' \<and>
       ClientTLSCreds L crt key ca ''identity-service'' = None \<and> ServerTLSCreds L crt key ca = None \<and>
       Srv_GrpcOptions srv = ServerTLS crt key ca # (if GRPCTLSAllowedOUs s = [] then [] else [AllowOUs (GRPCTLSAllowedOUs s)])
     else snd (Srv_Permissions srv) = Insecure \<and> Srv_GrpcOptions srv = [])"
proof -
  note parts = main_start_Running [OF assms]
  obtain addr creds where p: "Srv_Permissions srv = (addr, creds)" by (cases "Srv_Permissions srv")
  show ?thesis
    using newPermissionClient_creds [OF parts(3) [unfolded p]] grpc_options_cases [OF parts(5)] p
    by (auto simp: Let_def split: credentials.splits)
qed

text \<open>
  A store that is always empty, and libraries that accept everything but a CORS configuration without origins.
\<close>

definition ref_client :: "unit minio_client" where
  "ref_client = \<lparr>client_PutObject = \<lambda>h b k d n t. Inr (), client_GetObject = \<lambda>h b k. Inl (Foreign (MinioErrorResponse ''NoSuchKey'' []) []),
     client_RemoveObject = \<lambda>h b k. None, client_StatObject = \<lambda>h b k. Inl (Foreign (MinioErrorResponse ''NoSuchKey'' []) []),
     client_BucketExists = \<lambda>h b. Inr True, client_MakeBucket = \<lambda>h b. None, client_PresignedGetObject = \<lambda>h b k. Inr [],
     client_ListObjects = \<lambda>h b opts. [], client_RemoveObjects = \<lambda>h b names. []\<rparr>"

definition ref_core :: "unit minio_client \<Rightarrow> unit minio_core" where
  "ref_core c = \<lparr>core_NewMultipartUpload = \<lambda>h b k t. Inr ''upload'', core_PutObjectPart = \<lambda>h b k u n d sz. Inr ''etag'',
     core_CompleteMultipartUpload = \<lambda>h b k u ps. Inr (), core_AbortMultipartUpload = \<lambda>h b k u. None\<rparr>"

definition ref_libraries :: "(unit, unit, nat) libraries" where
  "ref_libraries = \<lparr>minio_New = \<lambda>e opts. Inr ref_client, minio_Core = ref_core, gorm_Open = \<lambda>dsn. Inr (), gorm_DB = \<lambda>db. None,
     ClientTLSCreds = \<lambda>c k a n. None, NewPermissionClient = \<lambda>a c. None, ServerTLSCreds = \<lambda>c k a. None,
     cors_New = \<lambda>c. if AllowOrigins c = [] then Panics else Returns (),
     NewRequest = \<lambda>u. Inr (), DoRequest = \<lambda>u. Inr \<lparr>StatusCode = 200, AnswerBody = Inr ''key''\<rparr>, ParsePEM = \<lambda>s. Some 5\<rparr>"

definition ref_environ :: environ where
  "ref_environ = [''JWT_ACCESS_PUBLIC_KEY_URL'' \<mapsto> ''http://auth/key'', ''GRPC_TLS_ENABLED'' \<mapsto> ''true'',
     ''CORS_ALLOW_ORIGINS'' \<mapsto> ''https://a.example'']"

lemma ref_config:
  "AccessPublicKeyURL (routes_config m ref_environ) = ''http://auth/key''"
  "AllowedOrigins (CfgServer (routes_config m ref_environ)) = [''https://a.example'']"
  "GRPCTLSEnabled (CfgServer (LoadConfig ref_environ))"
  "Mode (CfgServer (LoadConfig ref_environ)) = Debug"
  by (cases m; simp add: routes_config_def ref_environ_def LoadConfig_def TestConfig_def Getenv_def getEnv_def Let_def
      commaSplit_def TrimSpace_def isValid_def mode_of_def getBool_def parse_bool_or_false_def ParseBool_def; code_simp)+

definition ref_server :: "(unit, unit, nat) server" where
  "ref_server = (case main_start ref_libraries ref_environ of Running srv \<Rightarrow> srv)"

lemma ref_start: "main_start ref_libraries ref_environ = Running ref_server"
proof -
  have "\<exists>srv. main_start ref_libraries ref_environ = Running srv"
    by (simp add: main_start_def or_fatal_def ref_libraries_def NewMinIOStorageFromConfig_def SetupDatabase_def
        newPermissionClient_def SetupRoutes_def cors_of_def ref_config NewTokenService_def grpc_options_def
        NewStreamGRPCServer_def Let_def)
  then show ?thesis by (auto simp: ref_server_def)
qed

theorem tls_all_or_nothing_witness:
  "main_start ref_libraries ref_environ = Running ref_server \<and>
   snd (Srv_Permissions ref_server) = ClientTLS [] [] [] ''identity-service'' \<and>
   Srv_GrpcOptions ref_server = [ServerTLS [] [] []]"
proof -
  have "GRPCTLSCertFile (CfgServer (LoadConfig ref_environ)) = []" "GRPCTLSKeyFile (CfgServer (LoadConfig ref_environ)) = []"
    "GRPCTLSCAFile (CfgServer (LoadConfig ref_environ)) = []"
    by (simp_all add: LoadConfig_def ref_environ_def Getenv_def getEnv_def Let_def)
  moreover have "GRPCTLSAllowedOUs (CfgServer (LoadConfig ref_environ)) = []" by code_simp
  ultimately show ?thesis using tls_all_or_nothing [OF ref_start] ref_config(3) by (simp add: ref_start Let_def)
qed

text \<open>
  Cross-origin requests and websockets accept the same origins: in a running program the list given to
  the CORS middleware and the set the websocket handler checks both are the configured list, and it is
  not empty, although the handler would fall back to three built-in origins. Assumed of the CORS package: it panics
  on a list without origins, as it documents.
\<close>

theorem origins_agree:
  assumes "main_start L os = Running srv" and "\<And>c. AllowOrigins c = [] \<Longrightarrow> cors_New L c = Panics"
  shows "let origins = commaSplit (getEnv os ''CORS_ALLOW_ORIGINS'' default_origins) in
    origins \<noteq> [] \<and> allowedOrigs (Eng_Handler (Srv_Engine srv)) = set origins \<and>
    (\<exists>c. Cors c \<in> set (Eng_Use (Srv_Engine srv)) \<and> AllowOrigins c = origins)"
proof -
  let ?cfg = "routes_config (Mode (CfgServer (LoadConfig os))) os"
  let ?origins = "commaSplit (getEnv os ''CORS_ALLOW_ORIGINS'' default_origins)"
  have o: "AllowedOrigins (CfgServer ?cfg) = ?origins"
    by (simp add: routes_config_def TestConfig_def LoadConfig_def Let_def split: ServerMode.split)
  note e = SetupRoutes_engine [OF main_start_Running(4) [OF assms(1)]]
  have "?origins \<noteq> []" using e assms(2) [of "cors_of ?cfg"] o by (auto simp: cors_of_def)
  then show ?thesis using e o by (simp add: Let_def NewStreamHandlerWithOrigins_def cors_of_def)
qed

theorem origins_agree_witness:
  "allowedOrigs (Eng_Handler (Srv_Engine ref_server)) = {''https://a.example''}"
proof -
  have "commaSplit (getEnv ref_environ ''CORS_ALLOW_ORIGINS'' default_origins) = [''https://a.example'']" by code_simp
  then show ?thesis using origins_agree [OF ref_start] by (simp add: ref_libraries_def Let_def)
qed

text \<open>
  The program that runs in debug mode, the default: whatever the environment says, the service
  removes originals when a stream becomes ready, its task queue has no address, and activity events and exports
  go to database 0.
\<close>

theorem debug_server_ignores_environment:
  assumes "main_start L os = Running srv" and "Mode (CfgServer (LoadConfig os)) = Debug"
  shows "\<not> KeepOriginalFile (Srv_Grpc srv) \<and> \<not> KeepOriginalFile (HandlerService (Eng_Handler (Srv_Engine srv))) \<and>
    Opt_Addr (Eng_Queues (Srv_Engine srv) TaskClient) = [] \<and>
    Opt_DB (Eng_Queues (Srv_Engine srv) EventsClient) = 0 \<and> Opt_DB (Eng_Queues (Srv_Engine srv) ExportClient) = 0"
  using SetupRoutes_engine [OF main_start_Running(4) [OF assms(1)]] main_start_Running(6) [OF assms(1)] assms(2)
  by (simp add: routes_config_def TestConfig_def NewStreamHandlerWithOrigins_def routes_service_fields queue_redis_def)

theorem debug_server_ignores_environment_witness: "\<not> KeepOriginalFile (Srv_Grpc ref_server)"
  using debug_server_ignores_environment [OF ref_start ref_config(4)] by simp

section \<open>Stopping\<close>

text \<open>
  The servers are shut down gracefully, and the pool is closed after them, exactly when a signal arrives
  before anything fails; every failure ends the program by \<open>log.Fatal\<close>, which does neither.
\<close>

abbreviation quiet :: "occurrence \<Rightarrow> bool" where
  "quiet e \<equiv> e = HttpServed None \<or> e = GrpcServed None"

lemma main_wait_quiet: "list_all quiet pre \<Longrightarrow> main_wait (pre @ es) = main_wait es"
  by (induction pre) auto

lemma quiet_Cons:
  assumes "quiet e"
  shows "(\<exists>pre post. e # es = pre @ StopSignal # post \<and> list_all quiet pre) \<longleftrightarrow>
    (\<exists>pre post. es = pre @ StopSignal # post \<and> list_all quiet pre)"
proof
  assume "\<exists>pre post. e # es = pre @ StopSignal # post \<and> list_all quiet pre"
  then show "\<exists>pre post. es = pre @ StopSignal # post \<and> list_all quiet pre"
    using assms by (auto simp: Cons_eq_append_conv)
next
  assume "\<exists>pre post. es = pre @ StopSignal # post \<and> list_all quiet pre"
  then obtain pre post where "es = pre @ StopSignal # post" "list_all quiet pre" by blast
  then have "e # es = (e # pre) @ StopSignal # post \<and> list_all quiet (e # pre)" using assms by simp
  then show "\<exists>pre post. e # es = pre @ StopSignal # post \<and> list_all quiet pre" by blast
qed

theorem graceful_only_on_signal:
  "(ClosePool \<in> set (main_wait es) \<longleftrightarrow> (\<exists>pre post. es = pre @ StopSignal # post \<and> list_all quiet pre)) \<and>
   (ClosePool \<in> set (main_wait es) \<longrightarrow> main_wait es = [HttpShutdown 30000000000, GracefulStop, ClosePool])"
proof (induction es rule: main_wait.induct)
  case (2 es)
  then show ?case using quiet_Cons [of "HttpServed None" es] by simp
next
  case (5 es)
  then show ?case using quiet_Cons [of "GrpcServed None" es] by simp
next
  case (7 es)
  show ?case by (auto intro: exI [of _ "[]"])
qed (auto simp: Cons_eq_append_conv)

text \<open>The message that the pool is closed is printed exactly when closing it failed.\<close>

theorem closed_message_inverted:
  "(\<exists>text \<in> set (fst (close_pool (Inr closed))). HasSuffix text ''Database pool closed'') \<longleftrightarrow> closed \<noteq> None"
  by (cases closed) (auto simp: close_pool_def HasSuffix_def yellow_circle_def green_circle_def Let_def)

end
