(* ===== verification/Wire.thy ===== *)
theory Wire
  imports HttpMedia "HOL-Library.List_Lexorder" "HOL-Library.Char_ord"
begin

text \<open>
  What leaves the HTTP server: the JSON of the response types of \<open>internal/delivery/http/dto/response\<close>, by
  their tags, and of the maps the handlers build. The text of an instant depends on the location the
  database driver gives it, so its encoder is a parameter.
\<close>

section \<open>Response types\<close>

record ErrorResponse =
  ErrorText :: string

definition new_ErrorResponse :: "string \<Rightarrow> ErrorResponse" where
  "new_ErrorResponse text = \<lparr>ErrorText = text\<rparr>"

definition enc_error :: "ErrorResponse \<Rightarrow> json" where
  "enc_error e = JObj [(''error'', enc_string (ErrorText e))]"

definition enc_StreamResponse :: "(time \<Rightarrow> json) \<Rightarrow> env \<Rightarrow> StreamResponse \<Rightarrow> json" where
  "enc_StreamResponse enc_time E r = JObj
     [(''id'', enc_uuid E (R_ID r)), (''title'', enc_string (R_Title r)),
      (''description'', enc_string (R_Description r)), (''status'', enc_string (status_text (R_Status r))),
      (''owner_id'', enc_uuid E (R_OwnerID r)),
      (''visibility'', enc_string (visibility_text (R_Visibility r))),
      (''tags'', enc_slice enc_string (R_Tags r)), (''metadata'', enc_metadata (R_Metadata r)),
      (''created_at'', enc_time (R_CreatedAt r)), (''updated_at'', enc_time (R_UpdatedAt r)),
      (''published_at'', enc_pointer enc_time (R_PublishedAt r)), (''storage'', enc_storage (R_Storage r)),
      (''processing'', enc_slice enc_task (R_Processing r)), (''faces_detected'', JBool (R_FacesDetected r))]"

definition enc_list_response :: "('a \<Rightarrow> json) \<Rightarrow> 'a list_response \<Rightarrow> json" where
  "enc_list_response enc l = JObj
     [(''items'', enc_slice enc (LR_Items l)), (''total'', JNum (LR_Total l)),
      (''limit'', JNum (LR_Limit l)), (''offset'', JNum (LR_Offset l))]"

fun export_status_text :: "StreamExportStatus \<Rightarrow> string" where
  "export_status_text ExportStatusPending = ''pending''"
| "export_status_text ExportStatusReady = ''ready''"
| "export_status_text ExportStatusFailed = ''failed''"
| "export_status_text (ExportStatusOther s) = s"

definition enc_ExportResponse :: "ExportResponse \<Rightarrow> json" where
  "enc_ExportResponse r = JObj (
     [(''stream_id'', enc_string (XR_StreamID r)), (''status'', enc_string (export_status_text (XR_Status r)))] @
     omit_if (XR_Size r = 0) (''size'', JNum (XR_Size r)) @
     omit_if (XR_Error r = []) (''error'', enc_string (XR_Error r)) @
     [(''requested'', JBool (XR_Requested r))] @
     omit_if (XR_FileName r = []) (''file_name'', enc_string (XR_FileName r)))"

record StartUploadResponse =
  SR_UploadID :: string
  SR_StreamID :: string

definition enc_StartUploadResponse :: "StartUploadResponse \<Rightarrow> json" where
  "enc_StartUploadResponse r = JObj
     [(''upload_id'', enc_string (SR_UploadID r)), (''stream_id'', enc_string (SR_StreamID r))]"

record PartUploadResponse =
  PR_PartNumber :: int
  PR_ETag :: string

definition enc_PartUploadResponse :: "PartUploadResponse \<Rightarrow> json" where
  "enc_PartUploadResponse r = JObj [(''part_number'', JNum (PR_PartNumber r)), (''etag'', enc_string (PR_ETag r))]"

record FacesBatchFailureDTO =
  FF_StreamID :: string
  FF_Reason :: string

record FacesBatchResponse =
  FB_Processed :: "string list"
  FB_Failed :: "FacesBatchFailureDTO list"

definition NewFacesBatchResponse :: "string list \<Rightarrow> FacesBatchFailureDTO list \<Rightarrow> FacesBatchResponse" where
  "NewFacesBatchResponse processed failed = \<lparr>FB_Processed = processed, FB_Failed = failed\<rparr>"

definition enc_FacesBatchFailureDTO :: "FacesBatchFailureDTO \<Rightarrow> json" where
  "enc_FacesBatchFailureDTO f = JObj [(''stream_id'', enc_string (FF_StreamID f)), (''reason'', enc_string (FF_Reason f))]"

definition enc_FacesBatchResponse :: "FacesBatchResponse \<Rightarrow> json" where
  "enc_FacesBatchResponse r = JObj
     [(''processed'', JArr (map enc_string (FB_Processed r))),
      (''failed'', JArr (map enc_FacesBatchFailureDTO (FB_Failed r)))]"

section \<open>Bodies\<close>

text \<open>The document of a body, if it has one. A map is written with its keys in order.\<close>

definition body_json :: "(time \<Rightarrow> json) \<Rightarrow> env \<Rightarrow> body \<Rightarrow> json option" where
  "body_json enc_time E b = (case b of
     NoBody \<Rightarrow> None
   | NullBody \<Rightarrow> Some JNull
   | ErrorBody text \<Rightarrow> Some (enc_error (new_ErrorResponse text))
   | MessageBody kvs \<Rightarrow> Some (JObj (sort_key fst (map (\<lambda>(k, v). (k, enc_string v)) kvs)))
   | StreamBody r \<Rightarrow> Some (enc_StreamResponse enc_time E r)
   | ListBody l \<Rightarrow> Some (enc_list_response (enc_StreamResponse enc_time E) l)
   | StatusBody status visibility owner title \<Rightarrow> Some (JObj
       [(''owner_id'', enc_uuid E owner), (''status'', enc_string (status_text status)),
        (''title'', enc_string title), (''visibility'', enc_string (visibility_text visibility))])
   | ExportBody r \<Rightarrow> Some (enc_ExportResponse r)
   | StartBody uploadID streamID \<Rightarrow>
       Some (enc_StartUploadResponse \<lparr>SR_UploadID = uploadID, SR_StreamID = streamID\<rparr>)
   | PartBody n etag \<Rightarrow> Some (enc_PartUploadResponse \<lparr>PR_PartNumber = n, PR_ETag = etag\<rparr>)
   | FacesBody processed failed \<Rightarrow> Some (enc_FacesBatchResponse (NewFacesBatchResponse processed
       (map (\<lambda>(i, reason). \<lparr>FF_StreamID = i, FF_Reason = reason\<rparr>) failed)))
   | FileBody headers obj \<Rightarrow> None
   | DataBody n contentType content \<Rightarrow> None)"

end
