(* ===== verification/WireProperties.thy ===== *)
theory WireProperties
  imports Wire RouteProperties
begin

text \<open>
  What a client learns: that no text of an internal error reaches it, and what the status of a stream
  tells everybody.
\<close>

section \<open>Internal errors\<close>

definition server_error_texts :: "string set" where
  "server_error_texts = {''internal server error'', ''error getting stream list from service'',
     ''invalid stream ID in params'', ''failed to prepare download'', ''service error''}"

definition discreet :: "http_response \<Rightarrow> bool" where
  "discreet resp \<longleftrightarrow> (500 \<le> Code resp \<longrightarrow> Body resp \<in> ErrorBody ` server_error_texts)"

definition discreet_outcome :: "http_response outcome \<Rightarrow> bool" where
  "discreet_outcome r \<longleftrightarrow> (\<forall>resp. r = Returns resp \<longrightarrow> discreet resp)"

definition discreet_result :: "http_response outcome option \<Rightarrow> bool" where
  "discreet_result r \<longleftrightarrow> (\<forall>resp. r = Some (Returns resp) \<longrightarrow> discreet resp)"

lemmas discreet_defs = discreet_def discreet_outcome_def discreet_result_def server_error_texts_def

lemma yields_reply_discreet:
  "code < 500 \<or> b \<in> ErrorBody ` server_error_texts \<Longrightarrow> yields discreet_outcome (reply code b)"
  by (auto simp: reply_def discreet_defs intro!: yields_ret)

lemma yields_download_failure: "yields discreet_outcome (download_failure err)"
  by (auto simp: download_failure_def handleDownloadError_def server_error_texts_def intro!: yields_reply_discreet)

lemma yields_discreet_user: "(\<And>u. yields discreet_outcome (k u)) \<Longrightarrow> yields discreet_outcome (must_user c k)"
  by (auto simp: must_user_def discreet_outcome_def intro!: yields_ret split: user_value.split)

lemma yields_discreet_finished: "yields discreet_outcome m \<Longrightarrow> yields discreet_result (finished m)"
  unfolding yields_def finished_def wp discreet_result_def discreet_outcome_def by (blast intro: wpre_mono)

lemmas yields_discreet = yields_discreet_user yields_reply_discreet yields_download_failure

lemma discreet_handlers:
  "yields discreet_outcome (ListStreamPublic E p)" "yields discreet_outcome (ListStreamOwner E c p)"
  "yields discreet_outcome (http_GetStream E c)" "yields discreet_outcome (http_GetStreamStatus E c)"
  "yields discreet_outcome (http_CreateStream E S c cb)" "yields discreet_outcome (http_UpdateStream E S c ub)"
  "yields discreet_outcome (http_DeleteStream E S c)" "yields discreet_outcome (http_UploadVideo E S c form)"
  "yields discreet_outcome (InitUpload E S c sb)" "yields discreet_outcome (PartUpload E S c pb)"
  "yields discreet_outcome (CompleteUpload E S c parts)" "yields discreet_outcome (RequestExport E c)"
  "yields discreet_outcome (GetExport E c)" "yields discreet_outcome (DownloadStream E S c)"
  "yields discreet_outcome (http_PublishStream E S c)" "yields discreet_outcome (http_UnpublishStream E S c)"
  "yields discreet_outcome (http_ReprocessStream E S c)" "yields discreet_outcome (http_ProcessFacesStream E S c)"
  "yields discreet_outcome (http_ProcessFacesBatch E S c ids)"
  unfolding ListStreamPublic_def ListStreamOwner_def http_GetStream_def http_GetStreamStatus_def http_CreateStream_def
    http_UpdateStream_def http_DeleteStream_def http_UploadVideo_def InitUpload_def PartUpload_def CompleteUpload_def
    RequestExport_def GetExport_def DownloadStream_def http_PublishStream_def http_UnpublishStream_def
    http_ReprocessStream_def http_ProcessFacesStream_def http_ProcessFacesBatch_def
  by (intro yields yields_discreet; simp add: server_error_texts_def)+

lemma discreet_GetHLS: "yields discreet_result (GetHLS E S fuel c f)"
  unfolding GetHLS_def
  by (intro yields; simp add: discreet_defs)+

text \<open>
  C26: No internal error reaches a client: an answer of a handler with a code of 500 or more carries one
  of five fixed texts, whatever error the database, the store or the queue reported. (The health check and the
  metrics page, and answers of the identity service's middleware and of the websocket upgrader, are apart.)
\<close>

theorem internal_errors_hidden:
  assumes "result_of (run_handler E H fuel M hnd r c) w = Some (Returns resp)" and "500 \<le> Code resp"
    and "hnd \<notin> {H_Health, H_Metrics, H_HandleWS}"
  shows "Body resp \<in> ErrorBody ` {''internal server error'', ''error getting stream list from service'',
     ''invalid stream ID in params'', ''failed to prepare download'', ''service error''}"
proof -
  have "yields discreet_result (run_handler E H fuel M hnd r c)"
    using assms(3) unfolding run_handler_def Let_def
    by (cases hnd) (auto intro!: yields_discreet_finished discreet_handlers discreet_GetHLS)
  then have "discreet_result (result_of (run_handler E H fuel M hnd r c) w)"
    unfolding yields_def by (blast dest: wpre_result)
  then show ?thesis using assms(1,2) by (simp add: discreet_result_def discreet_def server_error_texts_def)
qed

definition broken_env :: env where
  "broken_env = ref_env\<lparr>db_First := \<lambda>h i. Inl (Foreign OtherForeign ''password authentication failed'')\<rparr>"

theorem internal_errors_hidden_witness:
  "\<exists>resp. result_of (run_handler broken_env ref_handler 8 ref_middlewares H_GetStream ref_request
      (new_ctx ref_request)) ref_world = Some (Returns resp) \<and> Code resp = 500 \<and>
    Body resp \<in> ErrorBody ` {''internal server error'', ''error getting stream list from service'',
     ''invalid stream ID in params'', ''failed to prepare download'', ''service error''}"
proof -
  obtain resp where r: "result_of (run_handler broken_env ref_handler 8 ref_middlewares H_GetStream ref_request
      (new_ctx ref_request)) ref_world = Some (Returns resp)" and code: "Code resp = 500"
    by (simp add: run_handler_def http_GetStream_def with_id_def new_ctx_def ref_request_def broken_env_def ref_env_def
        ref_Parse_def is_digit_def digits_value_def byte_def GetStream_def repo_Read_def
        reply_def finished_def result_of_def Let_def)
  from internal_errors_hidden [OF r] code show ?thesis using r by auto
qed

section \<open>The status of a private stream\<close>

text \<open>
  The status endpoint has no guard and no check of the visibility: it tells everybody the owner and the
  title of a stream that the stream endpoint refuses to show.
\<close>

theorem private_title_disclosed:
  assumes "uuid_Parse E (Param_id c) = Inr i" and "\<And>h. db_First E h i = Inr s"
    and "Visibility s = VisibilityPrivate" and "User c = NoUser"
  shows "result_of (http_GetStream E c) w = Returns \<lparr>Code = 403, Body = ErrorBody ''access denied''\<rparr> \<and>
    (\<exists>b kvs. result_of (http_GetStreamStatus E c) w = Returns \<lparr>Code = 200, Body = b\<rparr> \<and>
       body_json enc_time E b = Some (JObj kvs) \<and> (''title'', enc_string (Title s)) \<in> set kvs \<and>
       (''owner_id'', enc_uuid E (OwnerID s)) \<in> set kvs) \<and>
    (\<exists>route \<in> set route_table. Rt_Handler route = H_GetStreamStatus \<and> Rt_Guards route = [])"
proof -
  have "\<exists>route \<in> set route_table. Rt_Handler route = H_GetStreamStatus \<and> Rt_Guards route = []"
    by (simp add: route_table_def public_routes_def rt_def)
  moreover have "result_of (http_GetStream E c) w = Returns \<lparr>Code = 403, Body = ErrorBody ''access denied''\<rparr>"
    using assms by (simp add: http_GetStream_def with_id_def GetStream_def repo_Read_def may_view_def reply_def result_of_def)
  moreover have "result_of (http_GetStreamStatus E c) w =
      Returns \<lparr>Code = 200, Body = StatusBody (Status s) (Visibility s) (OwnerID s) (Title s)\<rparr>"
    using assms by (simp add: http_GetStreamStatus_def with_id_def GetStreamStatus_def repo_Read_def reply_def result_of_def)
  ultimately show ?thesis by (auto simp: body_json_def)
qed

theorem private_title_disclosed_witness:
  "result_of (http_GetStreamStatus ref_env \<lparr>Param_id = ''u1'', User = NoUser, Claims = None\<rparr>) created_world \<noteq> Panics \<and>
   (\<exists>route \<in> set route_table. Rt_Handler route = H_GetStreamStatus \<and> Rt_Guards route = [])"
proof -
  let ?E = "ref_env\<lparr>db_First := \<lambda>h i. Inr ref_row\<rparr>"
  let ?c = "\<lparr>Param_id = ''u1'', User = NoUser, Claims = None\<rparr> :: ctx"
  have "uuid_Parse ?E (Param_id ?c) = Inr 1"
    by (simp add: ref_env_def ref_Parse_def is_digit_def digits_value_def byte_def)
  moreover have "Visibility ref_row = VisibilityPrivate"
    by (simp add: ref_row_def BeforeCreate_def new_stream_def ref_create_def Let_def)
  ultimately have "\<exists>route \<in> set route_table. Rt_Handler route = H_GetStreamStatus \<and> Rt_Guards route = []"
    using private_title_disclosed [of ?E ?c 1 ref_row] by simp
  then show ?thesis
    by (simp add: http_GetStreamStatus_def with_id_def GetStreamStatus_def repo_Read_def reply_def result_of_def
        ref_env_def ref_Parse_def is_digit_def digits_value_def byte_def ref_First_def split: option.split)
qed

end
