(* ===== verification/ExportRuns.thy ===== *)
theory ExportRuns
  imports System ExportProperties
begin

text \<open>
  The exports table over whole runs. \<open>ex_table h\<close> replays the successful writes of a history, the conditional
  update included; \<open>ex_law\<close> says how the database answers from it. Two operations write it, and each has a
  specification on tables; all others emit no write (\<open>service_step_silent\<close>).
\<close>

section \<open>The table\<close>

text \<open>What the conditional update sets; the time stamp gorm adds is left open by \<open>ex_law\<close>.\<close>

definition pending_again :: "StreamExport \<Rightarrow> StreamExport" where
  "pending_again x = x\<lparr>ExportStatus := ExportStatusPending, ExportError := [], ExportSize := 0\<rparr>"

fun ex_replay :: "event \<Rightarrow> (uuid \<rightharpoonup> StreamExport) \<Rightarrow> (uuid \<rightharpoonup> StreamExport)" where
  "ex_replay (EvExCreate x None) db = db(ID x \<mapsto> x)"
| "ex_replay (EvExSave x None) db = db(ID x \<mapsto> x)"
| "ex_replay (EvExReset i (Inr n)) db = (if n > 0 then db(i := map_option pending_again (db i)) else db)"
| "ex_replay _ db = db"

definition ex_table :: "history \<Rightarrow> uuid \<rightharpoonup> StreamExport" where
  "ex_table h = fold ex_replay h Map.empty"

fun writes_export :: "event \<Rightarrow> bool" where
  "writes_export (EvExCreate x r) = True"
| "writes_export (EvExSave x r) = True"
| "writes_export (EvExReset i r) = True"
| "writes_export _ = False"

lemma ex_table_Nil [simp]: "ex_table [] = Map.empty"
  by (simp add: ex_table_def)

lemma ex_table_append [simp]: "ex_table (h @ evs) = fold ex_replay evs (ex_table h)"
  by (simp add: ex_table_def)

lemma ex_replay_other [simp]: "\<not> writes_export e \<Longrightarrow> ex_replay e db = db"
  by (cases e) auto

lemma ex_replay_frame: "list_all (\<lambda>e. \<not> writes_export e) evs \<Longrightarrow> fold ex_replay evs db = db"
  by (induction evs) simp_all

lemma pending_again_fields [simp]:
  "ID (pending_again x) = ID x" "StreamID (pending_again x) = StreamID x" "UserID (pending_again x) = UserID x"
  "ExportStatus (pending_again x) = ExportStatusPending" "CreatedAt (pending_again x) = CreatedAt x"
  by (simp_all add: pending_again_def)

lemma ex_key: "ex_table h i = Some x \<Longrightarrow> ID x = i"
proof (induction h arbitrary: i x rule: rev_induct)
  case (snoc e h)
  then show ?case
    by (cases "(e, ex_table h)" rule: ex_replay.cases) (auto split: if_splits)
qed simp

text \<open>
  What is assumed of gorm and Postgres: a read by stream gives a row of that stream as last written, but for
  the time stamp, and says that there is none only when there is none; a key is inserted once; a
  conditional update changes a row only when it is failed.
\<close>

definition read_as :: "(uuid \<rightharpoonup> StreamExport) \<Rightarrow> StreamExport \<Rightarrow> bool" where
  "read_as db x \<longleftrightarrow> (\<exists>y. db (ID x) = Some y \<and> x = y\<lparr>UpdatedAt := UpdatedAt x\<rparr>)"

definition ex_law :: "env \<Rightarrow> bool" where
  "ex_law E \<longleftrightarrow>
    (\<forall>h s x. ex_First E h s = Inr x \<longrightarrow> StreamID x = s \<and> read_as (ex_table h) x) \<and>
    (\<forall>h s err. ex_First E h s = Inl err \<and> is_record_not_found err \<longrightarrow> (\<forall>y\<in>ran (ex_table h). StreamID y \<noteq> s)) \<and>
    (\<forall>h x. ex_Create E h x = None \<longrightarrow> ex_table h (ID x) = None) \<and>
    (\<forall>h i n. ex_Reset E h i = Inr n \<and> n > 0 \<longrightarrow> (\<exists>y. ex_table h i = Some y \<and> ExportStatus y = ExportStatusFailed))"

lemma read_as_fields:
  assumes "read_as db x"
  obtains y where "db (ID x) = Some y" "StreamID y = StreamID x" "UserID y = UserID x"
    "ExportStatus y = ExportStatus x" "CreatedAt y = CreatedAt x" "ID y = ID x"
proof -
  from assms obtain y where "db (ID x) = Some y" and x: "x = y\<lparr>UpdatedAt := UpdatedAt x\<rparr>"
    unfolding read_as_def by blast
  moreover have "StreamID x = StreamID y" "UserID x = UserID y" "ExportStatus x = ExportStatus y"
    "CreatedAt x = CreatedAt y" "ID x = ID y"
    by (subst x, simp)+
  ultimately show thesis using that by metis
qed

section \<open>Steps of the table\<close>

text \<open>The edges of an export's status.\<close>

inductive export_edge :: "StreamExportStatus \<Rightarrow> StreamExportStatus \<Rightarrow> bool" where
  stay: "export_edge st st"
| finished: "export_edge ExportStatusPending ExportStatusReady"
| failed: "export_edge ExportStatusPending ExportStatusFailed"
| retried: "export_edge ExportStatusFailed ExportStatusPending"

inductive_simps export_edge_from_ready [simp]: "export_edge ExportStatusReady st"

definition same_export :: "StreamExport \<Rightarrow> StreamExport \<Rightarrow> bool" where
  "same_export x x' \<longleftrightarrow> ID x' = ID x \<and> StreamID x' = StreamID x \<and> UserID x' = UserID x \<and> CreatedAt x' = CreatedAt x"

text \<open>Nothing changes, a row of a new stream is inserted, or one row that is not ready moves along an edge.\<close>

definition ex_step :: "(uuid \<rightharpoonup> StreamExport) \<Rightarrow> (uuid \<rightharpoonup> StreamExport) \<Rightarrow> bool" where
  "ex_step db db' \<longleftrightarrow> db' = db \<or>
    (\<exists>x. db (ID x) = None \<and> (\<forall>y\<in>ran db. StreamID y \<noteq> StreamID x) \<and>
       ExportStatus x \<in> {ExportStatusPending, ExportStatusFailed} \<and> db' = db(ID x \<mapsto> x)) \<or>
    (\<exists>x x'. db (ID x) = Some x \<and> same_export x x' \<and> ExportStatus x \<noteq> ExportStatusReady \<and>
       export_edge (ExportStatus x) (ExportStatus x') \<and> db' = db(ID x \<mapsto> x'))"

lemma ex_step_insert:
  "db (ID x) = None \<Longrightarrow> \<forall>y\<in>ran db. StreamID y \<noteq> StreamID x \<Longrightarrow>
   ExportStatus x = ExportStatusPending \<or> ExportStatus x = ExportStatusFailed \<Longrightarrow> ex_step db (db(ID x \<mapsto> x))"
  unfolding ex_step_def by blast

lemma ex_step_update:
  "db (ID x) = Some x \<Longrightarrow> same_export x x' \<Longrightarrow> ExportStatus x \<noteq> ExportStatusReady \<Longrightarrow>
   export_edge (ExportStatus x) (ExportStatus x') \<Longrightarrow> i = ID x \<Longrightarrow> ex_step db (db(i \<mapsto> x'))"
  unfolding ex_step_def by blast

section \<open>The two operations\<close>

text \<open>What a claim does: a new pending row, or a failed row that is pending again.\<close>

definition claimed :: "uuid \<Rightarrow> (uuid \<rightharpoonup> StreamExport) \<Rightarrow> StreamExport \<Rightarrow> (uuid \<rightharpoonup> StreamExport) \<Rightarrow> bool" where
  "claimed s db x db' \<longleftrightarrow> ExportStatus x = ExportStatusPending \<and> StreamID x = s \<and>
    ((db (ID x) = None \<and> (\<forall>y\<in>ran db. StreamID y \<noteq> s) \<and> db' = db(ID x \<mapsto> x)) \<or>
     (\<exists>y. db (ID x) = Some y \<and> ExportStatus y = ExportStatusFailed \<and> same_export y x \<and>
        db' = db(ID x \<mapsto> pending_again y)))"

lemma claim_export_table:
  assumes law: "ex_law E"
  shows "wpre (claim_export E s u n) (\<lambda>r w'. case r of
      Inl answer \<Rightarrow> ex_table (hist w') = ex_table (hist w)
    | Inr x \<Rightarrow> claimed s (ex_table (hist w)) x (ex_table (hist w'))) w"
proof -
  let ?db = "ex_table (hist w)"
  have reset: "claimed s ?db (x\<lparr>ExportStatus := ExportStatusPending, ExportError := [], ExportSize := 0\<rparr>)
      (?db(ID x := map_option pending_again (?db (ID x))))"
    if x: "ex_First E (hist w) s = Inr x" and n: "ex_Reset E (hist w @ [EvExFirst s (Inr x)]) (ID x) = Inr n" "0 < n" for x n
  proof -
    have "read_as ?db x" "StreamID x = s" using law x unfolding ex_law_def by blast+
    then obtain y where "?db (ID x) = Some y" "same_export y x" "StreamID x = s"
      by (elim read_as_fields) (simp add: same_export_def)
    moreover have "\<exists>y. ex_table (hist w @ [EvExFirst s (Inr x)]) (ID x) = Some y \<and> ExportStatus y = ExportStatusFailed"
      using law n unfolding ex_law_def by blast
    ultimately show ?thesis by (simp add: claimed_def same_export_def)
  qed
  have create: "claimed s ?db x (?db(i \<mapsto> x))"
    if "i = ID x" "ex_First E (hist w) s = Inl err" "is_record_not_found err" "ex_Create E h x = None" "ex_table h = ?db"
      "ExportStatus x = ExportStatusPending" "StreamID x = s" for err h i x
    using law that unfolding ex_law_def claimed_def by metis
  show ?thesis
    unfolding claim_export_def exports_defs IsExportNotFound_def
    by (auto simp: wp reset new_export_def BeforeCreate_def Let_def intro: create split: sum.split option.split)
qed

lemma DistributeVideoExport_table:
  "emits (\<lambda>e. \<not> writes_export e) (DistributeVideoExport E s u m)"
  by (auto intro!: emits)

lemma wpre_ex_frame:
  assumes "emits (\<lambda>e. \<not> writes_export e) m" and "\<And>a w'. ex_table (hist w') = ex_table (hist w) \<Longrightarrow> Q a w'"
  shows "wpre m Q w"
  by (rule wpre_tail [OF assms(1)]) (simp add: assms(2) ex_replay_frame)

lemma queue_export_table:
  "wpre (queue_export E s u m n x) (\<lambda>r w'. ex_table (hist w') = ex_table (hist w) \<or>
     (\<exists>t. ex_table (hist w') = (ex_table (hist w))(ID x \<mapsto>
        BeforeUpdate t (x\<lparr>ExportStatus := ExportStatusFailed, ExportError := ''failed to queue export''\<rparr>)))) w"
  unfolding queue_export_def exports_Update_def run_BeforeUpdate_def
  by (auto simp: wp BeforeUpdate_def intro!: wpre_ex_frame [OF DistributeVideoExport_table] split: sum.split option.split)

lemma claimed_step:
  assumes "claimed s db x db'" and keys: "\<And>i x. db i = Some x \<Longrightarrow> ID x = i"
    and "db'' = db' \<or> (\<exists>t. db'' = db'(ID x \<mapsto>
        BeforeUpdate t (x\<lparr>ExportStatus := ExportStatusFailed, ExportError := ''failed to queue export''\<rparr>)))"
  shows "ex_step db db''"
  using assms(1) unfolding claimed_def
proof (elim conjE disjE exE)
  assume "db (ID x) = None" "\<forall>y\<in>ran db. StreamID y \<noteq> s" "db' = db(ID x \<mapsto> x)" "StreamID x = s"
    "ExportStatus x = ExportStatusPending"
  then show ?thesis using assms(3) ex_step_insert [of db x] ex_step_insert [of db "BeforeUpdate t (x\<lparr>ExportStatus :=
      ExportStatusFailed, ExportError := ''failed to queue export''\<rparr>)" for t]
    by (auto simp: BeforeUpdate_def)
next
  fix y
  assume y: "db (ID x) = Some y" "ExportStatus y = ExportStatusFailed" "same_export y x" "db' = db(ID x \<mapsto> pending_again y)"
  have "ID y = ID x" using keys [OF y(1)] .
  then show ?thesis
    using assms(3) y
    by (auto intro!: ex_step_update [of db y] simp: same_export_def BeforeUpdate_def intro: export_edge.intros)
qed

lemma RequestStreamExport_exports:
  assumes "ex_law E"
  shows "wpre (RequestStreamExport E s u m) (\<lambda>r w'. ex_step (ex_table (hist w)) (ex_table (hist w'))) w"
proof -
  have same: "ex_step db db" for db by (simp add: ex_step_def)
  have queue: "wpre (queue_export E s v m n x) (\<lambda>r w'. ex_step (ex_table (hist w)) (ex_table (hist w'))) w1"
    if "claimed s (ex_table (hist w)) x (ex_table (hist w1))" for v n x and w1 :: world
    by (rule wpre_mono [OF queue_export_table]) (rule claimed_step [OF that], auto dest: ex_key)
  show ?thesis
    unfolding RequestStreamExport_def repo_Read_def
    by (auto simp: wp same intro!: wpre_mono [OF claim_export_table [OF assms]] queue split: sum.splits)
qed

lemma CompleteStreamExport_exports:
  assumes "ex_law E"
  shows "wpre (CompleteStreamExport E S s sz err) (\<lambda>r w'. ex_step (ex_table (hist w)) (ex_table (hist w'))) w"
proof -
  have same: "ex_step db db" for db by (simp add: ex_step_def)
  have step: "ex_step (ex_table (hist w)) ((ex_table (hist w))(ID x \<mapsto> BeforeUpdate t (record_outcome sz err x)))"
    if x: "ex_First E (hist w) s = Inr x" and st: "ExportStatus x = ExportStatusPending" for x t
  proof -
    have "read_as (ex_table (hist w)) x" using assms x unfolding ex_law_def by blast
    then obtain y where "ex_table (hist w) (ID x) = Some y" "same_export y x" "ExportStatus y = ExportStatusPending" "ID y = ID x"
      using st by (elim read_as_fields) (simp add: same_export_def)
    then show ?thesis
      by (intro ex_step_update [of _ y]) (auto simp: same_export_def record_outcome_def BeforeUpdate_def intro: export_edge.intros)
  qed
  have send: "emits (\<lambda>e. \<not> writes_export e) (SendMessgeToOwner E v msg)" for v msg by (auto intro!: emits)
  have ids: "ID (record_outcome sz err x) = ID x" "UserID (record_outcome sz err x) = UserID x" for x
    by (simp_all add: record_outcome_def)
  show ?thesis
    unfolding CompleteStreamExport_def exports_defs
    by (auto simp: wp same ids BeforeUpdate_def step [unfolded BeforeUpdate_def] intro!: wpre_ex_frame [OF send]
        split: sum.split option.split)
qed

section \<open>Runs\<close>

text \<open>All other operations leave the exports alone.\<close>

abbreviation no_export :: "event \<Rightarrow> bool" where
  "no_export e \<equiv> \<not> writes_export e"

lemma emits_bool [emits]:
  "(b \<Longrightarrow> emits A m) \<Longrightarrow> (\<not> b \<Longrightarrow> emits A n) \<Longrightarrow> emits A (case b of True \<Rightarrow> m | False \<Rightarrow> n)"
  by (cases b) simp_all

lemma emits_faces_loop:
  assumes "\<And>s. emits A (enqueueFaces E S s)"
  shows "emits A (faces_loop E S u a ids byID res)"
  by (induction ids arbitrary: byID res) (auto simp: faces_one_def intro!: emits assms)

lemma no_export_enqueueFaces: "emits no_export (enqueueFaces E S s)"
  unfolding enqueueFaces_def Let_def by (intro emits) auto

lemma emits_other_operations:
  "emits no_export (CreateStream E S creq)" "emits no_export (UpdateStream E S i ureq)"
  "emits no_export (DeleteStream E S i)" "emits no_export (PublishStream E S i)"
  "emits no_export (UnpublishStream E S i)" "emits no_export (UploadVideo E S vreq)"
  "emits no_export (StartStreamUpload E S sreq)" "emits no_export (UploadPart E S preq)"
  "emits no_export (CompleteStreamUpload E S fin)" "emits no_export (UpdateStreamMetadata E S mreq)"
  "emits no_export (UpdateStreamProcessing E S qreq)" "emits no_export (ReprocessStream E S i)"
  "emits no_export (ProcessFacesStream E S i)" "emits no_export (ProcessFacesBatch E S v a ids)"
  "emits no_export (GetFileByKey E S fuel freq)" "emits no_export (UpdateStreamStatus E S i st)"
  unfolding CreateStream_def UpdateStream_def DeleteStream_def PublishStream_def UnpublishStream_def UploadVideo_def
    StartStreamUpload_def UploadPart_def CompleteStreamUpload_def UpdateStreamMetadata_def UpdateStreamProcessing_def
    ReprocessStream_def ProcessFacesStream_def ProcessFacesBatch_def GetFileByKey_def GetStream_def
    concatNeighbourSegments_def UpdateStreamStatus_def queue_new_video_def Let_def
  by (intro emits emits_neighbour_loop no_export_enqueueFaces emits_faces_loop; simp)+

lemma ex_table_after:
  assumes "emits no_export m" and "run_state m w = (a, w')"
  shows "ex_table (hist w') = ex_table (hist w)"
  using emitsD [OF assms] ex_replay_frame by (metis ex_table_append)

lemma same_ex_step: "db' = db \<Longrightarrow> ex_step db db'"
  by (simp add: ex_step_def)

lemma service_step_exports: "service_step E S w w' \<Longrightarrow> ex_law E \<Longrightarrow> ex_step (ex_table (hist w)) (ex_table (hist w'))"
proof (induction rule: service_step.induct)
  case (request_export i u m w r w')
  then show ?case using wpreD [OF RequestStreamExport_exports] by metis
next
  case (complete_export i sz e w r w')
  then show ?case using wpreD [OF CompleteStreamExport_exports] by metis
qed (rule same_ex_step; (rule ex_table_after, rule emits_other_operations, assumption | simp))+

lemma report_step_exports: "report_step E S w w' \<Longrightarrow> ex_table (hist w') = ex_table (hist w)"
  by (elim report_step.cases) (simp add: ex_table_after [OF emits_other_operations(16)])

definition one_per_stream :: "(uuid \<rightharpoonup> StreamExport) \<Rightarrow> bool" where
  "one_per_stream db \<longleftrightarrow> (\<forall>i j x y. db i = Some x \<longrightarrow> db j = Some y \<longrightarrow> StreamID x = StreamID y \<longrightarrow> i = j)"

lemma ex_step_one:
  assumes "ex_step db db'" and "one_per_stream db" and "\<And>i x. db i = Some x \<Longrightarrow> ID x = i"
  shows "one_per_stream db'"
  using assms(1) unfolding ex_step_def
proof (elim disjE exE conjE)
  fix x
  assume "\<forall>y\<in>ran db. StreamID y \<noteq> StreamID x" "db' = db(ID x \<mapsto> x)"
  then show ?thesis using assms(2) by (auto simp: one_per_stream_def ran_def)
next
  fix x x'
  assume x: "db (ID x) = Some x" "same_export x x'" "db' = db(ID x \<mapsto> x')"
  then show ?thesis using assms(2) unfolding one_per_stream_def same_export_def by (metis fun_upd_apply option.inject)
qed (simp add: assms(2))

lemma ex_step_row:
  assumes "ex_step db db'" and "db i = Some x" and "\<And>i x. db i = Some x \<Longrightarrow> ID x = i"
  shows "\<exists>x'. db' i = Some x' \<and> same_export x x' \<and> export_edge (ExportStatus x) (ExportStatus x') \<and>
    (ExportStatus x = ExportStatusReady \<longrightarrow> x' = x)"
  using assms(1) unfolding ex_step_def
proof (elim disjE exE conjE)
  fix z z'
  assume z: "db (ID z) = Some z" "same_export z z'" "ExportStatus z \<noteq> ExportStatusReady"
    "export_edge (ExportStatus z) (ExportStatus z')" "db' = db(ID z \<mapsto> z')"
  show ?thesis using z assms(2) by (cases "i = ID z") (auto simp: same_export_def intro: export_edge.stay)
qed (use assms(2) in \<open>auto simp: same_export_def intro: export_edge.stay\<close>)

lemma reachable_one_export: "reachable E S w \<Longrightarrow> ex_law E \<Longrightarrow> one_per_stream (ex_table (hist w))"
proof (induction rule: reachable.induct)
  case (initial w)
  then show ?case by (simp add: one_per_stream_def)
next
  case (serve w w')
  then show ?case using ex_step_one [OF service_step_exports] ex_key by metis
next
  case (status w w')
  then show ?case using report_step_exports by metis
qed

section \<open>A database with exports\<close>

text \<open>The reference environment with an exports table.\<close>

fun ex_written :: "event \<Rightarrow> uuid list" where
  "ex_written (EvExCreate x None) = [ID x]"
| "ex_written (EvExSave x None) = [ID x]"
| "ex_written _ = []"

definition ex_ids :: "history \<Rightarrow> uuid list" where
  "ex_ids h = concat (map ex_written h)"

lemma ex_ids_complete: "ex_table h i = Some x \<Longrightarrow> i \<in> set (ex_ids h)"
proof (induction h arbitrary: i x rule: rev_induct)
  case (snoc e h)
  then show ?case by (cases "(e, ex_table h)" rule: ex_replay.cases) (auto simp: ex_ids_def split: if_splits)
qed simp

definition rows_of :: "history \<Rightarrow> uuid \<Rightarrow> StreamExport list" where
  "rows_of h s = filter (\<lambda>x. StreamID x = s) (List.map_filter (ex_table h) (ex_ids h))"

definition export_ref :: env where
  "export_ref = ref_env\<lparr>
     ex_First := \<lambda>h s. (case rows_of h s of [] \<Rightarrow> Inl record_not_found | x # xs \<Rightarrow> Inr x),
     ex_Create := \<lambda>h x. (if ex_table h (ID x) = None then None else Some (Errorf ''duplicate key'')),
     ex_Reset := \<lambda>h i. Inr (case ex_table h i of
        None \<Rightarrow> 0 | Some x \<Rightarrow> if ExportStatus x = ExportStatusFailed then 1 else 0)\<rparr>"

lemma set_rows_of: "x \<in> set (rows_of h s) \<longleftrightarrow> ex_table h (ID x) = Some x \<and> StreamID x = s"
proof -
  have "x \<in> set (List.map_filter (ex_table h) (ex_ids h)) \<longleftrightarrow> (\<exists>i\<in>set (ex_ids h). ex_table h i = Some x)"
    by (auto simp: List.map_filter_def image_iff)
  also have "\<dots> \<longleftrightarrow> ex_table h (ID x) = Some x"
    using ex_ids_complete ex_key by metis
  finally show ?thesis by (auto simp: rows_of_def)
qed

lemma export_ref_law: "ex_law export_ref"
proof -
  have "read_as (ex_table h) x \<and> StreamID x = s" if "rows_of h s = x # xs" for h s x xs
  proof -
    have "x \<in> set (rows_of h s)" using that by simp
    then show ?thesis unfolding set_rows_of read_as_def by simp
  qed
  moreover have "\<forall>y\<in>ran (ex_table h). StreamID y \<noteq> s" if "rows_of h s = []" for h s
  proof
    fix y
    assume "y \<in> ran (ex_table h)"
    then have "ex_table h (ID y) = Some y" using ex_key by (fastforce simp: ran_def)
    then show "StreamID y \<noteq> s" using set_rows_of [of y h s] that by auto
  qed
  ultimately show ?thesis
    unfolding ex_law_def export_ref_def by (auto split: list.splits option.splits if_splits)
qed

lemma export_ref_db: "db_law export_ref"
  using ref_env_law by (simp add: db_law_def export_ref_def)

text \<open>The stream of the reference run, created and ready, and its first export.\<close>

lemma export_ref_fields:
  "db_First export_ref = db_First ref_env" "db_Save export_ref = db_Save ref_env" "db_Create export_ref = db_Create ref_env"
  "time_Now export_ref = time_Now ref_env" "uuid_New export_ref = uuid_New ref_env"
  "uuid_String export_ref = uuid_String ref_env" "perm_AddPolicy export_ref = perm_AddPolicy ref_env"
  "aq_Enqueue export_ref = aq_Enqueue ref_env" "ws_WriteJSON export_ref = ws_WriteJSON ref_env"
  "s3_RemoveObject export_ref = s3_RemoveObject ref_env"
  by (simp_all add: export_ref_def)

lemma export_ref_same:
  "CreateStream export_ref S r = CreateStream ref_env S r"
  "UpdateStreamStatus export_ref S i st = UpdateStreamStatus ref_env S i st"
  unfolding CreateStream_def UpdateStreamStatus_def repo_Create_def repo_Read_def repo_Update_def gorm_Save_def
    run_BeforeCreate_def run_BeforeUpdate_def recordEvent_def RecordActivityEvent_def NewActivityEventTask_def
    enc_activity_def enc_uuid_def notifyUpdate_def stream_message_def SendMessgeToOwner_def storage_Delete_def
    export_ref_fields
  by (rule refl)+

definition requested_world :: world where
  "requested_world = after (RequestStreamExport export_ref 1 7 ''m'') ready_world"

lemma reachable_export_ready: "reachable export_ref ref_service ready_world"
proof -
  have c: "reachable export_ref ref_service created_world"
    unfolding created_world_def export_ref_same [symmetric]
    by (rule reachable.serve [OF reachable.initial service_step.create [OF run_after]]) (simp add: ref_world_def)
  have "mapProtoStatusToDomain 2 = StatusReady" by (simp add: mapProtoStatusToDomain_def)
  then show ?thesis
    using reachable.status [OF c report_step.report [where i = 1 and n = 2, OF run_after]]
    by (simp add: ready_world_def export_ref_same)
qed

lemma requested: "service_step export_ref ref_service ready_world requested_world"
  unfolding requested_world_def by (rule service_step.request_export [OF run_after])

lemma reachable_requested: "reachable export_ref ref_service requested_world"
  by (rule reachable.serve [OF reachable_export_ready requested])

lemma ready_world_exports: "ex_table (hist ready_world) = Map.empty"
proof -
  have e: "emits no_export (CreateStream ref_env ref_service ref_create)" "emits no_export (UpdateStreamStatus ref_env ref_service 1 StatusReady)"
    by (rule emits_other_operations)+
  show ?thesis
    using ex_table_after [OF e(1) run_result] ex_table_after [OF e(2) run_result]
    by (simp add: ready_world_def created_world_def ref_world_def)
qed

lemma ready_world_length: "length (hist ready_world) = 11"
proof -
  have row: "table (hist created_world) 1 = Some ref_row" using created_world_table by simp
  have "length (hist created_world) = 7"
    by (simp add: created_world_def after_def CreateStream_def ref_create_def repo_Create_def
      run_BeforeCreate_def new_stream_def ref_env_def ref_world_def recordEvent_def ref_service_def
      BeforeCreate_def Let_def uuid_Nil_def creates_def)
  then show ?thesis using row
    by (simp add: ready_world_def after_def UpdateStreamStatus_def repo_Read_def repo_Update_def gorm_Save_def
      run_BeforeUpdate_def ref_env_def ref_First_def ref_service_def recordEvent_def notifyUpdate_def
      ref_row_def BeforeCreate_def Let_def new_stream_def uuid_Nil_def BeforeUpdate_def)
qed

lemma requested_world_table:
  "\<exists>x. ex_table (hist requested_world) = [ID x \<mapsto> x] \<and> ExportStatus x = ExportStatusPending \<and> StreamID x = 1 \<and> ID x \<noteq> uuid_Nil"
proof -
  obtain t where row: "table (hist ready_world) = [1 \<mapsto> BeforeUpdate t (ref_row\<lparr>Status := StatusReady\<rparr>)]"
    using ready_world_table by blast
  have rows: "rows_of h 1 = []" if "ex_table h = Map.empty" for h
    using that by (simp add: rows_of_def List.map_filter_def)
  have found: "\<exists>x. [k \<mapsto> v] = [ID x \<mapsto> x] \<and> ExportStatus x = ExportStatusPending \<and> StreamID x = 1 \<and> ID x \<noteq> uuid_Nil"
    if "ID v = k" "ExportStatus v = ExportStatusPending" "StreamID v = 1" "k \<noteq> uuid_Nil" for k :: uuid and v :: StreamExport
    using that by blast
  have own: "OwnerID ref_row = 7" by (simp add: ref_row_def BeforeCreate_def new_stream_def ref_create_def Let_def)
  show ?thesis
    using row ready_world_exports
    by (simp add: requested_world_def after_def RequestStreamExport_def repo_Read_def export_ref_def ref_env_def ref_First_def
        own claim_export_def exports_defs rows IsExportNotFound_def record_not_found_def new_export_def BeforeCreate_def
        Let_def queue_export_def DistributeVideoExport_def exportTaskID_def) (rule found; simp add: ready_world_length uuid_Nil_def)
qed

section \<open>Properties\<close>


definition exported_world :: world where
  "exported_world = after (CompleteStreamExport export_ref ref_service 1 9 []) requested_world"


text \<open>A report on a pending row, when the save succeeds.\<close>

lemma complete_pending:
  assumes "ex_First E (hist w) s = Inr x" and "ExportStatus x = ExportStatusPending" and "ID x \<noteq> uuid_Nil"
    and "\<And>h v. ex_Save E h v = None"
  shows "result_of (CompleteStreamExport E S s sz err) w = None \<and>
    (\<exists>t. ex_table (hist (after (CompleteStreamExport E S s sz err) w)) =
       (ex_table (hist w))(ID x \<mapsto> BeforeUpdate t (record_outcome sz err x)))"
proof -
  have send: "emits no_export (SendMessgeToOwner E v msg)" for v msg by (auto intro!: emits)
  have ids: "ID (record_outcome sz err x) = ID x" "UserID (record_outcome sz err x) = UserID x"
    by (simp_all add: record_outcome_def)
  have "wpre (CompleteStreamExport E S s sz err) (\<lambda>r w'. r = None \<and>
    (\<exists>t. ex_table (hist w') = (ex_table (hist w))(ID x \<mapsto> BeforeUpdate t (record_outcome sz err x)))) w"
    unfolding CompleteStreamExport_def exports_defs
    using assms by (auto simp: wp ids BeforeUpdate_def intro!: wpre_ex_frame [OF send] split: sum.split)
  from wpre_result [OF this] show ?thesis .
qed

lemma complete_decided:
  "ex_First E (hist w) s = Inr x \<Longrightarrow> ExportStatus x \<noteq> ExportStatusPending \<Longrightarrow>
   run_state (CompleteStreamExport E S s sz err) w = (None, w\<lparr>hist := hist w @ [EvExFirst s (Inr x)]\<rparr>)"
  by (simp add: CompleteStreamExport_def exports_ReadByStream_def)

text \<open>A retry of a failed export, when the calls succeed.\<close>

lemma retry_failed:
  assumes "db_First E (hist w) s = Inr st" and "OwnerID st = u" and "Status st = StatusReady"
    and "\<And>h. ex_table h = ex_table (hist w) \<Longrightarrow> ex_First E h s = Inr x"
    and "ex_table (hist w) (ID x) = Some x" and "ExportStatus x = ExportStatusFailed"
    and "\<And>h. ex_table h = ex_table (hist w) \<Longrightarrow> ex_Reset E h (ID x) = Inr 1"
    and "\<And>h t. \<exists>info. aq_Enqueue E h ExportClient t = Inr info"
  shows "ex_table (hist (after (RequestStreamExport E s u m) w)) = (ex_table (hist w))(ID x \<mapsto> pending_again x) \<and>
    length (filter queues_export (trace w (after (RequestStreamExport E s u m) w))) = 1"
proof -
  have q: "\<exists>info. aq_Enqueue E h ExportClient t = Inr info" for h t by (rule assms(8))
  have queue: "wpre (DistributeVideoExport E s v m) (\<lambda>r w'. (\<exists>a. r = Inr a) \<and> (\<exists>evs. hist w' = hist w1 @ evs \<and>
      length (filter queues_export evs) = 1 \<and> list_all no_export evs)) w1" for v and w1 :: world
    unfolding DistributeVideoExport_def exportTaskID_def Let_def
    by (auto simp: wp split: sum.split) (use q in \<open>metis Inl_Inr_False\<close>)
  have queue': "wpre (DistributeVideoExport E s v m) Q w1"
    if "\<And>a w' evs. hist w' = hist w1 @ evs \<Longrightarrow> length (filter queues_export evs) = 1 \<Longrightarrow> list_all no_export evs \<Longrightarrow> Q (Inr a) w'"
    for v Q and w1 :: world
    by (rule wpre_mono [OF queue]) (use that in blast)
  have "wpre (RequestStreamExport E s u m) (\<lambda>r w'. ex_table (hist w') = (ex_table (hist w))(ID x \<mapsto> pending_again x) \<and>
      length (filter queues_export (trace w w')) = 1) w"
    unfolding RequestStreamExport_def repo_Read_def claim_export_def exports_defs queue_export_def
    using assms by (auto simp: wp ex_replay_frame intro!: queue')
  from wpre_result [OF this] show ?thesis .
qed

text \<open>Exports without failures: reads find the row of the stream, saves, resets and the queue succeed.\<close>

definition exports_cooperative :: "env \<Rightarrow> bool" where
  "exports_cooperative E \<longleftrightarrow>
    (\<forall>h i y. one_per_stream (ex_table h) \<and> ex_table h i = Some y \<longrightarrow> ex_First E h (StreamID y) = Inr y) \<and>
    (\<forall>h v. ex_Save E h v = None) \<and>
    (\<forall>h i y. ex_table h i = Some y \<and> ExportStatus y = ExportStatusFailed \<longrightarrow> ex_Reset E h i = Inr 1) \<and>
    (\<forall>h t. \<exists>info. aq_Enqueue E h ExportClient t = Inr info)"

text \<open>
  C38: A late duplicate of a failure report swallows the success of the retry. The failed export is
  requested again and queued; then the report of the first attempt arrives once more, as the code expects of
  asynq's error handler, and marks the pending row as failed; when the retry succeeds its report is acknowledged
  but changes nothing, so the export stays failed with the old error although its file is there. (The comment
  promises that the report of a retry is never swallowed.)
\<close>

theorem retry_report_swallowed:
  assumes stream: "db_First E (hist w) s = Inr st" "OwnerID st = u" "Status st = StatusReady"
    and failed: "ex_table (hist w) i = Some x" "StreamID x = s" "ExportStatus x = ExportStatusFailed" "i \<noteq> uuid_Nil"
    and "exports_cooperative E" and one: "one_per_stream (ex_table (hist w))"
    and "err \<noteq> []"
    and w1: "w1 = after (RequestStreamExport E s u m) w"
    and w2: "w2 = after (CompleteStreamExport E S s 0 err) w1"
    and w3: "w3 = after (CompleteStreamExport E S s sz []) w2"
  shows "length (filter queues_export (trace w w1)) = 1 \<and>
    (\<exists>y. ex_table (hist w1) i = Some y \<and> ExportStatus y = ExportStatusPending) \<and>
    result_of (CompleteStreamExport E S s sz []) w2 = None \<and> list_all (\<lambda>e. \<not> is_effect e) (trace w2 w3) \<and>
    (\<exists>z. ex_table (hist w3) i = Some z \<and> ExportStatus z = ExportStatusFailed \<and> ExportError z = err)"
proof -
  have ID: "ID x = i" by (rule ex_key [OF failed(1)])
  have reads: "ex_First E h s = Inr y" if "one_per_stream (ex_table h)" "ex_table h i = Some y" "StreamID y = s" for h y
    using assms(8) that unfolding exports_cooperative_def by metis
  have saves: "\<And>h v. ex_Save E h v = None" and queue: "\<And>h t. \<exists>info. aq_Enqueue E h ExportClient t = Inr info"
    and resets: "\<And>h y. ex_table h i = Some y \<Longrightarrow> ExportStatus y = ExportStatusFailed \<Longrightarrow> ex_Reset E h i = Inr 1"
    using assms(8) unfolding exports_cooperative_def by blast+
  have same: "one_per_stream (db(i \<mapsto> y))" if "one_per_stream db" "db i = Some y'" "StreamID y = StreamID y'" for db y y'
    using that unfolding one_per_stream_def by (metis fun_upd_apply option.inject)
  have step1: "ex_table (hist w1) = (ex_table (hist w))(i \<mapsto> pending_again x) \<and> length (filter queues_export (trace w w1)) = 1"
    unfolding w1 using retry_failed [OF stream, of x m] reads resets failed queue ID one by simp
  then have row1: "ex_table (hist w1) i = Some (pending_again x)" by simp
  have one1: "one_per_stream (ex_table (hist w1))" using same [OF one failed(1)] step1 by simp
  have read1: "ex_First E (hist w1) s = Inr (pending_again x)" using reads [OF one1 row1] failed(2) by simp
  obtain t where tab2: "ex_table (hist w2) = (ex_table (hist w1))(i \<mapsto> BeforeUpdate t (record_outcome 0 err (pending_again x)))"
    using complete_pending [OF read1, of S 0 err] failed(4) saves ID w2 by auto
  let ?z = "BeforeUpdate t (record_outcome 0 err (pending_again x))"
  have stream: "StreamID ?z = s" using failed(2) by (simp add: record_outcome_def BeforeUpdate_def)
  have row2: "ex_table (hist w2) i = Some ?z" using tab2 by simp
  have one2: "one_per_stream (ex_table (hist w2))" using same [OF one1 row1, of ?z] tab2 stream failed(2) by simp
  have z: "ExportStatus ?z = ExportStatusFailed" "ExportError ?z = err"
    using assms(10) by (simp_all add: record_outcome_def BeforeUpdate_def)
  have last: "run_state (CompleteStreamExport E S s sz []) w2 = (None, w2\<lparr>hist := hist w2 @ [EvExFirst s (Inr ?z)]\<rparr>)"
    by (rule complete_decided [OF reads [OF one2 row2 stream]]) (simp only: z, simp)
  then have "hist w3 = hist w2 @ [EvExFirst s (Inr ?z)]" "result_of (CompleteStreamExport E S s sz []) w2 = None"
    by (simp_all add: w3 after_def result_of_def)
  moreover from this(1) have "list_all (\<lambda>e. \<not> is_effect e) (trace w2 w3)" "ex_table (hist w3) i = Some ?z"
    using row2 by (simp_all add: is_effect_def)
  ultimately show ?thesis using step1 row1 z by (metis pending_again_fields(4))
qed

lemma export_ref_cooperative: "exports_cooperative export_ref"
proof -
  have "ex_First export_ref h (StreamID y) = Inr y" if one: "one_per_stream (ex_table h)" and y: "ex_table h i = Some y" for h i y
  proof -
    have "set (rows_of h (StreamID y)) = {y}"
    proof (rule set_eqI)
      fix x
      have "ID y = i" by (rule ex_key [OF y])
      then show "x \<in> set (rows_of h (StreamID y)) \<longleftrightarrow> x \<in> {y}"
        using one y unfolding set_rows_of one_per_stream_def by (metis option.inject singleton_iff)
    qed
    then obtain xs where "rows_of h (StreamID y) = y # xs"
      by (cases "rows_of h (StreamID y)") (auto simp: set_eq_iff)
    then show ?thesis by (simp add: export_ref_def)
  qed
  then show ?thesis unfolding exports_cooperative_def by (auto simp: export_ref_def ref_env_def)
qed

definition failed_world :: world where
  "failed_world = after (CompleteStreamExport export_ref ref_service 1 0 ''boom'') requested_world"

theorem retry_report_swallowed_witness:
  "\<exists>i z w. ex_table (hist w) i = Some z \<and> ExportStatus z = ExportStatusFailed \<and> ExportError z = ''boom'' \<and>
     w = after (CompleteStreamExport export_ref ref_service 1 9 [])
       (after (CompleteStreamExport export_ref ref_service 1 0 ''boom'')
         (after (RequestStreamExport export_ref 1 7 ''m'') failed_world))"
proof -
  obtain x where x: "ex_table (hist requested_world) = [ID x \<mapsto> x]" "ExportStatus x = ExportStatusPending" "StreamID x = 1"
    and nil: "ID x \<noteq> uuid_Nil"
    using requested_world_table by blast
  have one: "one_per_stream [k \<mapsto> v]" for k :: uuid and v by (simp add: one_per_stream_def)
  have "ex_First export_ref (hist requested_world) 1 = Inr x"
    using export_ref_cooperative one [of "ID x" x] x unfolding exports_cooperative_def by (metis fun_upd_same)
  moreover have "ex_Save export_ref h v = None" for h v by (simp add: export_ref_def ref_env_def)
  ultimately obtain t where f: "ex_table (hist failed_world) = [ID x \<mapsto> BeforeUpdate t (record_outcome 0 ''boom'' x)]"
    using complete_pending [of export_ref requested_world 1 x ref_service 0 "''boom''"] x nil failed_world_def by auto
  have "table (hist requested_world) = table (hist ready_world)"
    unfolding requested_world_def using tspecD [OF RequestStreamExport_table [OF export_ref_db] run_result] by blast
  moreover have "table (hist failed_world) = table (hist requested_world)"
    unfolding failed_world_def using tspecD [OF CompleteStreamExport_table run_result] by blast
  moreover have own: "OwnerID ref_row = 7" by (simp add: ref_row_def BeforeCreate_def new_stream_def ref_create_def Let_def)
  ultimately obtain t' where s: "db_First export_ref (hist failed_world) 1 = Inr (BeforeUpdate t' (ref_row\<lparr>Status := StatusReady\<rparr>))"
    using ready_world_table by (auto simp: export_ref_def ref_env_def ref_First_def)
  let ?row = "BeforeUpdate t (record_outcome 0 ''boom'' x)"
  have row: "ex_table (hist failed_world) (ID x) = Some ?row" "StreamID ?row = 1" "ExportStatus ?row = ExportStatusFailed"
    using f x(3) by (simp_all add: record_outcome_def BeforeUpdate_def)
  have st: "OwnerID (BeforeUpdate t' (ref_row\<lparr>Status := StatusReady\<rparr>)) = 7"
    "Status (BeforeUpdate t' (ref_row\<lparr>Status := StatusReady\<rparr>)) = StatusReady"
    using own by simp_all
  have "one_per_stream (ex_table (hist failed_world))" using f one by simp
  moreover have "''boom'' \<noteq> []" by simp
  ultimately show ?thesis
    using retry_report_swallowed [OF s st row nil export_ref_cooperative _ _ refl refl refl,
        of "''boom''" "''m''" ref_service 9] by blast
qed

end
