(* ===== verification/ExportRaces.thy ===== *)
theory ExportRaces
  imports ExportRuns "HOL-Library.Sublist"
begin

text \<open>
  Export requests and reports that overlap in any way. A global history is a list of events, each with the
  number of the call that made it; the events of one call, in their order, are a beginning of a trace of its
  operation in some environment (\<open>call_trace\<close>), and only the answers of the exports table are tied to
  the global history (\<open>ex_consistent\<close>). So every interleaving of any number of calls, finished or not, is covered.
\<close>

section \<open>Global histories\<close>

type_synonym global = "(nat \<times> event) list"

definition local :: "nat \<Rightarrow> global \<Rightarrow> event list" where
  "local k H = map snd (filter (\<lambda>p. fst p = k) H)"

lemma local_Nil [simp]: "local k [] = []"
  by (simp add: local_def)

lemma local_snoc [simp]: "local k (H @ [(j, e)]) = local k H @ (if j = k then [e] else [])"
  by (simp add: local_def)

datatype call = Requests uuid uuid string | Completes uuid int string | Other

text \<open>An event of no export.\<close>

definition unrelated :: "event \<Rightarrow> bool" where
  "unrelated e \<longleftrightarrow> \<not> writes_export e \<and> \<not> queues_export e"

fun call_trace :: "call \<Rightarrow> event list \<Rightarrow> bool" where
  "call_trace (Requests s u m) t \<longleftrightarrow> (\<exists>E w. prefix t (trace w (after (RequestStreamExport E s u m) w)))"
| "call_trace (Completes s sz err) t \<longleftrightarrow> (\<exists>E S w. prefix t (trace w (after (CompleteStreamExport E S s sz err) w)))"
| "call_trace Other t \<longleftrightarrow> list_all unrelated t"

text \<open>Every other operation of the service is such a call.\<close>

lemma other_operations:
  "emits unrelated (CreateStream E S creq)" "emits unrelated (UpdateStream E S i ureq)"
  "emits unrelated (DeleteStream E S i)" "emits unrelated (PublishStream E S i)"
  "emits unrelated (UnpublishStream E S i)" "emits unrelated (UploadVideo E S vreq)"
  "emits unrelated (StartStreamUpload E S sreq)" "emits unrelated (UploadPart E S preq)"
  "emits unrelated (CompleteStreamUpload E S fin)" "emits unrelated (UpdateStreamMetadata E S mreq)"
  "emits unrelated (UpdateStreamProcessing E S qreq)" "emits unrelated (ReprocessStream E S i)"
  "emits unrelated (ProcessFacesStream E S i)" "emits unrelated (ProcessFacesBatch E S v a ids)"
  "emits unrelated (GetFileByKey E S fuel freq)" "emits unrelated (UpdateStreamStatus E S i st)"
  "emits unrelated (GetStreamExport E i v)" "emits unrelated (OpenStreamDownload E S i v)"
proof -
  have faces: "emits unrelated (enqueueFaces E S s)" for s
    unfolding enqueueFaces_def Let_def by (intro emits) (auto simp: unrelated_def)
  show "emits unrelated (CreateStream E S creq)" "emits unrelated (UpdateStream E S i ureq)"
    "emits unrelated (DeleteStream E S i)" "emits unrelated (PublishStream E S i)"
    "emits unrelated (UnpublishStream E S i)" "emits unrelated (UploadVideo E S vreq)"
    "emits unrelated (StartStreamUpload E S sreq)" "emits unrelated (UploadPart E S preq)"
    "emits unrelated (CompleteStreamUpload E S fin)" "emits unrelated (UpdateStreamMetadata E S mreq)"
    "emits unrelated (UpdateStreamProcessing E S qreq)" "emits unrelated (ReprocessStream E S i)"
    "emits unrelated (ProcessFacesStream E S i)" "emits unrelated (ProcessFacesBatch E S v a ids)"
    "emits unrelated (GetFileByKey E S fuel freq)" "emits unrelated (UpdateStreamStatus E S i st)"
    "emits unrelated (GetStreamExport E i v)" "emits unrelated (OpenStreamDownload E S i v)"
    unfolding CreateStream_def UpdateStream_def DeleteStream_def PublishStream_def UnpublishStream_def UploadVideo_def
      StartStreamUpload_def UploadPart_def CompleteStreamUpload_def UpdateStreamMetadata_def UpdateStreamProcessing_def
      ReprocessStream_def ProcessFacesStream_def ProcessFacesBatch_def GetFileByKey_def GetStream_def
      concatNeighbourSegments_def UpdateStreamStatus_def queue_new_video_def GetStreamExport_def OpenStreamDownload_def Let_def
    by (intro emits emits_neighbour_loop faces emits_faces_loop; simp add: unrelated_def)+
qed

text \<open>The answers of the exports table in a global history, one event after the other.\<close>

fun answer_ok :: "(uuid \<rightharpoonup> StreamExport) \<Rightarrow> event \<Rightarrow> bool" where
  "answer_ok db (EvExFirst s (Inr x)) \<longleftrightarrow> StreamID x = s \<and> read_as db x"
| "answer_ok db (EvExFirst s (Inl err)) \<longleftrightarrow> (is_record_not_found err \<longrightarrow> (\<forall>y\<in>ran db. StreamID y \<noteq> s))"
| "answer_ok db (EvExCreate x None) \<longleftrightarrow> db (ID x) = None"
| "answer_ok db (EvExReset i (Inr n)) \<longleftrightarrow> (n > 0 \<longrightarrow> (\<exists>y. db i = Some y \<and> ExportStatus y = ExportStatusFailed))"
| "answer_ok db e \<longleftrightarrow> True"

fun consistent_from :: "(uuid \<rightharpoonup> StreamExport) \<Rightarrow> event list \<Rightarrow> bool" where
  "consistent_from db [] = True"
| "consistent_from db (e # es) \<longleftrightarrow> answer_ok db e \<and> consistent_from (ex_replay e db) es"

definition ex_consistent :: "history \<Rightarrow> bool" where
  "ex_consistent h = consistent_from Map.empty h"

lemma consistent_from_append:
  "consistent_from db (xs @ ys) \<longleftrightarrow> consistent_from db xs \<and> consistent_from (fold ex_replay xs db) ys"
  by (induction xs arbitrary: db) auto

lemma ex_consistent_snoc: "ex_consistent (h @ [e]) \<longleftrightarrow> ex_consistent h \<and> answer_ok (ex_table h) e"
  by (simp add: ex_consistent_def consistent_from_append ex_table_def)

section \<open>The discipline of one call\<close>

text \<open>
  A call keeps the keys and streams of the rows it has seen, and how far it is: 0 before its claim, 1 with a
  claim, 2 after queueing. The step is undefined when the call would write a row it has not seen, claim twice
  or queue without a claim.
\<close>

type_synonym progress = "(uuid \<times> uuid) set \<times> nat"

fun dstep :: "uuid \<Rightarrow> progress \<Rightarrow> event \<Rightarrow> progress option" where
  "dstep s (K, c) (EvExFirst s' r) =
    (if s' = s then Some (case r of Inr x \<Rightarrow> insert (ID x, StreamID x) K | Inl err \<Rightarrow> K, c) else None)"
| "dstep s (K, c) (EvExCreate x r) =
    (if StreamID x = s \<and> ExportStatus x = ExportStatusPending then
       (if r = None then (if c = 0 then Some (insert (ID x, s) K, 1) else None) else Some (K, c))
     else None)"
| "dstep s (K, c) (EvExReset i r) =
    (case r of Inl err \<Rightarrow> Some (K, c)
     | Inr n \<Rightarrow> if n > 0 then (if c = 0 \<and> i \<in> fst ` K then Some (K, 1) else None) else Some (K, c))"
| "dstep s (K, c) (EvExSave x r) = (if (ID x, StreamID x) \<in> K then Some (K, c) else None)"
| "dstep s (K, c) (EvEnqueue ExportClient t r) = (if c = 1 then Some (K, 2) else None)"
| "dstep s (K, c) e = Some (K, c)"

fun drun :: "uuid \<Rightarrow> progress \<Rightarrow> event list \<Rightarrow> progress option" where
  "drun s p [] = Some p"
| "drun s p (e # es) = (case dstep s p e of None \<Rightarrow> None | Some p' \<Rightarrow> drun s p' es)"

lemma drun_append: "drun s p (xs @ ys) = (case drun s p xs of None \<Rightarrow> None | Some p' \<Rightarrow> drun s p' ys)"
  by (induction xs arbitrary: p) (auto split: option.split)

lemma drun_prefix: "prefix xs ys \<Longrightarrow> drun s p ys \<noteq> None \<Longrightarrow> drun s p xs \<noteq> None"
  by (auto simp: prefix_def drun_append split: option.splits)

fun reads_export :: "event \<Rightarrow> bool" where
  "reads_export (EvExFirst s r) = True"
| "reads_export _ = False"

lemma dstep_unrelated: "unrelated e \<Longrightarrow> \<not> reads_export e \<Longrightarrow> dstep s p e = Some p"
  by (cases "(s, p, e)" rule: dstep.cases) (auto simp: unrelated_def)

lemma drun_silent: "list_all (\<lambda>e. unrelated e \<and> \<not> reads_export e) es \<Longrightarrow> drun s p es = Some p"
  by (induction es) (auto simp: dstep_unrelated)

lemma request_disciplined:
  "wpre (RequestStreamExport E s u m) (\<lambda>r w'. \<exists>evs. hist w' = hist w @ evs \<and> drun s ({}, 0) evs \<noteq> None) w"
  unfolding RequestStreamExport_def repo_Read_def claim_export_def queue_export_def DistributeVideoExport_def
    exportTaskID_def exports_defs Let_def
  by (auto simp: wp new_export_def BeforeCreate_def BeforeUpdate_def Let_def split: sum.split option.split)

lemma complete_disciplined:
  "wpre (CompleteStreamExport E S s sz err) (\<lambda>r w'. \<exists>evs. hist w' = hist w @ evs \<and> drun s ({}, 2) evs \<noteq> None) w"
proof -
  have send: "emits (\<lambda>e. unrelated e \<and> \<not> reads_export e) (SendMessgeToOwner E v msg)" for v msg
    by (auto intro!: emits simp: unrelated_def)
  show ?thesis
    unfolding CompleteStreamExport_def exports_defs
    by (auto simp: wp BeforeUpdate_def record_outcome_def drun_silent intro!: wpre_tail [OF send]
        split: sum.split option.split)
qed

text \<open>A call queues no more exports than it claims.\<close>

lemma queues_after_claims:
  "drun s (K, c) t \<noteq> None \<Longrightarrow>
   length (filter queues_export t) \<le> length (filter claims t) + (if c = 1 then 1 else 0)"
proof (induction t arbitrary: K c)
  case (Cons e t)
  obtain K' c' where d: "dstep s (K, c) e = Some (K', c')" and r: "drun s (K', c') t \<noteq> None"
    using Cons.prems by (auto split: option.splits)
  have "length (filter queues_export t) \<le> length (filter claims t) + (if c' = 1 then 1 else 0)"
    by (rule Cons.IH [OF r])
  then show ?case
    using d by (cases "(s, (K, c), e)" rule: dstep.cases) (auto split: if_splits sum.splits)
qed simp

section \<open>What a write costs\<close>

definition failed_rows :: "uuid \<Rightarrow> (uuid \<rightharpoonup> StreamExport) \<Rightarrow> uuid set" where
  "failed_rows s db = {i. \<exists>y. db i = Some y \<and> StreamID y = s \<and> ExportStatus y = ExportStatusFailed}"

lemma finite_ex_table: "finite (dom (ex_table h))"
proof (induction h rule: rev_induct)
  case (snoc e h)
  then show ?case by (cases "(e, ex_table h)" rule: ex_replay.cases) (auto simp: dom_if)
qed simp

lemma finite_failed_rows: "finite (dom db) \<Longrightarrow> finite (failed_rows s db)"
  by (rule finite_subset) (auto simp: failed_rows_def)

fun adds_export :: "uuid \<Rightarrow> event \<Rightarrow> bool" where
  "adds_export s (EvExCreate x None) = (StreamID x = s)"
| "adds_export s _ = False"

fun fails_export :: "uuid \<Rightarrow> event \<Rightarrow> bool" where
  "fails_export s (EvExSave x None) = (StreamID x = s \<and> ExportStatus x = ExportStatusFailed)"
| "fails_export s _ = False"

text \<open>The row of a key belongs to a stream.\<close>

definition row_of :: "(uuid \<rightharpoonup> StreamExport) \<Rightarrow> uuid \<Rightarrow> uuid \<Rightarrow> bool" where
  "row_of db i s \<longleftrightarrow> (\<exists>y. db i = Some y \<and> StreamID y = s)"

definition knows :: "uuid \<Rightarrow> (uuid \<rightharpoonup> StreamExport) \<Rightarrow> (uuid \<times> uuid) set \<Rightarrow> bool" where
  "knows s db K \<longleftrightarrow> (\<forall>(i, s') \<in> K. s' = s \<and> row_of db i s)"

lemma ex_replay_row_of:
  assumes "answer_ok db e" and "dstep s0 (K, c) e = Some p" and "knows s0 db K" and "row_of db i s"
  shows "row_of (ex_replay e db) i s"
  using assms by (cases "(e, db)" rule: ex_replay.cases)
    (auto simp: row_of_def knows_def split: if_splits sum.splits)

lemma dstep_new:
  assumes "dstep s (K, c) e = Some (K', c')" and "(i, s') \<in> K'"
  shows "(i, s') \<in> K \<or> (\<exists>x. ID x = i \<and> StreamID x = s' \<and> (e = EvExFirst s (Inr x) \<or> e = EvExCreate x None \<and> s' = s))"
  using assms by (cases "(s, (K, c), e)" rule: dstep.cases) (auto split: if_splits sum.splits)

lemma dstep_knows:
  assumes "answer_ok db e" and "dstep s (K, c) e = Some (K', c')" and "knows s db K"
  shows "knows s (ex_replay e db) K'"
proof -
  have "s' = s \<and> row_of (ex_replay e db) i s" if "(i, s') \<in> K'" for i s'
    using dstep_new [OF assms(2) that]
  proof (elim disjE exE conjE)
    assume "(i, s') \<in> K"
    then show ?thesis using ex_replay_row_of [OF assms, of i s] assms(3) by (auto simp: knows_def)
  next
    fix x
    assume "ID x = i" "StreamID x = s'" "e = EvExFirst s (Inr x)"
    then show ?thesis using assms(1) by (auto simp: row_of_def elim: read_as_fields)
  qed (auto simp: row_of_def)
  then show ?thesis by (auto simp: knows_def)
qed

lemma write_cost:
  assumes "answer_ok db e" and "dstep s0 (K, c) e = Some p" and "knows s0 db K" and "finite (dom db)"
  shows "(if s0 = s \<and> claims e then 1 else 0) + card (failed_rows s (ex_replay e db)) \<le>
    card (failed_rows s db) + (if adds_export s e then 1 else 0) + (if fails_export s e then 1 else 0)"
proof (cases "(e, db)" rule: ex_replay.cases)
  case (1 x db')
  then have "failed_rows s (ex_replay e db) = failed_rows s db"
    using assms(1,2) by (auto simp: failed_rows_def split: if_splits)
  then show ?thesis using 1 assms(2) by (auto split: if_splits)
next
  case (2 x db')
  show ?thesis
  proof (cases "fails_export s e")
    case True
    then have "failed_rows s (ex_replay e db) \<subseteq> insert (ID x) (failed_rows s db)" using 2 by (auto simp: failed_rows_def)
    then have "card (failed_rows s (ex_replay e db)) \<le> card (insert (ID x) (failed_rows s db))"
      using finite_failed_rows [OF assms(4)] by (intro card_mono) simp_all
    also have "\<dots> \<le> Suc (card (failed_rows s db))"
      by (simp add: card_insert_if finite_failed_rows [OF assms(4)])
    finally show ?thesis using 2 True by simp
  next
    case False
    then have "failed_rows s (ex_replay e db) \<subseteq> failed_rows s db" using 2 by (auto simp: failed_rows_def split: if_splits)
    then show ?thesis using 2 False card_mono [OF finite_failed_rows [OF assms(4)]] by auto
  qed
next
  case (3 i n db')
  show ?thesis
  proof (cases "n > 0")
    case True
    then have "i \<in> fst ` K" using 3 assms(2) by (auto split: if_splits)
    then have "row_of db i s0" using assms(3) by (auto simp: knows_def)
    then obtain y where y: "db i = Some y" "StreamID y = s0" "ExportStatus y = ExportStatusFailed"
      using assms(1) 3 True by (auto simp: row_of_def)
    have sub: "failed_rows s (ex_replay e db) = failed_rows s db - {i}"
      using 3 True y by (auto simp: failed_rows_def split: if_splits)
    show ?thesis
    proof (cases "s0 = s")
      case True
      then have "i \<in> failed_rows s db" using y by (auto simp: failed_rows_def)
      then have "Suc (card (failed_rows s (ex_replay e db))) = card (failed_rows s db)"
        unfolding sub by (rule card.remove [OF finite_failed_rows [OF assms(4)], symmetric, simplified])
      then show ?thesis using 3 \<open>n > 0\<close> by simp
    next
      case False
      then show ?thesis using 3 sub card_mono [OF finite_failed_rows [OF assms(4)], of "failed_rows s db - {i}"] by auto
    qed
  qed (use 3 in simp)
qed (auto split: option.splits)

section \<open>All calls together\<close>

fun subject :: "call \<Rightarrow> uuid option" where
  "subject (Requests s u m) = Some s"
| "subject (Completes s sz err) = Some s"
| "subject Other = None"

fun requests :: "uuid \<Rightarrow> call \<Rightarrow> bool" where
  "requests s (Requests s' u m) = (s' = s)"
| "requests s _ = False"

definition start :: "call \<Rightarrow> progress" where
  "start c = ({}, if \<exists>s. requests s c then 0 else 2)"

lemma call_disciplined:
  assumes "call_trace c t"
  shows "case subject c of None \<Rightarrow> list_all unrelated t | Some s \<Rightarrow> drun s (start c) t \<noteq> None"
proof (cases c)
  case (Requests s u m)
  then obtain E w where p: "prefix t (trace w (after (RequestStreamExport E s u m) w))" using assms by auto
  obtain evs where "hist (after (RequestStreamExport E s u m) w) = hist w @ evs" "drun s ({}, 0) evs \<noteq> None"
    using wpre_result [OF request_disciplined] by blast
  then have "drun s ({}, 0) t \<noteq> None" using drun_prefix [OF p] by simp
  then show ?thesis using Requests by (simp add: start_def)
next
  case (Completes s sz err)
  then obtain E S w where p: "prefix t (trace w (after (CompleteStreamExport E S s sz err) w))" using assms by auto
  obtain evs where "hist (after (CompleteStreamExport E S s sz err) w) = hist w @ evs" "drun s ({}, 2) evs \<noteq> None"
    using wpre_result [OF complete_disciplined] by blast
  then have "drun s ({}, 2) t \<noteq> None" using drun_prefix [OF p] by simp
  then show ?thesis using Completes by (simp add: start_def)
qed (use assms in simp)

definition requested_events :: "(nat \<Rightarrow> call) \<Rightarrow> uuid \<Rightarrow> (event \<Rightarrow> bool) \<Rightarrow> global \<Rightarrow> nat" where
  "requested_events calls s Q H = length (filter (\<lambda>(k, e). requests s (calls k) \<and> Q e) H)"

text \<open>The count over a global history is the sum of the counts of its calls.\<close>

lemma requested_events_sum:
  assumes "finite T" and "fst ` set H \<subseteq> T"
  shows "requested_events calls s Q H = (\<Sum>k\<in>T. if requests s (calls k) then length (filter Q (local k H)) else 0)"
  using assms(2)
proof (induction H rule: rev_induct)
  case (snoc p H)
  obtain j e where p: "p = (j, e)" by (cases p)
  have j: "j \<in> T" and IH: "requested_events calls s Q H = (\<Sum>k\<in>T. if requests s (calls k) then length (filter Q (local k H)) else 0)"
    using snoc p by auto
  have "(\<Sum>k\<in>T. if requests s (calls k) then length (filter Q (local k (H @ [p]))) else 0) =
    (\<Sum>k\<in>T. (if requests s (calls k) then length (filter Q (local k H)) else 0) +
       (if k = j then if requests s (calls j) \<and> Q e then 1 else 0 else 0))"
    by (rule sum.cong) (auto simp: p)
  also have "\<dots> = requested_events calls s Q H + (if requests s (calls j) \<and> Q e then 1 else 0)"
    using j assms(1) by (simp add: sum.distrib IH sum.delta)
  also have "\<dots> = requested_events calls s Q (H @ [p])"
    by (auto simp: requested_events_def p)
  finally show ?case by simp
qed (simp add: requested_events_def cong: if_cong)

lemma queued_le_claimed:
  assumes "\<And>k. call_trace (calls k) (local k H)"
  shows "requested_events calls s queues_export H \<le> requested_events calls s claims H"
proof -
  have "length (filter queues_export (local k H)) \<le> length (filter claims (local k H))" if "requests s (calls k)" for k
  proof -
    have "subject (calls k) = Some s" "start (calls k) = ({}, 0)"
      using that by (cases "calls k"; auto simp: start_def)+
    then show ?thesis using call_disciplined [OF assms [of k]] queues_after_claims [of s "{}" 0] by simp
  qed
  then show ?thesis
    unfolding requested_events_sum [of "fst ` set H" H, simplified] by (intro sum_mono) auto
qed

text \<open>What the calls know stays true, and every claim is paid for by an insertion or a failure.\<close>

lemma claims_paid:
  assumes "\<And>k. call_trace (calls k) (local k H)" and "ex_consistent (map snd H)"
  shows "(\<forall>k s0 K c. subject (calls k) = Some s0 \<longrightarrow> drun s0 (start (calls k)) (local k H) = Some (K, c) \<longrightarrow>
      knows s0 (ex_table (map snd H)) K) \<and>
    requested_events calls s claims H + card (failed_rows s (ex_table (map snd H))) \<le>
      length (filter (adds_export s) (map snd H)) + length (filter (fails_export s) (map snd H))"
  using assms
proof (induction H rule: rev_induct)
  case Nil
  show ?case by (auto simp: knows_def start_def requested_events_def failed_rows_def)
next
  case (snoc p H)
  obtain j e where p: "p = (j, e)" by (cases p)
  let ?db = "ex_table (map snd H)"
  have trace: "call_trace (calls k) (local k H)" for k
    using snoc.prems(1) [of k] by (cases "calls k") (auto simp: p list_all_append split: if_splits dest: append_prefixD)
  have ok: "ex_consistent (map snd H)" "answer_ok ?db e"
    using snoc.prems(2) by (simp_all add: p ex_consistent_snoc)
  have known: "knows s0 ?db K" if "subject (calls k) = Some s0" "drun s0 (start (calls k)) (local k H) = Some (K, c)" for k s0 K c
    using snoc.IH [OF trace ok(1)] that by blast
  have paid: "requested_events calls s claims H + card (failed_rows s ?db) \<le>
      length (filter (adds_export s) (map snd H)) + length (filter (fails_export s) (map snd H))"
    using snoc.IH [OF trace ok(1)] by blast
  have count: "requested_events calls s claims (H @ [p]) = requested_events calls s claims H + (if requests s (calls j) \<and> claims e then 1 else 0)"
    by (simp add: requested_events_def p)
  show ?case
  proof (cases "subject (calls j)")
    case None
    then have un: "unrelated e" "\<not> requests s (calls j)"
      using call_disciplined [OF snoc.prems(1) [of j]] by (auto simp: p) (cases "calls j"; simp)
    then have "ex_replay e ?db = ?db" "\<not> adds_export s e" "\<not> fails_export s e"
      by (auto simp: unrelated_def elim!: adds_export.elims fails_export.elims)
    then show ?thesis
      using known paid None un by (auto simp: p count [unfolded p] split: if_splits)
  next
    case (Some s0)
    have "drun s0 (start (calls j)) (local j H @ [e]) \<noteq> None"
      using call_disciplined [OF snoc.prems(1) [of j]] Some by (simp add: p)
    then obtain K c K' c' where before: "drun s0 (start (calls j)) (local j H) = Some (K, c)" and d: "dstep s0 (K, c) e = Some (K', c')"
      by (auto simp: drun_append split: option.splits)
    have kn: "knows s0 ?db K" by (rule known [OF Some before])
    have "(if s0 = s \<and> claims e then 1 else 0) + card (failed_rows s (ex_replay e ?db)) \<le>
        card (failed_rows s ?db) + (if adds_export s e then 1 else 0) + (if fails_export s e then 1 else 0)"
      by (rule write_cost [OF ok(2) d kn finite_ex_table])
    moreover have "requests s (calls j) \<Longrightarrow> s0 = s" using Some by (cases "calls j") auto
    ultimately have "requested_events calls s claims (H @ [p]) + card (failed_rows s (ex_replay e ?db)) \<le>
        length (filter (adds_export s) (map snd (H @ [p]))) + length (filter (fails_export s) (map snd (H @ [p])))"
      using paid unfolding count by (auto simp: p split: if_splits)
    moreover have "knows s1 (ex_replay e ?db) K1"
      if k: "subject (calls k) = Some s1" "drun s1 (start (calls k)) (local k (H @ [p])) = Some (K1, c1)" for k s1 K1 c1
    proof (cases "k = j")
      case True
      then have "K1 = K'" using k Some before d by (simp add: p drun_append)
      then show ?thesis using dstep_knows [OF ok(2) d kn] True k Some by simp
    next
      case False
      then have "knows s1 ?db K1" using known k by (simp add: p)
      then show ?thesis using ex_replay_row_of [OF ok(2) d kn] by (auto simp: knows_def)
    qed
    ultimately show ?thesis by (simp add: p)
  qed
qed

section \<open>Properties\<close>

text \<open>
  C18: However export requests and reports overlap, the worker gets no more exports of a stream than the
  database granted: in every interleaving of any number of calls, finished or not, the exports queued for a stream
  are at most the rows inserted for it and the times one of them was saved as failed. So retries that race
  for one failed export queue one, and while nothing fails there are no more exports than rows. Assumed of the
  database: a read by stream gives a row as last written, a key is inserted once, and the conditional
  update changes only a failed row.
\<close>

theorem exports_bounded:
  assumes "\<And>k. call_trace (calls k) (local k H)" and "ex_consistent (map snd H)"
  shows "requested_events calls s queues_export H \<le>
    length (filter (adds_export s) (map snd H)) + length (filter (fails_export s) (map snd H))"
  using queued_le_claimed [OF assms(1), of s] claims_paid [OF assms, of s] by linarith

text \<open>The first request for the stream of the reference run, in any world with that stream and no export.\<close>

definition first_row :: Stream where
  "first_row = the (table (hist ready_world) 1)"

lemma first_row: "table (hist ready_world) = [1 \<mapsto> first_row] \<and> OwnerID first_row = 7 \<and> Status first_row = StatusReady"
proof -
  obtain t where t: "table (hist ready_world) = [1 \<mapsto> BeforeUpdate t (ref_row\<lparr>Status := StatusReady\<rparr>)]"
    using ready_world_table by blast
  then have "first_row = BeforeUpdate t (ref_row\<lparr>Status := StatusReady\<rparr>)" by (simp add: first_row_def)
  moreover have "OwnerID (BeforeUpdate t (ref_row\<lparr>Status := StatusReady\<rparr>)) = 7"
    "Status (BeforeUpdate t (ref_row\<lparr>Status := StatusReady\<rparr>)) = StatusReady"
    by (simp_all add: ref_row_def BeforeCreate_def new_stream_def ref_create_def Let_def)
  ultimately show ?thesis using t by metis
qed

lemma first_request:
  assumes "table (hist w) = [1 \<mapsto> first_row]" and "ex_table (hist w) = Map.empty" and "length (hist w) < 100"
  shows "\<exists>x a b c d t q. trace w (after (RequestStreamExport export_ref 1 7 ''m'') w) =
      [EvDbFirst 1 (Inr first_row), EvExFirst 1 (Inl record_not_found), EvUuid a, EvNow b, EvNow c,
       EvExCreate x None, EvNow d, EvEnqueue ExportClient t q] \<and>
    ID x = of_nat (length (hist w) + 3) \<and> StreamID x = 1 \<and> ExportStatus x = ExportStatusPending"
proof -
  have rows: "rows_of h 1 = []" if "ex_table h = Map.empty" for h
    using that by (simp add: rows_of_def List.map_filter_def)
  show ?thesis
    using assms first_row
    by (simp add: after_def RequestStreamExport_def repo_Read_def export_ref_def ref_env_def ref_First_def
        claim_export_def exports_defs rows IsExportNotFound_def record_not_found_def new_export_def BeforeCreate_def
        Let_def queue_export_def DistributeVideoExport_def exportTaskID_def uuid_Nil_def)
qed

definition one_request :: "nat \<Rightarrow> call" where
  "one_request k = (if k = 0 then Requests 1 7 ''m'' else Other)"

theorem exports_bounded_witness:
  "\<exists>H. requested_events one_request 1 queues_export H = 1 \<and>
     1 \<le> length (filter (adds_export 1) (map snd H)) + length (filter (fails_export 1) (map snd H))"
proof -
  obtain x a b c d t q where x: "trace ready_world (after (RequestStreamExport export_ref 1 7 ''m'') ready_world) =
      [EvDbFirst 1 (Inr first_row), EvExFirst 1 (Inl record_not_found), EvUuid a, EvNow b, EvNow c,
       EvExCreate x None, EvNow d, EvEnqueue ExportClient t q]"
    using first_request [of ready_world] first_row ready_world_exports ready_world_length by auto
  let ?H = "map (Pair 0) (trace ready_world (after (RequestStreamExport export_ref 1 7 ''m'') ready_world)) :: global"
  have "call_trace (one_request k) (local k ?H)" for k
  proof (cases "k = 0")
    case True
    then have "local k ?H = trace ready_world (after (RequestStreamExport export_ref 1 7 ''m'') ready_world)"
      by (simp add: local_def filter_map comp_def)
    then show ?thesis using True by (simp add: one_request_def) blast
  qed (simp add: local_def one_request_def filter_map comp_def)
  moreover have "ex_consistent (map snd ?H)" by (simp add: ex_consistent_def x)
  ultimately have "requested_events one_request 1 queues_export ?H \<le>
      length (filter (adds_export 1) (map snd ?H)) + length (filter (fails_export 1) (map snd ?H))"
    by (rule exports_bounded)
  moreover have "requested_events one_request 1 queues_export ?H = 1"
    by (simp add: requested_events_def one_request_def x)
  ultimately show ?thesis by (intro exI [of _ ?H]) simp
qed

text \<open>A world in which one more call was counted: the next fresh key differs.\<close>

definition later_world :: world where
  "later_world = ready_world\<lparr>hist := hist ready_world @ [EvMetric [] [] 1]\<rparr>"

definition two_requests :: "nat \<Rightarrow> call" where
  "two_requests k = (if k < 2 then Requests 1 7 ''m'' else Other)"

text \<open>
  The bound is reached without a failure: two first requests that both look for a row before either inserts
  one. Each inserts a row of its own, so the stream has two, and two exports are queued.
\<close>

theorem two_first_requests_two_exports:
  "\<exists>H. (\<forall>k. call_trace (two_requests k) (local k H)) \<and> ex_consistent (map snd H) \<and>
     requested_events two_requests 1 queues_export H = 2 \<and> filter (fails_export 1) (map snd H) = [] \<and>
     (\<exists>i j x y. i \<noteq> j \<and> ex_table (map snd H) i = Some x \<and> ex_table (map snd H) j = Some y \<and>
        StreamID x = 1 \<and> StreamID y = 1)"
proof -
  have worlds: "table (hist ready_world) = [1 \<mapsto> first_row]" "ex_table (hist ready_world) = Map.empty"
    "table (hist later_world) = [1 \<mapsto> first_row]" "ex_table (hist later_world) = Map.empty"
    using first_row ready_world_exports by (simp_all add: later_world_def)
  obtain x a b c d t q where x: "trace ready_world (after (RequestStreamExport export_ref 1 7 ''m'') ready_world) =
      [EvDbFirst 1 (Inr first_row), EvExFirst 1 (Inl record_not_found), EvUuid a, EvNow b, EvNow c,
       EvExCreate x None, EvNow d, EvEnqueue ExportClient t q]"
    "ID x = of_nat (length (hist ready_world) + 3)" "StreamID x = 1" "ExportStatus x = ExportStatusPending"
    using first_request [OF worlds(1,2)] ready_world_length by auto
  obtain y a' b' c' d' t' q' where y: "trace later_world (after (RequestStreamExport export_ref 1 7 ''m'') later_world) =
      [EvDbFirst 1 (Inr first_row), EvExFirst 1 (Inl record_not_found), EvUuid a', EvNow b', EvNow c',
       EvExCreate y None, EvNow d', EvEnqueue ExportClient t' q']"
    "ID y = of_nat (length (hist later_world) + 3)" "StreamID y = 1" "ExportStatus y = ExportStatusPending"
    using first_request [OF worlds(3,4)] ready_world_length by (auto simp: later_world_def)
  have ne: "ID x \<noteq> ID y" using x(2) y(2) ready_world_length by (simp add: later_world_def)
  let ?H = "[(0, EvDbFirst 1 (Inr first_row)), (0, EvExFirst 1 (Inl record_not_found)),
      (1, EvDbFirst 1 (Inr first_row)), (1, EvExFirst 1 (Inl record_not_found)),
      (0, EvUuid a), (0, EvNow b), (0, EvNow c), (0, EvExCreate x None), (0, EvNow d), (0, EvEnqueue ExportClient t q),
      (1, EvUuid a'), (1, EvNow b'), (1, EvNow c'), (1, EvExCreate y None), (1, EvNow d'),
      (1, EvEnqueue ExportClient t' q')] :: global"
  have l: "local 0 ?H = trace ready_world (after (RequestStreamExport export_ref 1 7 ''m'') ready_world)"
    "local 1 ?H = trace later_world (after (RequestStreamExport export_ref 1 7 ''m'') later_world)"
    "k \<noteq> 0 \<Longrightarrow> k \<noteq> 1 \<Longrightarrow> local k ?H = []" for k
    by (simp_all add: local_def x(1) y(1))
  have "call_trace (two_requests k) (local k ?H)" for k
  proof -
    consider "k = 0" | "k = 1" | "k \<noteq> 0" "k \<noteq> 1" by blast
    then show ?thesis
    proof cases
      case 1
      then show ?thesis unfolding two_requests_def using l(1) by simp blast
    next
      case 2
      then show ?thesis unfolding two_requests_def using l(2) by simp blast
    next
      case 3
      then show ?thesis using l(3) [of k] by (simp add: two_requests_def)
    qed
  qed
  moreover have "ex_consistent (map snd ?H)"
    using ne by (simp add: ex_consistent_def)
  moreover have "requested_events two_requests 1 queues_export ?H = 2" "filter (fails_export 1) (map snd ?H) = []"
    by (simp_all add: requested_events_def two_requests_def)
  moreover have "ex_table (map snd ?H) (ID x) = Some x" "ex_table (map snd ?H) (ID y) = Some y"
    using ne by (simp_all add: ex_table_def)
  ultimately show ?thesis using ne x(3) y(3) by (intro exI [of _ ?H]) blast
qed

end
