(* ===== verification/HubRaces.thy ===== *)
theory HubRaces
  imports Hub
begin

text \<open>
  The registry of \<open>internal/wss/hub_impl.go\<close> in memory, with its lock. A slice is a pointer to an array and a
  length; \<open>Register\<close> appends, in place when the array has room; \<open>Unregister\<close> shifts the cells of the array one
  by one while it holds the lock. \<open>SendMessgeToOwner\<close> copies the slice under the lock and then goes over the
  cells of the array without it. A schedule is a list of actions, each one step of one of these calls.
\<close>

section \<open>Slices and arrays\<close>

record go_slice =
  Arr :: nat
  Len :: nat

text \<open>
  \<open>Cells\<close> are the cells of an array that have been written, from the first on, \<open>Caps\<close> its capacity. The nil
  slice is on the array 0, which has no cells. Every slice here starts at the first cell of its array.
\<close>

record hub_memory =
  Cells :: "nat \<Rightarrow> conn list"
  Caps :: "nat \<Rightarrow> nat"
  Fresh :: nat
  Table :: "uuid \<rightharpoonup> go_slice"

definition NewWssHub :: hub_memory where
  "NewWssHub = \<lparr>Cells = (\<lambda>_. []), Caps = (\<lambda>_. 0), Fresh = 1, Table = Map.empty\<rparr>"

definition header :: "hub_memory \<Rightarrow> uuid \<Rightarrow> go_slice" where
  "header M u = (case Table M u of None \<Rightarrow> \<lparr>Arr = 0, Len = 0\<rparr> | Some s \<Rightarrow> s)"

definition contents :: "hub_memory \<Rightarrow> go_slice \<Rightarrow> conn list" where
  "contents M s = take (Len s) (Cells M (Arr s))"

definition view :: "hub_memory \<Rightarrow> uuid \<Rightarrow> conn list" where
  "view M u = contents M (header M u)"

text \<open>\<open>append(s, c)\<close>. How much room a new array gets is the runtime's choice, \<open>grow\<close>; there is room for \<open>c\<close>.\<close>

definition go_append :: "(nat \<Rightarrow> nat) \<Rightarrow> go_slice \<Rightarrow> conn \<Rightarrow> hub_memory \<Rightarrow> go_slice \<times> hub_memory" where
  "go_append grow s c M =
    (let xs = Cells M (Arr s) in
     if Len s < Caps M (Arr s) then
       (s\<lparr>Len := Suc (Len s)\<rparr>,
        M\<lparr>Cells := (Cells M)(Arr s := take (Len s) xs @ c # drop (Suc (Len s)) xs)\<rparr>)
     else
       (\<lparr>Arr = Fresh M, Len = Suc (Len s)\<rparr>,
        M\<lparr>Cells := (Cells M)(Fresh M := contents M s @ [c]),
          Caps := (Caps M)(Fresh M := max (grow (Len s)) (Suc (Len s))), Fresh := Suc (Fresh M)\<rparr>))"

definition mem_Register :: "(nat \<Rightarrow> nat) \<Rightarrow> uuid \<Rightarrow> conn \<Rightarrow> hub_memory \<Rightarrow> hub_memory" where
  "mem_Register grow u c M =
    (let (s, M') = go_append grow (header M u) c M in M'\<lparr>Table := (Table M')(u \<mapsto> s)\<rparr>)"

section \<open>Calls in progress\<close>

text \<open>
  Who holds the lock: \<open>Unregister\<close> for a user and a connection, with the slice \<open>conns\<close> it has read, at the
  index \<open>i\<close> of its loop (\<open>Scan\<close>), or moving cells, the next one to be written being \<open>j\<close> (\<open>Shift\<close>).
  \<open>Register\<close> changes one cell that a reader can see, so it is one step.
\<close>

datatype holder = Scan uuid conn go_slice nat | Shift uuid conn go_slice nat nat

text \<open>A call of \<open>SendMessgeToOwner\<close> for a user: at an index of its copy of the slice, or writing to a connection.\<close>

datatype sender = Ranging uuid go_slice nat | Writing uuid go_slice nat conn

record hub_state =
  Mem :: hub_memory
  Lock :: "holder option"
  Senders :: "nat \<rightharpoonup> sender"
  Delivered :: "(nat \<times> uuid \<times> conn) list"

definition hub_start :: hub_state where
  "hub_start = \<lparr>Mem = NewWssHub, Lock = None, Senders = Map.empty, Delivered = []\<rparr>"

datatype hub_action =
    DoRegister uuid conn     \<comment> \<open>all of \<open>Register\<close>\<close>
  | DoUnregister uuid conn   \<comment> \<open>take the lock and read the slice\<close>
  | HolderStep               \<comment> \<open>the next step of the call that holds the lock\<close>
  | DoSend nat uuid          \<comment> \<open>a new call of \<open>SendMessgeToOwner\<close>: read the slice under the lock\<close>
  | SenderStep nat           \<comment> \<open>the next step of this call\<close>

fun holder_step :: "holder \<Rightarrow> hub_memory \<Rightarrow> holder option \<times> hub_memory" where
  "holder_step (Scan u c s i) M =
    (if i < Len s then
       (if Cells M (Arr s) ! i = c then (Some (Shift u c s i i), M) else (Some (Scan u c s (Suc i)), M))
     else (None, if Len (header M u) = 0 then M\<lparr>Table := (Table M)(u := None)\<rparr> else M))"
| "holder_step (Shift u c s i j) M =
    (if Suc j < Len s then
       (Some (Shift u c s i (Suc j)),
        M\<lparr>Cells := (Cells M)(Arr s := (Cells M (Arr s))[j := Cells M (Arr s) ! Suc j])\<rparr>)
     else (Some (Scan u c s (Suc i)), M\<lparr>Table := (Table M)(u \<mapsto> s\<lparr>Len := Len s - 1\<rparr>)\<rparr>))"

fun hub_next :: "(nat \<Rightarrow> nat) \<Rightarrow> hub_action \<Rightarrow> hub_state \<Rightarrow> hub_state option" where
  "hub_next grow (DoRegister u c) st =
    (if Lock st = None then Some (st\<lparr>Mem := mem_Register grow u c (Mem st)\<rparr>) else None)"
| "hub_next grow (DoUnregister u c) st =
    (if Lock st = None then Some (st\<lparr>Lock := Some (Scan u c (header (Mem st) u) 0)\<rparr>) else None)"
| "hub_next grow HolderStep st =
    (case Lock st of
       None \<Rightarrow> None
     | Some h \<Rightarrow> (let (l, M) = holder_step h (Mem st) in Some (st\<lparr>Lock := l, Mem := M\<rparr>)))"
| "hub_next grow (DoSend k u) st =
    (if Lock st = None \<and> Senders st k = None
     then Some (st\<lparr>Senders := (Senders st)(k \<mapsto> Ranging u (header (Mem st) u) 0)\<rparr>) else None)"
| "hub_next grow (SenderStep k) st =
    (case Senders st k of
       Some (Ranging u s i) \<Rightarrow>
         if i < Len s then Some (st\<lparr>Senders := (Senders st)(k \<mapsto> Writing u s i (Cells (Mem st) (Arr s) ! i))\<rparr>)
         else None
     | Some (Writing u s i c) \<Rightarrow>
         Some (st\<lparr>Senders := (Senders st)(k \<mapsto> Ranging u s (Suc i)), Delivered := Delivered st @ [(k, u, c)]\<rparr>)
     | None \<Rightarrow> None)"

text \<open>A schedule has no result when one of its actions is not possible.\<close>

fun hub_exec :: "(nat \<Rightarrow> nat) \<Rightarrow> hub_action list \<Rightarrow> hub_state \<Rightarrow> hub_state option" where
  "hub_exec grow [] st = Some st"
| "hub_exec grow (a # as) st = (case hub_next grow a st of None \<Rightarrow> None | Some st' \<Rightarrow> hub_exec grow as st')"

text \<open>What the calls of a schedule do to the registry when each is one step.\<close>

fun apply_call :: "hub_action \<Rightarrow> clients \<Rightarrow> clients" where
  "apply_call (DoRegister u c) m = hub_register u c m"
| "apply_call (DoUnregister u c) m = hub_unregister u c m"
| "apply_call a m = m"

definition registered :: "hub_action list \<Rightarrow> uuid \<Rightarrow> conn set" where
  "registered sched u = {c. DoRegister u c \<in> set sched}"

definition received :: "hub_state \<Rightarrow> nat \<Rightarrow> conn list" where
  "received st k = map (\<lambda>d. snd (snd d)) (filter (\<lambda>d. fst d = k) (Delivered st))"

section \<open>The invariant\<close>

text \<open>
  \<open>own\<close> gives every array the one user whose slices are on it. A slice that somebody still holds may be
  longer than the one in the table, and its cells may have changed; but they are cells of this user.
\<close>

definition slice_ok :: "(nat \<Rightarrow> uuid) \<Rightarrow> hub_memory \<Rightarrow> uuid \<Rightarrow> go_slice \<Rightarrow> bool" where
  "slice_ok own M u s \<longleftrightarrow> Len s = 0 \<or>
     0 < Arr s \<and> Arr s < Fresh M \<and> own (Arr s) = u \<and> Len s \<le> length (Cells M (Arr s))"

definition mem_ok :: "(nat \<Rightarrow> uuid) \<Rightarrow> (uuid \<Rightarrow> conn set) \<Rightarrow> hub_memory \<Rightarrow> bool" where
  "mem_ok own reg M \<longleftrightarrow> Caps M 0 = 0 \<and> 0 < Fresh M \<and>
     (\<forall>u s. Table M u = Some s \<longrightarrow> 0 < Arr s \<and> Arr s < Fresh M \<and> own (Arr s) = u \<and> Len s \<le> length (Cells M (Arr s))) \<and>
     (\<forall>a. 0 < a \<and> a < Fresh M \<longrightarrow> set (Cells M a) \<subseteq> reg (own a))"

definition sender_ok :: "(nat \<Rightarrow> uuid) \<Rightarrow> (uuid \<Rightarrow> conn set) \<Rightarrow> hub_memory \<Rightarrow> sender \<Rightarrow> bool" where
  "sender_ok own reg M x = (case x of
     Ranging u s i \<Rightarrow> slice_ok own M u s
   | Writing u s i c \<Rightarrow> slice_ok own M u s \<and> c \<in> reg u)"

text \<open>What is still to be done of \<open>Unregister\<close> gives what the whole call gives on the abstract registry \<open>m\<close>.\<close>

definition lock_ok :: "(nat \<Rightarrow> uuid) \<Rightarrow> clients \<Rightarrow> hub_memory \<Rightarrow> holder option \<Rightarrow> bool" where
  "lock_ok own m M l = (case l of
     None \<Rightarrow> \<forall>v. view M v = conns_of m v
   | Some (Scan u c s i) \<Rightarrow> (\<forall>v. v \<noteq> u \<longrightarrow> view M v = conns_of m v) \<and> slice_ok own M u s \<and>
       unregister_loop i c (contents M s) (view M u) = conns_of m u
   | Some (Shift u c s i j) \<Rightarrow> (\<forall>v. v \<noteq> u \<longrightarrow> view M v = conns_of m v) \<and> slice_ok own M u s \<and> j < Len s \<and>
       (let arr = contents M s; rest = take j arr @ drop (Suc j) arr in
        unregister_loop (Suc i) c (rest @ [last arr]) rest = conns_of m u))"

definition hub_ok :: "(nat \<Rightarrow> uuid) \<Rightarrow> (uuid \<Rightarrow> conn set) \<Rightarrow> clients \<Rightarrow> hub_state \<Rightarrow> bool" where
  "hub_ok own reg m st \<longleftrightarrow> mem_ok own reg (Mem st) \<and> lock_ok own m (Mem st) (Lock st) \<and>
     (\<forall>k x. Senders st k = Some x \<longrightarrow> sender_ok own reg (Mem st) x) \<and>
     (\<forall>(k, u, c) \<in> set (Delivered st). c \<in> reg u \<and> Senders st k \<noteq> None)"

lemma header_simps [simp]:
  "header (M\<lparr>Table := T\<rparr>) u = (case T u of None \<Rightarrow> \<lparr>Arr = 0, Len = 0\<rparr> | Some s \<Rightarrow> s)"
  "header (M\<lparr>Cells := C\<rparr>) u = header M u"
  "contents (M\<lparr>Table := T\<rparr>) s = contents M s"
  by (simp_all add: header_def contents_def)

lemma slice_ok_Table [simp]: "slice_ok own (M\<lparr>Table := T\<rparr>) u s \<longleftrightarrow> slice_ok own M u s"
  by (simp add: slice_ok_def)

lemma header_ok: "mem_ok own reg M \<Longrightarrow> slice_ok own M u (header M u)"
  by (auto simp: mem_ok_def slice_ok_def header_def split: option.splits)

lemma length_contents: "slice_ok own M u s \<Longrightarrow> length (contents M s) = Len s"
  by (auto simp: slice_ok_def contents_def)

lemma cell_contents: "i < Len s \<Longrightarrow> Cells M (Arr s) ! i = contents M s ! i"
  by (simp add: contents_def)

lemma mem_ok_table:
  "mem_ok own reg M \<Longrightarrow> Table M u = Some s \<Longrightarrow>
     0 < Arr s \<and> Arr s < Fresh M \<and> own (Arr s) = u \<and> Len s \<le> length (Cells M (Arr s))"
  by (simp add: mem_ok_def)

lemma mem_ok_cells: "mem_ok own reg M \<Longrightarrow> 0 < a \<Longrightarrow> a < Fresh M \<Longrightarrow> set (Cells M a) \<subseteq> reg (own a)"
  by (simp add: mem_ok_def)

lemma mem_ok_apart:
  "mem_ok own reg M \<Longrightarrow> Table M v = Some r \<Longrightarrow> own a \<noteq> v \<Longrightarrow> Arr r \<noteq> a"
  using mem_ok_table by blast

lemma contents_registered:
  assumes "mem_ok own reg M" and "slice_ok own M u s"
  shows "set (contents M s) \<subseteq> reg u"
proof (cases "Len s = 0")
  case False
  then have "set (Cells M (Arr s)) \<subseteq> reg u"
    using mem_ok_cells [OF assms(1), of "Arr s"] assms(2) by (simp add: slice_ok_def)
  then show ?thesis using set_take_subset unfolding contents_def by (rule subset_trans [rotated])
qed (simp add: contents_def)

lemma conns_of_unregister_loop:
  "conns_of (hub_unregister u c m) = (conns_of m)(u := unregister_loop 0 c (conns_of m u) (conns_of m u))"
proof -
  have "unregister_loop 0 c (conns_of m u) (conns_of m u) = conns_of m u" if "c \<notin> set (conns_of m u)"
    using that by (intro unregister_loop_absent) (metis nth_mem)
  then show ?thesis
    by (auto simp: hub_unregister_def conns_of_def Let_def fun_eq_iff split: option.splits)
qed

text \<open>A change of memory that keeps every held slice.\<close>

definition grows :: "(nat \<Rightarrow> uuid) \<Rightarrow> (nat \<Rightarrow> uuid) \<Rightarrow> hub_memory \<Rightarrow> hub_memory \<Rightarrow> bool" where
  "grows own own' M M' \<longleftrightarrow> Fresh M \<le> Fresh M' \<and> (\<forall>a < Fresh M. own' a = own a) \<and>
     (\<forall>a < Fresh M. length (Cells M a) \<le> length (Cells M' a))"

lemma grows_refl [simp]: "grows own own M M"
  by (simp add: grows_def)

lemma grows_slice: "grows own own' M M' \<Longrightarrow> slice_ok own M u s \<Longrightarrow> slice_ok own' M' u s"
  unfolding grows_def slice_ok_def by (metis le_trans less_le_trans)

lemma grows_sender:
  "grows own own' M M' \<Longrightarrow> (\<And>u. reg u \<subseteq> reg' u) \<Longrightarrow> sender_ok own reg M x \<Longrightarrow> sender_ok own' reg' M' x"
  by (auto simp: sender_ok_def grows_slice split: sender.splits)

text \<open>\<open>Register\<close>.\<close>

lemma register_memory:
  assumes ok: "mem_ok own reg M"
  obtains own' where "mem_ok own' (reg(u := insert c (reg u))) (mem_Register grow u c M)"
    and "grows own own' M (mem_Register grow u c M)"
    and "view (mem_Register grow u c M) = (view M)(u := view M u @ [c])"
proof -
  let ?s = "header M u" and ?reg = "reg(u := insert c (reg u))"
  have s: "slice_ok own M u ?s" using header_ok [OF ok] .
  show thesis
  proof (cases "Len ?s < Caps M (Arr ?s)")
    case True
    let ?xs = "take (Len ?s) (Cells M (Arr ?s)) @ c # drop (Suc (Len ?s)) (Cells M (Arr ?s))"
    let ?M = "M\<lparr>Cells := (Cells M)(Arr ?s := ?xs), Table := (Table M)(u \<mapsto> ?s\<lparr>Len := Suc (Len ?s)\<rparr>)\<rparr>"
    have M': "mem_Register grow u c M = ?M"
      using True by (simp add: mem_Register_def go_append_def Let_def)
    obtain t where t: "Table M u = Some t"
      using True ok by (auto simp: header_def mem_ok_def split: option.splits)
    have own_t: "0 < Arr t" "Arr t < Fresh M" "own (Arr t) = u" "Len t \<le> length (Cells M (Arr t))"
      using mem_ok_table [OF ok t] by simp_all
    have st: "?s = t" using t by (simp add: header_def)
    have sub: "set ?xs \<subseteq> insert c (set (Cells M (Arr t)))"
      using st by (auto dest: in_set_takeD in_set_dropD)
    have apart: "Arr r \<noteq> Arr t" if "Table M v = Some r" "v \<noteq> u" for v r
      using mem_ok_apart [OF ok that(1), of "Arr t"] own_t(3) that(2) by simp
    show thesis
    proof (rule that [of own])
      show "mem_ok own ?reg (mem_Register grow u c M)"
        using ok own_t sub st apart unfolding M' by (fastforce simp: mem_ok_def)
      show "grows own own M (mem_Register grow u c M)"
        using own_t(4) unfolding M' by (auto simp: grows_def st)
      show "view (mem_Register grow u c M) = (view M)(u := view M u @ [c])"
      proof
        fix v
        show "view (mem_Register grow u c M) v = ((view M)(u := view M u @ [c])) v"
          using own_t(4) apart [of v] unfolding M'
          by (auto simp: view_def contents_def st header_def min_def t split: option.splits)
      qed
    qed
  next
    case False
    let ?s' = "\<lparr>Arr = Fresh M, Len = Suc (Len ?s)\<rparr>"
    let ?M = "M\<lparr>Cells := (Cells M)(Fresh M := contents M ?s @ [c]),
          Caps := (Caps M)(Fresh M := max (grow (Len ?s)) (Suc (Len ?s))), Fresh := Suc (Fresh M),
          Table := (Table M)(u \<mapsto> ?s')\<rparr>"
    have M': "mem_Register grow u c M = ?M"
      using False by (simp add: mem_Register_def go_append_def Let_def)
    have fresh: "0 < Fresh M" using ok by (simp add: mem_ok_def)
    have below: "Arr r < Fresh M" "0 < Arr r" "own (Arr r) = v" if "Table M v = Some r" for v r
      using mem_ok_table [OF ok that] by simp_all
    show thesis
    proof (rule that [of "own(Fresh M := u)"])
      show "mem_ok (own(Fresh M := u)) ?reg (mem_Register grow u c M)"
        using ok fresh below contents_registered [OF ok s] unfolding M'
        by (fastforce simp: mem_ok_def less_Suc_eq length_contents [OF s])
      show "grows own (own(Fresh M := u)) M (mem_Register grow u c M)"
        unfolding M' by (simp add: grows_def)
      show "view (mem_Register grow u c M) = (view M)(u := view M u @ [c])"
        unfolding M' by (auto simp: fun_eq_iff view_def contents_def header_def min_def split: option.splits dest: below)
    qed
  qed
qed


text \<open>A step of \<open>Unregister\<close>.\<close>

lemma mem_ok_Cells:
  assumes "mem_ok own reg M" and "\<And>a. length (C a) = length (Cells M a)" and "\<And>a. set (C a) \<subseteq> set (Cells M a)"
  shows "mem_ok own reg (M\<lparr>Cells := C\<rparr>)"
proof -
  have "set (C a) \<subseteq> reg (own a)" if "0 < a" "a < Fresh M" for a
    using assms(3) mem_ok_cells [OF assms(1) that] by blast
  then show ?thesis using assms(1,2) by (simp add: mem_ok_def)
qed

lemma in_place:
  assumes ok: "mem_ok own reg M" and s: "slice_ok own M u s" and "0 < Len s"
    and xs: "length xs = length (Cells M (Arr s))" "set xs \<subseteq> set (Cells M (Arr s))"
  shows "mem_ok own reg (M\<lparr>Cells := (Cells M)(Arr s := xs)\<rparr>)"
    and "grows own own M (M\<lparr>Cells := (Cells M)(Arr s := xs)\<rparr>)"
    and "v \<noteq> u \<Longrightarrow> view (M\<lparr>Cells := (Cells M)(Arr s := xs)\<rparr>) v = view M v"
proof -
  have own_s: "0 < Arr s" "Arr s < Fresh M" "own (Arr s) = u"
    using s assms(3) by (simp_all add: slice_ok_def)
  show "mem_ok own reg (M\<lparr>Cells := (Cells M)(Arr s := xs)\<rparr>)"
    using xs by (intro mem_ok_Cells [OF ok]) auto
  show "grows own own M (M\<lparr>Cells := (Cells M)(Arr s := xs)\<rparr>)"
    using xs by (simp add: grows_def)
  show "view (M\<lparr>Cells := (Cells M)(Arr s := xs)\<rparr>) v = view M v" if "v \<noteq> u"
    using mem_ok_apart [OF ok, of v _ "Arr s"] that own_s
    by (auto simp: view_def contents_def header_def split: option.splits)
qed

lemma shift_next:
  assumes "Suc j < length xs"
  shows "take (Suc j) (xs[j := xs ! Suc j]) @ drop (Suc (Suc j)) (xs[j := xs ! Suc j]) = take j xs @ drop (Suc j) xs"
    and "last (xs[j := xs ! Suc j]) = last xs"
proof -
  show "take (Suc j) (xs[j := xs ! Suc j]) @ drop (Suc (Suc j)) (xs[j := xs ! Suc j]) = take j xs @ drop (Suc j) xs"
    using assms by (simp add: take_Suc_conv_app_nth Cons_nth_drop_Suc [symmetric])
  have "xs \<noteq> []" "j \<noteq> length xs - 1" using assms by auto
  then show "last (xs[j := xs ! Suc j]) = last xs" by (simp add: last_list_update)
qed

lemma holder_step_ok:
  assumes ok: "mem_ok own reg M" and l: "lock_ok own m M (Some h)" and step: "holder_step h M = (l', M')"
  shows "mem_ok own reg M' \<and> lock_ok own m M' l' \<and> grows own own M M'"
proof (cases h)
  case (Scan u c s i)
  have s: "slice_ok own M u s" and rest: "\<And>v. v \<noteq> u \<Longrightarrow> view M v = conns_of m v"
    and todo: "unregister_loop i c (contents M s) (view M u) = conns_of m u"
    using l by (auto simp: lock_ok_def Scan)
  note len = length_contents [OF s]
  show ?thesis
  proof (cases "i < Len s")
    case True
    then show ?thesis
      using ok s rest todo step cell_contents [OF True, of M] len
      by (auto simp: Scan lock_ok_def unregister_loop.simps [of i] Let_def split: if_splits)
  next
    case False
    then have "view M u = conns_of m u"
      using todo len by (simp add: unregister_loop.simps [of i])
    then have "\<forall>v. view M v = conns_of m v" using rest by metis
    moreover have "view (M\<lparr>Table := (Table M)(u := None)\<rparr>) v = view M v" if "Len (header M u) = 0" for v
      using that by (auto simp: view_def contents_def header_def)
    moreover have "mem_ok own reg (M\<lparr>Table := (Table M)(u := None)\<rparr>)"
      using ok by (auto simp: mem_ok_def)
    ultimately show ?thesis
      using ok step False by (auto simp: Scan lock_ok_def grows_def split: if_splits)
  qed
next
  case (Shift u c s i j)
  let ?arr = "contents M s"
  have s: "slice_ok own M u s" "j < Len s" and rest: "\<And>v. v \<noteq> u \<Longrightarrow> view M v = conns_of m v"
    and todo: "unregister_loop (Suc i) c ((take j ?arr @ drop (Suc j) ?arr) @ [last ?arr]) (take j ?arr @ drop (Suc j) ?arr) =
      conns_of m u"
    using l by (auto simp: lock_ok_def Shift Let_def)
  note len = length_contents [OF s(1)]
  have arr: "0 < Arr s" "Arr s < Fresh M" "own (Arr s) = u" "Len s \<le> length (Cells M (Arr s))"
    using s by (auto simp: slice_ok_def)
  show ?thesis
  proof (cases "Suc j < Len s")
    case True
    let ?xs = "(Cells M (Arr s))[j := Cells M (Arr s) ! Suc j]"
    let ?M = "M\<lparr>Cells := (Cells M)(Arr s := ?xs)\<rparr>"
    have xs: "length ?xs = length (Cells M (Arr s))" "set ?xs \<subseteq> set (Cells M (Arr s))"
      using True arr(4) by (auto dest!: set_update_subset_insert [THEN subsetD])
    have "contents ?M s = ?arr[j := ?arr ! Suc j]"
      using True by (simp add: contents_def take_update_swap)
    then have "lock_ok own m ?M (Some (Shift u c s i (Suc j)))"
      using True todo shift_next [of j ?arr] len rest in_place(3) [OF ok s(1) _ xs] s
        grows_slice [OF in_place(2) [OF ok s(1) _ xs] s(1)]
      by (simp add: lock_ok_def Let_def del: append_assoc)
    then show ?thesis
      using step True in_place(1,2) [OF ok s(1) _ xs] by (auto simp: Shift)
  next
    case False
    let ?M = "M\<lparr>Table := (Table M)(u \<mapsto> s\<lparr>Len := Len s - 1\<rparr>)\<rparr>"
    have j: "j = Len s - 1" using False s(2) by simp
    have "take j ?arr @ [last ?arr] = ?arr"
      using len s(2) j by (metis append_butlast_last_id butlast_conv_take length_0_conv not_less_zero)
    then have "unregister_loop (Suc i) c ?arr (take j ?arr) = conns_of m u"
      using todo len j by simp
    moreover have "view ?M u = take j ?arr"
      using j by (simp add: view_def contents_def min_def)
    moreover have "view ?M v = view M v" if "v \<noteq> u" for v
      using that by (simp add: view_def header_def contents_def)
    moreover have "mem_ok own reg ?M"
      using ok arr by (auto simp: mem_ok_def)
    ultimately show ?thesis
      using rest step False s by (auto simp: Shift lock_ok_def grows_def)
  qed
qed


lemma register_lock:
  assumes "view M' = (view M)(u := view M u @ [c])" and "lock_ok own m M None"
  shows "lock_ok own' (hub_register u c m) M' None"
  using assms by (auto simp: lock_ok_def conns_of_register)

lemma hub_ok_sender:
  assumes "hub_ok own reg m st" and "Mem st' = Mem st" and "Lock st' = Lock st"
    and "Senders st' = (Senders st)(k \<mapsto> x)" and "sender_ok own reg (Mem st) x"
    and "\<forall>d \<in> set (Delivered st'). d \<in> set (Delivered st) \<or> fst d = k \<and> snd (snd d) \<in> reg (fst (snd d))"
  shows "hub_ok own reg m st'"
proof -
  have "c \<in> reg u \<and> Senders st' j \<noteq> None" if "(j, u, c) \<in> set (Delivered st')" for j u c
    using assms(1,4,6) that by (fastforce simp: hub_ok_def)
  moreover have "sender_ok own reg (Mem st') y" if "Senders st' j = Some y" for j y
    using assms(1,2,4,5) that by (auto simp: hub_ok_def split: if_splits)
  ultimately show ?thesis using assms(1-3) by (auto simp: hub_ok_def)
qed

lemma hub_next_ok:
  assumes ok: "hub_ok own reg m st" and step: "hub_next grow a st = Some st'"
  shows "\<exists>own'. hub_ok own' (\<lambda>u. reg u \<union> registered [a] u) (apply_call a m) st'"
proof (cases a)
  case (DoRegister u c)
  have reg: "(\<lambda>v. reg v \<union> registered [a] v) = reg(u := insert c (reg u))"
    by (auto simp: DoRegister registered_def fun_eq_iff)
  have free: "Lock st = None" and st': "st' = st\<lparr>Mem := mem_Register grow u c (Mem st)\<rparr>"
    using step by (auto simp: DoRegister split: if_splits)
  have mem: "mem_ok own reg (Mem st)" using ok by (simp add: hub_ok_def)
  from register_memory [OF mem, where c = c and u = u and grow = grow] obtain own' where
    "mem_ok own' (reg(u := insert c (reg u))) (mem_Register grow u c (Mem st))"
    and grow: "grows own own' (Mem st) (mem_Register grow u c (Mem st))"
    and view: "view (mem_Register grow u c (Mem st)) = (view (Mem st))(u := view (Mem st) u @ [c])"
    by blast
  moreover have "lock_ok own' (hub_register u c m) (mem_Register grow u c (Mem st)) None"
    using register_lock [OF view] ok free by (auto simp: hub_ok_def)
  moreover have "sender_ok own' (reg(u := insert c (reg u))) (mem_Register grow u c (Mem st)) x" if "Senders st k = Some x" for k x
    using ok that by (intro grows_sender [OF grow, of reg]) (auto simp: hub_ok_def)
  ultimately have "hub_ok own' (reg(u := insert c (reg u))) (hub_register u c m) st'"
    using ok free by (auto simp: hub_ok_def st')
  then show ?thesis unfolding reg by (auto simp: DoRegister)
next
  case (DoUnregister u c)
  have "lock_ok own (hub_unregister u c m) (Mem st) (Some (Scan u c (header (Mem st) u) 0))"
    using ok step header_ok [of own reg "Mem st" u]
    by (auto simp: DoUnregister hub_ok_def lock_ok_def conns_of_unregister_loop view_def [symmetric] split: if_splits)
  then show ?thesis
    using ok step by (auto simp: DoUnregister registered_def hub_ok_def split: if_splits)
next
  case HolderStep
  obtain h l M where h: "Lock st = Some h" and hs: "holder_step h (Mem st) = (l, M)" and st': "st' = st\<lparr>Lock := l, Mem := M\<rparr>"
    using step by (auto simp: HolderStep Let_def split: option.splits prod.splits)
  have "mem_ok own reg M \<and> lock_ok own m M l \<and> grows own own (Mem st) M"
    using holder_step_ok [OF _ _ hs, of own reg m] ok h by (simp add: hub_ok_def)
  then have "hub_ok own reg m st'"
    using ok grows_sender [of own own "Mem st" M reg reg] by (auto simp: hub_ok_def st')
  then show ?thesis by (auto simp: HolderStep registered_def)
next
  case (DoSend k u)
  then have "hub_ok own reg m st'"
    using step header_ok [of own reg "Mem st" u] ok
    by (intro hub_ok_sender [OF ok, of _ k "Ranging u (header (Mem st) u) 0"])
      (auto simp: sender_ok_def hub_ok_def split: if_splits)
  then show ?thesis by (auto simp: DoSend registered_def)
next
  case (SenderStep k)
  show ?thesis
  proof (cases "Senders st k")
    case None
    then show ?thesis using step by (simp add: SenderStep)
  next
    case (Some x)
    have x: "sender_ok own reg (Mem st) x" and mem: "mem_ok own reg (Mem st)"
      using ok Some by (auto simp: hub_ok_def)
    have "hub_ok own reg m st'"
    proof (cases x)
      case (Ranging u s i)
      then have "i < Len s" and st': "st' = st\<lparr>Senders := (Senders st)(k \<mapsto> Writing u s i (contents (Mem st) s ! i))\<rparr>"
        using step Some by (auto simp: SenderStep cell_contents split: if_splits)
      moreover have s: "slice_ok own (Mem st) u s" using x by (simp add: Ranging sender_ok_def)
      ultimately have "contents (Mem st) s ! i \<in> reg u"
        using contents_registered [OF mem s] length_contents [OF s] by (metis nth_mem subsetD)
      then show ?thesis
        using s by (intro hub_ok_sender [OF ok, of _ k]) (auto simp: st' sender_ok_def)
    next
      case (Writing u s i c)
      then show ?thesis
        using step Some x by (intro hub_ok_sender [OF ok, of _ k]) (auto simp: SenderStep sender_ok_def)
    qed
    then show ?thesis by (auto simp: SenderStep registered_def)
  qed
qed

lemma registered_Cons: "registered (a # as) u = registered [a] u \<union> registered as u"
  by (auto simp: registered_def)

lemma hub_exec_ok:
  "hub_ok own reg m st \<Longrightarrow> hub_exec grow sched st = Some st' \<Longrightarrow>
     \<exists>own'. hub_ok own' (\<lambda>u. reg u \<union> registered sched u) (fold apply_call sched m) st'"
proof (induction sched arbitrary: own reg m st)
  case Nil
  then show ?case by (auto simp: registered_def)
next
  case (Cons a as)
  then obtain st1 where "hub_next grow a st = Some st1" and rest: "hub_exec grow as st1 = Some st'"
    by (auto split: option.splits)
  then obtain own1 where "hub_ok own1 (\<lambda>u. reg u \<union> registered [a] u) (apply_call a m) st1"
    using hub_next_ok [OF Cons.prems(1)] by blast
  from Cons.IH [OF this rest] show ?case by (simp add: registered_Cons [of a as] Un_assoc)
qed

lemma hub_start_ok: "hub_ok own (\<lambda>_. {}) Map.empty hub_start"
  by (simp add: hub_ok_def hub_start_def NewWssHub_def mem_ok_def lock_ok_def view_def contents_def header_def conns_of_def)

lemma hub_run:
  assumes "hub_exec grow sched hub_start = Some st"
  obtains own where "hub_ok own (registered sched) (fold apply_call sched Map.empty) st"
  using hub_exec_ok [OF hub_start_ok assms] that by auto

section \<open>A call of \<open>SendMessgeToOwner\<close>\<close>

text \<open>Nobody but \<open>Unregister\<close> for the same user changes the cells of a slice.\<close>

definition stable :: "hub_memory \<Rightarrow> uuid \<Rightarrow> go_slice \<Rightarrow> bool" where
  "stable M u s \<longleftrightarrow> (\<forall>t. Table M u = Some t \<and> Arr t = Arr s \<longrightarrow> Len s \<le> Len t)"

lemma register_keeps:
  assumes ok: "mem_ok own reg M" and s: "slice_ok own M u s" and "stable M u s"
  shows "contents (mem_Register grow v c M) s = contents M s \<and> stable (mem_Register grow v c M) u s"
proof (cases "Len s = 0")
  case True
  then show ?thesis by (simp add: contents_def stable_def)
next
  case False
  then have arr: "0 < Arr s" "Arr s < Fresh M" "own (Arr s) = u" using s by (auto simp: slice_ok_def)
  show ?thesis
  proof (cases "Len (header M v) < Caps M (Arr (header M v))")
    case room: True
    then obtain t where t: "Table M v = Some t" and h: "header M v = t"
      using ok by (auto simp: header_def mem_ok_def split: option.splits)
    have "Len s \<le> Len t" if "Arr t = Arr s"
      using mem_ok_table [OF ok t] that arr assms(3) t by (auto simp: stable_def)
    then show ?thesis
      using room h assms(3) mem_ok_table [OF ok t] t arr
      by (auto simp: mem_Register_def go_append_def Let_def contents_def stable_def min_def)
  next
    case False
    then show ?thesis
      using assms(3) arr by (auto simp: mem_Register_def go_append_def Let_def contents_def stable_def)
  qed
qed

fun held_for :: "holder option \<Rightarrow> uuid \<Rightarrow> bool" where
  "held_for None u = False"
| "held_for (Some (Scan v c s i)) u = (v = u)"
| "held_for (Some (Shift v c s i j)) u = (v = u)"

lemma holder_keeps:
  assumes ok: "mem_ok own reg M" and l: "lock_ok own m M (Some h)" and step: "holder_step h M = (l', M')"
    and s: "slice_ok own M u s" and "stable M u s" and "\<not> held_for (Some h) u"
  shows "contents M' s = contents M s \<and> stable M' u s \<and> \<not> held_for l' u"
proof (cases h)
  case (Scan v c r i)
  then show ?thesis
    using step assms(5,6) by (auto simp: contents_def stable_def split: if_splits)
next
  case (Shift v c r i j)
  then have "slice_ok own M v r" "j < Len r" "v \<noteq> u" using l assms(6) by (auto simp: lock_ok_def Let_def)
  then have "Len s = 0 \<or> Arr r \<noteq> Arr s" using s by (auto simp: slice_ok_def)
  then show ?thesis
    using step assms(5) \<open>v \<noteq> u\<close> by (auto simp: Shift contents_def stable_def split: if_splits)
qed

definition sends :: "nat \<Rightarrow> uuid \<Rightarrow> go_slice \<Rightarrow> conn list \<Rightarrow> hub_state \<Rightarrow> bool" where
  "sends k u s cs st \<longleftrightarrow> contents (Mem st) s = cs \<and> stable (Mem st) u s \<and> \<not> held_for (Lock st) u \<and>
     (\<exists>i. i \<le> Len s \<and> received st k = take i cs \<and>
        (Senders st k = Some (Ranging u s i) \<or> i < Len s \<and> Senders st k = Some (Writing u s i (cs ! i))))"

lemma sends_next:
  assumes ok: "hub_ok own reg m st" and run: "sends k u s cs st" and step: "hub_next grow a st = Some st'"
    and "\<And>c. a \<noteq> DoUnregister u c"
  shows "sends k u s cs st'"
proof -
  have mem: "mem_ok own reg (Mem st)" and lock: "lock_ok own m (Mem st) (Lock st)" using ok by (simp_all add: hub_ok_def)
  obtain i where i: "i \<le> Len s" "received st k = take i cs"
      "Senders st k = Some (Ranging u s i) \<or> i < Len s \<and> Senders st k = Some (Writing u s i (cs ! i))"
    using run by (auto simp: sends_def)
  have s: "slice_ok own (Mem st) u s"
    using i(3) ok by (auto simp: hub_ok_def sender_ok_def dest!: spec [of _ k])
  have cs: "contents (Mem st) s = cs" "stable (Mem st) u s" "\<not> held_for (Lock st) u" "length cs = Len s"
    using run length_contents [OF s] by (auto simp: sends_def)
  show ?thesis
  proof (cases a)
    case (DoRegister v c)
    then show ?thesis
      using step i cs register_keeps [OF mem s cs(2), of grow v c]
      by (auto simp: sends_def received_def split: if_splits)
  next
    case (DoUnregister v c)
    moreover have "v \<noteq> u" using DoUnregister assms(4) by blast
    ultimately show ?thesis
      using step i cs by (auto simp: sends_def received_def split: if_splits)
  next
    case HolderStep
    then obtain h where h: "Lock st = Some h" using step by (auto split: option.splits)
    obtain l M where hs: "holder_step h (Mem st) = (l, M)" by (cases "holder_step h (Mem st)")
    have "contents M s = cs \<and> stable M u s \<and> \<not> held_for l u"
      using holder_keeps [OF mem _ hs s cs(2)] lock cs(1,3) h by simp
    then show ?thesis
      using step HolderStep h hs i by (auto simp: sends_def received_def)
  next
    case (DoSend k' v)
    then show ?thesis
      using step i cs by (auto simp: sends_def received_def split: if_splits)
  next
    case (SenderStep k')
    show ?thesis
    proof (cases "k' = k")
      case True
      then show ?thesis
        using step SenderStep i cs cell_contents [of i s "Mem st"]
        by (auto simp: sends_def received_def take_Suc_conv_app_nth split: if_splits)
    next
      case False
      then show ?thesis
        using step SenderStep i cs
        by (auto simp: sends_def received_def split: option.splits sender.splits if_splits)
    qed
  qed
qed

lemma sends_exec:
  "hub_ok own reg m st \<Longrightarrow> sends k u s cs st \<Longrightarrow> hub_exec grow sched st = Some st' \<Longrightarrow>
     (\<And>c. DoUnregister u c \<notin> set sched) \<Longrightarrow> sends k u s cs st'"
proof (induction sched arbitrary: own reg m st)
  case (Cons a as)
  then obtain st1 where st1: "hub_next grow a st = Some st1" and rest: "hub_exec grow as st1 = Some st'"
    by (auto split: option.splits)
  obtain own1 where "hub_ok own1 (\<lambda>u. reg u \<union> registered [a] u) (apply_call a m) st1"
    using hub_next_ok [OF Cons.prems(1) st1] by blast
  moreover have "a \<noteq> DoUnregister u c" and "DoUnregister u c \<notin> set as" for c
    using Cons.prems(4) by auto
  ultimately show ?case
    using Cons.IH [OF _ sends_next [OF Cons.prems(1,2) st1] rest] by blast
qed simp

lemma hub_exec_append:
  "hub_exec grow (xs @ ys) st = (case hub_exec grow xs st of None \<Rightarrow> None | Some st' \<Rightarrow> hub_exec grow ys st')"
  by (induction xs arbitrary: st) (auto split: option.splits)

section \<open>The abstract registry\<close>

fun abstract_call :: "hub_action \<Rightarrow> (uuid \<Rightarrow> conn list) \<Rightarrow> uuid \<Rightarrow> conn list" where
  "abstract_call (DoRegister u c) f = f(u := f u @ [c])"
| "abstract_call (DoUnregister u c) f = f(u := remove1 c (f u))"
| "abstract_call a f = f"

definition new_conns :: "hub_action list \<Rightarrow> conn list" where
  "new_conns sched = concat (map (\<lambda>a. case a of DoRegister u c \<Rightarrow> [c] | _ \<Rightarrow> []) sched)"

lemma apply_call_abstract:
  assumes "hub_invar m" and "\<forall>v c. c \<in> set (conns_of m v) \<longrightarrow> c \<notin> set (new_conns [a])"
  shows "hub_invar (apply_call a m) \<and> conns_of (apply_call a m) = abstract_call a (conns_of m) \<and>
    (\<forall>v. set (conns_of (apply_call a m) v) \<subseteq> set (conns_of m v) \<union> set (new_conns [a]))"
proof (cases a)
  case (DoRegister u c)
  have "\<forall>v. c \<notin> set (conns_of m v)" using assms(2) by (auto simp: DoRegister new_conns_def)
  then show ?thesis
    using hub.invar_register [OF assms(1)] by (auto simp: DoRegister new_conns_def hub.conns_register)
next
  case (DoUnregister u c)
  then show ?thesis
    using hub.invar_unregister [OF assms(1)] set_remove1_subset [of c "conns_of m u"]
    by (auto simp: hub.conns_unregister [OF assms(1)])
qed (use assms(1) in simp_all)

lemma apply_calls_invar:
  assumes "distinct (new_conns sched)"
  shows "hub_invar (fold apply_call sched Map.empty) \<and>
    conns_of (fold apply_call sched Map.empty) = fold abstract_call sched (\<lambda>_. []) \<and>
    (\<forall>v. set (conns_of (fold apply_call sched Map.empty) v) \<subseteq> set (new_conns sched))"
  using assms
proof (induction sched rule: rev_induct)
  case Nil
  then show ?case by (simp add: hub_invar_def conns_of_def fun_eq_iff)
next
  case (snoc a sched)
  have new: "new_conns (sched @ [a]) = new_conns sched @ new_conns [a]" by (simp add: new_conns_def)
  have ih: "hub_invar (fold apply_call sched Map.empty)"
      "conns_of (fold apply_call sched Map.empty) = fold abstract_call sched (\<lambda>_. [])"
      "\<forall>v. set (conns_of (fold apply_call sched Map.empty) v) \<subseteq> set (new_conns sched)"
    using snoc.IH snoc.prems unfolding new distinct_append by blast+
  have "\<forall>v c. c \<in> set (conns_of (fold apply_call sched Map.empty) v) \<longrightarrow> c \<notin> set (new_conns [a])"
    using ih(3) snoc.prems unfolding new distinct_append by blast
  note step = apply_call_abstract [OF ih(1) this]
  then have "\<forall>v. set (conns_of (apply_call a (fold apply_call sched Map.empty)) v) \<subseteq> set (new_conns sched) \<union> set (new_conns [a])"
    using ih(3) by blast
  then show ?case using step ih(2) by (simp add: new)
qed

lemmas apply_calls_abstract = apply_calls_invar [THEN conjunct2, THEN conjunct1]

section \<open>Two schedules\<close>

text \<open>The connection 3 of the user 7 is unregistered while a message is on its way.\<close>

definition skip_schedule :: "hub_action list" where
  "skip_schedule = [DoRegister 7 3, DoRegister 7 4, DoRegister 7 5, DoSend 0 7, SenderStep 0, SenderStep 0,
     DoUnregister 7 3] @ replicate 7 HolderStep @ replicate 4 (SenderStep 0)"

lemma skip_run:
  "\<exists>st. hub_exec (\<lambda>n. 2 * n) skip_schedule hub_start = Some st \<and> Lock st = None \<and>
     received st 0 = [3, 5, 5] \<and> view (Mem st) 7 = [4, 5]"
  by (simp add: skip_schedule_def hub_start_def NewWssHub_def mem_Register_def go_append_def Let_def header_def
      contents_def view_def received_def numeral_eq_Suc)

text \<open>The user 7 gets a new connection and the user 8 loses one while a message to 7 is on its way.\<close>

definition calm_schedule :: "hub_action list" where
  "calm_schedule = [DoRegister 7 5, SenderStep 0, DoUnregister 8 4, HolderStep, HolderStep, SenderStep 0]"

lemma calm_run:
  "\<exists>st. hub_exec (\<lambda>n. 2 * n) ([DoRegister 7 3, DoRegister 8 4] @ DoSend 0 7 # calm_schedule) hub_start = Some st \<and>
     hub_next (\<lambda>n. 2 * n) (SenderStep 0) st = None \<and> received st 0 = [3]"
  by (simp add: calm_schedule_def hub_start_def NewWssHub_def mem_Register_def go_append_def Let_def header_def
      contents_def received_def)

section \<open>Properties\<close>

text \<open>
  C13: The registry in memory refines the abstract one, where \<open>Register\<close> appends to a user's list and
  \<open>Unregister\<close> removes one element: whatever the order in which the calls of any number of goroutines take
  the lock, and however the runtime places and reuses the arrays, whenever the lock is free the slice
  of every user holds exactly what the abstract calls give, applied in the order of the lock. Messages on
  their way, which read the same arrays without the lock, make no difference. (Assumed: no connection is
  registered twice; the handler registers each connection it opens once.)
\<close>

theorem registry_linearizable:
  assumes "hub_exec grow sched hub_start = Some st" and "Lock st = None" and "distinct (new_conns sched)"
  shows "view (Mem st) = fold abstract_call sched (\<lambda>_. [])"
proof -
  obtain own where "hub_ok own (registered sched) (fold apply_call sched Map.empty) st"
    using hub_run [OF assms(1)] .
  then have "view (Mem st) = conns_of (fold apply_call sched Map.empty)"
    using assms(2) by (simp add: hub_ok_def lock_ok_def fun_eq_iff)
  then show ?thesis using apply_calls_abstract [OF assms(3)] by simp
qed

theorem registry_linearizable_witness:
  "fold abstract_call skip_schedule (\<lambda>_. []) 7 = [4, 5]"
proof -
  obtain st where st: "hub_exec (\<lambda>n. 2 * n) skip_schedule hub_start = Some st" "Lock st = None" "view (Mem st) 7 = [4, 5]"
    using skip_run by blast
  have "distinct (new_conns skip_schedule)" by (simp add: skip_schedule_def new_conns_def)
  from registry_linearizable [OF st(1,2) this] show ?thesis using st(3) by simp
qed

text \<open>
  C30: A message for a user never reaches another user's connection, even when the slice it is sent over is being
  shifted: every connection it is written to was registered for that user.
\<close>

theorem broadcast_confined:
  assumes "hub_exec grow sched hub_start = Some st" and "(k, u, c) \<in> set (Delivered st)"
  shows "DoRegister u c \<in> set sched"
proof -
  obtain own where "hub_ok own (registered sched) (fold apply_call sched Map.empty) st"
    using hub_run [OF assms(1)] .
  then have "c \<in> registered sched u" using assms(2) by (auto simp: hub_ok_def)
  then show ?thesis by (simp add: registered_def)
qed


theorem broadcast_confined_witness:
  "DoRegister 7 5 \<in> set skip_schedule"
proof -
  obtain st where st: "hub_exec (\<lambda>n. 2 * n) skip_schedule hub_start = Some st" "received st 0 = [3, 5, 5]"
    using skip_run by blast
  then have "5 \<in> set (received st 0)" by simp
  then obtain u where "(0, u, 5) \<in> set (Delivered st)" by (auto simp: received_def)
  from broadcast_confined [OF st(1) this] show ?thesis by (auto simp: skip_schedule_def)
qed

text \<open>
  C29: A message is written to exactly the connections that were registered when the call read the slice, once
  each and in the order of their registration, if none of this user's connections is unregistered before
  the call is done. New connections and everything that happens to other users' connections make no difference.
\<close>

theorem broadcast_exact:
  assumes "hub_exec grow (pre @ DoSend k u # mid) hub_start = Some st" and "\<And>c. DoUnregister u c \<notin> set mid"
    and "hub_next grow (SenderStep k) st = None" and "distinct (new_conns pre)"
  shows "received st k = fold abstract_call pre (\<lambda>_. []) u"
proof -
  obtain st0 st1 where st0: "hub_exec grow pre hub_start = Some st0"
    and st1: "hub_next grow (DoSend k u) st0 = Some st1" and mid: "hub_exec grow mid st1 = Some st"
    using assms(1) by (auto simp: hub_exec_append split: option.splits)
  obtain own where ok: "hub_ok own (registered pre) (fold apply_call pre Map.empty) st0" using hub_run [OF st0] .
  let ?s = "header (Mem st0) u" and ?cs = "view (Mem st0) u"
  have free: "Lock st0 = None" "Senders st0 k = None"
    and s1: "st1 = st0\<lparr>Senders := (Senders st0)(k \<mapsto> Ranging u ?s 0)\<rparr>"
    using st1 by (auto split: if_splits)
  have "received st0 k = []" using ok free(2) by (force simp: hub_ok_def received_def filter_empty_conv)
  then have "sends k u ?s ?cs st1"
    using free by (auto simp: sends_def s1 view_def stable_def header_def received_def)
  moreover obtain own1 where "hub_ok own1 (\<lambda>v. registered pre v \<union> registered [DoSend k u] v)
      (apply_call (DoSend k u) (fold apply_call pre Map.empty)) st1"
    using hub_next_ok [OF ok st1] by blast
  ultimately have "sends k u ?s ?cs st" using sends_exec mid assms(2) by blast
  then have "received st k = take (Len ?s) ?cs"
    using assms(3) by (fastforce simp: sends_def split: if_splits)
  then have "received st k = ?cs" by (simp add: view_def contents_def)
  then show ?thesis using ok free(1) apply_calls_abstract [OF assms(4)] by (simp add: hub_ok_def lock_ok_def)
qed

theorem broadcast_exact_witness:
  "fold abstract_call [DoRegister 7 3, DoRegister 8 4] (\<lambda>_. []) 7 = [3]"
proof -
  obtain st where st: "hub_exec (\<lambda>n. 2 * n) ([DoRegister 7 3, DoRegister 8 4] @ DoSend 0 7 # calm_schedule) hub_start = Some st"
    "hub_next (\<lambda>n. 2 * n) (SenderStep 0) st = None" "received st 0 = [3]"
    using calm_run by blast
  have "DoUnregister 7 c \<notin> set calm_schedule" for c by (simp add: calm_schedule_def)
  moreover have "distinct (new_conns [DoRegister 7 3, DoRegister 8 4])" by (simp add: new_conns_def)
  ultimately show ?thesis using broadcast_exact [OF st(1) _ st(2)] st(3) by simp
qed



end
