(* ===== verification/Files.thy ===== *)
theory Files
  imports System UploadProperties
begin

text \<open>
  Which object a row points to. Over whole runs, the storage column of a row is nil or names a key of its own
  stream and owner, so no two streams share an object and nothing that is done for one stream reaches the
  objects of another.
\<close>

section \<open>Strings in a storage document\<close>

definition coerced :: "StreamStorage \<Rightarrow> StreamStorage" where
  "coerced i = \<lparr>Provider = coerce_utf8 (Provider i), Bucket = coerce_utf8 (Bucket i), Key = coerce_utf8 (Key i),
     Filename = coerce_utf8 (Filename i), UploadID = coerce_utf8 (UploadID i)\<rparr>"

text \<open>Whatever bytes a client put into a file name, the document reads back, with invalid bytes replaced.\<close>

lemma storage_reads_back: "Unmarshal dec_storage (Marshal enc_storage i) zero_storage = (coerced i, None)"
  by (cases i) (auto simp: Unmarshal_def Marshal_def coerced_def codec_defs zero_storage_def coerce_utf8_def)

section \<open>The invariant\<close>

definition filed :: "env \<Rightarrow> service \<Rightarrow> Stream \<Rightarrow> bool" where
  "filed E S s \<longleftrightarrow> Storage s = RNil \<or> (\<exists>info fresh.
     Unmarshal dec_storage (Storage s) zero_storage = (info, None) \<and> Bucket info = StorageBucket S \<and>
     Key info = storage_key E (OwnerID s) (ID s) fresh)"

definition all_filed :: "env \<Rightarrow> service \<Rightarrow> (uuid \<rightharpoonup> Stream) \<Rightarrow> bool" where
  "all_filed E S db \<longleftrightarrow> (\<forall>i s. db i = Some s \<longrightarrow> filed E S s)"

text \<open>The text of a UUID and the name of the bucket are ASCII, so JSON keeps them.\<close>

definition names_valid :: "env \<Rightarrow> service \<Rightarrow> bool" where
  "names_valid E S \<longleftrightarrow> utf8_valid (StorageBucket S) \<and> (\<forall>u. \<forall>c\<in>set (uuid_String E u). byte c < 128)"

lemma utf8_ascii: "\<forall>c\<in>set s. byte c < 128 \<Longrightarrow> utf8_valid s"
proof (induction s)
  case (Cons c s)
  then have "runes (c # s) = Rune [c] # runes s" by (simp add: runes.simps(2))
  then show ?case using Cons by (simp add: utf8_valid_def)
qed (simp add: utf8_valid_def)

lemma storage_key_valid: "names_valid E S \<Longrightarrow> utf8_valid (storage_key E u i f)"
  by (rule utf8_ascii) (auto simp: names_valid_def storage_key_def byte_def)

lemma filed_kept: "filed E S s \<Longrightarrow> same_row s s' \<Longrightarrow> Storage s' = Storage s \<Longrightarrow> filed E S s'"
  by (simp add: filed_def same_row_def)

lemma filed_uploaded: "names_valid E S \<Longrightarrow> uploaded E S u st s s' \<Longrightarrow> filed E S s'"
  using storage_key_valid [of E S]
  by (auto simp: uploaded_def moved_def stores_def filed_def storage_reads_back coerced_def names_valid_def same_row_def)

lemma filed_completed:
  assumes "names_valid E S" and "filed E S s" and "completed u s s'"
  shows "filed E S s'"
proof -
  obtain info where info: "Unmarshal dec_storage (Storage s) zero_storage = (info, None)"
      "Storage s' = Marshal enc_storage (info\<lparr>UploadID := []\<rparr>)" and row: "same_row s s'"
    using assms(3) by (auto simp: completed_def moved_def)
  then obtain fresh where "Bucket info = StorageBucket S" "Key info = storage_key E (OwnerID s) (ID s) fresh"
    using assms(2) by (auto simp: filed_def Unmarshal_def)
  then show ?thesis
    using assms(1) storage_key_valid [OF assms(1)] info(2) row
    by (auto simp: filed_def storage_reads_back coerced_def names_valid_def same_row_def)
qed

lemma filed_edges:
  "edited req s s' \<Longrightarrow> filed E S s \<Longrightarrow> filed E S s'"
  "restatus st st' s s' \<Longrightarrow> filed E S s \<Longrightarrow> filed E S s'"
  "reported st s s' \<Longrightarrow> filed E S s \<Longrightarrow> filed E S s'"
  "described m s s' \<Longrightarrow> filed E S s \<Longrightarrow> filed E S s'"
  "progressed p s s' \<Longrightarrow> filed E S s \<Longrightarrow> filed E S s'"
  "reprocessed s s' \<Longrightarrow> filed E S s \<Longrightarrow> filed E S s'"
  "refaced s s' \<Longrightarrow> filed E S s \<Longrightarrow> filed E S s'"
  by (erule filed_kept; auto simp: edited_def restatus_def reported_def described_def progressed_def
        reprocessed_def refaced_def apply_report_row dest: apply_edits_row SetTaskProgress_row)+

lemma all_filed_updates:
  assumes "updates Q i db db'" and "all_filed E S db" and "\<And>s s'. Q s s' \<Longrightarrow> filed E S s \<Longrightarrow> filed E S s'"
  shows "all_filed E S db'"
proof -
  obtain s s' where "db i = Some s" "Q s s'" "db' = db(i \<mapsto> s')" using assms(1) by (auto simp: updates_def)
  moreover have "filed E S s'" using assms(2,3) calculation by (auto simp: all_filed_def)
  ultimately show ?thesis using assms(2) by (simp add: all_filed_def)
qed

lemmas filed_updates = all_filed_updates [OF _ _ filed_edges(1)] all_filed_updates [OF _ _ filed_edges(2)]
  all_filed_updates [OF _ _ filed_edges(3)] all_filed_updates [OF _ _ filed_edges(4)]
  all_filed_updates [OF _ _ filed_edges(5)] all_filed_updates [OF _ _ filed_edges(6)]
  all_filed_updates [OF _ _ filed_edges(7)]

lemma all_filed_delete: "all_filed E S db \<Longrightarrow> all_filed E S (db(i := None))"
  by (simp add: all_filed_def)

lemma all_filed_insert: "all_filed E S (table h) \<Longrightarrow> inserts req s h h' \<Longrightarrow> all_filed E S (table h')"
proof -
  assume a: "all_filed E S (table h)" and ins: "inserts req s h h'"
  obtain t1 t2 where s: "s = BeforeCreate (ID s) t1 t2 (new_stream req)" using ins by (auto simp: inserts_def)
  have "Storage s = RNil" by (subst s) (simp add: BeforeCreate_def new_stream_def Let_def)
  then show ?thesis using a ins by (auto simp: all_filed_def inserts_def filed_def)
qed

lemma filed_batch:
  assumes law: "db_law E" and a: "all_filed E S (table (hist w))"
    and step: "run_state (ProcessFacesBatch E S u adm ids) w = (r, w')"
  shows "all_filed E S (table (hist w'))"
proof -
  have "\<forall>i s. table (hist w) i = Some s \<longrightarrow> ID s = i" using ID_table by blast
  then have ev: "evolves refaced (table (hist w)) (table (hist w'))"
    using tspecD [OF ProcessFacesBatch_table [OF law] step] by blast
  show ?thesis
    unfolding all_filed_def
  proof (intro allI impI)
    fix i s'
    assume "table (hist w') i = Some s'"
    then have "rel_option refaced (table (hist w) i) (Some s')" using ev by (metis evolves_def)
    then obtain s where "table (hist w) i = Some s" "refaced s s'" by (auto simp: option_rel_Some2)
    then show "filed E S s'" using a filed_edges(7) unfolding all_filed_def by blast
  qed
qed

lemma service_step_filed:
  assumes step: "service_step E S w w'" and law: "db_law E" and names: "names_valid E S"
    and a: "all_filed E S (table (hist w))"
  shows "all_filed E S (table (hist w'))"
proof -
  note uploads = all_filed_updates [OF _ _ filed_uploaded [OF names]]
  note completes = all_filed_updates [OF _ _ filed_completed [OF names]]
  show ?thesis
    using step
  proof cases
    case create
    then show ?thesis
      using wpreD [OF CreateStream_table [OF law] create] a by (auto intro: all_filed_insert split: sum.splits option.splits)
  next
    case edit
    then show ?thesis
      using tspecD [OF UpdateStream_table [OF law] edit] a by (auto intro: filed_updates(1) split: sum.splits option.splits)
  next
    case delete
    then show ?thesis
      using tspecD [OF DeleteStream_table [OF law] delete] a by (auto intro: all_filed_delete split: sum.splits option.splits)
  next
    case publish
    then show ?thesis
      using tspecD [OF PublishStream_table [OF law] publish] a by (auto intro: filed_updates(2) split: sum.splits option.splits)
  next
    case unpublish
    then show ?thesis
      using tspecD [OF UnpublishStream_table [OF law] unpublish] a by (auto intro: filed_updates(2) split: sum.splits option.splits)
  next
    case upload
    then show ?thesis
      using tspecD [OF UploadVideo_table [OF law] upload] a by (auto intro: uploads split: sum.splits option.splits)
  next
    case start
    then show ?thesis
      using tspecD [OF StartStreamUpload_table [OF law] start] a by (auto intro: uploads split: sum.splits option.splits)
  next
    case part
    then show ?thesis
      using tspecD [OF UploadPart_table [OF law] part] a by (auto split: sum.splits option.splits)
  next
    case complete
    then show ?thesis
      using tspecD [OF CompleteStreamUpload_table [OF law] complete] a by (auto intro: completes split: sum.splits option.splits)
  next
    case metadata
    then show ?thesis
      using tspecD [OF UpdateStreamMetadata_table [OF law] metadata] a by (auto intro: filed_updates(4) split: sum.splits option.splits)
  next
    case progress
    then show ?thesis
      using tspecD [OF UpdateStreamProcessing_table [OF law] progress] a by (auto intro: filed_updates(5) split: sum.splits option.splits)
  next
    case reprocess
    then show ?thesis
      using tspecD [OF ReprocessStream_table [OF law] reprocess] a by (auto intro: filed_updates(6) split: sum.splits option.splits)
  next
    case faces
    then show ?thesis
      using tspecD [OF ProcessFacesStream_table [OF law] faces] a by (auto intro: filed_updates(7) split: sum.splits option.splits)
  next
    case batch
    then show ?thesis by (rule filed_batch [OF law a])
  next
    case request_export
    then show ?thesis
      using tspecD [OF RequestStreamExport_table [OF law] request_export] a by (auto split: sum.splits option.splits)
  next
    case complete_export
    then show ?thesis
      using tspecD [OF CompleteStreamExport_table complete_export] a by (auto split: sum.splits option.splits)
  next
    case watch
    then show ?thesis
      using tspecD [OF GetFileByKey_table [OF law] watch] a by (auto split: sum.splits option.splits)
  qed (simp_all add: a)
qed

lemma reachable_filed:
  "reachable E S w \<Longrightarrow> db_law E \<Longrightarrow> names_valid E S \<Longrightarrow> all_filed E S (table (hist w))"
proof (induction rule: reachable.induct)
  case (initial w)
  then show ?case by (simp add: all_filed_def)
next
  case (serve w w')
  note a = serve.IH [OF serve.prems]
  show ?case
    by (rule service_step_filed [OF serve.hyps(2) serve.prems a])
next
  case (status w w')
  note a = status.IH [OF status.prems]
  show ?case
    using status.hyps(2)
  proof cases
    case (report i n r)
    then show ?thesis
      using tspecD [OF UpdateStreamStatus_table [OF status.prems(1)] report] a
      by (auto intro: filed_updates(3) split: outcome.splits option.splits)
  qed
qed

section \<open>Whose object is it\<close>

text \<open>
  The objects of a stream: its video, its thumbnail, and everything in the folder of its renditions, the export
  among them.
\<close>

definition belongs :: "env \<Rightarrow> Stream \<Rightarrow> string \<Rightarrow> bool" where
  "belongs E s k \<longleftrightarrow> (Storage s \<noteq> RNil \<and> k = Key (fst (Unmarshal dec_storage (Storage s) zero_storage))) \<or>
     k = ''thumbnails/'' @ uuid_String E (ID s) @ ''.jpg'' \<or>
     HasPrefix k (''processed/'' @ uuid_String E (ID s) @ ''/'')"

fun removes :: "string \<Rightarrow> event \<Rightarrow> bool" where
  "removes k (EvRemoveObject b k' r) = (k' = k)"
| "removes k (EvRemoveObjects b p r) = HasPrefix k p"
| "removes k e = False"

text \<open>Assumed of the text of a UUID: no two UUIDs have the same, and it has neither a slash nor an underscore.\<close>

definition uuid_texts :: "env \<Rightarrow> bool" where
  "uuid_texts E \<longleftrightarrow> inj (uuid_String E) \<and> (\<forall>u. CHR ''/'' \<notin> set (uuid_String E u) \<and> CHR ''_'' \<notin> set (uuid_String E u))"

lemma split_at:
  assumes "a @ c # b = a' @ c # b'" and "c \<notin> set a" and "c \<notin> set a'"
  shows "a = a' \<and> b = b'"
  using assms
proof (induction a arbitrary: a')
  case Nil
  then show ?case by (cases a') auto
next
  case (Cons x a)
  then show ?case by (cases a') auto
qed

lemma storage_key_stream:
  assumes "uuid_texts E" and "storage_key E u i f = storage_key E u' i' f'"
  shows "i = i'"
proof -
  let ?u = "uuid_String E"
  have free: "CHR ''/'' \<notin> set (?u v)" "CHR ''_'' \<notin> set (?u v)" for v using assms(1) by (auto simp: uuid_texts_def)
  have "?u u @ CHR ''/'' # (''videos/'' @ ?u i @ CHR ''_'' # ?u f) = ?u u' @ CHR ''/'' # (''videos/'' @ ?u i' @ CHR ''_'' # ?u f')"
    using assms(2) by (simp add: storage_key_def)
  from split_at [OF this free(1) free(1)]
  have "?u i @ CHR ''_'' # ?u f = ?u i' @ CHR ''_'' # ?u f'" by simp
  from split_at [OF this free(2) free(2)] have "?u i = ?u i'" by simp
  then show ?thesis using assms(1) by (simp add: uuid_texts_def inj_eq)
qed

lemma storage_key_apart:
  "storage_key E u i f \<noteq> ''thumbnails/'' @ x" "\<not> HasPrefix (storage_key E u i f) (''processed/'' @ x)"
  "\<not> HasPrefix (''thumbnails/'' @ y) (''processed/'' @ x)" "''thumbnails/'' @ y \<noteq> storage_key E u i f"
  "HasPrefix k (''processed/'' @ x) \<Longrightarrow> k \<noteq> storage_key E u i f"
  "HasPrefix k (''processed/'' @ x) \<Longrightarrow> k \<noteq> ''thumbnails/'' @ y"
  by (auto simp: storage_key_def HasPrefix_iff)

lemma folders_apart:
  assumes "uuid_texts E" and "HasPrefix k (''processed/'' @ uuid_String E i @ ''/'')"
    and "HasPrefix k (''processed/'' @ uuid_String E j @ ''/'')"
  shows "i = j"
proof -
  obtain x y where xy: "uuid_String E i @ CHR ''/'' # x = uuid_String E j @ CHR ''/'' # y"
    using assms(2,3) by (auto simp: HasPrefix_iff)
  have "CHR ''/'' \<notin> set (uuid_String E i)" "CHR ''/'' \<notin> set (uuid_String E j)"
    using assms(1) by (auto simp: uuid_texts_def)
  then have "uuid_String E i = uuid_String E j" using split_at [OF xy] by simp
  then show ?thesis using assms(1) by (simp add: uuid_texts_def inj_eq)
qed

lemma filed_key:
  "filed E S s \<Longrightarrow> Storage s \<noteq> RNil \<Longrightarrow>
     \<exists>fresh. Key (fst (Unmarshal dec_storage (Storage s) zero_storage)) = storage_key E (OwnerID s) (ID s) fresh"
  by (auto simp: filed_def)

text \<open>What is removed for one stream belongs to no other.\<close>

lemma removal_spares:
  assumes texts: "uuid_texts E" and t: "filed E S t" "belongs E t k" and "i \<noteq> ID t"
  shows "\<not> removes k (EvRemoveObject b (storage_key E u i f) r)"
    and "\<not> removes k (EvRemoveObject b (''thumbnails/'' @ uuid_String E i @ ''.jpg'') r)"
    and "\<not> removes k (EvRemoveObjects b (''processed/'' @ uuid_String E i @ ''/'') es)"
proof -
  have inj: "uuid_String E i \<noteq> uuid_String E (ID t)" using assms(4) texts by (simp add: uuid_texts_def inj_eq)
  consider fresh where "k = storage_key E (OwnerID t) (ID t) fresh"
    | "k = ''thumbnails/'' @ uuid_String E (ID t) @ ''.jpg''"
    | "HasPrefix k (''processed/'' @ uuid_String E (ID t) @ ''/'')"
    using t(2) filed_key [OF t(1)] by (auto simp: belongs_def)
  note cases = this
  have "k \<noteq> storage_key E u i f"
  proof
    assume k: "k = storage_key E u i f"
    from cases show False
    proof cases
      case 1
      then show ?thesis using k storage_key_stream [OF texts] assms(4) by metis
    next
      case 2
      then show ?thesis using k storage_key_apart(1) by metis
    next
      case 3
      then show ?thesis using k storage_key_apart(5) by metis
    qed
  qed
  then show "\<not> removes k (EvRemoveObject b (storage_key E u i f) r)" by auto
  have "k \<noteq> ''thumbnails/'' @ uuid_String E i @ ''.jpg''"
  proof
    assume k: "k = ''thumbnails/'' @ uuid_String E i @ ''.jpg''"
    from cases show False
    proof cases
      case 1
      then show ?thesis using k storage_key_apart(1) by metis
    next
      case 2
      then show ?thesis using k inj by simp
    next
      case 3
      then show ?thesis using k storage_key_apart(6) by metis
    qed
  qed
  then show "\<not> removes k (EvRemoveObject b (''thumbnails/'' @ uuid_String E i @ ''.jpg'') r)" by auto
  have "\<not> HasPrefix k (''processed/'' @ uuid_String E i @ ''/'')"
  proof
    assume k: "HasPrefix k (''processed/'' @ uuid_String E i @ ''/'')"
    from cases show False
    proof cases
      case 1
      then show ?thesis using k storage_key_apart(2) by metis
    next
      case 2
      then show ?thesis using k storage_key_apart(3) by metis
    next
      case 3
      then show ?thesis using k folders_apart [OF texts] assms(4) by metis
    qed
  qed
  then show "\<not> removes k (EvRemoveObjects b (''processed/'' @ uuid_String E i @ ''/'') es)" by simp
qed

section \<open>The operations that remove objects\<close>

lemma trace_read:
  assumes "\<And>r. A (EvDbFirst i r)" and "\<And>err. emits A (f (Inl err))"
    and "\<And>s. db_First E (hist w) i = Inr s \<Longrightarrow> emits A (f (Inr s))"
  shows "list_all A (trace w (after (State_Monad.bind (repo_Read E i) f) w))"
proof -
  let ?w = "w\<lparr>hist := hist w @ [EvDbFirst i (db_First E (hist w) i)]\<rparr>"
  have "emits A (f (db_First E (hist w) i))"
    using assms(2,3) by (cases "db_First E (hist w) i") auto
  then obtain evs where "hist (after (f (db_First E (hist w) i)) ?w) = hist ?w @ evs" "list_all A evs"
    using emitsD [OF _ run_after] by blast
  then show ?thesis using assms(1) by (simp add: after_def repo_Read_def trace_def)
qed

lemma emits_bind_post:
  assumes "\<And>w. wpre m (\<lambda>a w'. P a \<and> (\<exists>evs. hist w' = hist w @ evs \<and> list_all A evs)) w"
    and "\<And>a. P a \<Longrightarrow> emits A (f a)"
  shows "emits A (State_Monad.bind m f)"
  unfolding emits_def wpre_bind
proof
  fix w :: world
  show "wpre m (\<lambda>a. wpre (f a) (\<lambda>_ w'. \<exists>evs. hist w' = hist w @ evs \<and> list_all A evs)) w"
  proof (rule wpre_mono [OF assms(1)])
    fix a and w1 :: world
    assume a: "P a \<and> (\<exists>evs. hist w1 = hist w @ evs \<and> list_all A evs)"
    then have "emits A (f a)" using assms(2) by blast
    then show "wpre (f a) (\<lambda>_ w'. \<exists>evs. hist w' = hist w @ evs \<and> list_all A evs) w1"
      by (rule wpre_tail) (use a in auto)
  qed
qed

lemma emits_saved:
  assumes "\<And>i r. A (EvDbFirst i r)" and "\<And>t. A (EvNow t)" and "\<And>s' r. A (EvDbSave s' r)"
    and "\<And>r s'. Storage s' = Storage s \<Longrightarrow> emits A (f r s')"
  shows "emits A (State_Monad.bind (repo_Update E s) (\<lambda>(r, s'). f r s'))"
proof (rule emits_bind_post [where P = "\<lambda>(r, s'). Storage s' = Storage s"])
  show "wpre (repo_Update E s) (\<lambda>a w'. (case a of (r, s') \<Rightarrow> Storage s' = Storage s) \<and>
      (\<exists>evs. hist w' = hist w @ evs \<and> list_all A evs)) w" for w
    using assms(1-3) unfolding repo_Update_def gorm_Save_def run_BeforeUpdate_def
    by (auto simp: wp split: sum.split option.split)
qed (use assms(4) in auto)

text \<open>A call that removes objects removes none of \<open>k\<close>'s stream.\<close>

lemma spares_UploadVideo:
  assumes texts: "uuid_texts E" and t: "filed E S t" "belongs E t k" and other: "Video_StreamID req \<noteq> ID t"
  shows "emits (\<lambda>e. \<not> removes k e) (UploadVideo E S req)"
  unfolding UploadVideo_def queue_new_video_def Let_def
  using removal_spares(1) [OF texts t other] by (intro emits) (auto intro!: emits)

lemma spares_delete_objects:
  assumes texts: "uuid_texts E" and t: "filed E S t" "belongs E t k" and other: "i \<noteq> ID t"
    and s: "filed E S s" "ID s = i"
  shows "emits (\<lambda>e. \<not> removes k e) (delete_objects E S i s)"
proof (cases "Storage s = RNil")
  case False
  then obtain info fresh where info: "Unmarshal dec_storage (Storage s) zero_storage = (info, None)"
    and key: "Key info = storage_key E (OwnerID s) i fresh"
    using s by (auto simp: filed_def)
  show ?thesis
    unfolding delete_objects_def info prod.case option.case key
    using removal_spares [OF texts t other] by (intro emits) (auto intro!: emits)
qed (simp add: delete_objects_def emits_return)

lemma spares_DeleteStream:
  assumes texts: "uuid_texts E" and t: "filed E S t" "belongs E t k" and other: "i \<noteq> ID t"
    and s: "\<And>s. db_First E (hist w) i = Inr s \<Longrightarrow> filed E S s \<and> ID s = i"
  shows "list_all (\<lambda>e. \<not> removes k e) (trace w (after (DeleteStream E S i) w))"
  unfolding DeleteStream_def Let_def
  by (rule trace_read) (auto intro!: emits spares_delete_objects [OF texts t other] dest: s)

lemma spares_UpdateStreamStatus:
  assumes texts: "uuid_texts E" and t: "filed E S t" "belongs E t k" and other: "i \<noteq> ID t"
    and s: "\<And>s. db_First E (hist w) i = Inr s \<Longrightarrow> filed E S s \<and> ID s = i"
  shows "list_all (\<lambda>e. \<not> removes k e) (trace w (after (UpdateStreamStatus E S i st) w))"
proof -
  have source: "\<not> removes k (EvRemoveObject b (Key info) r)"
    if "db_First E (hist w) i = Inr s" "Storage s' = Storage s" "GetStorageInfo s' = Inr info" for s s' info b r
  proof -
    have "Unmarshal dec_storage (Storage s) zero_storage = (info, None)"
      using that(2,3) by (auto simp: GetStorageInfo_def split: prod.splits option.splits)
    moreover have "filed E S s \<and> ID s = i" using s [OF that(1)] .
    ultimately obtain fresh where "Key info = storage_key E (OwnerID s) i fresh"
      by (auto simp: filed_def Unmarshal_def)
    then show ?thesis using removal_spares(1) [OF texts t other] by simp
  qed
  show ?thesis
    unfolding UpdateStreamStatus_def
    apply (rule trace_read)
      apply simp
     apply (simp add: emits_return)
    apply (simp only: sum.case)
    apply (rule emits_saved)
       apply simp_all [3]
    apply (auto intro!: emits dest: source)
    done
qed

lemma spares_UploadVideo_trace:
  assumes "uuid_texts E" and "filed E S t" "belongs E t k" and "Video_StreamID req \<noteq> ID t"
  shows "list_all (\<lambda>e. \<not> removes k e) (trace w (after (UploadVideo E S req) w))"
  by (rule emits_trace [OF spares_UploadVideo [OF assms] run_after])

lemma row_read:
  assumes "db_law E" and "all_filed E S (table (hist w))" and "db_First E (hist w) i = Inr s"
  shows "filed E S s \<and> ID s = i"
proof -
  have "table (hist w) i = Some s" using assms(1,3) by (simp add: db_law_def)
  then show ?thesis using assms(2) ID_table by (auto simp: all_filed_def)
qed

section \<open>The reference environment\<close>

lemma Itoa_char: "c \<in> set (Itoa (uint u)) \<Longrightarrow> is_digit c"
  using Itoa_nat_digits [of "nat (uint u)"] by (auto simp: Itoa_def list_all_iff)

lemma ref_names: "names_valid ref_env ref_service"
  by (auto simp: names_valid_def ref_env_def ref_service_def ref_String_def byte_def is_digit_def
      intro!: utf8_ascii dest!: Itoa_char)

lemma ref_texts: "uuid_texts ref_env"
proof -
  have "u = v" if "ref_String u = ref_String v" for u v
  proof -
    have "Itoa_nat (nat (uint u)) = Itoa_nat (nat (uint v))" using that by (simp add: ref_String_def Itoa_def)
    then have "digits_value (Itoa_nat (nat (uint u))) = digits_value (Itoa_nat (nat (uint v)))" by simp
    then have "unat u = unat v" by simp
    then show ?thesis by (simp add: word_unat_eq_iff)
  qed
  then show ?thesis
    by (auto simp: uuid_texts_def ref_env_def inj_def ref_String_def is_digit_def byte_def dest!: Itoa_char)
qed

lemma reachable_started: "reachable ref_env ref_service started_world"
  unfolding started_world_def
  by (rule reachable.serve [OF reachable_created service_step.start [OF run_after]])

lemma started_row:
  obtains s where "table (hist started_world) 1 = Some s" and "Storage s \<noteq> RNil"
proof -
  obtain s info where "table (hist started_world) 1 = Some s" "Unmarshal dec_storage (Storage s) zero_storage = (info, None)"
    using started_world_table by blast
  moreover have "Unmarshal dec_storage RNil zero_storage \<noteq> (info, None)" by (simp add: Unmarshal_def)
  ultimately show thesis using that by metis
qed

section \<open>Properties\<close>



text \<open>
  C7: Streams do not share objects: in any run, deleting a stream, reporting its status and a failed upload to it
  remove no object of any other stream: not its video, not its thumbnail, nothing in the folder of
  its renditions and exports.
\<close>

theorem removals_spare_others:
  assumes "db_law E" and "names_valid E S" and "uuid_texts E" and "reachable E S w"
    and "table (hist w) j = Some t" and "belongs E t k" and "i \<noteq> j"
  shows "list_all (\<lambda>e. \<not> removes k e) (trace w (after (DeleteStream E S i) w)) \<and>
    list_all (\<lambda>e. \<not> removes k e) (trace w (after (UpdateStreamStatus E S i st) w)) \<and>
    list_all (\<lambda>e. \<not> removes k e) (trace w (after (UploadVideo E S (req\<lparr>Video_StreamID := i\<rparr>)) w))"
proof -
  have a: "all_filed E S (table (hist w))" using reachable_filed [OF assms(4,1,2)] .
  have t: "filed E S t" "i \<noteq> ID t" using a assms(5,7) ID_table [OF assms(5)] by (auto simp: all_filed_def)
  note row = row_read [OF assms(1) a]
  show ?thesis
    using spares_DeleteStream [OF assms(3) t(1) assms(6) t(2) row]
      spares_UpdateStreamStatus [OF assms(3) t(1) assms(6) t(2) row]
      spares_UploadVideo_trace [OF assms(3) t(1) assms(6)] t(2) by simp
qed

theorem removals_spare_others_witness:
  "\<exists>s k. table (hist started_world) 1 = Some s \<and> belongs ref_env s k \<and>
     list_all (\<lambda>e. \<not> removes k e) (trace started_world (after (DeleteStream ref_env ref_service 2) started_world))"
proof -
  obtain s where s: "table (hist started_world) 1 = Some s" "Storage s \<noteq> RNil" using started_row .
  let ?k = "Key (fst (Unmarshal dec_storage (Storage s) zero_storage))"
  have k: "belongs ref_env s ?k" using s(2) by (simp add: belongs_def)
  have "(2 :: uuid) \<noteq> 1" by simp
  from removals_spare_others [OF ref_env_law ref_names ref_texts reachable_started s(1) k this] s(1) k
  show ?thesis by blast
qed

text \<open>
  The parts of an unfinished upload stay in the store when the stream is deleted: no call of \<open>DeleteStream\<close>
  aborts a multipart upload, and the row with the upload's id is gone afterwards.
\<close>

fun aborts :: "event \<Rightarrow> bool" where
  "aborts (EvAbortMultipart b k u r) = True"
| "aborts e = False"

theorem delete_leaves_parts:
  "list_all (\<lambda>e. \<not> aborts e) (trace w (after (DeleteStream E S i) w))"
proof -
  have "emits (\<lambda>e. \<not> aborts e) (DeleteStream E S i)"
    unfolding DeleteStream_def Let_def by (auto intro!: emits)
  then show ?thesis by (rule emits_trace [OF _ run_after])
qed

end
