(* ===== verification/Gaps.thy ===== *)
theory Gaps
  imports RouteProperties WorkProperties UploadProperties RaceProperties
begin

text \<open>
  Runs that show where the code falls short of what it is for: a retry that is half done, a status the
  validation does not know, a token service without a key, a deletion that is undone.
\<close>

section \<open>Running failed tasks again\<close>

text \<open>A row with two failed tasks, and a queue that takes the first one only.\<close>

definition broken_tasks :: "StreamProcessingTask list" where
  "broken_tasks = [zero_task\<lparr>TaskType := ''transcode'', TaskError := Some ''codec''\<rparr>,
     zero_task\<lparr>TaskType := ''thumbnail'', TaskError := Some ''codec''\<rparr>]"

definition broken_row :: Stream where
  "broken_row = SetInitialTasks broken_tasks (SetStorageInfo zero_storage (ref_row\<lparr>Status := StatusError\<rparr>))"

definition broken_env :: env where
  "broken_env = ref_env\<lparr>db_First := \<lambda>h i. Inr broken_row, s3_StatObject := \<lambda>h b k. None,
     aq_Enqueue := \<lambda>h c t. if TaskName t = ''video:transcode'' then Inr \<lparr>InfoID = ''task'', InfoQueue = ''default''\<rparr>
       else Inl (Foreign OtherForeign ''connection refused'')\<rparr>"

lemma broken_row_reads:
  "ProcessingTasks broken_row = Inr broken_tasks" "GetStorageInfo broken_row = Inr zero_storage" "ID broken_row = 1"
  "Status broken_row = StatusError"
proof -
  have "utf8_valid ''thumbnail''" "utf8_valid ''transcode''" "utf8_valid ''codec''" by code_simp+
  then have "list_all task_wf broken_tasks"
    by (simp add: broken_tasks_def zero_task_def task_wf_def int64_defs)
  then show "ProcessingTasks broken_row = Inr broken_tasks"
    unfolding broken_row_def by (rule ProcessingTasks_SetInitialTasks)
  have "GetStorageInfo (SetInitialTasks ts v) = GetStorageInfo v" for ts v by (simp add: GetStorageInfo_def)
  then show "GetStorageInfo broken_row = Inr zero_storage"
    using GetStorageInfo_SetStorageInfo [of zero_storage]
    by (simp add: broken_row_def storage_wf_def zero_storage_def utf8_valid_def)
qed (use ref_row_first(2) in \<open>simp_all add: broken_row_def\<close>)

text \<open>
  When the second task cannot be queued the call fails without saving the row, although the first task is on
  its way: the row still shows it as failed, under its old id.
\<close>

theorem reprocess_half_done:
  "result_of (ReprocessStream broken_env S 1) ref_world \<noteq> None \<and>
   (\<exists>t i. EvEnqueue TaskClient t (Inr i) \<in> set (trace ref_world (after (ReprocessStream broken_env S 1) ref_world)) \<and>
      TaskName t = ''video:transcode'') \<and>
   list_all (\<lambda>e. \<not> is_db_write e) (trace ref_world (after (ReprocessStream broken_env S 1) ref_world))"
proof -
  have first: "db_First broken_env = (\<lambda>h i. Inr broken_row)" by (simp add: broken_env_def)
  have rest: "s3_StatObject broken_env = (\<lambda>h b k. None)"
    "aq_Enqueue broken_env h c t = (if TaskName t = ''video:transcode'' then Inr \<lparr>InfoID = ''task'', InfoQueue = ''default''\<rparr>
       else Inl (Foreign OtherForeign ''connection refused''))" for h c t
    by (simp_all add: broken_env_def)
  have failed: "map task_failed broken_tasks = [True, True]" by (simp add: broken_tasks_def task_failed_def zero_task_def)
  show ?thesis
    using failed
    by (simp add: result_of_def after_def trace_def ReprocessStream_def repo_Read_def first broken_row_reads storage_Exists_def
        rest broken_tasks_def requeue_def ReprocessVideoTranscoding_def ReprocessThumbsnailProcessor_def redistribute_def
        zero_task_def task_failed_def Let_def task_defs task_name_defs)
qed

section \<open>Validation\<close>

text \<open>Every status but one that a stream can have in a run is valid; a stream that is being uploaded is not.\<close>

theorem uploading_is_invalid:
  "validateStatus s = None \<longleftrightarrow> Status s \<in> {StatusDraft, StatusProcessing, StatusPublished, StatusReady, StatusError}"
  by (auto simp: validateStatus_def split: StreamStatus.splits)

section \<open>Tokens\<close>

text \<open>
  A download that is no key is not noticed: the service is there, without a key, and the parser is told
  to verify every RSA token with the nil key.
\<close>

theorem key_may_be_missing:
  assumes "url \<noteq> []" and "new_request url = Inr ()" and "do_request url = Inr \<lparr>StatusCode = 200, AnswerBody = Inr pem\<rparr>"
    and "parse_pem pem = None"
  shows "\<exists>s. NewTokenService new_request do_request parse_pem url = Inr s \<and> key_for s SigningMethodRSA = Inr None"
  using assms by (simp add: NewTokenService_def key_for_def)

theorem key_may_be_missing_witness:
  "\<exists>s. NewTokenService (\<lambda>_. Inr ()) (\<lambda>_. Inr \<lparr>StatusCode = 200, AnswerBody = Inr ''<html>''\<rparr>)
     (\<lambda>_. None :: nat option) ''http://auth/key'' = Inr s \<and> key_for s SigningMethodRSA = Inr None"
  using key_may_be_missing [of "''http://auth/key''" "\<lambda>_. Inr ()" "\<lambda>_. Inr \<lparr>StatusCode = 200, AnswerBody = Inr ''<html>''\<rparr>"
      "''<html>''" "\<lambda>_. None :: nat option"] by simp

section \<open>A report that races with a deletion\<close>

lemma emits_DeleteStream: "emits (\<lambda>_. True) (DeleteStream E S i)"
  unfolding DeleteStream_def by (intro emits) auto

text \<open>
  The owner deletes a ready stream after a worker's report has looked for its row and before it saves: the
  deletion succeeds and the row is gone, then the save of the report, which inserts what it cannot update,
  brings it back, now without its objects.
\<close>

theorem deletion_undone:
  assumes law: "db_law E" and save: "\<And>h v. db_Save E h v = None" and i: "i \<noteq> uuid_Nil"
    and reads: "db_First E (hist w) i = Inr s" "db_First E (hist w @ [EvDbFirst i (Inr s)]) i = Inr s0"
    and s: "Status s = StatusReady" "ProcessingTasks s = Inr ts" and req: "Proc_StreamUUID req = i"
    and w1: "w1 = w\<lparr>hist := hist w @ [EvDbFirst i (Inr s), EvDbFirst i (Inr s0)]\<rparr>"
    and deleted: "result_of (DeleteStream E S i) w1 = None"
    and evs: "evs = trace w1 (after (DeleteStream E S i) w1)"
    and E': "E' = interfere (length (hist w1)) evs E"
  shows "table (hist w1 @ evs) i = None \<and> result_of (UpdateStreamProcessing E' S req) w = None \<and>
    (\<exists>s'. table (splice (length (hist w1)) evs (hist (after (UpdateStreamProcessing E' S req) w))) i = Some s')"
proof -
  have ID: "ID s = i" using law reads(1) unfolding db_law_def by (blast intro: ID_table)
  have "hist (after (DeleteStream E S i) w1) = hist w1 @ evs"
    unfolding evs by (rule hist_after [OF emits_DeleteStream])
  moreover have "table (hist (after (DeleteStream E S i) w1)) i = None"
    using tspecD [OF DeleteStream_table [OF law] run_result [of _ w1], of i S] deleted by simp
  ultimately have gone: "table (hist w1 @ evs) i = None" by simp
  have "db_First E' (hist w) i = Inr s" "db_First E' (hist w @ [EvDbFirst i (Inr s)]) i = Inr s0"
      "\<And>h v. db_Save E' h v = None"
    using reads save by (simp_all add: E' interfere_def w1)
  from wpre_result [OF report_saves_stale_row [OF this ID i s req, where S = S]]
  obtain t s' es where report: "result_of (UpdateStreamProcessing E' S req) w = None" "ID s' = i"
      "hist (after (UpdateStreamProcessing E' S req) w) = hist w1 @ [EvNow t, EvDbSave s' None] @ es"
      "list_all (\<lambda>e. \<not> writes_stream e) es"
    using w1 by fastforce
  show ?thesis using gone report unfolding report(3) splice_after by (simp add: replay_frame)
qed

text \<open>The stream 1 of the reference environment, once it is ready.\<close>

theorem deletion_undone_witness:
  "\<exists>w1 evs v. table (hist w1 @ evs) 1 = None \<and> evs = trace w1 (after (DeleteStream ref_env ref_service 1) w1) \<and>
     v = after (UpdateStreamProcessing (interfere (length (hist w1)) evs ref_env) ref_service ref_report) ready_world \<and>
     table (splice (length (hist w1)) evs (hist v)) 1 \<noteq> None"
proof -
  obtain t where row: "table (hist ready_world) 1 = Some (BeforeUpdate t (ref_row\<lparr>Status := StatusReady\<rparr>))"
    using ready_world_table by auto
  then obtain s where row: "table (hist ready_world) 1 = Some s"
    and s: "Status s = StatusReady" "ProcessingTasks s = Inr []" "ID s = 1" "OwnerID s = 7"
      "Storage s = RNil"
    by (simp add: BeforeUpdate_def ref_row_def BeforeCreate_def Let_def new_stream_def ref_create_def ProcessingTasks_def raw_empty_def)
  let ?w1 = "ready_world\<lparr>hist := hist ready_world @ [EvDbFirst 1 (Inr s), EvDbFirst 1 (Inr s)]\<rparr>"
  have reads: "db_First ref_env (hist ready_world) 1 = Inr s"
      "db_First ref_env (hist ready_world @ [EvDbFirst 1 (Inr s)]) 1 = Inr s"
    and save: "\<And>h v. db_Save ref_env h v = None"
    using row by (simp_all add: ref_env_def ref_First_def)
  have "(1 :: uuid) \<noteq> uuid_Nil" "Proc_StreamUUID ref_report = 1"
    by (simp_all add: ref_report_def uuid_Nil_def)
  moreover have "result_of (DeleteStream ref_env ref_service 1) ?w1 = None"
    using row s by (simp add: result_of_def DeleteStream_def ref_run delete_objects_def storage_defs terminate_tasks_def
        repo_Delete_def recordFaceCascade_def split: sum.split)
  ultimately show ?thesis
    using deletion_undone [OF ref_env_law save _ reads s(1,2) _ refl _ refl refl]
    by (intro exI [of _ ?w1] exI) auto
qed

end
